(* ===== verification/Prelude.thy ===== *)
theory Prelude
  imports Main "HOL-Library.Word" "HOL-Library.AList" "HOL-Library.Char_ord" "HOL-Library.List_Lexorder"
begin

text \<open>
  What every component of the development shares.

  \<^item> Go maps. A Go map is an association list: the keys are distinct, a store overwrites in place,
    and the order of the list stands for the (unspecified) order in which \<open>range\<close> visits the map.
    A theorem about every association list is a theorem about every iteration order. The locale
    \<open>key_store\<close> is the interface the components use; it is interpreted on the association lists.
  \<^item> Machine integers: \<open>uint64\<close> is \<open>64 word\<close>, with \<open>int64\<close> conversions written out.
  \<^item> Time. An instant is the number of nanoseconds since Go's zero time, so the zero time is \<open>0\<close>;
    a duration is an \<open>int64\<close> number of nanoseconds, and \<open>Time.Sub\<close> saturates as Go's does.
  \<^item> A transition-system locale: an invariant that holds at the start and is kept by each step
    holds after every run.
\<close>

named_theorems go_simps \<open>unfolding rules of the Go primitives\<close>
named_theorems store_simps \<open>lookup after store and after delete\<close>

section \<open>Machine integers\<close>

type_synonym u8 = "8 word"
type_synonym u16 = "16 word"
type_synonym u32 = "32 word"
type_synonym u64 = "64 word"

text \<open>Go integer division truncates towards zero.\<close>

definition go_quot :: "int \<Rightarrow> int \<Rightarrow> int" where
  "go_quot a b = sgn a * sgn b * (\<bar>a\<bar> div \<bar>b\<bar>)"

lemma go_quot_nonneg: "0 \<le> a \<Longrightarrow> 0 < b \<Longrightarrow> go_quot a b = a div b"
  by (cases "a = 0") (auto simp: go_quot_def)

text \<open>The \<open>int64\<close> range, and the conversion \<open>uint64(x)\<close> of an \<open>int64\<close> (modulo \<open>2^64\<close>).\<close>

definition max_i64 :: int where "max_i64 = 9223372036854775807"
definition min_i64 :: int where "min_i64 = - 9223372036854775808"

definition sat_i64 :: "int \<Rightarrow> int" where
  "sat_i64 x = max min_i64 (min max_i64 x)"

definition u64_of_i64 :: "int \<Rightarrow> u64" where
  "u64_of_i64 x = word_of_int x"

lemma uint_u64_of_i64: "0 \<le> x \<Longrightarrow> x \<le> max_i64 \<Longrightarrow> uint (u64_of_i64 x) = x"
  by (simp add: u64_of_i64_def max_i64_def uint_word_of_int)

lemma unat_u64_of_i64: "0 \<le> x \<Longrightarrow> x \<le> max_i64 \<Longrightarrow> unat (u64_of_i64 x) = nat x"
  using uint_u64_of_i64 [of x] by (metis unat_eq_nat_uint)

lemma sat_i64_bounds: "min_i64 \<le> sat_i64 x" "sat_i64 x \<le> max_i64"
  by (auto simp: sat_i64_def min_i64_def max_i64_def)

lemma sat_i64_id: "min_i64 \<le> x \<Longrightarrow> x \<le> max_i64 \<Longrightarrow> sat_i64 x = x"
  by (auto simp: sat_i64_def)

section \<open>Time\<close>

type_synonym instant = int
type_synonym duration = int

abbreviation (input) zero_time :: instant where "zero_time \<equiv> 0"

definition millisecond :: duration where "millisecond = 1000000"
definition second :: duration where "second = 1000 * millisecond"
definition minute :: duration where "minute = 60 * second"
definition hour :: duration where "hour = 60 * minute"

lemmas time_units = millisecond_def second_def minute_def hour_def
declare time_units [go_simps]

text \<open>\<open>t.Sub(u)\<close>, and \<open>time.Since(u)\<close> at the clock reading \<open>now\<close>; \<open>d.Milliseconds()\<close>.\<close>

definition time_sub :: "instant \<Rightarrow> instant \<Rightarrow> duration" where
  "time_sub t u = sat_i64 (t - u)"

definition milliseconds :: "duration \<Rightarrow> int" where
  "milliseconds d = go_quot d millisecond"

text \<open>\<open>uint64(now.Sub(prev).Milliseconds())\<close>: the elapsed time as the rate computations use it.\<close>

definition ms_elapsed :: "instant \<Rightarrow> instant \<Rightarrow> u64" where
  "ms_elapsed now prev = u64_of_i64 (milliseconds (time_sub now prev))"

lemma milliseconds_bounds:
  assumes "0 \<le> d" and "d \<le> max_i64"
  shows "0 \<le> milliseconds d" and "milliseconds d \<le> max_i64"
proof -
  have e: "milliseconds d = d div 1000000"
    using assms by (simp add: milliseconds_def millisecond_def go_quot_nonneg)
  show "0 \<le> milliseconds d" using assms e by simp
  have "d div 1000000 \<le> d" using assms zdiv_mono2 [of d 1 1000000] by simp
  then show "milliseconds d \<le> max_i64" using assms e by simp
qed

lemma ms_elapsed_forward:
  assumes "prev \<le> now" and "now - prev \<le> max_i64"
  shows "uint (ms_elapsed now prev) = (now - prev) div 1000000"
proof -
  have s: "time_sub now prev = now - prev"
    using assms by (simp add: time_sub_def sat_i64_id min_i64_def)
  have "milliseconds (now - prev) = (now - prev) div 1000000"
    using assms by (simp add: milliseconds_def millisecond_def go_quot_nonneg)
  then show ?thesis
    using assms milliseconds_bounds [of "now - prev"]
    by (simp add: ms_elapsed_def s uint_u64_of_i64)
qed

lemma ms_elapsed_self: "ms_elapsed t t = 0"
  by (simp add: ms_elapsed_def time_sub_def sat_i64_def min_i64_def max_i64_def milliseconds_def
      go_quot_def u64_of_i64_def)

section \<open>Maps as stores\<close>

type_synonym ('k, 'v) gomap = "('k \<times> 'v) list"

lemma find_snoc:
  "find P (ys @ [y]) = (case find P ys of Some z \<Rightarrow> Some z | None \<Rightarrow> if P y then Some y else None)"
  by (induction ys) auto

lemma find_SomeD: "find P xs = Some x \<Longrightarrow> x \<in> set xs \<and> P x"
  by (auto simp: find_Some_iff)

lemma find_rev_distinct:
  "distinct (map key xs) \<Longrightarrow> find (\<lambda>x. key x = k) (rev xs) = find (\<lambda>x. key x = k) xs"
proof (cases "find (\<lambda>x. key x = k) xs")
  case None
  then have "find (\<lambda>x. key x = k) (rev xs) = None" by (simp add: find_None_iff)
  then show ?thesis using None by simp
next
  case (Some x)
  assume d: "distinct (map key xs)"
  have x: "x \<in> set xs" "key x = k" using find_SomeD [OF Some] by auto
  then have "find (\<lambda>x. key x = k) (rev xs) \<noteq> None" by (auto simp: find_None_iff)
  then obtain y where y: "find (\<lambda>x. key x = k) (rev xs) = Some y" by blast
  then have "y \<in> set xs" "key y = k" using find_SomeD [OF y] by auto
  then have "y = x" using x d by (auto simp: distinct_map dest: inj_onD)
  then show ?thesis using y Some by simp
qed

locale key_store =
  fixes empty :: 's
    and get :: "'s \<Rightarrow> 'k \<Rightarrow> 'v option"
    and put :: "'k \<Rightarrow> 'v \<Rightarrow> 's \<Rightarrow> 's"
    and del :: "'k \<Rightarrow> 's \<Rightarrow> 's"
    and inv :: "'s \<Rightarrow> bool"
  assumes get_empty: "get empty k = None"
    and get_put: "get (put k v s) k' = (if k' = k then Some v else get s k')"
    and get_del: "get (del k s) k' = (if k' = k then None else get s k')"
    and inv_empty: "inv empty"
    and inv_put: "inv s \<Longrightarrow> inv (put k v s)"
    and inv_del: "inv s \<Longrightarrow> inv (del k s)"
begin

lemma get_put_same: "get (put k v s) k = Some v"
  by (simp add: get_put)

lemma get_del_same: "get (del k s) k = None"
  by (simp add: get_del)

lemma get_put_fold:
  "get (fold (\<lambda>x. put (key x) (val x)) xs s) k =
     (case find (\<lambda>x. key x = k) (rev xs) of Some x \<Rightarrow> Some (val x) | None \<Rightarrow> get s k)"
proof (induction xs arbitrary: s)
  case Nil
  then show ?case by simp
next
  case (Cons x xs)
  then show ?case by (auto simp: get_put find_snoc split: option.splits)
qed

lemma inv_put_fold: "inv s \<Longrightarrow> inv (fold (\<lambda>x. put (key x) (val x)) xs s)"
  by (induction xs arbitrary: s) (auto intro: inv_put)

end

definition keys_distinct :: "('k, 'v) gomap \<Rightarrow> bool" where
  "keys_distinct m \<longleftrightarrow> distinct (map fst m)"

lemma map_of_update: "map_of (AList.update k v m) k' = (if k' = k then Some v else map_of m k')"
  by (simp add: update_conv')

lemma map_of_delete_if: "map_of (AList.delete k m) k' = (if k' = k then None else map_of m k')"
  by (simp add: delete_conv')

interpretation gm: key_store "[]" map_of AList.update AList.delete keys_distinct
  by unfold_locales
    (auto simp: keys_distinct_def map_of_update map_of_delete_if distinct_update distinct_delete)

lemmas store_laws [store_simps] = map_of_update map_of_delete_if

lemma keys_distinct_Nil [simp]: "keys_distinct []"
  by (rule gm.inv_empty)

lemma map_of_in_set: "keys_distinct m \<Longrightarrow> (k, v) \<in> set m \<longleftrightarrow> map_of m k = Some v"
  by (simp add: keys_distinct_def)

lemma map_of_map_values: "map_of (map (\<lambda>(k, c). (k, f k c)) m) k = map_option (f k) (map_of m k)"
  by (induction m) auto

section \<open>Folds\<close>

text \<open>A component of the state of a loop, when each step computes it from itself and the element.\<close>

lemma foldl_proj:
  "(\<And>st x. p (f st x) = g (p st) (q x)) \<Longrightarrow> p (foldl f st xs) = foldl g (p st) (map q xs)"
  by (induction xs arbitrary: st) auto

lemma foldl_inv: "P st \<Longrightarrow> (\<And>st x. x \<in> set xs \<Longrightarrow> P st \<Longrightarrow> P (f st x)) \<Longrightarrow> P (foldl f st xs)"
  by (induction xs arbitrary: st) auto

text \<open>A fold keeps what each of its steps keeps.\<close>

lemma fold_keeps: "(\<And>x st. x \<in> set xs \<Longrightarrow> P st \<Longrightarrow> P (f x st)) \<Longrightarrow> P st \<Longrightarrow> P (fold f xs st)"
  by (induction xs arbitrary: st) auto

section \<open>Transition systems\<close>

locale machine =
  fixes start :: "'s \<Rightarrow> bool"
    and step :: "'s \<Rightarrow> 'e \<Rightarrow> 's"
    and inv :: "'s \<Rightarrow> bool"
  assumes inv_start: "start s \<Longrightarrow> inv s"
    and inv_step: "inv s \<Longrightarrow> inv (step s e)"
begin

lemma inv_run: "inv s \<Longrightarrow> inv (foldl step s es)"
  by (induction es arbitrary: s) (auto intro: inv_step)

lemma inv_reachable: "start s \<Longrightarrow> inv (foldl step s es)"
  by (rule inv_run) (rule inv_start)

end

end
