(* ===== verification/DeltaTracker.thy ===== *)
theory DeltaTracker
  imports Prelude
begin

text \<open>
  \<^verbatim>\<open>agent/deltatracker/deltatracker.go\<close>: the generic tracker of differences between two
  collection intervals. \<open>new_delta_tracker\<close>, \<open>dt_set\<close>, \<open>deltas\<close>, \<open>dt_previous\<close>,
  \<open>delta\<close> and \<open>cycle\<close> are the Go methods (the \<open>RWMutex\<close> makes each of them atomic, so each
  is one step). The value type is any type with a subtraction and a zero; the agent uses
  \<open>uint64\<close>, where the subtraction wraps.

  The abstract specification is the log of operations itself: \<open>interval_value\<close> is the last
  value set for a key in an interval, and \<open>delta_refines\<close> shows that the two maps are an exact
  summary of the last two intervals of the log.
\<close>

record ('k, 'v) delta_tracker =
  current :: "('k, 'v) gomap"
  previous :: "('k, 'v) gomap"

definition new_delta_tracker :: "('k, 'v) delta_tracker" where
  "new_delta_tracker = \<lparr>current = [], previous = []\<rparr>"

definition dt_set :: "'k \<Rightarrow> 'v \<Rightarrow> ('k, 'v) delta_tracker \<Rightarrow> ('k, 'v) delta_tracker" where
  "dt_set k v t = t\<lparr>current := AList.update k v (current t)\<rparr>"

definition deltas :: "('k, 'v::{minus,zero}) delta_tracker \<Rightarrow> ('k, 'v) gomap" where
  "deltas t = map (\<lambda>(k, c). (k, case map_of (previous t) k of Some p \<Rightarrow> c - p | None \<Rightarrow> 0)) (current t)"

definition dt_previous :: "('k, 'v) delta_tracker \<Rightarrow> 'k \<Rightarrow> 'v option" where
  "dt_previous t k = map_of (previous t) k"

definition delta :: "('k, 'v::{minus,zero}) delta_tracker \<Rightarrow> 'k \<Rightarrow> 'v" where
  "delta t k =
     (case map_of (current t) k of
        None \<Rightarrow> 0
      | Some c \<Rightarrow> (case map_of (previous t) k of None \<Rightarrow> 0 | Some p \<Rightarrow> c - p))"

definition cycle :: "('k, 'v) delta_tracker \<Rightarrow> ('k, 'v) delta_tracker" where
  "cycle t = \<lparr>current = [], previous = current t\<rparr>"

lemmas dt_defs = new_delta_tracker_def dt_set_def dt_previous_def delta_def cycle_def

section \<open>Invariant: both maps have distinct keys\<close>

definition dt_inv :: "('k, 'v) delta_tracker \<Rightarrow> bool" where
  "dt_inv t \<longleftrightarrow> keys_distinct (current t) \<and> keys_distinct (previous t)"

datatype ('k, 'v) dt_op = SetOp 'k 'v | CycleOp

fun dt_step :: "('k, 'v) delta_tracker \<Rightarrow> ('k, 'v) dt_op \<Rightarrow> ('k, 'v) delta_tracker" where
  "dt_step t (SetOp k v) = dt_set k v t"
| "dt_step t CycleOp = cycle t"

interpretation dt: machine "\<lambda>t. t = new_delta_tracker" dt_step dt_inv
proof
  show "dt_inv (dt_step t e)" if "dt_inv t" for t :: "('a, 'b) delta_tracker" and e
    using that by (cases e) (auto simp: dt_inv_def dt_defs intro: gm.inv_put)
qed (simp add: dt_inv_def dt_defs)

section \<open>Single operations\<close>

lemma map_of_deltas:
  "map_of (deltas t) k = (if map_of (current t) k = None then None else Some (delta t k))"
  by (auto simp: deltas_def delta_def map_of_map_values split: option.splits)

lemma current_set [store_simps]:
  "map_of (current (dt_set k v t)) k' = (if k' = k then Some v else map_of (current t) k')"
  "previous (dt_set k v t) = previous t"
  by (simp_all add: dt_set_def store_laws)

lemma current_cycle [store_simps]:
  "current (cycle t) = []" "previous (cycle t) = current t"
  by (simp_all add: cycle_def)

section \<open>The log of operations\<close>

text \<open>The operations since the last \<open>Cycle\<close>, and those of the interval before it.\<close>

fun upto_cycle :: "('k, 'v) dt_op list \<Rightarrow> ('k \<times> 'v) list \<times> ('k, 'v) dt_op list option" where
  "upto_cycle [] = ([], None)"
| "upto_cycle (CycleOp # es) = ([], Some es)"
| "upto_cycle (SetOp k v # es) = (let (sets, rest) = upto_cycle es in ((k, v) # sets, rest))"

definition interval_value :: "('k, 'v) dt_op list \<Rightarrow> 'k \<Rightarrow> 'v option" where
  "interval_value newest_first k = map_of (fst (upto_cycle newest_first)) k"

definition delta_spec :: "('k, 'v::{minus,zero}) dt_op list \<Rightarrow> 'k \<Rightarrow> 'v" where
  "delta_spec newest_first k =
     (case (interval_value newest_first k, snd (upto_cycle newest_first)) of
        (Some c, Some before) \<Rightarrow> (case interval_value before k of Some p \<Rightarrow> c - p | None \<Rightarrow> 0)
      | _ \<Rightarrow> 0)"

lemma log_summary:
  "map_of (current (foldr (\<lambda>e t. dt_step t e) es new_delta_tracker)) k = interval_value es k"
  "map_of (previous (foldr (\<lambda>e t. dt_step t e) es new_delta_tracker)) k =
     (case snd (upto_cycle es) of None \<Rightarrow> None | Some before \<Rightarrow> interval_value before k)"
proof (induction es)
  case Nil
  { case 1 show ?case by (simp add: interval_value_def new_delta_tracker_def) next
    case 2 show ?case by (simp add: new_delta_tracker_def) }
next
  case (Cons e es)
  { case 1 show ?case using Cons.IH(1)
      by (cases e) (auto simp: interval_value_def store_simps split: prod.splits) next
    case 2 show ?case using Cons.IH
      by (cases e) (auto simp: store_simps split: prod.splits) }
qed

text \<open>
  C1: the delta of a key after any sequence of \<open>Set\<close> and \<open>Cycle\<close> calls is the last value set in the
  current interval minus the last value set in the interval before it, and 0 when the key was
  not set in both.
\<close>

theorem delta_refines:
  "delta (foldl dt_step new_delta_tracker ops) k = delta_spec (rev ops) k"
proof -
  have "foldl dt_step new_delta_tracker ops = foldr (\<lambda>e t. dt_step t e) (rev ops) new_delta_tracker"
    by (simp add: foldr_conv_foldl)
  then show ?thesis
    by (auto simp: delta_def delta_spec_def log_summary split: option.splits)
qed

end
