(* ===== verification/Rounding.thy ===== *)
theory Rounding
  imports Prelude "HOL-Library.Log_Nat"
begin

text \<open>
  Rounding a rational to the nearest value of a binary floating-point format, ties to even (IEEE 754
  binary64 and binary32, subnormals included), as an executable function, with the facts the
  arithmetic of the next theory needs: it is monotone, odd, and fixes every representable value.

  The locale \<open>rounding\<close> collects what the proofs need of a rounding function; it is interpreted
  on both formats.
\<close>

section \<open>Rounding rationals\<close>

record float_format =
  precision :: int
  min_exp :: int
  max_exp :: int

definition binary64 :: float_format where
  "binary64 = \<lparr>precision = 53, min_exp = - 1074, max_exp = 1024\<rparr>"

definition binary32 :: float_format where
  "binary32 = \<lparr>precision = 24, min_exp = - 149, max_exp = 128\<rparr>"

definition ilog2 :: "rat \<Rightarrow> int" where
  "ilog2 q = (let (n, d) = quotient_of q; e = bitlen n - bitlen d
              in if 2 powi e \<le> q then e else e - 1)"

text \<open>Round half to even, to an integer.\<close>

definition rne :: "rat \<Rightarrow> int" where
  "rne q = (let fl = \<lfloor>q\<rfloor>; d = q - of_int fl
            in if d < 1 / 2 then fl else if 1 / 2 < d then fl + 1
               else if even fl then fl else fl + 1)"

definition ulp_exp :: "float_format \<Rightarrow> rat \<Rightarrow> int" where
  "ulp_exp f q = max (min_exp f) (ilog2 \<bar>q\<bar> - (precision f - 1))"

definition rnd :: "float_format \<Rightarrow> rat \<Rightarrow> rat" where
  "rnd f q = (if q = 0 then 0 else of_int (rne (q / 2 powi ulp_exp f q)) * 2 powi ulp_exp f q)"

subsection \<open>Facts about \<open>ilog2\<close> and \<open>rne\<close>\<close>

lemma ilog2_bounds:
  assumes "0 < q"
  shows "2 powi ilog2 q \<le> q" and "q < 2 powi (ilog2 q + 1)"
proof -
  obtain n d where nd: "quotient_of q = (n, d)" by (cases "quotient_of q")
  have d: "0 < d" and q: "q = of_int n / of_int d"
    using quotient_of_denom_pos [OF nd] quotient_of_div [OF nd] by auto
  have n: "0 < n" using assms d unfolding q by (simp add: zero_less_divide_iff)
  define bn bd where "bn = bitlen n" and "bd = bitlen d"
  have pos: "1 \<le> bn" "1 \<le> bd"
    using n d by (auto simp: bn_def bd_def bitlen_alt_def)
  have powi: "(2::rat) powi j = of_int (2 ^ nat j)" if "0 \<le> j" for j
    using that by (simp add: power_int_def)
  have nb: "2 powi (bn - 1) \<le> (of_int n :: rat)" "(of_int n :: rat) < 2 powi bn"
    using bitlen_bounds [OF n] pos by (auto simp: powi bn_def simp del: of_int_power)
  have db: "2 powi (bd - 1) \<le> (of_int d :: rat)" "(of_int d :: rat) < 2 powi bd"
    using bitlen_bounds [OF d] pos by (auto simp: powi bd_def simp del: of_int_power)
  have lo: "2 powi (bn - bd - 1) < q"
  proof -
    have "(2::rat) powi (bn - bd - 1) = 2 powi (bn - 1) / 2 powi bd"
      by (simp add: power_int_diff)
    also have "\<dots> \<le> of_int n / 2 powi bd"
      using nb by (simp add: divide_right_mono)
    also have "\<dots> < q" unfolding q
      using n d db by (intro divide_strict_left_mono) auto
    finally show ?thesis .
  qed
  have hi: "q < 2 powi (bn - bd + 1)"
  proof -
    have "q \<le> of_int n / 2 powi (bd - 1)" unfolding q
      using n d db by (intro divide_left_mono) auto
    also have "\<dots> < 2 powi bn / 2 powi (bd - 1)"
      using nb by (intro divide_strict_right_mono) auto
    also have "\<dots> = 2 powi (bn - (bd - 1))"
      by (simp add: power_int_diff)
    also have "bn - (bd - 1) = bn - bd + 1" by simp
    finally show ?thesis .
  qed
  show "2 powi ilog2 q \<le> q" "q < 2 powi (ilog2 q + 1)"
    using lo hi by (auto simp: ilog2_def nd bn_def bd_def Let_def)
qed

lemma powi_mono2: "i \<le> j \<Longrightarrow> (2::rat) powi i \<le> 2 powi j"
  by (rule power_int_increasing) auto

lemma powi_less_cancel: "(2::rat) powi i < 2 powi j \<Longrightarrow> i < j"
  using powi_mono2 [of j i] by linarith

lemma ilog2_mono: "0 < p \<Longrightarrow> p \<le> q \<Longrightarrow> ilog2 p \<le> ilog2 q"
  using ilog2_bounds [of p] ilog2_bounds [of q] powi_less_cancel [of "ilog2 p" "ilog2 q + 1"]
  by linarith

lemma rne_near: "\<bar>of_int (rne q) - q\<bar> \<le> 1 / 2"
  using floor_correct [of q] by (auto simp: rne_def Let_def abs_le_iff)

lemma rne_of_int [simp]: "rne (of_int n) = n"
  by (simp add: rne_def)

lemma rne_mono:
  assumes "p \<le> q" shows "rne p \<le> rne q"
proof (cases "\<lfloor>p\<rfloor> = \<lfloor>q\<rfloor>")
  case True
  then show ?thesis using assms by (auto simp: rne_def Let_def)
next
  case False
  then have "\<lfloor>p\<rfloor> < \<lfloor>q\<rfloor>" using floor_mono [OF assms] by simp
  moreover have "rne p \<le> \<lfloor>p\<rfloor> + 1" "\<lfloor>q\<rfloor> \<le> rne q" by (auto simp: rne_def Let_def)
  ultimately show ?thesis by simp
qed

lemma rne_minus: "rne (- q) = - rne q"
proof (cases "of_int \<lfloor>q\<rfloor> = q")
  case True
  then have "rne q = \<lfloor>q\<rfloor>" "rne (- q) = - \<lfloor>q\<rfloor>"
    using rne_of_int [of "\<lfloor>q\<rfloor>"] rne_of_int [of "- \<lfloor>q\<rfloor>"] by auto
  then show ?thesis by simp
next
  case False
  define fl where "fl = \<lfloor>q\<rfloor>"
  have "of_int fl < q" "q < of_int fl + 1"
    using False floor_correct [of q] by (auto simp: fl_def less_le)
  then have "\<lfloor>- q\<rfloor> = - fl - 1" by (intro floor_unique) auto
  then show ?thesis by (auto simp: rne_def Let_def fl_def [symmetric])
qed

subsection \<open>Rounding into a format\<close>

lemma rnd_zero [simp]: "rnd f 0 = 0"
  by (simp add: rnd_def)

lemma rnd_minus: "rnd f (- q) = - rnd f q"
  by (simp add: rnd_def ulp_exp_def rne_minus)

lemma rne_le_of_int: "q \<le> of_int n \<Longrightarrow> rne q \<le> n"
  using rne_mono [of q "of_int n"] by simp

lemma rne_ge_of_int: "of_int n \<le> q \<Longrightarrow> n \<le> rne q"
  using rne_mono [of "of_int n" q] by simp

lemma powi_quotient:
  assumes "e \<le> j" shows "(2::rat) powi j / 2 powi e = of_int (2 ^ nat (j - e))"
proof -
  have "(2::rat) powi j / 2 powi e = 2 powi (j - e)" by (simp add: power_int_diff)
  then show ?thesis using assms by (simp add: power_int_def)
qed

lemma rnd_le_scaled:
  assumes "q \<noteq> 0" and "q \<le> of_int m * 2 powi e" and "ulp_exp f q \<le> e"
  shows "rnd f q \<le> of_int m * 2 powi e"
proof -
  let ?k = "ulp_exp f q" and ?n = "m * 2 ^ nat (e - ulp_exp f q)"
  have s: "of_int m * 2 powi e / 2 powi ?k = (of_int ?n :: rat)"
    using powi_quotient [OF assms(3)] by (simp flip: times_divide_eq_right)
  have "q / 2 powi ?k \<le> of_int m * 2 powi e / 2 powi ?k"
    using assms(2) by (simp add: divide_right_mono)
  then have "rne (q / 2 powi ?k) \<le> ?n" unfolding s by (rule rne_le_of_int)
  then have "of_int (rne (q / 2 powi ?k)) * 2 powi ?k \<le> of_int ?n * (2::rat) powi ?k"
    by (intro mult_right_mono) (auto simp del: of_int_mult of_int_power)
  also have "\<dots> = of_int m * 2 powi e"
    unfolding s [symmetric] by simp
  finally show ?thesis using assms(1) by (simp add: rnd_def)
qed

lemma rnd_ge_scaled:
  assumes "q \<noteq> 0" and "of_int m * 2 powi e \<le> q" and "ulp_exp f q \<le> e"
  shows "of_int m * 2 powi e \<le> rnd f q"
  using rnd_le_scaled [of "- q" "- m" e f] assms by (simp add: rnd_minus ulp_exp_def)

lemma rnd_mono_pos:
  assumes f: "1 \<le> precision f" and p: "0 < p" and pq: "p \<le> q"
  shows "rnd f p \<le> rnd f q"
proof (cases "ulp_exp f p = ulp_exp f q")
  case True
  have "rne (p / 2 powi ulp_exp f q) \<le> rne (q / 2 powi ulp_exp f q)"
    using pq by (intro rne_mono divide_right_mono) auto
  then show ?thesis using p pq by (simp add: rnd_def True mult_right_mono)
next
  case False
  have q: "0 < q" and l: "ilog2 p \<le> ilog2 q" using p pq ilog2_mono [of p q] by auto
  have u: "ulp_exp f p < ulp_exp f q" using False l p q by (auto simp: ulp_exp_def max_def split: if_splits)
  then have e: "ulp_exp f q = ilog2 q - (precision f - 1)" and "ilog2 p < ilog2 q"
    using p q l by (auto simp: ulp_exp_def max_def split: if_splits)
  then have "p \<le> 2 powi ilog2 q"
    using ilog2_bounds [OF p] powi_mono2 [of "ilog2 p + 1" "ilog2 q"] by linarith
  moreover have "ulp_exp f p \<le> ilog2 q" "ulp_exp f q \<le> ilog2 q" using u e f by auto
  ultimately have "rnd f p \<le> 2 powi ilog2 q" "2 powi ilog2 q \<le> rnd f q"
    using rnd_le_scaled [of p 1 "ilog2 q" f] rnd_ge_scaled [of q 1 "ilog2 q" f] p q ilog2_bounds [OF q]
    by auto
  then show ?thesis by simp
qed

lemma rnd_nonneg: "0 \<le> q \<Longrightarrow> 0 \<le> rnd f q"
  using rne_ge_of_int [of 0 "q / 2 powi ulp_exp f q"] by (auto simp: rnd_def)

lemma rnd_mono:
  assumes f: "1 \<le> precision f" and pq: "p \<le> q"
  shows "rnd f p \<le> rnd f q"
proof -
  consider "0 < p" | "q < 0" | "p \<le> 0" "0 \<le> q" by linarith
  then show ?thesis
  proof cases
    case 1 then show ?thesis by (rule rnd_mono_pos [OF f _ pq])
  next
    case 2
    then have "rnd f (- q) \<le> rnd f (- p)" using pq by (intro rnd_mono_pos [OF f]) auto
    then show ?thesis by (simp add: rnd_minus)
  next
    case 3
    then show ?thesis using rnd_nonneg [of q f] rnd_nonneg [of "- p" f] by (simp add: rnd_minus)
  qed
qed

lemma rnd_exact:
  assumes "\<bar>m\<bar> \<le> 2 ^ nat (precision f)" and "1 \<le> precision f" and "min_exp f \<le> e"
  shows "rnd f (of_int m * 2 powi e) = of_int m * 2 powi e"
proof (cases "m = 0")
  case False
  define q :: rat where "q = of_int m * 2 powi e"
  have q0: "q \<noteq> 0" using False by (simp add: q_def)
  have aq: "\<bar>q\<bar> = of_int \<bar>m\<bar> * 2 powi e" by (simp add: q_def abs_mult)
  have le: "ulp_exp f q \<le> e \<or> \<bar>m\<bar> = 2 ^ nat (precision f)"
  proof (rule disjCI)
    assume "\<bar>m\<bar> \<noteq> 2 ^ nat (precision f)"
    then have "\<bar>m\<bar> < 2 ^ nat (precision f)" using assms(1) by simp
    then have "(of_int \<bar>m\<bar> :: rat) < of_int (2 ^ nat (precision f))" by (simp only: of_int_less_iff)
    then have "(of_int \<bar>m\<bar> :: rat) < 2 powi precision f"
      using assms(2) by (simp add: power_int_def)
    then have "\<bar>q\<bar> < 2 powi (precision f + e)" by (simp add: aq power_int_add)
    then have "(2::rat) powi ilog2 \<bar>q\<bar> < 2 powi (precision f + e)"
      using ilog2_bounds [of "\<bar>q\<bar>"] q0 by simp
    then have "ilog2 \<bar>q\<bar> < precision f + e" by (rule powi_less_cancel)
    then show "ulp_exp f q \<le> e" using assms(3) by (simp add: ulp_exp_def)
  qed
  show ?thesis
  proof (cases "ulp_exp f q \<le> e")
    case True
    then show ?thesis
      using rnd_le_scaled [OF q0 _ True, of m] rnd_ge_scaled [OF q0 _ True, of m] by (simp add: q_def)
  next
    case False
    then have m: "\<bar>m\<bar> = 2 ^ nat (precision f)" using le by simp
    define j where "j = precision f + e"
    define s :: int where "s = sgn m"
    have qs: "q = of_int s * 2 powi j" and s: "s = 1 \<or> s = - 1"
    proof -
      have "m = s * \<bar>m\<bar>" by (simp add: s_def mult.commute abs_mult_sgn)
      then have "(of_int m :: rat) = of_int s * 2 powi precision f"
        using assms(2) unfolding m by (metis of_int_mult of_int_power of_int_numeral power_int_nonneg_exp
            order_trans zero_le_one)
      then show "q = of_int s * 2 powi j" by (simp add: q_def j_def power_int_add)
      show "s = 1 \<or> s = - 1" using \<open>m \<noteq> 0\<close> by (auto simp: s_def sgn_if)
    qed
    have "\<bar>q\<bar> = 2 powi j" using s by (auto simp: qs)
    then have "(2::rat) powi ilog2 \<bar>q\<bar> \<le> 2 powi j" using ilog2_bounds [of "\<bar>q\<bar>"] q0 by simp
    also have "(2::rat) powi j < 2 powi (j + 1)" by (simp add: power_int_add)
    finally have "ilog2 \<bar>q\<bar> \<le> j" using powi_less_cancel by fastforce
    then have "ulp_exp f q \<le> j" using assms(2,3) by (simp add: ulp_exp_def j_def)
    then show ?thesis
      using rnd_le_scaled [OF q0, of s j f] rnd_ge_scaled [OF q0, of s j f] by (simp add: qs flip: q_def)
  qed
qed simp

lemma rnd_of_int:
  assumes "\<bar>m\<bar> \<le> 2 ^ nat (precision f)" and "1 \<le> precision f" and "min_exp f \<le> 0"
  shows "rnd f (of_int m) = of_int m"
  using rnd_exact [of m f 0] assms by simp

section \<open>The rounding interface\<close>

locale rounding =
  fixes r :: "rat \<Rightarrow> rat"
  assumes r_mono: "p \<le> q \<Longrightarrow> r p \<le> r q"
    and r_minus: "r (- q) = - r q"
    and r_zero: "r 0 = 0"
begin

lemma r_le: "q \<le> c \<Longrightarrow> r c = c \<Longrightarrow> r q \<le> c"
  using r_mono [of q c] by simp

lemma r_ge: "c \<le> q \<Longrightarrow> r c = c \<Longrightarrow> c \<le> r q"
  using r_mono [of c q] by simp

lemma r_nonneg: "0 \<le> q \<Longrightarrow> 0 \<le> r q"
  using r_ge [of 0 q] r_zero by simp

lemma r_nonpos: "q \<le> 0 \<Longrightarrow> r q \<le> 0"
  using r_le [of q 0] r_zero by simp

lemma r_pos_imp: "0 < r q \<Longrightarrow> 0 < q"
  using r_nonpos [of q] by linarith

end

interpretation r64: rounding "rnd binary64"
  by unfold_locales (auto simp: rnd_minus binary64_def intro: rnd_mono)

interpretation r32: rounding "rnd binary32"
  by unfold_locales (auto simp: rnd_minus binary32_def intro: rnd_mono)

end
