(* ===== verification/Float64.thy ===== *)
theory Float64
  imports Rounding
begin

text \<open>
  Go's \<open>float64\<close> and \<open>float32\<close> arithmetic, executable: a finite value is the rational number it
  denotes, each operation is computed exactly and then rounded into the format, as the language
  requires. Signed zeros, infinities and NaN follow IEEE 754. \<open>math.Round\<close>, \<open>math.Min\<close>,
  \<open>math.Max\<close> and the built-in \<open>max\<close> follow the special cases the Go library documents.

  The language leaves a float-to-integer conversion of a value that does not fit to the
  implementation: the conversions take that choice as a parameter. A compiler may fuse
  \<open>x * y + z\<close>; the model rounds each operation, as on amd64.
\<close>

datatype flt = NaN | PInf | NInf | NZero | Fin rat

fun val_of :: "flt \<Rightarrow> rat" where
  "val_of (Fin q) = q"
| "val_of _ = 0"

fun sign_bit :: "flt \<Rightarrow> bool" where
  "sign_bit NInf = True"
| "sign_bit NZero = True"
| "sign_bit (Fin q) = (q < 0)"
| "sign_bit _ = False"

fun finite_flt :: "flt \<Rightarrow> bool" where
  "finite_flt NZero = True"
| "finite_flt (Fin _) = True"
| "finite_flt _ = False"

definition is_zero :: "flt \<Rightarrow> bool" where
  "is_zero x \<longleftrightarrow> finite_flt x \<and> val_of x = 0"

text \<open>The exact result \<open>q\<close> rounded into a format; \<open>neg\<close> is the sign of a zero result.\<close>

definition pack :: "float_format \<Rightarrow> bool \<Rightarrow> rat \<Rightarrow> flt" where
  "pack f neg q =
     (let r = rnd f q in
      if 2 powi max_exp f \<le> r then PInf
      else if r \<le> - (2 powi max_exp f) then NInf
      else if r = 0 then (if neg then NZero else Fin 0)
      else Fin r)"

section \<open>Arithmetic\<close>

fun fneg :: "flt \<Rightarrow> flt" where
  "fneg NaN = NaN"
| "fneg PInf = NInf"
| "fneg NInf = PInf"
| "fneg NZero = Fin 0"
| "fneg (Fin q) = (if q = 0 then NZero else Fin (- q))"

definition inf_of :: "bool \<Rightarrow> flt" where "inf_of neg = (if neg then NInf else PInf)"
definition zero_of :: "bool \<Rightarrow> flt" where "zero_of neg = (if neg then NZero else Fin 0)"

definition fadd :: "float_format \<Rightarrow> flt \<Rightarrow> flt \<Rightarrow> flt" where
  "fadd f x y =
     (if x = NaN \<or> y = NaN then NaN
      else if \<not> finite_flt x then (if \<not> finite_flt y \<and> x \<noteq> y then NaN else x)
      else if \<not> finite_flt y then y
      else if x = NZero \<and> y = NZero then NZero
      else let s = val_of x + val_of y in if s = 0 then Fin 0 else pack f (s < 0) s)"

definition fsub :: "float_format \<Rightarrow> flt \<Rightarrow> flt \<Rightarrow> flt" where
  "fsub f x y = fadd f x (fneg y)"

definition fmul :: "float_format \<Rightarrow> flt \<Rightarrow> flt \<Rightarrow> flt" where
  "fmul f x y =
     (let neg = (sign_bit x \<noteq> sign_bit y) in
      if x = NaN \<or> y = NaN then NaN
      else if \<not> finite_flt x then (if is_zero y then NaN else inf_of neg)
      else if \<not> finite_flt y then (if is_zero x then NaN else inf_of neg)
      else pack f neg (val_of x * val_of y))"

definition fdiv :: "float_format \<Rightarrow> flt \<Rightarrow> flt \<Rightarrow> flt" where
  "fdiv f x y =
     (let neg = (sign_bit x \<noteq> sign_bit y) in
      if x = NaN \<or> y = NaN then NaN
      else if \<not> finite_flt x then (if finite_flt y then inf_of neg else NaN)
      else if \<not> finite_flt y then zero_of neg
      else if is_zero y then (if is_zero x then NaN else inf_of neg)
      else pack f neg (val_of x / val_of y))"

section \<open>Comparison, minimum and maximum\<close>

fun rank :: "flt \<Rightarrow> (int \<times> rat) option" where
  "rank NaN = None"
| "rank NInf = Some (- 1, 0)"
| "rank PInf = Some (1, 0)"
| "rank x = Some (0, val_of x)"

definition fless :: "flt \<Rightarrow> flt \<Rightarrow> bool" where
  "fless x y = (case (rank x, rank y) of
     (Some (i, a), Some (j, b)) \<Rightarrow> i < j \<or> i = j \<and> a < b | _ \<Rightarrow> False)"

definition feq :: "flt \<Rightarrow> flt \<Rightarrow> bool" where
  "feq x y \<longleftrightarrow> x \<noteq> NaN \<and> rank x = rank y"

definition fle :: "flt \<Rightarrow> flt \<Rightarrow> bool" where
  "fle x y \<longleftrightarrow> fless x y \<or> feq x y"

text \<open>The built-in \<open>max\<close>: NaN if an argument is NaN, and \<open>max(-0, 0) = 0\<close>.\<close>

definition fmax :: "flt \<Rightarrow> flt \<Rightarrow> flt" where
  "fmax x y =
     (if x = NaN \<or> y = NaN then NaN
      else if fless x y then y else if fless y x then x
      else if x = NZero then y else x)"

text \<open>\<open>math.Max\<close> and \<open>math.Min\<close>: an infinity of their side wins even over NaN.\<close>

definition math_max :: "flt \<Rightarrow> flt \<Rightarrow> flt" where
  "math_max x y = (if x = PInf \<or> y = PInf then PInf else fmax x y)"

definition math_min :: "flt \<Rightarrow> flt \<Rightarrow> flt" where
  "math_min x y =
     (if x = NInf \<or> y = NInf then NInf
      else if x = NaN \<or> y = NaN then NaN
      else if fless x y then x else if fless y x then y
      else if x = NZero then x else y)"

text \<open>\<open>math.Round\<close>: to the nearest integer, halves away from zero, keeping the sign of a zero.\<close>

definition round_away :: "rat \<Rightarrow> int" where
  "round_away q = (if 0 \<le> q then \<lfloor>q + 1 / 2\<rfloor> else - \<lfloor>1 / 2 - q\<rfloor>)"

definition math_round :: "flt \<Rightarrow> flt" where
  "math_round x = (case x of
     Fin q \<Rightarrow> let r = round_away q in if r = 0 \<and> q < 0 then NZero else Fin (of_int r)
   | _ \<Rightarrow> x)"

section \<open>Conversions\<close>

definition trunc :: "rat \<Rightarrow> int" where
  "trunc q = (if 0 \<le> q then \<lfloor>q\<rfloor> else - \<lfloor>- q\<rfloor>)"

definition float64_of_int :: "int \<Rightarrow> flt" where
  "float64_of_int n = pack binary64 False (of_int n)"

definition float64_of_u64 :: "u64 \<Rightarrow> flt" where
  "float64_of_u64 w = float64_of_int (uint w)"

definition float32_of_float64 :: "flt \<Rightarrow> flt" where
  "float32_of_float64 x = (case x of Fin q \<Rightarrow> pack binary32 (q < 0) q | _ \<Rightarrow> x)"

text \<open>\<open>uint64(x)\<close> and \<open>uint8(x)\<close>: the value truncated when it fits; \<open>other\<close> is the implementation's choice.\<close>

definition word_of_float :: "(flt \<Rightarrow> 'a::len word) \<Rightarrow> flt \<Rightarrow> 'a word" where
  "word_of_float other x =
     (if finite_flt x \<and> 0 \<le> trunc (val_of x) \<and> trunc (val_of x) < 2 ^ LENGTH('a)
      then word_of_int (trunc (val_of x)) else other x)"

abbreviation add64 :: "flt \<Rightarrow> flt \<Rightarrow> flt" where "add64 \<equiv> fadd binary64"
abbreviation sub64 :: "flt \<Rightarrow> flt \<Rightarrow> flt" where "sub64 \<equiv> fsub binary64"
abbreviation mul64 :: "flt \<Rightarrow> flt \<Rightarrow> flt" where "mul64 \<equiv> fmul binary64"
abbreviation div64 :: "flt \<Rightarrow> flt \<Rightarrow> flt" where "div64 \<equiv> fdiv binary64"

section \<open>The order\<close>

lemma fle_refl [simp]: "fle x x \<longleftrightarrow> x \<noteq> NaN"
  by (cases x) (auto simp: fle_def feq_def fless_def)

lemma fle_NaN [simp]: "\<not> fle NaN x" "\<not> fle x NaN" "\<not> fless NaN x" "\<not> fless x NaN"
  by (cases x; simp add: fle_def feq_def fless_def)+

lemma rank_NaN [simp]: "rank x = None \<longleftrightarrow> x = NaN" "x \<noteq> NaN \<Longrightarrow> \<exists>i a. rank x = Some (i, a)"
  by (cases x; simp)+

lemma fle_rank:
  "fle x y \<longleftrightarrow> (\<exists>i a j b. rank x = Some (i, a) \<and> rank y = Some (j, b) \<and> (i < j \<or> i = j \<and> a \<le> b))"
  by (cases x; cases y) (auto simp: fle_def feq_def fless_def)

lemma fless_rank:
  "fless x y \<longleftrightarrow> (\<exists>i a j b. rank x = Some (i, a) \<and> rank y = Some (j, b) \<and> (i < j \<or> i = j \<and> a < b))"
  by (auto simp: fless_def split: option.splits)

lemma fle_trans [trans]: "fle x y \<Longrightarrow> fle y z \<Longrightarrow> fle x z"
  by (auto simp: fle_rank)

lemma fle_total: "x \<noteq> NaN \<Longrightarrow> y \<noteq> NaN \<Longrightarrow> fle x y \<or> fle y x"
  by (cases x; cases y) (auto simp: fle_rank)

lemma not_fless: "x \<noteq> NaN \<Longrightarrow> y \<noteq> NaN \<Longrightarrow> \<not> fless x y \<longleftrightarrow> fle y x"
  by (cases x; cases y) (auto simp: fle_rank fless_rank)

lemma fless_imp_fle: "fless x y \<Longrightarrow> fle x y"
  by (simp add: fle_def)

lemma fle_Fin [simp]: "fle (Fin p) (Fin q) \<longleftrightarrow> p \<le> q" "fless (Fin p) (Fin q) \<longleftrightarrow> p < q"
  by (auto simp: fle_rank fless_rank)

lemma fmax_upper: "x \<noteq> NaN \<Longrightarrow> y \<noteq> NaN \<Longrightarrow> fle x (fmax x y)" "x \<noteq> NaN \<Longrightarrow> y \<noteq> NaN \<Longrightarrow> fle y (fmax x y)"
  by (cases x; cases y; auto simp: fmax_def fle_rank fless_rank)+

lemma fmax_NaN [simp]: "fmax x y = NaN \<longleftrightarrow> x = NaN \<or> y = NaN"
  by (auto simp: fmax_def)

lemma fmax_choice: "fmax x y = x \<or> fmax x y = y"
  by (auto simp: fmax_def)

lemma fmax_least: "fle x z \<Longrightarrow> fle y z \<Longrightarrow> fle (fmax x y) z"
  using fmax_choice [of x y] by auto

lemma math_clamp_bounds:
  assumes "x \<noteq> NaN" and "lo \<le> hi"
  shows "fle (Fin lo) (math_min (Fin hi) (math_max (Fin lo) x))"
    and "fle (math_min (Fin hi) (math_max (Fin lo) x)) (Fin hi)"
  using assms by (cases x; auto simp: math_min_def math_max_def fmax_def fle_rank fless_rank)+

section \<open>Packing\<close>

lemma formats [simp]:
  "precision binary64 = 53" "min_exp binary64 = - 1074" "max_exp binary64 = 1024"
  "precision binary32 = 24" "min_exp binary32 = - 149" "max_exp binary32 = 128"
  by (simp_all add: binary64_def binary32_def)

lemma pack_NaN [simp]: "pack f b q \<noteq> NaN"
  by (simp add: pack_def Let_def)

lemma pack_mono:
  assumes "1 \<le> precision f" and "p \<le> q"
  shows "fle (pack f b p) (pack f c q)"
proof -
  have "(- (2 powi max_exp f)) < (2 powi max_exp f :: rat)"
    using zero_less_power_int [of "2::rat" "max_exp f"] by linarith
  moreover have "fle (pack f b p) (pack f c q)"
    if "rnd f p \<le> rnd f q" and "- M < M" and M: "M = 2 powi max_exp f" for M :: rat
    unfolding pack_def Let_def M [symmetric] using that(1,2)
    by (cases "M \<le> rnd f q"; cases "rnd f p \<le> - M") (auto simp: fle_rank)
  ultimately show ?thesis using rnd_mono [OF assms] by blast
qed

lemma pack_Fin:
  assumes "rnd f q = q" and "\<bar>q\<bar> < 2 powi max_exp f" and "q \<noteq> 0"
  shows "pack f b q = Fin q"
  using assms by (auto simp: pack_def)

lemma powi_ge_1: "0 \<le> n \<Longrightarrow> (1::rat) \<le> 2 powi n"
  using powi_mono2 [of 0 n] by simp

lemma pack64_dyadic:
  assumes "q = of_int m / 2 ^ k" and "\<bar>m\<bar> \<le> 9007199254740992" and "k \<le> 1074" and "m \<noteq> 0"
  shows "pack binary64 b q = Fin q"
proof (rule pack_Fin)
  have q: "q = of_int m * 2 powi (- int k)"
    unfolding assms(1) by (simp add: power_int_minus divide_inverse)
  have "nat (precision binary64) = 53" by simp
  then have p53: "(2::int) ^ nat (precision binary64) = 9007199254740992" by (simp only: power_numeral) simp
  show "rnd binary64 q = q" unfolding q
  proof (rule rnd_exact)
    show "\<bar>m\<bar> \<le> 2 ^ nat (precision binary64)" unfolding p53 by (rule assms(2))
    show "1 \<le> precision binary64" "min_exp binary64 \<le> - int k" using assms(3) by simp_all
  qed
  have "\<bar>q\<bar> \<le> of_int \<bar>m\<bar>"
    using assms(1) by (simp add: abs_div divide_le_eq mult_le_cancel_left1)
  also have "of_int \<bar>m\<bar> \<le> (9007199254740992 :: rat)"
    using assms(2) by (metis of_int_le_iff of_int_numeral)
  also have "\<dots> < 2 powi 54" by simp
  also have "(2::rat) powi 54 \<le> 2 powi max_exp binary64" by (rule powi_mono2) simp
  finally show "\<bar>q\<bar> < 2 powi max_exp binary64" .
  show "q \<noteq> 0" unfolding q using assms(4) by simp
qed

lemma pack64_int: "\<bar>m\<bar> \<le> 9007199254740992 \<Longrightarrow> m \<noteq> 0 \<Longrightarrow> pack binary64 b (of_int m) = Fin (of_int m)"
  by (rule pack64_dyadic [where k = 0]) auto

lemma pack64_zero [simp]: "pack binary64 b 0 = zero_of b"
proof -
  have "(0::rat) < 2 powi max_exp binary64" by (rule zero_less_power_int) simp
  then have "\<not> 2 powi max_exp binary64 \<le> (0::rat)" by (simp only: not_le)
  then show ?thesis by (simp add: pack_def zero_of_def del: formats)
qed

lemma pack64_numeral:
  "numeral n \<le> (9007199254740992 :: int) \<Longrightarrow> pack binary64 b (numeral n) = Fin (numeral n)"
  "pack binary64 b 1 = Fin 1"
  using pack64_int [of "numeral n" b] pack64_int [of 1 b] by simp_all

lemma float64_of_int_small: "\<bar>m\<bar> \<le> 9007199254740992 \<Longrightarrow> float64_of_int m = Fin (of_int m)"
  by (cases "m = 0") (simp_all add: float64_of_int_def pack64_int zero_of_def)

lemma rnd64_of_int: "\<bar>m\<bar> \<le> 9007199254740992 \<Longrightarrow> rnd binary64 (of_int m) = of_int m"
  by (rule rnd_of_int) auto

text \<open>A packed value stays within representable bounds.\<close>

lemma pack64_le_int:
  assumes "q \<le> of_int m" and "\<bar>m\<bar> \<le> 9007199254740992"
  shows "fle (pack binary64 b q) (Fin (of_int m))"
proof (cases "m = 0")
  case True
  then show ?thesis using pack_mono [of binary64 q 0 b False] assms(1) by (simp add: zero_of_def)
next
  case False
  then show ?thesis using pack_mono [of binary64 q "of_int m" b False] assms by (simp add: pack64_int)
qed

lemma pack64_ge_int:
  assumes "of_int m \<le> q" and "\<bar>m\<bar> \<le> 9007199254740992"
  shows "fle (Fin (of_int m)) (pack binary64 b q)"
proof (cases "m = 0")
  case True
  then show ?thesis using pack_mono [of binary64 0 q False b] assms(1) by (simp add: zero_of_def)
next
  case False
  then show ?thesis using pack_mono [of binary64 "of_int m" q False b] assms by (simp add: pack64_int)
qed

text \<open>What lies between two finite values is finite.\<close>

lemma fle_between: "fle (Fin a) x \<Longrightarrow> fle x (Fin b) \<Longrightarrow> finite_flt x \<and> a \<le> val_of x \<and> val_of x \<le> b"
  by (cases x) (auto simp: fle_rank)

section \<open>Monotonicity\<close>

lemma fle_inf_zero:
  "fle NInf x \<longleftrightarrow> x \<noteq> NaN" "fle x PInf \<longleftrightarrow> x \<noteq> NaN"
  "fle PInf x \<longleftrightarrow> x = PInf" "fle x NInf \<longleftrightarrow> x = NInf"
  by (cases x; auto simp: fle_rank)+

lemma fle_finite: "finite_flt x \<Longrightarrow> finite_flt y \<Longrightarrow> fle x y \<longleftrightarrow> val_of x \<le> val_of y"
  by (cases x; cases y) (auto simp: fle_rank)

lemma fle_NZero [simp]: "fle NZero x = fle (Fin 0) x" "fle x NZero = fle x (Fin 0)"
  by (cases x; auto simp: fle_rank)+

lemma mul64_mono:
  assumes "fle x y" and "0 < c"
  shows "fle (mul64 x (Fin c)) (mul64 y (Fin c))"
proof (cases "finite_flt x \<and> finite_flt y")
  case True
  then have "val_of x * c \<le> val_of y * c"
    using assms fle_finite by (simp add: mult_right_mono)
  moreover have "\<exists>b. mul64 z (Fin c) = pack binary64 b (val_of z * c)" if "finite_flt z" for z
    using that by (cases z) (auto simp: fmul_def Let_def simp del: pack64_zero)
  ultimately show ?thesis using True by (metis formats(1) one_le_numeral pack_mono)
next
  case False
  then show ?thesis
    using assms
    by (cases x; cases y)
      (auto simp: fmul_def Let_def is_zero_def inf_of_def zero_of_def fle_inf_zero)
qed

lemma div64_mono:
  assumes "fle x y" and "0 < c"
  shows "fle (div64 x (Fin c)) (div64 y (Fin c))"
proof (cases "finite_flt x \<and> finite_flt y")
  case True
  then have "val_of x / c \<le> val_of y / c"
    using assms fle_finite by (simp add: divide_right_mono)
  moreover have "\<exists>b. div64 z (Fin c) = pack binary64 b (val_of z / c)" if "finite_flt z" for z
    using that assms(2) by (cases z) (auto simp: fdiv_def Let_def is_zero_def simp del: pack64_zero)
  ultimately show ?thesis using True by (metis formats(1) one_le_numeral pack_mono)
next
  case False
  then show ?thesis
    using assms
    by (cases x; cases y)
      (auto simp: fdiv_def Let_def is_zero_def inf_of_def zero_of_def fle_inf_zero)
qed

lemma round_away_mono: "p \<le> q \<Longrightarrow> round_away p \<le> round_away q"
proof -
  assume le: "p \<le> q"
  show ?thesis
  proof (cases "0 \<le> p \<or> q < 0")
    case True
    then show ?thesis using le by (auto simp: round_away_def intro!: floor_mono)
  next
    case False
    then have "0 \<le> 1 / 2 - p" "0 \<le> q + 1 / 2" by simp_all
    then have "0 \<le> \<lfloor>1 / 2 - p\<rfloor>" "0 \<le> \<lfloor>q + 1 / 2\<rfloor>" by (simp_all only: zero_le_floor)
    then have "- \<lfloor>1 / 2 - p\<rfloor> \<le> \<lfloor>q + 1 / 2\<rfloor>" by linarith
    then show ?thesis using False by (auto simp: round_away_def)
  qed
qed

lemma round_away_of_int [simp]: "round_away (of_int m) = m"
proof (cases "0 \<le> m")
  case True
  then have "\<lfloor>of_int m + (1 / 2 :: rat)\<rfloor> = m" by (simp add: floor_eq_iff)
  then show ?thesis using True by (simp add: round_away_def)
next
  case False
  then have "\<lfloor>(1 / 2 :: rat) - of_int m\<rfloor> = - m" by (simp add: floor_eq_iff)
  then show ?thesis using False by (simp add: round_away_def)
qed

lemma math_round_finite: "finite_flt x \<Longrightarrow> finite_flt (math_round x) \<and> val_of (math_round x) = of_int (round_away (val_of x))"
  using round_away_of_int [of 0] by (cases x) (auto simp: math_round_def Let_def)

lemma math_round_mono: "fle x y \<Longrightarrow> fle (math_round x) (math_round y)"
proof (cases "finite_flt x \<and> finite_flt y")
  case True
  moreover assume "fle x y"
  ultimately show ?thesis using math_round_finite [of x] math_round_finite [of y]
    by (simp add: fle_finite round_away_mono)
next
  case False
  moreover assume "fle x y"
  ultimately show ?thesis
    using math_round_finite [of x] math_round_finite [of y]
    by (cases x; cases y) (auto simp: fle_inf_zero math_round_def Let_def)
qed

lemma math_round_int [simp]: "math_round (Fin (of_int m)) = Fin (of_int m)"
  by (simp add: math_round_def Let_def)

lemma mul64_int:
  assumes "\<bar>m * c\<bar> \<le> 9007199254740992" and "m \<noteq> 0" and "c \<noteq> 0"
  shows "mul64 (Fin (of_int m)) (Fin (of_int c)) = Fin (of_int (m * c))"
  using pack64_int [OF assms(1)] assms(2,3) by (simp add: fmul_def Let_def)

lemma div64_int:
  assumes "\<bar>m\<bar> \<le> 9007199254740992" and "m \<noteq> 0" and "c \<noteq> 0"
  shows "div64 (Fin (of_int (m * c))) (Fin (of_int c)) = Fin (of_int m)"
  using pack64_int [OF assms(1,2)] assms(3) by (simp add: fdiv_def Let_def is_zero_def)

text \<open>Every unsigned 64-bit number, and every \<open>int64\<close> that is not negative, converts to a finite value.\<close>

lemma float64_of_int_range:
  assumes "0 \<le> n" and "n \<le> 18446744073709551616"
  shows "fle (Fin 0) (float64_of_int n)" and "fle (float64_of_int n) (Fin 18446744073709551616)"
proof -
  have e: "(18446744073709551616 :: rat) = of_int 1 * 2 powi 64" by simp
  have "rnd binary64 18446744073709551616 = 18446744073709551616"
    unfolding e by (rule rnd_exact) simp_all
  moreover have "(2::rat) powi 65 \<le> 2 powi max_exp binary64" by (rule powi_mono2) simp
  then have "\<bar>18446744073709551616 :: rat\<bar> < 2 powi max_exp binary64"
    by (rule less_le_trans [rotated]) simp
  ultimately have p: "pack binary64 False 18446744073709551616 = Fin 18446744073709551616"
    by (rule pack_Fin) simp
  have "(of_int n :: rat) \<le> of_int 18446744073709551616" using assms(2) by (simp only: of_int_le_iff)
  then have "fle (pack binary64 False (of_int n)) (pack binary64 False 18446744073709551616)"
    by (intro pack_mono) simp_all
  then show "fle (float64_of_int n) (Fin 18446744073709551616)" by (simp add: p float64_of_int_def)
  show "fle (Fin 0) (float64_of_int n)"
    using pack64_ge_int [of 0 "of_int n" False] assms(1) by (simp add: float64_of_int_def)
qed

lemma float64_of_int_finite:
  assumes "0 \<le> n" and "n \<le> 18446744073709551616"
  shows "finite_flt (float64_of_int n)" and "0 \<le> val_of (float64_of_int n)"
  using fle_between [OF float64_of_int_range [OF assms]] by auto

lemma float64_of_int_mono: "m \<le> n \<Longrightarrow> fle (float64_of_int m) (float64_of_int n)"
  by (simp add: float64_of_int_def pack_mono)

text \<open>A quotient of such numbers is not NaN, and lies between 0 and 1 when the divisor is the larger.\<close>

lemma div64_nonneg:
  assumes "fle (Fin 0) x" and "fle (Fin 1) y" and "finite_flt y"
  shows "fle (Fin 0) (div64 x y)"
  using assms pack64_ge_int [of 0 "val_of x / val_of y"]
  by (cases x; cases y) (auto simp: fdiv_def Let_def is_zero_def inf_of_def fle_inf_zero zero_of_def)

lemma div64_le_1:
  assumes "fle (Fin 0) x" and "fle x y" and "fle (Fin 1) y" and "finite_flt y"
  shows "fle (div64 x y) (Fin 1)"
  using assms pack64_le_int [of "val_of x / val_of y" 1]
  by (cases x; cases y) (auto simp: fdiv_def Let_def is_zero_def inf_of_def fle_inf_zero zero_of_def)

end
