(* ===== verification/GoStr.thy ===== *)
theory GoStr
  imports Prelude "HOL-Library.Sublist"
begin

text \<open>
  The parts of Go's \<open>strings\<close>, \<open>path\<close>, \<open>path/filepath\<close> (on Unix) and \<open>strconv\<close> packages the
  program uses, on byte strings (a Go string is a sequence of bytes, as \<open>string\<close> is here). Where the
  Go function works on runes (trimming of Unicode spaces, \<open>?\<close> and classes of \<open>path.Match\<close>) the
  UTF-8 encoding is decoded as Go decodes it.
\<close>

section \<open>Searching and splitting\<close>

abbreviation (input) has_prefix :: "string \<Rightarrow> string \<Rightarrow> bool" where
  "has_prefix s p \<equiv> prefix p s"

abbreviation (input) has_suffix :: "string \<Rightarrow> string \<Rightarrow> bool" where
  "has_suffix s p \<equiv> suffix p s"

fun index_of :: "string \<Rightarrow> string \<Rightarrow> nat option" where
  "index_of [] sub = (if sub = [] then Some 0 else None)"
| "index_of (c # s) sub = (if prefix sub (c # s) then Some 0 else map_option Suc (index_of s sub))"

definition contains :: "string \<Rightarrow> string \<Rightarrow> bool" where
  "contains s sub \<longleftrightarrow> index_of s sub \<noteq> None"

fun last_index_of :: "string \<Rightarrow> char \<Rightarrow> nat option" where
  "last_index_of [] c = None"
| "last_index_of (d # s) c =
     (case last_index_of s c of Some i \<Rightarrow> Some (Suc i) | None \<Rightarrow> if d = c then Some 0 else None)"

text \<open>\<open>strings.Split(s, sep)\<close> for a one-byte separator: never empty.\<close>

fun split_byte :: "char \<Rightarrow> string \<Rightarrow> string list" where
  "split_byte c [] = [[]]"
| "split_byte c (d # s) =
     (if d = c then [] # split_byte c s
      else (case split_byte c s of [] \<Rightarrow> [[d]] | w # ws \<Rightarrow> (d # w) # ws))"

text \<open>\<open>strings.SplitN(s, sep, 2)\<close>: the parts before and after the first \<open>sep\<close>, if there is one.\<close>

definition split2 :: "string \<Rightarrow> string \<Rightarrow> (string \<times> string) option" where
  "split2 s sep = map_option (\<lambda>i. (take i s, drop (i + length sep) s)) (index_of s sep)"

definition trim_suffix :: "string \<Rightarrow> string \<Rightarrow> string" where
  "trim_suffix s p = (if suffix p s then take (length s - length p) s else s)"

definition trim_prefix :: "string \<Rightarrow> string \<Rightarrow> string" where
  "trim_prefix s p = (if prefix p s then drop (length p) s else s)"

text \<open>\<open>strings.Replace(s, old, new, 1)\<close> for a non-empty \<open>old\<close>.\<close>

definition replace1 :: "string \<Rightarrow> string \<Rightarrow> string \<Rightarrow> string" where
  "replace1 s old new = (case split2 s old of None \<Rightarrow> s | Some (a, b) \<Rightarrow> a @ new @ b)"

fun join_with :: "string \<Rightarrow> string list \<Rightarrow> string" where
  "join_with sep [] = []"
| "join_with sep [w] = w"
| "join_with sep (w # v # ws) = w @ sep @ join_with sep (v # ws)"

section \<open>Trimming\<close>

text \<open>The UTF-8 encodings of the runes \<open>unicode.IsSpace\<close> accepts.\<close>

definition byte :: "nat \<Rightarrow> char" where "byte n = char_of n"

definition spaces :: "string list" where
  "spaces = map (map byte)
     ([[9], [10], [11], [12], [13], [32], [194, 133], [194, 160], [225, 154, 128]]
      @ map (\<lambda>n. [226, 128, n]) [128 ..< 139]
      @ [[226, 128, 168], [226, 128, 169], [226, 128, 175], [226, 129, 159], [227, 128, 128]])"

definition space_prefix :: "string \<Rightarrow> string option" where
  "space_prefix s = find (\<lambda>w. prefix w s) spaces"

lemma spaces_nonempty: "w \<in> set spaces \<Longrightarrow> w \<noteq> []"
  by (auto simp: spaces_def)

lemma space_prefix_Some: "space_prefix s = Some w \<Longrightarrow> prefix w s \<and> w \<noteq> []"
  using spaces_nonempty [OF nth_mem] by (fastforce simp: space_prefix_def find_Some_iff)

function trim_left :: "string \<Rightarrow> string" where
  "trim_left s = (case space_prefix s of None \<Rightarrow> s | Some w \<Rightarrow> trim_left (drop (length w) s))"
  by pat_completeness auto
termination
proof (relation "measure length")
  fix s w assume "space_prefix s = Some w"
  then have "w \<noteq> []" "s \<noteq> []" by (auto dest!: space_prefix_Some)
  then show "(drop (length w) s, s) \<in> measure length"
    by (cases s; cases w) auto
qed simp

declare trim_left.simps [simp del]

definition space_suffix :: "string \<Rightarrow> string option" where
  "space_suffix s = find (\<lambda>w. suffix w s) spaces"

lemma space_suffix_Some: "space_suffix s = Some w \<Longrightarrow> suffix w s \<and> w \<noteq> []"
  using spaces_nonempty [OF nth_mem] by (fastforce simp: space_suffix_def find_Some_iff)

function trim_right :: "string \<Rightarrow> string" where
  "trim_right s = (case space_suffix s of None \<Rightarrow> s | Some w \<Rightarrow> trim_right (take (length s - length w) s))"
  by pat_completeness auto
termination
proof (relation "measure length")
  fix s w assume "space_suffix s = Some w"
  then have "w \<noteq> []" "s \<noteq> []" by (auto dest!: space_suffix_Some)
  then show "(take (length s - length w) s, s) \<in> measure length"
    by (cases s; cases w) auto
qed simp

declare trim_right.simps [simp del]

definition trim_space :: "string \<Rightarrow> string" where
  "trim_space s = trim_right (trim_left s)"

text \<open>Printable ASCII characters are no spaces, so a string between two of them is trimmed already.\<close>

definition graphic :: "char \<Rightarrow> bool" where
  "graphic c \<longleftrightarrow> 33 \<le> (of_char c :: nat) \<and> (of_char c :: nat) \<le> 126"

lemma space_not_graphic: "w \<in> set spaces \<Longrightarrow> \<not> graphic (hd w) \<and> \<not> graphic (last w)"
  by (auto simp: spaces_def byte_def graphic_def)

lemma trim_space_graphic:
  assumes "s \<noteq> []" and "graphic (hd s)" and "graphic (last s)"
  shows "trim_space s = s"
proof -
  have "\<not> prefix w s" if "w \<in> set spaces" for w
    using assms(2) space_not_graphic [OF that] spaces_nonempty [OF that] by (cases w) (auto simp: prefix_def)
  then have "space_prefix s = None" by (simp add: space_prefix_def find_None_iff)
  moreover have "\<not> suffix w s" if "w \<in> set spaces" for w
    using assms(3) space_not_graphic [OF that] spaces_nonempty [OF that]
    by (auto simp: suffix_def)
  then have "space_suffix s = None" by (simp add: space_suffix_def find_None_iff)
  ultimately show ?thesis by (simp add: trim_space_def trim_left.simps trim_right.simps)
qed

text \<open>
  \<open>strings.ToLower\<close> as far as a comparison with a lower-case ASCII literal can tell: the ASCII
  letters, and the two other runes whose lower case is ASCII (U+0130 and the Kelvin sign U+212A).
\<close>

fun to_lower :: "string \<Rightarrow> string" where
  "to_lower [] = []"
| "to_lower (c # s) =
     (if prefix [byte 196, byte 176] (c # s) then CHR ''i'' # to_lower (drop 1 s)
      else if prefix [byte 226, byte 132, byte 170] (c # s) then CHR ''k'' # to_lower (drop 2 s)
      else (if CHR ''A'' \<le> c \<and> c \<le> CHR ''Z'' then char_of (of_char c + 32 :: nat) else c) # to_lower s)"

section \<open>Paths\<close>

definition slash :: char where "slash = CHR ''/''"

fun strip_trailing :: "string \<Rightarrow> string" where
  "strip_trailing s = rev (dropWhile (\<lambda>c. c = slash) (rev s))"

text \<open>\<open>filepath.Base\<close>\<close>

definition path_base :: "string \<Rightarrow> string" where
  "path_base p =
     (if p = [] then ''.''
      else let q = rev (takeWhile (\<lambda>c. c \<noteq> slash) (rev (strip_trailing p)))
           in if q = [] then ''/'' else q)"

text \<open>\<open>filepath.Clean\<close>, on the reversed stack of elements.\<close>

fun clean_elems :: "bool \<Rightarrow> string list \<Rightarrow> string list \<Rightarrow> string list" where
  "clean_elems rooted stack [] = rev stack"
| "clean_elems rooted stack (w # ws) =
     (if w = [] \<or> w = ''.'' then clean_elems rooted stack ws
      else if w = ''..'' then
        (case stack of
           [] \<Rightarrow> clean_elems rooted (if rooted then [] else [w]) ws
         | e # below \<Rightarrow>
             if e = ''..'' then clean_elems rooted (w # stack) ws
             else clean_elems rooted below ws)
      else clean_elems rooted (w # stack) ws)"

definition path_clean :: "string \<Rightarrow> string" where
  "path_clean p =
     (let rooted = prefix [slash] p; body = join_with [slash] (clean_elems rooted [] (split_byte slash p))
      in if rooted then slash # body else if body = [] then ''.'' else body)"

definition path_dir :: "string \<Rightarrow> string" where
  "path_dir p = path_clean (rev (dropWhile (\<lambda>c. c \<noteq> slash) (rev p)))"

definition path_join :: "string list \<Rightarrow> string" where
  "path_join ws =
     (let ne = filter (\<lambda>w. w \<noteq> []) ws in if ne = [] then [] else path_clean (join_with [slash] ne))"

section \<open>Pattern matching (\<open>path.Match\<close>)\<close>

text \<open>The first rune of a non-empty byte string and its length; a bad encoding is U+FFFD of length 1.\<close>

definition cont :: "nat \<Rightarrow> nat \<Rightarrow> nat \<Rightarrow> bool" where "cont lo hi b \<longleftrightarrow> lo \<le> b \<and> b \<le> hi"

definition decode_rune :: "string \<Rightarrow> nat \<times> nat" where
  "decode_rune s =
     (case map of_char s of
        [] \<Rightarrow> (65533, 0)
      | a # r \<Rightarrow>
          if a < 128 then (a, 1)
          else if cont 194 223 a then
            (case r of b # _ \<Rightarrow> if cont 128 191 b then ((a - 192) * 64 + (b - 128), 2) else (65533, 1)
                     | [] \<Rightarrow> (65533, 1))
          else if cont 224 239 a then
            (case r of b # c # _ \<Rightarrow>
                if cont (if a = 224 then 160 else 128) (if a = 237 then 159 else 191) b \<and> cont 128 191 c
                then ((a - 224) * 4096 + (b - 128) * 64 + (c - 128), 3) else (65533, 1)
             | _ \<Rightarrow> (65533, 1))
          else if cont 240 244 a then
            (case r of b # c # d # _ \<Rightarrow>
                if cont (if a = 240 then 144 else 128) (if a = 244 then 143 else 191) b
                   \<and> cont 128 191 c \<and> cont 128 191 d
                then ((a - 240) * 262144 + (b - 128) * 4096 + (c - 128) * 64 + (d - 128), 4)
                else (65533, 1)
             | _ \<Rightarrow> (65533, 1))
          else (65533, 1))"

datatype glob_token = Star | AnyRune | Lit char | RuneClass bool "(nat \<times> nat) list"

text \<open>One bound of a class, possibly escaped; \<open>None\<close> is \<open>ErrBadPattern\<close>.\<close>

definition get_esc :: "string \<Rightarrow> (nat \<times> string) option" where
  "get_esc s =
     (if s = [] \<or> hd s = CHR ''-'' \<or> hd s = CHR '']'' then None
      else let t = (if hd s = CHR 0x5C then tl s else s) in
        if t = [] then None
        else let (r, n) = decode_rune t; rest = drop n t in
          if (r = 65533 \<and> n = 1) \<or> rest = [] then None else Some (r, rest))"

fun parse_class :: "nat \<Rightarrow> (nat \<times> nat) list \<Rightarrow> string \<Rightarrow> ((nat \<times> nat) list \<times> string) option" where
  "parse_class 0 acc s = None"
| "parse_class (Suc fuel) acc s =
     (if s \<noteq> [] \<and> hd s = CHR '']'' \<and> acc \<noteq> [] then Some (rev acc, tl s)
      else case get_esc s of
        None \<Rightarrow> None
      | Some (lo, s1) \<Rightarrow>
          if hd s1 = CHR ''-'' then
            (case get_esc (tl s1) of None \<Rightarrow> None | Some (hi, s2) \<Rightarrow> parse_class fuel ((lo, hi) # acc) s2)
          else parse_class fuel ((lo, lo) # acc) s1)"

fun parse_glob :: "nat \<Rightarrow> string \<Rightarrow> glob_token list option" where
  "parse_glob 0 s = (if s = [] then Some [] else None)"
| "parse_glob (Suc fuel) [] = Some []"
| "parse_glob (Suc fuel) (c # s) =
     (if c = CHR ''*'' then map_option ((#) Star) (parse_glob fuel s)
      else if c = CHR ''?'' then map_option ((#) AnyRune) (parse_glob fuel s)
      else if c = CHR ''['' then
        (let neg = (s \<noteq> [] \<and> hd s = CHR ''^''); body = (if neg then tl s else s) in
         case parse_class (Suc (length body)) [] body of
           None \<Rightarrow> None
         | Some (rs, rest) \<Rightarrow> map_option ((#) (RuneClass neg rs)) (parse_glob fuel rest))
      else if c = CHR 0x5C then
        (case s of [] \<Rightarrow> None | d # s' \<Rightarrow> map_option ((#) (Lit d)) (parse_glob fuel s'))
      else map_option ((#) (Lit c)) (parse_glob fuel s))"

fun match_tokens :: "glob_token list \<Rightarrow> string \<Rightarrow> bool" where
  "match_tokens [] s = (s = [])"
| "match_tokens (Star # ts) [] = match_tokens ts []"
| "match_tokens (Star # ts) (c # s) =
     (match_tokens ts (c # s) \<or> c \<noteq> slash \<and> match_tokens (Star # ts) s)"
| "match_tokens (AnyRune # ts) s =
     (s \<noteq> [] \<and> hd s \<noteq> slash \<and> match_tokens ts (drop (snd (decode_rune s)) s))"
| "match_tokens (Lit d # ts) s = (s \<noteq> [] \<and> hd s = d \<and> match_tokens ts (tl s))"
| "match_tokens (RuneClass neg rs # ts) s =
     (s \<noteq> [] \<and> (list_ex (\<lambda>(lo, hi). lo \<le> fst (decode_rune s) \<and> fst (decode_rune s) \<le> hi) rs \<noteq> neg)
      \<and> match_tokens ts (drop (snd (decode_rune s)) s))"

text \<open>\<open>match, _ := path.Match(pattern, name)\<close>: a malformed pattern matches nothing.\<close>

definition path_match :: "string \<Rightarrow> string \<Rightarrow> bool" where
  "path_match pattern name =
     (case parse_glob (length pattern) pattern of None \<Rightarrow> False | Some ts \<Rightarrow> match_tokens ts name)"

section \<open>Decimal numbers\<close>

fun digits_rev :: "nat \<Rightarrow> nat \<Rightarrow> string" where
  "digits_rev 0 n = []"
| "digits_rev (Suc fuel) n =
     char_of (48 + n mod 10) # (if n < 10 then [] else digits_rev fuel (n div 10))"

text \<open>\<open>strconv.Itoa\<close> for a non-negative number.\<close>

definition itoa :: "nat \<Rightarrow> string" where
  "itoa n = rev (digits_rev (Suc n) n)"

definition is_digit :: "char \<Rightarrow> bool" where
  "is_digit c \<longleftrightarrow> CHR ''0'' \<le> c \<and> c \<le> CHR ''9''"

definition digit_value :: "char \<Rightarrow> nat" where "digit_value c = of_char c - 48"

definition decimal_value :: "string \<Rightarrow> nat" where
  "decimal_value s = foldl (\<lambda>n c. 10 * n + digit_value c) 0 s"

text \<open>\<open>strconv.ParseUint(s, 10, 64)\<close>.\<close>

definition parse_uint10 :: "string \<Rightarrow> nat option" where
  "parse_uint10 s =
     (if s \<noteq> [] \<and> list_all is_digit s \<and> decimal_value s < 2 ^ 64 then Some (decimal_value s) else None)"

end
