(* ===== verification/Utils.thy ===== *)
theory Utils
  imports Float64 GoStr
begin

text \<open>
  \<^verbatim>\<open>agent/utils/utils.go\<close> (and the copies of \<open>twoDecimals\<close> in \<^verbatim>\<open>internal/records\<close> and
  \<^verbatim>\<open>internal/entities/systemd\<close>): rounding to two decimals, unit conversions, the environment and
  small reads of files. The environment and the file system are arguments.
\<close>

section \<open>Numbers\<close>

definition two_decimals :: "flt \<Rightarrow> flt" where
  "two_decimals value = div64 (math_round (mul64 value (Fin 100))) (Fin 100)"

definition bytes_to_megabytes :: "flt \<Rightarrow> flt" where
  "bytes_to_megabytes b = two_decimals (div64 b (Fin 1048576))"

definition bytes_to_gigabytes :: "u64 \<Rightarrow> flt" where
  "bytes_to_gigabytes b = two_decimals (div64 (float64_of_u64 b) (Fin 1073741824))"

lemma two_decimals_mono: "fle x y \<Longrightarrow> fle (two_decimals x) (two_decimals y)"
  by (simp add: two_decimals_def div64_mono math_round_mono mul64_mono)

lemma two_decimals_int:
  assumes "\<bar>m\<bar> \<le> 90071992547409"
  shows "two_decimals (Fin (of_int m)) = Fin (of_int m)"
proof (cases "m = 0")
  case True
  then show ?thesis
    using math_round_int [of 0]
    by (simp add: two_decimals_def fmul_def fdiv_def Let_def zero_of_def is_zero_def)
next
  case False
  have "mul64 (Fin (of_int m)) (Fin 100) = Fin (of_int (m * 100))"
    using mul64_int [of m 100] assms False by simp
  moreover have "div64 (Fin (of_int (m * 100))) (Fin 100) = Fin (of_int m)"
    using div64_int [of m 100] assms False by simp
  ultimately show ?thesis by (simp only: two_decimals_def math_round_int)
qed

text \<open>Rounding keeps a value between two whole numbers.\<close>

lemma two_decimals_between:
  assumes "fle (Fin (of_int lo)) v" and "fle v (Fin (of_int hi))"
    and "\<bar>lo\<bar> \<le> 90071992547409" and "\<bar>hi\<bar> \<le> 90071992547409"
  shows "fle (Fin (of_int lo)) (two_decimals v)" and "fle (two_decimals v) (Fin (of_int hi))"
  using two_decimals_mono [OF assms(1)] two_decimals_mono [OF assms(2)] assms(3,4)
  by (simp_all add: two_decimals_int)

lemma bytes_to_gigabytes_mono: "uint a \<le> uint b \<Longrightarrow> fle (bytes_to_gigabytes a) (bytes_to_gigabytes b)"
  unfolding bytes_to_gigabytes_def float64_of_u64_def
  by (intro two_decimals_mono div64_mono float64_of_int_mono) simp_all

section \<open>Environment and files\<close>

text \<open>\<open>os.LookupEnv\<close> is a partial function on names; a file read gives its contents or an error.\<close>

type_synonym environment = "string \<Rightarrow> string option"
type_synonym file_system = "string \<Rightarrow> string option"

definition get_env :: "environment \<Rightarrow> string \<Rightarrow> string option" where
  "get_env env key =
     (case env (''BESZEL_AGENT_'' @ key) of Some v \<Rightarrow> Some v | None \<Rightarrow> env key)"

definition read_string_file_ok :: "file_system \<Rightarrow> string \<Rightarrow> string option" where
  "read_string_file_ok fs path = map_option trim_space (fs path)"

definition read_string_file :: "file_system \<Rightarrow> string \<Rightarrow> string" where
  "read_string_file fs path =
     (case read_string_file_ok fs path of Some s \<Rightarrow> s | None \<Rightarrow> '''')"

text \<open>One \<open>Read\<close> into a buffer of \<open>max_size\<close> bytes; the count is the file's choice, as for any reader.\<close>

definition read_string_file_limited :: "(string \<Rightarrow> nat \<Rightarrow> string option) \<Rightarrow> string \<Rightarrow> nat \<Rightarrow> string option" where
  "read_string_file_limited read path max_size =
     (case read path max_size of
        None \<Rightarrow> None
      | Some bytes \<Rightarrow> Some (trim_space (take max_size bytes)))"

definition file_exists :: "file_system \<Rightarrow> string \<Rightarrow> bool" where
  "file_exists fs path \<longleftrightarrow> fs path \<noteq> None"

definition read_uint_file :: "file_system \<Rightarrow> string \<Rightarrow> u64 option" where
  "read_uint_file fs path =
     (case read_string_file_ok fs path of
        None \<Rightarrow> None
      | Some raw \<Rightarrow> map_option of_nat (parse_uint10 raw))"

datatype goos = Linux_OS | Darwin_OS | Other_OS

definition look_path_homebrew ::
  "(string \<Rightarrow> string option) \<Rightarrow> (string \<Rightarrow> bool) \<Rightarrow> goos \<Rightarrow> string \<Rightarrow> string option" where
  "look_path_homebrew look_path stat_ok os file =
     (case look_path file of
        Some p \<Rightarrow> Some p
      | None \<Rightarrow>
          let homebrew = (case os of
                Darwin_OS \<Rightarrow> path_join [''/opt'', ''homebrew'', ''bin'', file]
              | Linux_OS \<Rightarrow> path_join [''/home'', ''linuxbrew'', ''.linuxbrew'', ''bin'', file]
              | Other_OS \<Rightarrow> '''')
          in if homebrew \<noteq> '''' \<and> stat_ok homebrew then Some homebrew else None)"

text \<open>The prefixed variable wins even when it is empty.\<close>

lemma get_env_prefixed: "env (''BESZEL_AGENT_'' @ key) = Some v \<Longrightarrow> get_env env key = Some v"
  by (simp add: get_env_def)

text \<open>A number read from a file is the number written there.\<close>

lemma read_uint_value:
  assumes "read_uint_file fs path = Some w" and "fs path = Some raw"
  shows "unat w = decimal_value (trim_space raw)"
proof -
  have d: "decimal_value (trim_space raw) < 2 ^ 64" "w = of_nat (decimal_value (trim_space raw))"
    using assms by (auto simp: read_uint_file_def read_string_file_ok_def parse_uint10_def split: if_splits)
  then show ?thesis by (simp add: unat_of_nat take_bit_nat_eq_self)
qed

end
