(* ===== verification/Hub.thy ===== *)
theory Hub
  imports GoStr
begin

text \<open>
  \<^verbatim>\<open>internal/hub/hub.go\<close>: the links the alerts carry, the key pair of the hub and its start-up.
  \<open>net/url\<close>'s \<open>PathEscape\<close> is modelled; the key formats of \<^verbatim>\<open>golang.org/x/crypto/ssh\<close> and the
  settings store of PocketBase are arguments.
\<close>

section \<open>Links\<close>

text \<open>\<open>url.PathEscape\<close>: every byte outside the unreserved set and \<open>$&+:=@\<close> becomes \<open>%XY\<close>.\<close>

definition is_alnum :: "char \<Rightarrow> bool" where
  "is_alnum c \<longleftrightarrow> (CHR ''a'' \<le> c \<and> c \<le> CHR ''z'') \<or> (CHR ''A'' \<le> c \<and> c \<le> CHR ''Z'') \<or> is_digit c"

definition segment_safe :: "char \<Rightarrow> bool" where
  "segment_safe c \<longleftrightarrow> is_alnum c \<or> c \<in> set ''-_.~$&+:=@''"

definition hex_digit :: "nat \<Rightarrow> char" where
  "hex_digit n = (if n < 10 then char_of (48 + n) else char_of (55 + n))"

definition escape_byte :: "char \<Rightarrow> string" where
  "escape_byte c =
     (if segment_safe c then [c]
      else [CHR ''%'', hex_digit (of_char c div 16), hex_digit (of_char c mod 16)])"

definition path_escape :: "string \<Rightarrow> string" where
  "path_escape s = concat (map escape_byte s)"

definition make_link :: "string \<Rightarrow> string list \<Rightarrow> string" where
  "make_link app_url parts =
     foldl (\<lambda>base part. if part = '''' then base else base @ ''/'' @ path_escape part)
       (trim_suffix app_url ''/'') parts"

text \<open>An escaped segment has no separator of its own, so the parts of a link can be told apart.\<close>

lemma escape_byte_no_slash: "slash \<notin> set (escape_byte c)"
proof (cases "segment_safe c")
  case True
  have "\<not> segment_safe slash" by code_simp
  then have "c \<noteq> slash" using True by blast
  then show ?thesis using True by (simp add: escape_byte_def)
next
  case False
  have hex: "hex_digit n \<noteq> slash" if "n < 16" for n
  proof -
    have "\<forall>n \<in> set [0 ..< 16]. hex_digit n \<noteq> slash" by code_simp
    then show ?thesis using that by simp
  qed
  have "of_char c div 16 < (16 :: nat)" by (simp add: less_mult_imp_div_less)
  then show ?thesis using False hex by (auto simp: escape_byte_def slash_def dest: sym)
qed

lemma path_escape_no_slash: "slash \<notin> set (path_escape s)"
  using escape_byte_no_slash by (auto simp: path_escape_def)

lemma split_byte_nonempty: "split_byte c s \<noteq> []"
  by (induction s) (auto split: list.splits)

lemma split_byte_snoc:
  "c \<notin> set w \<Longrightarrow> split_byte c (s @ c # w) = split_byte c s @ [w]"
proof (induction s)
  case Nil
  have "split_byte c w = [w]" if "c \<notin> set w" for w
    using that by (induction w) auto
  then show ?case using Nil by simp
next
  case (Cons d s)
  then show ?case using split_byte_nonempty [of c s] by (cases "split_byte c s") auto
qed

lemma make_link_split:
  "split_byte slash (make_link app_url parts) =
     split_byte slash (trim_suffix app_url ''/'') @ map path_escape (filter (\<lambda>p. p \<noteq> '''') parts)"
proof (induction parts rule: rev_induct)
  case Nil
  then show ?case by (simp add: make_link_def)
next
  case (snoc p parts)
  have "make_link app_url (parts @ [p]) =
      (if p = '''' then make_link app_url parts else make_link app_url parts @ slash # path_escape p)"
    by (simp add: make_link_def slash_def)
  then show ?case using snoc by (auto simp: split_byte_snoc path_escape_no_slash)
qed

section \<open>The hub's key pair\<close>

datatype 'e read_result = ReadOk string | ReadMissing | ReadFailed 'e

record 'signer hub =
  hub_signer :: "'signer option"
  hub_pub_key :: string
  hub_app_url :: string

text \<open>The library's key functions: parse a private key, its authorized-keys line, a fresh pair with
  its PEM form, \<open>None\<close> where they fail.\<close>

record 'signer key_library =
  parse_private_key :: "string \<Rightarrow> 'signer option"
  authorized_key :: "'signer \<Rightarrow> string"
  generate_key :: "('signer \<times> string) option"

datatype 'signer key_result =
    KeyOk 'signer
  | KeyParseFailed
  | KeyReadFailed
  | KeyGenerationFailed
  | KeyWriteFailed

text \<open>The result, the new hub, and the contents written to the key file, if any.\<close>

definition get_ssh_key ::
  "'signer key_library \<Rightarrow> 'e read_result \<Rightarrow> bool \<Rightarrow> 'signer hub \<Rightarrow>
   'signer key_result \<times> 'signer hub \<times> string option" where
  "get_ssh_key lib file write_ok h =
     (case hub_signer h of
        Some s \<Rightarrow> (KeyOk s, h, None)
      | None \<Rightarrow>
          (case file of
             ReadOk existing \<Rightarrow>
               (case parse_private_key lib existing of
                  None \<Rightarrow> (KeyParseFailed, h, None)
                | Some s \<Rightarrow>
                    (KeyOk s, h\<lparr>hub_pub_key := trim_suffix (authorized_key lib s) [CHR 0x0A]\<rparr>, None))
           | ReadFailed e \<Rightarrow> (KeyReadFailed, h, None)
           | ReadMissing \<Rightarrow>
               (case generate_key lib of
                  None \<Rightarrow> (KeyGenerationFailed, h, None)
                | Some (s, pem) \<Rightarrow>
                    if write_ok then
                      (KeyOk s, h\<lparr>hub_pub_key := trim_suffix (authorized_key lib s) [CHR 0x0A]\<rparr>, Some pem)
                    else (KeyWriteFailed, h, None))))"

text \<open>\<open>initialize\<close>: the \<^verbatim>\<open>APP_URL\<close> variable, when set, becomes the URL of the links; the two saves
  of PocketBase answer whether they succeeded.\<close>

record hub_settings =
  set_batch_enabled :: bool
  set_app_url :: string

definition initialize ::
  "string option \<Rightarrow> bool \<Rightarrow> bool \<Rightarrow> hub_settings \<Rightarrow> 'signer hub \<Rightarrow> bool \<times> hub_settings \<times> 'signer hub" where
  "initialize app_url_env save_ok collections_ok settings h =
     (let settings = settings\<lparr>set_batch_enabled := True\<rparr>;
          (settings, h) = (case app_url_env of
             Some u \<Rightarrow> (settings\<lparr>set_app_url := u\<rparr>, h\<lparr>hub_app_url := u\<rparr>)
           | None \<Rightarrow> (settings, h))
      in if \<not> save_ok then (False, settings, h) else (collections_ok, settings, h))"

text \<open>The key file is written only when there was none, so an existing key is never lost, and a
  start from the written file gives the key back.\<close>

lemma key_written_only_when_missing:
  "snd (snd (get_ssh_key lib file ok h)) = Some pem \<Longrightarrow>
   file = ReadMissing \<and> hub_signer h = None \<and> (\<exists>s. generate_key lib = Some (s, pem))"
  by (auto simp: get_ssh_key_def split: option.splits read_result.splits prod.splits if_splits)

lemma key_restored:
  assumes "get_ssh_key lib ReadMissing ok h = (KeyOk s, h', Some pem)"
    and "parse_private_key lib pem = Some s" and "hub_signer h0 = None"
  shows "\<exists>h1. get_ssh_key lib (ReadOk pem) ok0 h0 = (KeyOk s, h1, None) \<and> hub_pub_key h1 = hub_pub_key h'"
  using assms
  by (auto simp: get_ssh_key_def split: option.splits prod.splits if_splits)

end
