(* ===== verification/AlertsCache.thy ===== *)
theory AlertsCache
  imports Prelude Float64
begin

text \<open>
  \<^verbatim>\<open>internal/alerts/alerts_cache.go\<close>: the in-memory cache of the \<^verbatim>\<open>alerts\<close> table, a store of stores
  (system id to alert id to alert). PocketBase is outside the repository: the answers of its
  queries are arguments (\<open>None\<close> is an error), and its record hooks are the three operations
  \<open>cache_hook\<close> applies after a create, an update and a delete that succeeded.

  The specification is the table itself (\<open>row_step\<close>, keyed by record id): \<open>cache_models\<close> relates a
  cache to a table, every hook keeps the relation, and the lookups are then lookups in the table.
\<close>

section \<open>Records and cached alerts\<close>

record alert_record =
  rec_id :: string
  rec_system :: string
  rec_user :: string
  rec_name :: string
  rec_value :: flt
  rec_triggered :: bool
  rec_min :: int

record cached_alert =
  ca_id :: string
  ca_system :: string
  ca_user :: string
  ca_name :: string
  ca_value :: flt
  ca_triggered :: bool
  ca_min :: u8

definition populate_from_record :: "alert_record \<Rightarrow> cached_alert" where
  "populate_from_record r =
     \<lparr>ca_id = rec_id r, ca_system = rec_system r, ca_user = rec_user r, ca_name = rec_name r,
      ca_value = rec_value r, ca_triggered = rec_triggered r, ca_min = word_of_int (rec_min r)\<rparr>"

lemma populate_simps [simp]:
  "ca_id (populate_from_record r) = rec_id r"
  "ca_system (populate_from_record r) = rec_system r"
  "ca_name (populate_from_record r) = rec_name r"
  "ca_triggered (populate_from_record r) = rec_triggered r"
  "ca_user (populate_from_record r) = rec_user r"
  "ca_value (populate_from_record r) = rec_value r"
  "ca_min (populate_from_record r) = word_of_int (rec_min r)"
  by (simp_all add: populate_from_record_def)

section \<open>The cache and its operations\<close>

type_synonym system_store = "(string, cached_alert) gomap"

record alerts_cache =
  c_store :: "(string, system_store) gomap"
  c_populated :: bool

definition new_alerts_cache :: alerts_cache where
  "new_alerts_cache = \<lparr>c_store = [], c_populated = False\<rparr>"

definition cache_update :: "alert_record \<Rightarrow> alerts_cache \<Rightarrow> alerts_cache" where
  "cache_update r c =
     (if rec_system r = '''' then c
      else let systemStore = (case map_of (c_store c) (rec_system r) of Some s \<Rightarrow> s | None \<Rightarrow> [])
           in c\<lparr>c_store := AList.update (rec_system r)
                 (AList.update (rec_id r) (populate_from_record r) systemStore) (c_store c)\<rparr>)"

definition cache_delete :: "alert_record \<Rightarrow> alerts_cache \<Rightarrow> alerts_cache" where
  "cache_delete r c =
     (if rec_system r = '''' then c
      else case map_of (c_store c) (rec_system r) of
             Some systemStore \<Rightarrow>
               c\<lparr>c_store := AList.update (rec_system r) (AList.delete (rec_id r) systemStore) (c_store c)\<rparr>
           | None \<Rightarrow> c)"

text \<open>The flag is the error of \<open>FindAllRecords\<close>, which leaves the cache as it was.\<close>

definition populate_from_db ::
  "bool \<Rightarrow> alert_record list option \<Rightarrow> alerts_cache \<Rightarrow> alerts_cache \<times> bool" where
  "populate_from_db force answer c =
     (if \<not> force \<and> c_populated c then (c, True)
      else case answer of
             None \<Rightarrow> (c, False)
           | Some records \<Rightarrow>
               ((fold cache_update records (c\<lparr>c_store := []\<rparr>))\<lparr>c_populated := True\<rparr>, True))"

definition get_system_alerts ::
  "alert_record list option \<Rightarrow> string \<Rightarrow> alerts_cache \<Rightarrow> alerts_cache \<times> cached_alert list" where
  "get_system_alerts answer sys c =
     (case map_of (c_store c) sys of
        Some systemStore \<Rightarrow> (c, map snd systemStore)
      | None \<Rightarrow>
          (case answer of
             None \<Rightarrow> (c, [])
           | Some records \<Rightarrow>
               let systemStore = fold (\<lambda>r. AList.update (rec_id r) (populate_from_record r)) records []
               in (c\<lparr>c_store := AList.update sys systemStore (c_store c)\<rparr>, map snd systemStore)))"

definition get_alert :: "alerts_cache \<Rightarrow> string \<Rightarrow> string \<Rightarrow> cached_alert option" where
  "get_alert c sys aid =
     (case map_of (c_store c) sys of Some systemStore \<Rightarrow> map_of systemStore aid | None \<Rightarrow> None)"

definition get_alerts_by_name ::
  "alert_record list option \<Rightarrow> string \<Rightarrow> string \<Rightarrow> alerts_cache \<Rightarrow> alerts_cache \<times> cached_alert list" where
  "get_alerts_by_name answer sys name c =
     (let (c', allAlerts) = get_system_alerts answer sys c
      in (c', filter (\<lambda>a. ca_name a = name) allAlerts))"

definition get_alerts_excluding_names ::
  "alert_record list option \<Rightarrow> string \<Rightarrow> string list \<Rightarrow> alerts_cache \<Rightarrow> alerts_cache \<times> cached_alert list" where
  "get_alerts_excluding_names answer sys excluded c =
     (let (c', allAlerts) = get_system_alerts answer sys c
      in (c', filter (\<lambda>a. ca_name a \<notin> set excluded) allAlerts))"

definition refresh :: "alerts_cache \<Rightarrow> cached_alert \<Rightarrow> cached_alert option" where
  "refresh c a = (if ca_id a = '''' then None else get_alert c (ca_system a) (ca_id a))"

section \<open>The table the cache mirrors\<close>

type_synonym alerts_table = "string \<Rightarrow> alert_record option"

datatype row_event = RowCreated alert_record | RowUpdated alert_record | RowDeleted alert_record

fun row_step :: "row_event \<Rightarrow> alerts_table \<Rightarrow> alerts_table" where
  "row_step (RowCreated r) db = db(rec_id r \<mapsto> r)"
| "row_step (RowUpdated r) db = db(rec_id r \<mapsto> r)"
| "row_step (RowDeleted r) db = db(rec_id r := None)"

fun cache_hook :: "row_event \<Rightarrow> alerts_cache \<Rightarrow> alerts_cache" where
  "cache_hook (RowCreated r) c = cache_update r c"
| "cache_hook (RowUpdated r) c = cache_update r c"
| "cache_hook (RowDeleted r) c = cache_delete r c"

text \<open>What the database guarantees of an event: ids are fresh on creation, an update or a delete
  names a row that is there, and an update keeps the row's system (the remark in \<open>bindEvents\<close>).\<close>

fun row_event_ok :: "alerts_table \<Rightarrow> row_event \<Rightarrow> bool" where
  "row_event_ok db (RowCreated r) \<longleftrightarrow> db (rec_id r) = None"
| "row_event_ok db (RowUpdated r) \<longleftrightarrow> map_option rec_system (db (rec_id r)) = Some (rec_system r)"
| "row_event_ok db (RowDeleted r) \<longleftrightarrow> map_option rec_system (db (rec_id r)) = Some (rec_system r)"

fun row_events_ok :: "alerts_table \<Rightarrow> row_event list \<Rightarrow> bool" where
  "row_events_ok db [] \<longleftrightarrow> True"
| "row_events_ok db (e # es) \<longleftrightarrow> row_event_ok db e \<and> row_events_ok (row_step e db) es"

definition table_row :: "alerts_table \<Rightarrow> string \<Rightarrow> string \<Rightarrow> cached_alert option" where
  "table_row db sys aid =
     (case db aid of
        Some r \<Rightarrow> if rec_system r = sys \<and> sys \<noteq> '''' then Some (populate_from_record r) else None
      | None \<Rightarrow> None)"

definition stores_distinct :: "alerts_cache \<Rightarrow> bool" where
  "stores_distinct c \<longleftrightarrow> (\<forall>sys s. map_of (c_store c) sys = Some s \<longrightarrow> keys_distinct s)"

text \<open>\<open>full\<close> says that the cache covers every system, as it does once it was populated.\<close>

definition cache_models :: "alerts_table \<Rightarrow> alerts_cache \<Rightarrow> bool" where
  "cache_models db c \<longleftrightarrow>
     (\<forall>sys aid. get_alert c sys aid = table_row db sys aid) \<and> stores_distinct c \<and>
     (\<forall>aid r. db aid = Some r \<longrightarrow> rec_id r = aid)"

section \<open>Lookups after the operations\<close>

lemma get_alert_update [store_simps]:
  "get_alert (cache_update r c) sys aid =
     (if sys = rec_system r \<and> aid = rec_id r \<and> sys \<noteq> '''' then Some (populate_from_record r)
      else get_alert c sys aid)"
  by (auto simp: cache_update_def get_alert_def store_laws split: option.splits)

lemma get_alert_delete [store_simps]:
  "get_alert (cache_delete r c) sys aid =
     (if sys = rec_system r \<and> aid = rec_id r \<and> sys \<noteq> '''' then None else get_alert c sys aid)"
  by (auto simp: cache_delete_def get_alert_def store_laws split: option.splits)

lemma stores_distinct_new [simp]: "stores_distinct (c\<lparr>c_store := []\<rparr>)"
  by (simp add: stores_distinct_def)

lemma stores_distinct_update: "stores_distinct c \<Longrightarrow> stores_distinct (cache_update r c)"
  by (auto simp: stores_distinct_def cache_update_def store_laws gm.inv_put split: option.splits)

lemma stores_distinct_delete: "stores_distinct c \<Longrightarrow> stores_distinct (cache_delete r c)"
  by (auto simp: stores_distinct_def cache_delete_def store_laws gm.inv_del
      split: option.splits if_splits)

lemma fold_cache_update:
  "stores_distinct c \<Longrightarrow> stores_distinct (fold cache_update rs c)"
  "distinct (map rec_id rs) \<Longrightarrow>
   get_alert (fold cache_update rs c) sys aid =
     (case find (\<lambda>r. rec_id r = aid \<and> rec_system r = sys) rs of
        Some r \<Rightarrow> if sys \<noteq> '''' then Some (populate_from_record r) else get_alert c sys aid
      | None \<Rightarrow> get_alert c sys aid)"
proof (induction rs arbitrary: c)
  case Nil
  { case 1 then show ?case by simp next
    case 2 then show ?case by simp }
next
  case (Cons r rs)
  have none: "find (\<lambda>r'. rec_id r' = rec_id r \<and> rec_system r' = sys) rs = None"
    if "rec_id r \<notin> rec_id ` set rs"
    using that by (auto simp: find_None_iff image_iff)
  { case 1 then show ?case using Cons.IH(1) stores_distinct_update by simp next
    case 2 then show ?case using Cons.IH(2) none by (auto simp: get_alert_update split: option.splits) }
qed

lemma get_alert_populated [simp]: "get_alert (c\<lparr>c_populated := b\<rparr>) = get_alert c"
  by (intro ext) (simp add: get_alert_def)

lemma get_alert_cleared [simp]: "get_alert (c\<lparr>c_store := []\<rparr>) sys aid = None"
  by (simp add: get_alert_def)

lemma stores_distinct_populated [simp]: "stores_distinct (c\<lparr>c_populated := b\<rparr>) = stores_distinct c"
  by (simp add: stores_distinct_def)

section \<open>The cache follows the table\<close>

text \<open>The table that a list of rows stands for.\<close>

definition table_of :: "alert_record list \<Rightarrow> alerts_table" where
  "table_of rows aid = find (\<lambda>r. rec_id r = aid) rows"

lemma table_of_Some: "table_of rows aid = Some r \<Longrightarrow> r \<in> set rows \<and> rec_id r = aid"
  by (auto simp: table_of_def find_Some_iff)

lemma table_of_in: "distinct (map rec_id rows) \<Longrightarrow> r \<in> set rows \<Longrightarrow> table_of rows (rec_id r) = Some r"
  by (induction rows) (auto simp: table_of_def)

lemma find_row:
  "distinct (map rec_id rows) \<Longrightarrow>
   find (\<lambda>r. rec_id r = aid \<and> rec_system r = sys) rows =
     (case table_of rows aid of Some r \<Rightarrow> if rec_system r = sys then Some r else None | None \<Rightarrow> None)"
  by (induction rows)
    (auto simp: table_of_def find_None_iff image_iff find_Some_iff split: option.splits)

lemma populate_models:
  assumes "distinct (map rec_id rows)" and "force \<or> \<not> c_populated c"
  shows "cache_models (table_of rows) (fst (populate_from_db force (Some rows) c))"
  using assms
  by (auto simp: cache_models_def populate_from_db_def fold_cache_update find_row table_row_def
      dest: table_of_Some split: option.splits)

lemma hook_models:
  assumes m: "cache_models db c" and ok: "row_event_ok db e"
  shows "cache_models (row_step e db) (cache_hook e c)"
  using ok m
  by (cases e)
    (auto simp: cache_models_def get_alert_update get_alert_delete table_row_def
      stores_distinct_update stores_distinct_delete split: option.splits)

lemma hooks_model:
  "cache_models db c \<Longrightarrow> row_events_ok db es \<Longrightarrow>
   cache_models (fold row_step es db) (fold cache_hook es c)"
  by (induction es arbitrary: db c) (auto dest: hook_models)

lemma models_get: "cache_models db c \<Longrightarrow> get_alert c sys aid = table_row db sys aid"
  by (simp add: cache_models_def)

lemma table_row_Some:
  "cache_models db c \<Longrightarrow> table_row db sys aid = Some a \<Longrightarrow> ca_id a = aid \<and> ca_system a = sys"
  by (auto simp: cache_models_def table_row_def split: option.splits if_splits)

lemma fold_rows_lookup:
  "distinct (map rec_id rows) \<Longrightarrow>
   map_of (fold (\<lambda>r. AList.update (rec_id r) (populate_from_record r)) rows s) aid =
     (case table_of rows aid of Some r \<Rightarrow> Some (populate_from_record r) | None \<Rightarrow> map_of s aid)"
  by (simp add: gm.get_put_fold find_rev_distinct table_of_def)

lemma set_values: "keys_distinct s \<Longrightarrow> set (map snd s) = ran (map_of s)"
  by (auto simp: keys_distinct_def ran_def image_iff) force+

text \<open>The alerts a lookup returns are exactly the rows of the system. When the system has no store
  yet, the answer of the query is what is cached; it holds the rows of that system.\<close>

definition answer_ok :: "alerts_table \<Rightarrow> string \<Rightarrow> alert_record list option \<Rightarrow> bool" where
  "answer_ok db sys answer \<longleftrightarrow>
     (case answer of
        None \<Rightarrow> True
      | Some rows \<Rightarrow> distinct (map rec_id rows) \<and> (\<forall>r. r \<in> set rows \<longleftrightarrow> db (rec_id r) = Some r \<and> rec_system r = sys))"

lemma answer_ok_rows:
  assumes "answer_ok db sys (Some rows)" and "sys \<noteq> ''''" and "\<And>aid r. db aid = Some r \<Longrightarrow> rec_id r = aid"
  shows "(case table_of rows aid of Some r \<Rightarrow> Some (populate_from_record r) | None \<Rightarrow> None) = table_row db sys aid"
proof (cases "table_of rows aid")
  case None
  then have "r \<notin> set rows" if "rec_id r = aid" for r
    using that by (auto simp: table_of_def find_None_iff)
  then have "rec_system r \<noteq> sys" if "db aid = Some r" for r
    using that assms(1) assms(3) [OF that] by (auto simp: answer_ok_def)
  then show ?thesis using None by (auto simp: table_row_def split: option.splits)
next
  case (Some r)
  then have "r \<in> set rows" "rec_id r = aid" by (auto dest: table_of_Some)
  then show ?thesis using Some assms(1,2) by (auto simp: answer_ok_def table_row_def)
qed

lemma distinct_values_by:
  assumes "keys_distinct s" and "\<And>k v. map_of s k = Some v \<Longrightarrow> key v = k"
  shows "distinct (map key (map snd s))"
proof -
  have e: "map key (map snd s) = map fst s"
    unfolding map_map using assms by (intro map_cong) (auto simp: keys_distinct_def)
  show ?thesis unfolding e using assms(1) by (simp add: keys_distinct_def)
qed

lemma lazy_store:
  assumes m: "cache_models db c" and ok: "answer_ok db sys (Some rows)" and sys: "sys \<noteq> ''''"
  defines "s \<equiv> fold (\<lambda>r. AList.update (rec_id r) (populate_from_record r)) rows []"
  shows "cache_models db (c\<lparr>c_store := AList.update sys s (c_store c)\<rparr>)"
proof -
  have ids: "\<And>aid r. db aid = Some r \<Longrightarrow> rec_id r = aid" using m by (simp add: cache_models_def)
  have "distinct (map rec_id rows)" using ok by (simp add: answer_ok_def)
  then have s: "map_of s aid = table_row db sys aid" for aid
    using answer_ok_rows [OF ok sys ids, of aid]
    by (cases "table_of rows aid") (simp_all add: s_def fold_rows_lookup)
  have "keys_distinct s" unfolding s_def by (rule gm.inv_put_fold) simp
  then show ?thesis
    using m s by (auto simp: cache_models_def stores_distinct_def get_alert_def store_laws)
qed

lemma cached_system_alerts:
  assumes m: "cache_models db c" and s: "map_of (c_store c) sys = Some s"
  shows "distinct (map ca_id (map snd s))"
    and "a \<in> set (map snd s) \<longleftrightarrow> table_row db sys (ca_id a) = Some a"
proof -
  have kd: "keys_distinct s" using assms by (auto simp: cache_models_def stores_distinct_def)
  have row: "map_of s aid = table_row db sys aid" for aid
    using models_get [OF m, of sys aid] s by (simp add: get_alert_def)
  have ids: "ca_id v = k" if "map_of s k = Some v" for k v
    using table_row_Some [OF m] that row by auto
  show "distinct (map ca_id (map snd s))" by (rule distinct_values_by [OF kd ids])
  show "a \<in> set (map snd s) \<longleftrightarrow> table_row db sys (ca_id a) = Some a"
    unfolding set_values [OF kd] ran_def using row ids by auto
qed

text \<open>What a client may rely on when it asks for the alerts of a system.\<close>

definition alerts_are_rows :: "alerts_table \<Rightarrow> string \<Rightarrow> cached_alert list \<Rightarrow> bool \<Rightarrow> bool" where
  "alerts_are_rows db sys alerts whole \<longleftrightarrow>
     distinct (map ca_id alerts) \<and>
     (\<forall>a. a \<in> set alerts \<longrightarrow> table_row db sys (ca_id a) = Some a) \<and>
     (whole \<longrightarrow> (\<forall>a. table_row db sys (ca_id a) = Some a \<longrightarrow> a \<in> set alerts))"

lemma system_alerts_rows:
  assumes m: "cache_models db c"
    and ok: "map_of (c_store c) sys \<noteq> None \<or> answer_ok db sys answer" and sys: "sys \<noteq> ''''"
  shows "cache_models db (fst (get_system_alerts answer sys c)) \<and>
    alerts_are_rows db sys (snd (get_system_alerts answer sys c)) (answer \<noteq> None)"
proof (cases "map_of (c_store c) sys")
  case (Some s)
  then show ?thesis
    using m cached_system_alerts [OF m Some] by (simp add: get_system_alerts_def alerts_are_rows_def)
next
  case None
  show ?thesis
  proof (cases answer)
    case None
    then show ?thesis using \<open>map_of (c_store c) sys = None\<close> m
      by (simp add: get_system_alerts_def alerts_are_rows_def)
  next
    case (Some rows)
    let ?s = "fold (\<lambda>r. AList.update (rec_id r) (populate_from_record r)) rows []"
    have lazy: "cache_models db (c\<lparr>c_store := AList.update sys ?s (c_store c)\<rparr>)"
      using lazy_store [OF m] ok sys Some None by simp
    show ?thesis
      using lazy cached_system_alerts [OF lazy, of sys ?s] None Some
      by (simp add: get_system_alerts_def store_laws Let_def alerts_are_rows_def)
  qed
qed

lemma alerts_by_name:
  "fst (get_alerts_by_name answer sys name c) = fst (get_system_alerts answer sys c)"
  "snd (get_alerts_by_name answer sys name c) = filter (\<lambda>a. ca_name a = name) (snd (get_system_alerts answer sys c))"
  by (auto simp: get_alerts_by_name_def split: prod.splits)

lemma table_row_record:
  "table_row db sys aid = Some a \<Longrightarrow> \<exists>r. db aid = Some r \<and> populate_from_record r = a \<and> rec_system r = sys"
  by (auto simp: table_row_def split: option.splits if_splits)

end
