(* ===== verification/StatusAlerts.thy ===== *)
theory StatusAlerts
  imports AlertsCache Hub
begin

text \<open>
  \<^verbatim>\<open>internal/alerts/alerts.go\<close> and \<^verbatim>\<open>internal/alerts/alerts_status.go\<close>: the alert manager and the
  alerts on a system's status. The state is the \<^verbatim>\<open>alerts\<close> table of the database with its cache,
  the map of pending alerts, the armed timers, the timer callbacks that have started and not yet
  taken the pending entry, the clock and the log of messages.

  PocketBase and the Telegram API are outside the repository: an \<open>env\<close> gives their answers for one
  call (whether a record is found and saved, the rows of a query, the HTTP status). A timer is armed
  with the instant at which it may fire; \<open>Timer.Stop\<close> disarms it and does not wait for a callback
  that has started, so firing and running the callback are two steps.
\<close>

section \<open>State\<close>

record alert_message =
  msg_user :: string
  msg_system :: string
  msg_title :: string
  msg_message :: string
  msg_link :: string
  msg_link_text :: string

datatype delivery = NotConfigured | PostFailed | BadStatus int | Delivered

record notice =
  n_alert :: string
  n_triggered :: bool
  n_at :: instant
  n_message :: alert_message
  n_delivery :: delivery

record alert_info =
  ai_system_name :: string
  ai_alert :: cached_alert
  ai_expire :: instant
  ai_timer :: nat

record alert_manager =
  am_db :: alerts_table
  am_cache :: alerts_cache
  am_pending :: "(string, alert_info) gomap"
  am_armed :: "(nat, string \<times> instant) gomap"
  am_next_timer :: nat
  am_firing :: "string list"
  am_now :: instant
  am_notices :: "notice list"
  am_system_notices :: "notice list"
  am_stopped :: bool

record env =
  find_ok :: "string \<Rightarrow> bool"
  save_ok :: "string \<Rightarrow> bool"
  alerts_answer :: "alert_record list option"
  bot_token :: string
  chat_id :: string
  http_post :: "string \<Rightarrow> int option"
  app_url :: string

definition new_alert_manager :: "alerts_table \<Rightarrow> instant \<Rightarrow> alert_manager" where
  "new_alert_manager db now =
     \<lparr>am_db = db, am_cache = new_alerts_cache, am_pending = [], am_armed = [], am_next_timer = 0,
      am_firing = [], am_now = now, am_notices = [], am_system_notices = [], am_stopped = False\<rparr>"

section \<open>Sending (\<^verbatim>\<open>alerts.go\<close>)\<close>

definition newline :: string where "newline = [CHR 0x0A]"

definition warning_sign :: string where
  "warning_sign = [CHR 0xE2, CHR 0x9A, CHR 0xA0, CHR 0xEF, CHR 0xB8, CHR 0x8F]"

definition alert_text :: "alert_message \<Rightarrow> string" where
  "alert_text m =
     warning_sign @ '' *'' @ msg_title m @ ''*'' @ newline @ newline @ msg_message m @ newline @ newline
       @ ''[Link]('' @ msg_link m @ '')''"

definition send_alert :: "env \<Rightarrow> alert_message \<Rightarrow> delivery" where
  "send_alert env m =
     (if bot_token env = '''' \<or> chat_id env = '''' then NotConfigured
      else case http_post env (alert_text m) of
             None \<Rightarrow> PostFailed
           | Some code \<Rightarrow> if code \<noteq> 200 then BadStatus code else Delivered)"

definition db_event :: "row_event \<Rightarrow> alert_manager \<Rightarrow> alert_manager" where
  "db_event e st = st\<lparr>am_db := row_step e (am_db st), am_cache := cache_hook e (am_cache st)\<rparr>"

definition set_alert_triggered :: "env \<Rightarrow> string \<Rightarrow> bool \<Rightarrow> alert_manager \<Rightarrow> bool \<times> alert_manager" where
  "set_alert_triggered env aid triggered st =
     (case (if find_ok env aid then am_db st aid else None) of
        None \<Rightarrow> (False, st)
      | Some r \<Rightarrow>
          if save_ok env aid then (True, db_event (RowUpdated (r\<lparr>rec_triggered := triggered\<rparr>)) st)
          else (False, st))"

section \<open>Status alerts (\<^verbatim>\<open>alerts_status.go\<close>)\<close>

definition up :: string where "up = ''up''"
definition down :: string where "down = ''down''"

definition status_emoji :: "string \<Rightarrow> string" where
  "status_emoji status =
     (if status = up then [CHR 0xE2, CHR 0x9C, CHR 0x85] else [CHR 0xF0, CHR 0x9F, CHR 0x94, CHR 0xB4])"

definition status_message :: "env \<Rightarrow> string \<Rightarrow> string \<Rightarrow> cached_alert \<Rightarrow> alert_message" where
  "status_message env status systemName a =
     (let emoji = status_emoji status;
          title = ''Connection to '' @ systemName @ '' is '' @ status @ '' '' @ emoji
      in \<lparr>msg_user = ca_user a, msg_system = ca_system a, msg_title = title,
          msg_message = trim_suffix title emoji,
          msg_link = make_link (app_url env) [''system'', ca_system a],
          msg_link_text = ''View '' @ systemName\<rparr>)"

definition send_status_alert ::
  "env \<Rightarrow> string \<Rightarrow> string \<Rightarrow> cached_alert \<Rightarrow> alert_manager \<Rightarrow> bool \<times> alert_manager" where
  "send_status_alert env status systemName a st =
     (let triggered = (status = down); (saved, st1) = set_alert_triggered env (ca_id a) triggered st
      in if \<not> saved then (False, st1)
         else let m = status_message env status systemName a; d = send_alert env m
              in (d = NotConfigured \<or> d = Delivered,
                  st1\<lparr>am_notices := \<lparr>n_alert = ca_id a, n_triggered = triggered, n_at = am_now st1,
                                     n_message = m, n_delivery = d\<rparr> # am_notices st1\<rparr>))"

definition schedule_pending ::
  "string \<Rightarrow> cached_alert \<Rightarrow> duration \<Rightarrow> alert_manager \<Rightarrow> bool \<times> alert_manager" where
  "schedule_pending systemName a delay st =
     (let info = \<lparr>ai_system_name = systemName, ai_alert = a, ai_expire = am_now st + delay,
                  ai_timer = am_next_timer st\<rparr>
      in case map_of (am_pending st) (ca_id a) of
           Some _ \<Rightarrow> (False, st)
         | None \<Rightarrow>
             (True, st\<lparr>am_pending := AList.update (ca_id a) info (am_pending st),
                       am_armed := AList.update (ai_timer info) (ca_id a, ai_expire info) (am_armed st),
                       am_next_timer := Suc (am_next_timer st)\<rparr>))"

definition alert_delay :: "cached_alert \<Rightarrow> duration" where
  "alert_delay a = max 1 (uint (ca_min a)) * minute"

definition handle_system_down :: "string \<Rightarrow> cached_alert list \<Rightarrow> alert_manager \<Rightarrow> alert_manager" where
  "handle_system_down systemName alerts st =
     fold (\<lambda>a st. snd (schedule_pending systemName a (alert_delay a) st)) alerts st"

definition cancel_pending :: "string \<Rightarrow> alert_manager \<Rightarrow> bool \<times> alert_manager" where
  "cancel_pending aid st =
     (case map_of (am_pending st) aid of
        None \<Rightarrow> (False, st)
      | Some info \<Rightarrow>
          (True, st\<lparr>am_pending := AList.delete aid (am_pending st),
                    am_armed := AList.delete (ai_timer info) (am_armed st)\<rparr>))"

definition up_step :: "env \<Rightarrow> string \<Rightarrow> cached_alert \<Rightarrow> alert_manager \<Rightarrow> alert_manager" where
  "up_step env systemName a st =
     (let (cancelled, st1) = cancel_pending (ca_id a) st
      in if cancelled then st1
         else if \<not> ca_triggered a then st1
         else snd (send_status_alert env up systemName a st1))"

definition handle_system_up ::
  "env \<Rightarrow> string \<Rightarrow> cached_alert list \<Rightarrow> alert_manager \<Rightarrow> alert_manager" where
  "handle_system_up env systemName alerts st = fold (up_step env systemName) alerts st"

definition handle_status_alerts ::
  "env \<Rightarrow> string \<Rightarrow> string \<Rightarrow> string \<Rightarrow> alert_manager \<Rightarrow> alert_manager" where
  "handle_status_alerts env newStatus sys systemName st =
     (if newStatus \<noteq> up \<and> newStatus \<noteq> down then st
      else let (cache, alerts) = get_alerts_by_name (alerts_answer env) sys ''Status'' (am_cache st);
               st1 = st\<lparr>am_cache := cache\<rparr>
           in if alerts = [] then st1
              else if newStatus = down then handle_system_down systemName alerts st1
              else handle_system_up env systemName alerts st1)"

definition cancel_pending_status_alerts :: "string \<Rightarrow> alert_manager \<Rightarrow> alert_manager" where
  "cancel_pending_status_alerts sys st =
     fold (\<lambda>(aid, info) st.
             if ca_system (ai_alert info) = sys then snd (cancel_pending aid st) else st)
       (am_pending st) st"

definition process_pending_alert :: "env \<Rightarrow> string \<Rightarrow> alert_manager \<Rightarrow> alert_manager" where
  "process_pending_alert env aid st =
     (case map_of (am_pending st) aid of
        None \<Rightarrow> st
      | Some info \<Rightarrow>
          let st1 = st\<lparr>am_pending := AList.delete aid (am_pending st)\<rparr>
          in (case refresh (am_cache st1) (ai_alert info) of
                None \<Rightarrow> st1
              | Some a \<Rightarrow>
                  if ca_triggered a then st1
                  else snd (send_status_alert env down (ai_system_name info) a st1)))"

definition stop :: "alert_manager \<Rightarrow> alert_manager" where
  "stop st =
     (if am_stopped st then st
      else (fold (\<lambda>(aid, info) st. snd (cancel_pending aid st)) (am_pending st) st)\<lparr>am_stopped := True\<rparr>)"

text \<open>The timers: \<open>AfterFunc\<close> fires once its instant is reached; the callback runs later.\<close>

definition timer_fires :: "nat \<Rightarrow> alert_manager \<Rightarrow> alert_manager" where
  "timer_fires timer st =
     (case map_of (am_armed st) timer of
        Some (aid, t) \<Rightarrow>
          if t \<le> am_now st
          then st\<lparr>am_armed := AList.delete timer (am_armed st), am_firing := aid # am_firing st\<rparr>
          else st
      | None \<Rightarrow> st)"

definition run_callback :: "env \<Rightarrow> string \<Rightarrow> alert_manager \<Rightarrow> alert_manager" where
  "run_callback env aid st =
     (if aid \<in> set (am_firing st)
      then process_pending_alert env aid (st\<lparr>am_firing := remove1 aid (am_firing st)\<rparr>) else st)"

text \<open>The start of the server; the rows of the query are (alert id, system id, system name).\<close>

definition restore_pending_status_alerts ::
  "(string \<times> string \<times> string) list option \<Rightarrow> alert_record list option \<Rightarrow>
   alert_manager \<Rightarrow> bool \<times> alert_manager" where
  "restore_pending_status_alerts query all_alerts st =
     (case query of
        None \<Rightarrow> (False, st)
      | Some items \<Rightarrow>
          let st1 = st\<lparr>am_cache := fst (populate_from_db False all_alerts (am_cache st))\<rparr>
          in (True,
              fold (\<lambda>(aid, sys, name) st.
                      case get_alert (am_cache st) sys aid of
                        None \<Rightarrow> st
                      | Some a \<Rightarrow> snd (schedule_pending name a (alert_delay a) st)) items st1))"

definition on_serve ::
  "(string \<times> string \<times> string) list option \<Rightarrow> alert_record list option \<Rightarrow> alert_manager \<Rightarrow> alert_manager" where
  "on_serve query all_alerts st =
     snd (restore_pending_status_alerts query all_alerts
            (st\<lparr>am_cache := fst (populate_from_db True all_alerts (am_cache st))\<rparr>))"

fun resolve_ids :: "env \<Rightarrow> string list \<Rightarrow> alert_manager \<Rightarrow> bool \<times> alert_manager" where
  "resolve_ids env [] st = (True, st)"
| "resolve_ids env (aid # ids) st =
     (case set_alert_triggered env aid False st of
        (True, st1) \<Rightarrow> resolve_ids env ids st1
      | (False, st1) \<Rightarrow> (False, st1))"

definition resolve_status_alerts :: "env \<Rightarrow> string list option \<Rightarrow> alert_manager \<Rightarrow> bool \<times> alert_manager" where
  "resolve_status_alerts env query st =
     (case query of None \<Rightarrow> (False, st) | Some ids \<Rightarrow> resolve_ids env ids st)"

section \<open>Runs\<close>

datatype status_event =
    Tick duration
  | StatusChange env string string string
  | TimerFires nat
  | RunCallback env string
  | CancelSystem string
  | RowChange row_event
  | StopManager

text \<open>A change of a row by anyone else: an alert is created untriggered, and an update neither
  renames it, moves it to another system nor triggers it.\<close>

fun user_event_ok :: "alerts_table \<Rightarrow> row_event \<Rightarrow> bool" where
  "user_event_ok db (RowCreated r) \<longleftrightarrow> db (rec_id r) = None \<and> \<not> rec_triggered r"
| "user_event_ok db (RowUpdated r) \<longleftrightarrow>
     (case db (rec_id r) of
        Some r0 \<Rightarrow> rec_system r0 = rec_system r \<and> rec_name r0 = rec_name r
                  \<and> (rec_triggered r \<longrightarrow> rec_triggered r0)
      | None \<Rightarrow> False)"
| "user_event_ok db (RowDeleted r) \<longleftrightarrow> map_option rec_system (db (rec_id r)) = Some (rec_system r)"

lemma user_event_row_ok: "user_event_ok db e \<Longrightarrow> row_event_ok db e"
  by (cases e) (auto split: option.splits)

text \<open>An event that the outside world cannot produce leaves the state as it is.\<close>

fun status_step :: "alert_manager \<Rightarrow> status_event \<Rightarrow> alert_manager" where
  "status_step st (Tick d) = st\<lparr>am_now := am_now st + \<bar>d\<bar>\<rparr>"
| "status_step st (StatusChange env newStatus sys name) =
     (if answer_ok (am_db st) sys (alerts_answer env) \<and> sys \<noteq> ''''
      then handle_status_alerts env newStatus sys name st else st)"
| "status_step st (TimerFires timer) = timer_fires timer st"
| "status_step st (RunCallback env aid) = run_callback env aid st"
| "status_step st (CancelSystem sys) = cancel_pending_status_alerts sys st"
| "status_step st (RowChange e) = (if user_event_ok (am_db st) e then db_event e st else st)"
| "status_step st StopManager = stop st"

section \<open>Invariant\<close>

text \<open>No two pending alerts share a timer.\<close>

definition timers_inj :: "(string \<Rightarrow> alert_info option) \<Rightarrow> bool" where
  "timers_inj m \<longleftrightarrow>
     (\<forall>aid info aid' info'. m aid = Some info \<longrightarrow> m aid' = Some info' \<longrightarrow>
        ai_timer info = ai_timer info' \<longrightarrow> aid = aid')"

lemma timers_inj_empty [simp]: "timers_inj (\<lambda>_. None)"
  by (simp add: timers_inj_def)

lemma timers_inj_delete: "timers_inj (map_of m) \<Longrightarrow> timers_inj (map_of (AList.delete aid m))"
  by (simp add: timers_inj_def store_laws)

lemma timers_inj_update:
  "timers_inj (map_of m) \<Longrightarrow> (\<And>aid' info'. map_of m aid' = Some info' \<Longrightarrow> ai_timer info' \<noteq> ai_timer info) \<Longrightarrow>
   timers_inj (map_of (AList.update aid info m))"
  by (auto simp: timers_inj_def store_laws dest: sym split: if_splits)

definition pending_ok :: "alert_manager \<Rightarrow> bool" where
  "pending_ok st \<longleftrightarrow>
     keys_distinct (am_pending st) \<and>
     (\<forall>aid info. map_of (am_pending st) aid = Some info \<longrightarrow>
        ca_id (ai_alert info) = aid \<and> ai_timer info < am_next_timer st \<and>
        (map_of (am_armed st) (ai_timer info) = None \<longrightarrow> ai_expire info \<le> am_now st) \<and>
        (\<forall>e. map_of (am_armed st) (ai_timer info) = Some e \<longrightarrow> e = (aid, ai_expire info))) \<and>
     (\<forall>timer e. map_of (am_armed st) timer = Some e \<longrightarrow> timer < am_next_timer st) \<and>
     timers_inj (map_of (am_pending st))"

text \<open>The messages of one alert, newest first: \<open>True\<close> is "down". Each "up" directly follows a "down".\<close>

definition alert_log :: "alert_manager \<Rightarrow> string \<Rightarrow> bool list" where
  "alert_log st aid = map n_triggered (filter (\<lambda>n. n_alert n = aid) (am_notices st))"

fun answered :: "bool list \<Rightarrow> bool" where
  "answered [] = True"
| "answered (d # ds) = ((d \<or> (ds \<noteq> [] \<and> hd ds)) \<and> answered ds)"

definition log_ok :: "alert_manager \<Rightarrow> bool" where
  "log_ok st \<longleftrightarrow>
     (\<forall>aid. answered (alert_log st aid)) \<and>
     (\<forall>aid r. am_db st aid = Some r \<and> rec_name r = ''Status'' \<and> rec_triggered r \<longrightarrow>
        alert_log st aid \<noteq> [] \<and> hd (alert_log st aid))"

definition status_inv :: "alert_manager \<Rightarrow> bool" where
  "status_inv st \<longleftrightarrow> cache_models (am_db st) (am_cache st) \<and> pending_ok st \<and> log_ok st"

definition fresh_start :: "alert_manager \<Rightarrow> bool" where
  "fresh_start st \<longleftrightarrow> cache_models (am_db st) (am_cache st) \<and> log_ok st \<and>
     am_pending st = [] \<and> am_armed st = [] \<and> am_firing st = []"

lemma alert_log_cong [simp]:
  "alert_log (st\<lparr>am_pending := p\<rparr>) = alert_log st"
  "alert_log (st\<lparr>am_armed := a\<rparr>) = alert_log st"
  "alert_log (st\<lparr>am_firing := f\<rparr>) = alert_log st"
  "alert_log (st\<lparr>am_next_timer := k\<rparr>) = alert_log st"
  "alert_log (st\<lparr>am_now := t\<rparr>) = alert_log st"
  "alert_log (st\<lparr>am_cache := c\<rparr>) = alert_log st"
  "alert_log (st\<lparr>am_db := d\<rparr>) = alert_log st"
  "alert_log (st\<lparr>am_stopped := b\<rparr>) = alert_log st"
  by (simp_all add: alert_log_def fun_eq_iff)

lemma log_ok_cong [simp]:
  "log_ok (st\<lparr>am_pending := p\<rparr>) = log_ok st"
  "log_ok (st\<lparr>am_armed := a\<rparr>) = log_ok st"
  "log_ok (st\<lparr>am_firing := f\<rparr>) = log_ok st"
  "log_ok (st\<lparr>am_next_timer := k\<rparr>) = log_ok st"
  "log_ok (st\<lparr>am_now := t\<rparr>) = log_ok st"
  "log_ok (st\<lparr>am_cache := c\<rparr>) = log_ok st"
  "log_ok (st\<lparr>am_stopped := b\<rparr>) = log_ok st"
  by (simp_all add: log_ok_def)

lemma pending_ok_cong [simp]:
  "pending_ok (st\<lparr>am_firing := f\<rparr>) = pending_ok st"
  "pending_ok (st\<lparr>am_cache := c\<rparr>) = pending_ok st"
  "pending_ok (st\<lparr>am_db := d\<rparr>) = pending_ok st"
  "pending_ok (st\<lparr>am_notices := n\<rparr>) = pending_ok st"
  "pending_ok (st\<lparr>am_stopped := b\<rparr>) = pending_ok st"
  by (simp_all add: pending_ok_def)

lemma pending_ok_cancel:
  assumes "pending_ok st"
  shows "pending_ok (snd (cancel_pending aid st))"
proof (cases "map_of (am_pending st) aid")
  case None
  then show ?thesis using assms by (simp add: cancel_pending_def)
next
  case (Some info)
  have "ai_timer info' \<noteq> ai_timer info" if "map_of (am_pending st) aid' = Some info'" "aid' \<noteq> aid" for aid' info'
    using assms that Some unfolding pending_ok_def timers_inj_def by metis
  then show ?thesis
    using assms Some
    by (auto simp: pending_ok_def cancel_pending_def store_laws gm.inv_del timers_inj_delete)
qed

lemma pending_ok_schedule:
  assumes p: "pending_ok st"
  shows "pending_ok (snd (schedule_pending name a d st))"
proof (cases "map_of (am_pending st) (ca_id a)")
  case None
  have "ai_timer info < am_next_timer st" if "map_of (am_pending st) aid = Some info" for aid info
    using p that unfolding pending_ok_def by blast
  then have new: "ai_timer info \<noteq> am_next_timer st" if "map_of (am_pending st) aid = Some info" for aid info
    using that by (metis less_irrefl_nat)
  show ?thesis
    using p None new
    by (auto simp: pending_ok_def schedule_pending_def Let_def store_laws gm.inv_put less_Suc_eq
        intro!: timers_inj_update split: option.splits if_splits)
qed (use p in \<open>simp add: schedule_pending_def Let_def\<close>)

lemma pending_ok_take:
  "pending_ok st \<Longrightarrow> pending_ok (st\<lparr>am_pending := AList.delete aid (am_pending st)\<rparr>)"
  by (auto simp: pending_ok_def store_laws gm.inv_del timers_inj_delete)

lemma pending_ok_fires: "pending_ok st \<Longrightarrow> pending_ok (timer_fires timer st)"
  by (auto simp: pending_ok_def timer_fires_def store_laws split: option.splits prod.splits)

lemma pending_ok_later: "pending_ok st \<Longrightarrow> am_now st \<le> t \<Longrightarrow> pending_ok (st\<lparr>am_now := t\<rparr>)"
  unfolding pending_ok_def by fastforce

lemma status_inv_cancel: "status_inv st \<Longrightarrow> status_inv (snd (cancel_pending aid st))"
  by (auto simp: status_inv_def pending_ok_cancel)
    (auto simp: cancel_pending_def split: option.splits)

lemma status_inv_schedule: "status_inv st \<Longrightarrow> status_inv (snd (schedule_pending name a d st))"
  by (auto simp: status_inv_def pending_ok_schedule)
    (auto simp: schedule_pending_def Let_def split: option.splits)

lemma alert_delay_pos: "minute \<le> alert_delay a"
  by (simp add: alert_delay_def go_simps)

lemma status_inv_system_down: "status_inv st \<Longrightarrow> status_inv (handle_system_down name alerts st)"
  unfolding handle_system_down_def
  by (rule fold_keeps [where P = status_inv]) (auto intro: status_inv_schedule)

text \<open>Saving the trigger flag of an alert, as the table sees it.\<close>

lemma set_alert_triggered_cases:
  assumes m: "cache_models (am_db st) (am_cache st)"
  obtains (failed) "set_alert_triggered env aid b st = (False, st)"
  | (saved) r where "am_db st aid = Some r" "rec_id r = aid"
      "set_alert_triggered env aid b st = (True, db_event (RowUpdated (r\<lparr>rec_triggered := b\<rparr>)) st)"
      "cache_models (am_db (db_event (RowUpdated (r\<lparr>rec_triggered := b\<rparr>)) st))
         (am_cache (db_event (RowUpdated (r\<lparr>rec_triggered := b\<rparr>)) st))"
proof (cases "fst (set_alert_triggered env aid b st)")
  case False
  then have "set_alert_triggered env aid b st = (False, st)"
    by (auto simp: set_alert_triggered_def split: option.splits if_splits)
  then show ?thesis by (rule failed)
next
  case True
  then obtain r where r: "am_db st aid = Some r"
    and s: "set_alert_triggered env aid b st = (True, db_event (RowUpdated (r\<lparr>rec_triggered := b\<rparr>)) st)"
    by (auto simp: set_alert_triggered_def split: option.splits if_splits)
  have i: "rec_id r = aid" using m r by (auto simp: cache_models_def)
  have "row_event_ok (am_db st) (RowUpdated (r\<lparr>rec_triggered := b\<rparr>))" using r i by simp
  from hook_models [OF m this] show ?thesis by (intro saved [OF r i s]) (simp add: db_event_def)
qed

lemma alert_log_notice:
  "alert_log (st\<lparr>am_notices := n # am_notices st\<rparr>) aid =
     (if n_alert n = aid then n_triggered n # alert_log st aid else alert_log st aid)"
  by (simp add: alert_log_def)

lemma db_event_fields [simp]:
  "am_pending (db_event e st) = am_pending st" "am_armed (db_event e st) = am_armed st"
  "am_firing (db_event e st) = am_firing st" "am_now (db_event e st) = am_now st"
  "am_notices (db_event e st) = am_notices st" "am_next_timer (db_event e st) = am_next_timer st"
  "am_stopped (db_event e st) = am_stopped st"
  "am_system_notices (db_event e st) = am_system_notices st"
  "am_db (db_event e st) = row_step e (am_db st)" "am_cache (db_event e st) = cache_hook e (am_cache st)"
  "alert_log (db_event e st) = alert_log st" "pending_ok (db_event e st) = pending_ok st"
  by (simp_all add: db_event_def)

text \<open>A message is sent only after the flag was saved, and then the flag says which message it was.
  An "up" is sent only for an alert whose flag was set.\<close>

lemma send_status_alert_cases:
  assumes "cache_models (am_db st) (am_cache st)"
  obtains (failed) "send_status_alert env status name a st = (False, st)"
  | (sent) r n where "am_db st (ca_id a) = Some r" "rec_id r = ca_id a"
      "snd (send_status_alert env status name a st) =
         (db_event (RowUpdated (r\<lparr>rec_triggered := (status = down)\<rparr>)) st)\<lparr>am_notices := n # am_notices st\<rparr>"
      "n_alert n = ca_id a" "n_triggered n = (status = down)" "n_at n = am_now st"
      "n_message n = status_message env status name a" "n_delivery n = send_alert env (n_message n)"
      "cache_models (am_db (db_event (RowUpdated (r\<lparr>rec_triggered := (status = down)\<rparr>)) st))
         (am_cache (db_event (RowUpdated (r\<lparr>rec_triggered := (status = down)\<rparr>)) st))"
proof (rule set_alert_triggered_cases [OF assms, of env "ca_id a" "status = down"])
  assume "set_alert_triggered env (ca_id a) (status = down) st = (False, st)"
  then show ?thesis by (intro failed) (simp add: send_status_alert_def)
next
  fix r assume r: "am_db st (ca_id a) = Some r" "rec_id r = ca_id a"
    and s: "set_alert_triggered env (ca_id a) (status = down) st =
      (True, db_event (RowUpdated (r\<lparr>rec_triggered := (status = down)\<rparr>)) st)"
    and m: "cache_models (am_db (db_event (RowUpdated (r\<lparr>rec_triggered := (status = down)\<rparr>)) st))
         (am_cache (db_event (RowUpdated (r\<lparr>rec_triggered := (status = down)\<rparr>)) st))"
  show ?thesis
    by (rule sent [OF r _ _ _ _ _ _ m, where n = "\<lparr>n_alert = ca_id a, n_triggered = (status = down),
          n_at = am_now st, n_message = status_message env status name a,
          n_delivery = send_alert env (status_message env status name a)\<rparr>"])
      (simp_all add: send_status_alert_def s Let_def)
qed

lemma status_inv_send:
  assumes i: "status_inv st"
    and up_ok: "status \<noteq> down \<Longrightarrow> alert_log st (ca_id a) \<noteq> [] \<and> hd (alert_log st (ca_id a))"
  shows "status_inv (snd (send_status_alert env status name a st))"
proof -
  from i have "cache_models (am_db st) (am_cache st)" by (simp add: status_inv_def)
  then show ?thesis
  proof (rule send_status_alert_cases [of st env status name a])
    assume "send_status_alert env status name a st = (False, st)"
    then show ?thesis using i by simp
  next
    fix r n
    let ?st = "db_event (RowUpdated (r\<lparr>rec_triggered := (status = down)\<rparr>)) st"
    assume r: "am_db st (ca_id a) = Some r" "rec_id r = ca_id a"
      and s: "snd (send_status_alert env status name a st) = ?st\<lparr>am_notices := n # am_notices st\<rparr>"
      and n: "n_alert n = ca_id a" "n_triggered n = (status = down)"
      and m: "cache_models (am_db ?st) (am_cache ?st)"
    have log: "alert_log (?st\<lparr>am_notices := n # am_notices st\<rparr>) aid =
        (if aid = ca_id a then (status = down) # alert_log st aid else alert_log st aid)" for aid
      using alert_log_notice [where st = ?st and n = n and aid = aid] n by (auto simp: eq_commute)
    have "log_ok (?st\<lparr>am_notices := n # am_notices st\<rparr>)"
      using i up_ok r unfolding log_ok_def log status_inv_def by auto
    then show ?thesis using i m by (simp add: s status_inv_def)
  qed
qed

lemma status_inv_up_list:
  assumes "status_inv st" and "distinct (map ca_id alerts)"
    and "\<And>a. a \<in> set alerts \<Longrightarrow> \<exists>r. am_db st (ca_id a) = Some r \<and> populate_from_record r = a \<and> ca_name a = ''Status''"
  shows "status_inv (fold (up_step env name) alerts st)"
  using assms
proof (induction alerts arbitrary: st)
  case Nil
  then show ?case by simp
next
  case (Cons a alerts)
  let ?st = "up_step env name a st"
  have cancel: "status_inv (snd (cancel_pending (ca_id a) st))"
    and same: "am_db (snd (cancel_pending (ca_id a) st)) = am_db st"
      "alert_log (snd (cancel_pending (ca_id a) st)) = alert_log st"
    using Cons.prems(1) by (auto simp: status_inv_cancel) (auto simp: cancel_pending_def split: option.splits)
  have log: "alert_log st (ca_id a) \<noteq> [] \<and> hd (alert_log st (ca_id a))" if "ca_triggered a"
    using Cons.prems(1) Cons.prems(3) [of a] that by (auto simp: status_inv_def log_ok_def)
  have i: "status_inv ?st"
    using cancel log same
    by (auto simp: up_step_def Let_def split: prod.splits intro!: status_inv_send)
  have m: "cache_models (am_db (snd (cancel_pending (ca_id a) st))) (am_cache (snd (cancel_pending (ca_id a) st)))"
    using cancel by (simp add: status_inv_def)
  have keep: "am_db ?st aid = am_db st aid" if "aid \<noteq> ca_id a" for aid
    using same that
    by (auto simp: up_step_def Let_def split: prod.splits
        intro: send_status_alert_cases [OF m, of env up name a])
  have "\<exists>r. am_db ?st (ca_id b) = Some r \<and> populate_from_record r = b \<and> ca_name b = ''Status''"
    if "b \<in> set alerts" for b
    using Cons.prems(2) Cons.prems(3) [of b] that keep [of "ca_id b"] by (auto simp: image_iff)
  with i show ?case using Cons.prems(2) by (auto intro!: Cons.IH)
qed

lemma status_inv_status_change:
  assumes i: "status_inv st"
    and ok: "map_of (c_store (am_cache st)) sys \<noteq> None \<or> answer_ok (am_db st) sys (alerts_answer env)"
    and sys: "sys \<noteq> ''''"
  shows "status_inv (handle_status_alerts env newStatus sys name st)"
proof -
  have m: "cache_models (am_db st) (am_cache st)" using i by (simp add: status_inv_def)
  note rows = system_alerts_rows [OF m ok sys]
  let ?r = "get_alerts_by_name (alerts_answer env) sys ''Status'' (am_cache st)"
  let ?st = "st\<lparr>am_cache := fst ?r\<rparr>"
  have i': "status_inv ?st" using i rows by (simp add: status_inv_def alerts_by_name)
  have d: "distinct (map ca_id (snd ?r))"
    using rows by (simp add: alerts_by_name distinct_map_filter alerts_are_rows_def)
  have a: "\<exists>r. am_db ?st (ca_id a) = Some r \<and> populate_from_record r = a \<and> ca_name a = ''Status''"
    if "a \<in> set (snd ?r)" for a
    using that rows table_row_record [of "am_db st" sys "ca_id a" a]
    by (auto simp: alerts_by_name alerts_are_rows_def)
  show ?thesis
    using i i' status_inv_system_down [OF i'] status_inv_up_list [OF i' d a]
    by (auto simp: handle_status_alerts_def handle_system_up_def Let_def split: prod.splits)
qed

lemma status_inv_process:
  assumes "status_inv st"
  shows "status_inv (process_pending_alert env aid st)"
proof -
  let ?st = "st\<lparr>am_pending := AList.delete aid (am_pending st)\<rparr>"
  have "status_inv ?st"
    using assms by (simp add: status_inv_def pending_ok_take)
  then show ?thesis
    using assms by (auto simp: process_pending_alert_def Let_def intro: status_inv_send split: option.splits)
qed

lemma status_inv_cancel_system: "status_inv st \<Longrightarrow> status_inv (cancel_pending_status_alerts sys st)"
  unfolding cancel_pending_status_alerts_def
  by (rule fold_keeps [where P = status_inv]) (auto intro: status_inv_cancel)

lemma status_inv_stop: "status_inv st \<Longrightarrow> status_inv (stop st)"
proof -
  assume i: "status_inv st"
  have "status_inv (fold (\<lambda>(aid, info) st. snd (cancel_pending aid st)) (am_pending st) st)"
    using i by (rule fold_keeps [where P = status_inv, rotated]) (auto intro: status_inv_cancel)
  then show ?thesis using i by (auto simp: stop_def status_inv_def)
qed

lemma status_inv_fires: "status_inv st \<Longrightarrow> status_inv (timer_fires timer st)"
  by (auto simp: status_inv_def pending_ok_fires)
    (auto simp: timer_fires_def split: option.splits prod.splits)

lemma status_inv_row:
  assumes i: "status_inv st" and ok: "user_event_ok (am_db st) e"
  shows "status_inv (db_event e st)"
proof -
  have m: "cache_models (row_step e (am_db st)) (cache_hook e (am_cache st))"
    using i user_event_row_ok [OF ok] by (auto simp: status_inv_def intro: hook_models)
  have "log_ok (db_event e st)"
    using i ok by (cases e) (auto simp: status_inv_def log_ok_def split: option.splits)
  then show ?thesis using i m by (simp add: status_inv_def)
qed

lemma status_inv_firing [simp]: "status_inv (st\<lparr>am_firing := f\<rparr>) = status_inv st"
  by (simp add: status_inv_def)

lemma status_inv_tick: "status_inv st \<Longrightarrow> status_inv (st\<lparr>am_now := am_now st + \<bar>d\<bar>\<rparr>)"
  by (simp add: status_inv_def pending_ok_later)

lemma status_inv_callback: "status_inv st \<Longrightarrow> status_inv (run_callback env aid st)"
  by (simp add: run_callback_def status_inv_process)

interpretation status: machine fresh_start status_step status_inv
proof
  show "status_inv st" if "fresh_start st" for st
    using that by (auto simp: fresh_start_def status_inv_def pending_ok_def)
  show "status_inv (status_step st e)" if "status_inv st" for st e
    using that
    by (cases e)
      (auto intro: status_inv_status_change status_inv_fires status_inv_row status_inv_cancel_system
          status_inv_stop status_inv_callback status_inv_tick)
qed

section \<open>Properties\<close>



subsection \<open>A system that comes back in time\<close>

lemma up_list_pending:
  assumes "distinct (map ca_id alerts)" and "\<And>a. a \<in> set alerts \<Longrightarrow> map_of (am_pending st) (ca_id a) \<noteq> None"
  shows "am_notices (fold (up_step env name) alerts st) = am_notices st \<and>
    am_db (fold (up_step env name) alerts st) = am_db st \<and>
    (\<forall>aid. map_of (am_pending (fold (up_step env name) alerts st)) aid =
       (if aid \<in> ca_id ` set alerts then None else map_of (am_pending st) aid))"
  using assms
proof (induction alerts arbitrary: st)
  case Nil
  then show ?case by simp
next
  case (Cons a alerts)
  obtain info where info: "map_of (am_pending st) (ca_id a) = Some info"
    using Cons.prems(2) [of a] by auto
  let ?st = "up_step env name a st"
  have s: "?st = st\<lparr>am_pending := AList.delete (ca_id a) (am_pending st),
                    am_armed := AList.delete (ai_timer info) (am_armed st)\<rparr>"
    by (simp add: up_step_def cancel_pending_def info)
  have "map_of (am_pending ?st) (ca_id b) \<noteq> None" if "b \<in> set alerts" for b
    using Cons.prems(1) Cons.prems(2) [of b] that by (auto simp: s store_laws image_iff)
  from Cons.IH [of ?st, OF _ this] show ?case
    using Cons.prems(1) by (simp add: s store_laws)
qed

lemma down_list_pending:
  "am_notices (handle_system_down name alerts st) = am_notices st \<and>
   am_db (handle_system_down name alerts st) = am_db st \<and>
   am_cache (handle_system_down name alerts st) = am_cache st \<and>
   (\<forall>aid. map_of (am_pending st) aid \<noteq> None \<or> aid \<in> ca_id ` set alerts \<longleftrightarrow>
          map_of (am_pending (handle_system_down name alerts st)) aid \<noteq> None)"
proof (induction alerts arbitrary: st)
  case Nil
  then show ?case by (simp add: handle_system_down_def)
next
  case (Cons a alerts)
  let ?st = "snd (schedule_pending name a (alert_delay a) st)"
  have "handle_system_down name (a # alerts) st = handle_system_down name alerts ?st"
    by (simp add: handle_system_down_def)
  moreover have "am_notices ?st = am_notices st" "am_db ?st = am_db st" "am_cache ?st = am_cache st"
    "map_of (am_pending ?st) aid \<noteq> None \<longleftrightarrow> map_of (am_pending st) aid \<noteq> None \<or> aid = ca_id a" for aid
    by (auto simp: schedule_pending_def Let_def store_laws split: option.splits)
  ultimately show ?case using Cons.IH [of ?st] by auto
qed

lemma system_alerts_stable:
  "answer \<noteq> None \<Longrightarrow>
   get_system_alerts answer' sys (fst (get_system_alerts answer sys c)) = get_system_alerts answer sys c"
  by (auto simp: get_system_alerts_def store_laws Let_def split: option.splits)

lemma by_name_stable:
  "answer \<noteq> None \<Longrightarrow>
   get_alerts_by_name answer' sys name (fst (get_alerts_by_name answer sys name c)) =
   get_alerts_by_name answer sys name c"
  by (simp add: prod_eq_iff alerts_by_name system_alerts_stable)

text \<open>
  C4: when a system goes down and comes back before a timer fires, no message is sent, no flag in
  the database changes and none of its status alerts stays pending.
\<close>

theorem short_outage_is_silent:
  assumes "status_inv st" and "sys \<noteq> ''''"
    and "answer_ok (am_db st) sys (alerts_answer env)" and "alerts_answer env \<noteq> None"
  shows "let st1 = (handle_status_alerts env ''down'' sys name st)\<lparr>am_now := t\<rparr>;
             st2 = handle_status_alerts env' ''up'' sys name st1
         in am_notices st2 = am_notices st \<and> am_db st2 = am_db st \<and>
            (\<forall>r. am_db st (rec_id r) = Some r \<and> rec_system r = sys \<and> rec_name r = ''Status'' \<longrightarrow>
                 map_of (am_pending st2) (rec_id r) = None)"
proof -
  have m: "cache_models (am_db st) (am_cache st)" using assms(1) by (simp add: status_inv_def)
  note rows = system_alerts_rows [OF m disjI2 [OF assms(3)] assms(2)]
  define c where "c = fst (get_alerts_by_name (alerts_answer env) sys ''Status'' (am_cache st))"
  define alerts where "alerts = snd (get_alerts_by_name (alerts_answer env) sys ''Status'' (am_cache st))"
  have q: "get_alerts_by_name (alerts_answer env) sys ''Status'' (am_cache st) = (c, alerts)"
    by (simp add: c_def alerts_def)
  have q2: "get_alerts_by_name answer sys ''Status'' c = (c, alerts)" for answer
    using by_name_stable [OF assms(4), of answer sys "''Status''" "am_cache st"] q by simp
  have d: "distinct (map ca_id alerts)"
    using rows by (simp add: alerts_def alerts_by_name distinct_map_filter alerts_are_rows_def)
  have all: "rec_id r \<in> ca_id ` set alerts"
    if "am_db st (rec_id r) = Some r" "rec_system r = sys" "rec_name r = ''Status''" for r
  proof -
    have "table_row (am_db st) sys (ca_id (populate_from_record r)) = Some (populate_from_record r)"
      using that assms(2) by (simp add: table_row_def)
    then have "populate_from_record r \<in> set alerts"
      using rows assms(4) that by (simp add: alerts_def alerts_by_name alerts_are_rows_def)
    then show ?thesis by (force simp: image_iff)
  qed
  have e: "handle_status_alerts env ''down'' sys name st = handle_system_down name alerts (st\<lparr>am_cache := c\<rparr>)"
    using q by (simp add: handle_status_alerts_def handle_system_down_def up_def down_def Let_def)
  define st1 where "st1 = (handle_system_down name alerts (st\<lparr>am_cache := c\<rparr>))\<lparr>am_now := t\<rparr>"
  note down = down_list_pending [of name alerts "st\<lparr>am_cache := c\<rparr>"]
  have c1: "am_cache st1 = c" using down by (simp add: st1_def)
  then have c2: "st1\<lparr>am_cache := c\<rparr> = st1" by auto
  have e2: "handle_status_alerts env' ''up'' sys name st1 = fold (up_step env' name) alerts st1"
    using q2 c1 by (simp add: handle_status_alerts_def handle_system_up_def up_def down_def Let_def c2)
  have p: "map_of (am_pending st1) (ca_id a) \<noteq> None" if "a \<in> set alerts" for a
    using down that by (auto simp: st1_def)
  from up_list_pending [OF d, of st1 env' name, OF p] show ?thesis
    using down all unfolding e st1_def [symmetric] Let_def e2 by (auto simp: st1_def)
qed

subsection \<open>Pausing a system\<close>

lemma cancel_list:
  "map_of (am_pending (fold (\<lambda>(aid, info) st. if Q info then snd (cancel_pending aid st) else st) ps st)) aid =
     (if \<exists>info. (aid, info) \<in> set ps \<and> Q info then None else map_of (am_pending st) aid)"
proof (induction ps arbitrary: st)
  case Nil
  then show ?case by simp
next
  case (Cons p ps)
  then show ?case
    by (cases p) (auto simp: cancel_pending_def store_laws split: option.splits)
qed

lemma cancel_system_pending:
  assumes "keys_distinct (am_pending st)"
  shows "map_of (am_pending (cancel_pending_status_alerts sys st)) aid =
    (case map_of (am_pending st) aid of
       Some info \<Rightarrow> if ca_system (ai_alert info) = sys then None else Some info
     | None \<Rightarrow> None)"
  using assms map_of_in_set [OF assms]
  by (auto simp: cancel_pending_status_alerts_def cancel_list split: option.splits)

text \<open>
  C5: pausing a system takes exactly its own alerts off the pending map, and a timer callback that
  was already on its way for one of them then changes nothing and sends nothing.
\<close>

theorem paused_system_is_silent:
  assumes "status_inv st" and "map_of (am_pending st) aid = Some info" and "ca_system (ai_alert info) = sys"
  shows "process_pending_alert env aid (cancel_pending_status_alerts sys st) = cancel_pending_status_alerts sys st \<and>
    (\<forall>aid'. map_of (am_pending (cancel_pending_status_alerts sys st)) aid' =
       (case map_of (am_pending st) aid' of
          Some info' \<Rightarrow> if ca_system (ai_alert info') = sys then None else Some info'
        | None \<Rightarrow> None))"
proof -
  have k: "keys_distinct (am_pending st)" using assms(1) by (simp add: status_inv_def pending_ok_def)
  show ?thesis
    using assms(2,3) by (simp add: process_pending_alert_def cancel_system_pending [OF k])
qed

subsection \<open>The delay before a "down" message\<close>

text \<open>
  In every reachable state, an alert that is pending and whose own timer has fired is due: its
  delay of at least a minute has passed since it was scheduled.
\<close>

lemma fired_alert_is_due:
  assumes "fresh_start st"
    and "map_of (am_pending (foldl status_step st es)) aid = Some info"
    and "map_of (am_armed (foldl status_step st es)) (ai_timer info) = None"
  shows "ai_expire info \<le> am_now (foldl status_step st es)"
  using status.inv_reachable [OF assms(1), of es] assms(2,3) by (simp add: status_inv_def pending_ok_def)

lemma schedule_expiry:
  "map_of (am_pending st) (ca_id a) = None \<Longrightarrow>
   \<exists>info. map_of (am_pending (snd (schedule_pending name a (alert_delay a) st))) (ca_id a) = Some info \<and>
          am_now st + minute \<le> ai_expire info"
  using alert_delay_pos [of a] by (simp add: schedule_pending_def Let_def store_laws)

text \<open>A concrete manager: one status alert with a delay of one minute on one system.\<close>

definition demo_row :: alert_record where
  "demo_row = \<lparr>rec_id = ''a1'', rec_system = ''s1'', rec_user = ''u1'', rec_name = ''Status'',
               rec_value = Fin 0, rec_triggered = False, rec_min = 1\<rparr>"

definition demo_env :: env where
  "demo_env = \<lparr>find_ok = (\<lambda>_. True), save_ok = (\<lambda>_. True), alerts_answer = Some [demo_row],
               bot_token = ''t'', chat_id = ''c'', http_post = (\<lambda>_. Some 200), app_url = ''http://hub''\<rparr>"

definition demo_start :: alert_manager where
  "demo_start = (new_alert_manager (table_of [demo_row]) 0)
     \<lparr>am_cache := fst (populate_from_db True (Some [demo_row]) new_alerts_cache)\<rparr>"

lemma demo_fresh: "fresh_start demo_start"
  using populate_models [of "[demo_row]" True new_alerts_cache]
  by (simp add: fresh_start_def demo_start_def new_alert_manager_def log_ok_def alert_log_def
      table_of_def demo_row_def)

definition late_callback_run :: "status_event list" where
  "late_callback_run =
     [StatusChange demo_env ''down'' ''s1'' ''box'', Tick (60 * second), TimerFires 0,
      StatusChange demo_env ''up'' ''s1'' ''box'', StatusChange demo_env ''down'' ''s1'' ''box'']"

lemma demo_answer: "answer_ok (table_of [demo_row]) ''s1'' (Some [demo_row])"
  by (auto simp: answer_ok_def table_of_def demo_row_def dest: arg_cong [where f = rec_system])

lemma demo_simps [simp]:
  "alerts_answer demo_env = Some [demo_row]" "rec_name demo_row = ''Status''" "rec_id demo_row = ''a1''"
  "rec_system demo_row = ''s1''" "\<not> rec_triggered demo_row" "rec_min demo_row = 1"
  "find_ok demo_env aid" "save_ok demo_env aid"
  by (simp_all add: demo_env_def demo_row_def)

lemma demo_start_state:
  "demo_start =
     \<lparr>am_db = table_of [demo_row],
      am_cache = \<lparr>c_store = [(''s1'', [(''a1'', populate_from_record demo_row)])], c_populated = True\<rparr>,
      am_pending = [], am_armed = [], am_next_timer = 0, am_firing = [], am_now = 0,
      am_notices = [], am_system_notices = [], am_stopped = False\<rparr>"
  by (simp add: demo_start_def new_alert_manager_def populate_from_db_def new_alerts_cache_def
      cache_update_def)

lemmas handler_defs = handle_status_alerts_def up_def down_def get_alerts_by_name_def
  get_system_alerts_def handle_system_down_def handle_system_up_def schedule_pending_def up_step_def
  cancel_pending_def timer_fires_def alert_delay_def

lemma late_callback_state:
  "foldl status_step demo_start late_callback_run =
     demo_start\<lparr>am_now := 60 * second, am_firing := [''a1''], am_next_timer := 2,
       am_pending := [(''a1'', \<lparr>ai_system_name = ''box'', ai_alert = populate_from_record demo_row,
                               ai_expire = 120 * second, ai_timer = 1\<rparr>)],
       am_armed := [(1, ''a1'', 120 * second)]\<rparr>"
  unfolding late_callback_run_def
  by (simp add: demo_start_state demo_answer handler_defs go_simps)


subsection \<open>A restart of the hub\<close>

lemma restore_list:
  assumes "distinct (map fst items)"
    and "\<And>aid. aid \<in> fst ` set items \<Longrightarrow> map_of (am_pending st) aid = None"
    and "\<And>aid sys name a. (aid, sys, name) \<in> set items \<Longrightarrow> get_alert (am_cache st) sys aid = Some a \<Longrightarrow> ca_id a = aid"
  defines "st' \<equiv> fold (\<lambda>(aid, sys, name) st.
      case get_alert (am_cache st) sys aid of
        None \<Rightarrow> st
      | Some a \<Rightarrow> snd (schedule_pending name a (alert_delay a) st)) items st"
  shows "map_option (\<lambda>i. (ai_system_name i, ai_alert i, ai_expire i)) (map_of (am_pending st') aid) =
    (case map_of items aid of
       None \<Rightarrow> map_option (\<lambda>i. (ai_system_name i, ai_alert i, ai_expire i)) (map_of (am_pending st) aid)
     | Some (sys, name) \<Rightarrow>
         map_option (\<lambda>a. (name, a, am_now st + alert_delay a)) (get_alert (am_cache st) sys aid))"
  using assms(1-3) unfolding st'_def
proof (induction items arbitrary: st)
  case Nil
  then show ?case by simp
next
  case (Cons item items)
  obtain aid' sys' name' where item: "item = (aid', sys', name')" by (cases item)
  have new: "aid' \<notin> fst ` set items" and p0: "map_of (am_pending st) aid' = None"
    using Cons.prems by (auto simp: item)
  have miss: "map_of items aid' = None" using new by (simp add: map_of_eq_None_iff)
  show ?case
  proof (cases "get_alert (am_cache st) sys' aid'")
    case None
    have ih: "map_option (\<lambda>i. (ai_system_name i, ai_alert i, ai_expire i))
        (map_of (am_pending (fold (\<lambda>(aid, sys, name) st.
          case get_alert (am_cache st) sys aid of
            None \<Rightarrow> st
          | Some a \<Rightarrow> snd (schedule_pending name a (alert_delay a) st)) items st)) aid) =
        (case map_of items aid of
           None \<Rightarrow> map_option (\<lambda>i. (ai_system_name i, ai_alert i, ai_expire i)) (map_of (am_pending st) aid)
         | Some (sys, name) \<Rightarrow>
             map_option (\<lambda>a. (name, a, am_now st + alert_delay a)) (get_alert (am_cache st) sys aid))"
    proof (rule Cons.IH)
      show "ca_id a = b" if "(b, sys, name) \<in> set items" "get_alert (am_cache st) sys b = Some a" for b sys name a
        by (rule Cons.prems(3)) (use that in auto)
    qed (use Cons.prems(1,2) in auto)
    show ?thesis using ih None p0 miss by (auto simp: item split: option.splits)
  next
    case (Some a)
    have id: "ca_id a = aid'" using Cons.prems(3) [of aid' sys' name' a] Some by (simp add: item)
    let ?st = "snd (schedule_pending name' a (alert_delay a) st)"
    have s: "am_cache ?st = am_cache st" "am_now ?st = am_now st"
      "map_option (\<lambda>i. (ai_system_name i, ai_alert i, ai_expire i)) (map_of (am_pending ?st) b) =
        (if b = aid' then Some (name', a, am_now st + alert_delay a)
         else map_option (\<lambda>i. (ai_system_name i, ai_alert i, ai_expire i)) (map_of (am_pending st) b))" for b
      using p0 by (auto simp: schedule_pending_def Let_def id store_laws)
    have free: "map_of (am_pending ?st) b = None" if "b \<in> fst ` set items" for b
    proof -
      have "b \<noteq> aid'" "map_of (am_pending st) b = None" using that new Cons.prems(2) [of b] by (auto simp: item)
      then show ?thesis using s(3) [of b] by simp
    qed
    have ih: "map_option (\<lambda>i. (ai_system_name i, ai_alert i, ai_expire i))
        (map_of (am_pending (fold (\<lambda>(aid, sys, name) st.
          case get_alert (am_cache st) sys aid of
            None \<Rightarrow> st
          | Some a \<Rightarrow> snd (schedule_pending name a (alert_delay a) st)) items ?st)) aid) =
        (case map_of items aid of
           None \<Rightarrow> map_option (\<lambda>i. (ai_system_name i, ai_alert i, ai_expire i)) (map_of (am_pending ?st) aid)
         | Some (sys, name) \<Rightarrow>
             map_option (\<lambda>a. (name, a, am_now ?st + alert_delay a)) (get_alert (am_cache ?st) sys aid))"
    proof (rule Cons.IH)
      show "ca_id a = b" if "(b, sys, name) \<in> set items" "get_alert (am_cache ?st) sys b = Some a" for b sys name a
        by (rule Cons.prems(3)) (use that s(1) in auto)
    qed (use Cons.prems(1) free in auto)
    show ?thesis using ih s Some miss by (auto simp: item split: option.splits)
  qed
qed

text \<open>
  C8: after a restart, the pending map is rebuilt from the database: an alert is pending exactly when
  the query of untriggered status alerts of down systems returned it and its row has that system,
  with the full delay of the row counted from the restart.
\<close>

theorem restart_restores_pending:
  assumes "distinct (map rec_id rows)" and "distinct (map fst items)"
  shows "map_option (\<lambda>i. (ai_system_name i, ai_alert i, ai_expire i))
       (map_of (am_pending (on_serve (Some items) (Some rows) (new_alert_manager (table_of rows) now))) aid) =
    (case map_of items aid of
       None \<Rightarrow> None
     | Some (sys, name) \<Rightarrow>
         map_option (\<lambda>a. (name, a, now + alert_delay a)) (table_row (table_of rows) sys aid))"
proof -
  let ?st = "(new_alert_manager (table_of rows) now)
    \<lparr>am_cache := fst (populate_from_db True (Some rows) new_alerts_cache)\<rparr>"
  have m: "cache_models (table_of rows) (am_cache ?st)"
    using populate_models [OF assms(1), of True] by simp
  have again: "fst (populate_from_db False (Some rows) (am_cache ?st)) = am_cache ?st"
    by (simp add: populate_from_db_def)
  have keep: "?st\<lparr>am_cache := am_cache ?st\<rparr> = ?st" by simp
  have ids: "ca_id a = aid" if "get_alert (am_cache ?st) sys aid = Some a" for sys aid a
    using table_row_Some [OF m] that unfolding models_get [OF m] by blast
  have e: "map_of (am_pending ?st) b = None" for b by (simp add: new_alert_manager_def)
  have c: "am_cache (new_alert_manager (table_of rows) now) = new_alerts_cache"
    "am_now ?st = now" by (simp_all add: new_alert_manager_def)
  show ?thesis
    using restore_list [where aid = aid, OF assms(2) e ids] models_get [OF m] e c(2)
    unfolding on_serve_def restore_pending_status_alerts_def c again keep
    by (auto simp: again keep split: option.splits prod.splits)
qed

section \<open>Witnesses\<close>



lemma short_outage_is_silent_witness:
  "am_notices (handle_status_alerts demo_env ''up'' ''s1'' ''box''
     ((handle_status_alerts demo_env ''down'' ''s1'' ''box'' demo_start)\<lparr>am_now := 30 * second\<rparr>)) = []"
proof -
  have n: "am_notices demo_start = []" by (simp add: demo_start_state)
  have "answer_ok (am_db demo_start) ''s1'' (alerts_answer demo_env)"
    using demo_answer by (simp add: demo_start_state)
  then show ?thesis
    using short_outage_is_silent [where st = demo_start and sys = "''s1''" and env = demo_env and
        name = "''box''" and t = "30 * second" and env' = demo_env, OF status.inv_start [OF demo_fresh]]
    by (simp add: Let_def n)
qed

definition one_down_run :: "status_event list" where
  "one_down_run = [StatusChange demo_env ''down'' ''s1'' ''box'', Tick (60 * second)]"

lemma one_down_state:
  "foldl status_step demo_start one_down_run =
     demo_start\<lparr>am_now := 60 * second, am_next_timer := 1,
       am_pending := [(''a1'', \<lparr>ai_system_name = ''box'', ai_alert = populate_from_record demo_row,
                               ai_expire = 60 * second, ai_timer = 0\<rparr>)],
       am_armed := [(0, ''a1'', 60 * second)]\<rparr>"
  unfolding one_down_run_def
  by (simp add: demo_start_state demo_answer handler_defs go_simps)

lemma paused_system_is_silent_witness:
  "let st = cancel_pending_status_alerts ''s1'' (foldl status_step demo_start one_down_run)
   in process_pending_alert demo_env ''a1'' st = st"
proof -
  let ?st = "foldl status_step demo_start one_down_run"
  have "\<exists>info. map_of (am_pending ?st) ''a1'' = Some info \<and> ca_system (ai_alert info) = ''s1''"
    by (simp add: one_down_state)
  then obtain info where "map_of (am_pending ?st) ''a1'' = Some info" "ca_system (ai_alert info) = ''s1''"
    by blast
  from paused_system_is_silent [OF status.inv_reachable [OF demo_fresh] this] show ?thesis
    by (simp add: Let_def)
qed

lemma fired_alert_is_due_demo:
  "ai_expire \<lparr>ai_system_name = ''box'', ai_alert = populate_from_record demo_row,
              ai_expire = 60 * second, ai_timer = 0\<rparr>
   \<le> am_now (foldl status_step demo_start (one_down_run @ [TimerFires 0]))"
proof (rule fired_alert_is_due [OF demo_fresh])
  have s: "foldl status_step demo_start (one_down_run @ [TimerFires 0]) =
      status_step (foldl status_step demo_start one_down_run) (TimerFires 0)" by simp
  show "map_of (am_pending (foldl status_step demo_start (one_down_run @ [TimerFires 0]))) ''a1'' =
      Some \<lparr>ai_system_name = ''box'', ai_alert = populate_from_record demo_row,
            ai_expire = 60 * second, ai_timer = 0\<rparr>"
    unfolding s one_down_state by (simp add: timer_fires_def)
  show "map_of (am_armed (foldl status_step demo_start (one_down_run @ [TimerFires 0])))
      (ai_timer \<lparr>ai_system_name = ''box'', ai_alert = populate_from_record demo_row,
            ai_expire = 60 * second, ai_timer = 0\<rparr>) = None"
    unfolding s one_down_state by (simp add: timer_fires_def)
qed

lemma restart_restores_pending_witness:
  "map_option (\<lambda>i. (ai_system_name i, ai_alert i, ai_expire i))
     (map_of (am_pending (on_serve (Some [(''a1'', ''s1'', ''box'')]) (Some [demo_row])
        (new_alert_manager (table_of [demo_row]) 7))) ''a1'') =
   Some (''box'', populate_from_record demo_row, 7 + minute)"
  using restart_restores_pending [of "[demo_row]" "[(''a1'', ''s1'', ''box'')]" 7 "''a1''"]
  by (simp add: table_row_def table_of_def alert_delay_def)

end
