(* ===== verification/Json.thy ===== *)
theory Json
  imports GoStr Float64
begin

text \<open>
  Structures as JSON, the way \<^verbatim>\<open>encoding/json\<close> writes and reads them by their struct tags. A JSON value stands for its
  text: a number written from a float is that float, since Go writes the shortest decimal that reads back as it.
\<close>

section \<open>Values\<close>

datatype jval = JvNull | JvBool bool | JvInt int | JvFlt flt | JvStr string | JvArr "jval list" | JvObj "(string \<times> jval) list"

section \<open>Writing\<close>

text \<open>A field is left out by \<open>omitempty\<close> or \<open>omitzero\<close>, cannot be written (a float that is not finite), or is written.\<close>

datatype slot = Omitted | Unsupported | Written jval

definition slot_of :: "jval option \<Rightarrow> slot" where
  "slot_of v = (case v of Some j \<Rightarrow> Written j | None \<Rightarrow> Unsupported)"

definition omit_if :: "bool \<Rightarrow> slot \<Rightarrow> slot" where
  "omit_if omitted s = (if omitted then Omitted else s)"

definition marshal_object :: "(string \<times> slot) list \<Rightarrow> jval option" where
  "marshal_object fs =
     (if Unsupported \<in> snd ` set fs then None
      else Some (JvObj (List.map_filter (\<lambda>(k, s). case s of Written j \<Rightarrow> Some (k, j) | _ \<Rightarrow> None) fs)))"

definition write_float :: "flt \<Rightarrow> jval option" where
  "write_float x = (if finite_flt x then Some (JvFlt x) else None)"

definition write_word :: "'w::len word \<Rightarrow> jval option" where
  "write_word w = Some (JvInt (uint w))"

definition write_int :: "int \<Rightarrow> jval option" where "write_int i = Some (JvInt i)"
definition write_string :: "string \<Rightarrow> jval option" where "write_string s = Some (JvStr s)"
definition write_bool :: "bool \<Rightarrow> jval option" where "write_bool b = Some (JvBool b)"

fun write_each :: "('a \<Rightarrow> jval option) \<Rightarrow> 'a list \<Rightarrow> jval list option" where
  "write_each w [] = Some []"
| "write_each w (x # xs) =
     (case (w x, write_each w xs) of (Some j, Some js) \<Rightarrow> Some (j # js) | _ \<Rightarrow> None)"

definition write_list :: "('a \<Rightarrow> jval option) \<Rightarrow> 'a list \<Rightarrow> jval option" where
  "write_list w xs = map_option JvArr (write_each w xs)"

text \<open>The members of a map are in no particular order here; the encoder sorts them.\<close>

fun write_members :: "('a \<Rightarrow> jval option) \<Rightarrow> (string, 'a) gomap \<Rightarrow> (string \<times> jval) list option" where
  "write_members w [] = Some []"
| "write_members w ((k, x) # m) =
     (case (w x, write_members w m) of (Some j, Some js) \<Rightarrow> Some ((k, j) # js) | _ \<Rightarrow> None)"

definition write_map :: "('a \<Rightarrow> jval option) \<Rightarrow> (string, 'a) gomap \<Rightarrow> jval option" where
  "write_map w m = map_option JvObj (write_members w m)"

section \<open>Reading\<close>

text \<open>A reader gets the value and what the destination holds; \<open>None\<close> is an error. \<open>null\<close> leaves numbers, strings and
  structures alone and empties maps and slices.\<close>

type_synonym 'a reader = "jval \<Rightarrow> 'a \<Rightarrow> 'a option"

definition read_float :: "flt reader" where
  "read_float v old =
     (case v of
        JvFlt x \<Rightarrow> Some x
      | JvInt i \<Rightarrow> (let x = pack binary64 False (of_int i) in if finite_flt x then Some x else None)
      | JvNull \<Rightarrow> Some old
      | _ \<Rightarrow> None)"

text \<open>A float that was written without a fraction is the text of an integer.\<close>

definition integer_text :: "jval \<Rightarrow> int option" where
  "integer_text v =
     (case v of
        JvInt i \<Rightarrow> Some i
      | JvFlt NZero \<Rightarrow> Some 0
      | JvFlt (Fin q) \<Rightarrow> if q = of_int \<lfloor>q\<rfloor> \<and> \<bar>q\<bar> < 10 ^ 21 then Some \<lfloor>q\<rfloor> else None
      | _ \<Rightarrow> None)"

definition read_word :: "'w::len word reader" where
  "read_word v old =
     (if v = JvNull then Some old
      else if v = JvFlt NZero then None
      else case integer_text v of
             Some i \<Rightarrow> if 0 \<le> i \<and> i < 2 ^ LENGTH('w) then Some (word_of_int i) else None
           | None \<Rightarrow> None)"

definition read_int :: "int reader" where
  "read_int v old =
     (if v = JvNull then Some old
      else case integer_text v of
             Some i \<Rightarrow> if - (2 ^ 63) \<le> i \<and> i < 2 ^ 63 then Some i else None
           | None \<Rightarrow> None)"

definition read_string :: "string reader" where
  "read_string v old = (case v of JvStr s \<Rightarrow> Some s | JvNull \<Rightarrow> Some old | _ \<Rightarrow> None)"

definition read_bool :: "bool reader" where
  "read_bool v old = (case v of JvBool b \<Rightarrow> Some b | JvNull \<Rightarrow> Some old | _ \<Rightarrow> None)"

text \<open>Elements are read over the elements that are there, and into new ones after them.\<close>

fun read_each :: "'a reader \<Rightarrow> 'a \<Rightarrow> 'a list \<Rightarrow> jval list \<Rightarrow> 'a list option" where
  "read_each r zero olds [] = Some []"
| "read_each r zero olds (v # vs) =
     (case (r v (case olds of x # _ \<Rightarrow> x | [] \<Rightarrow> zero), read_each r zero (drop 1 olds) vs) of
        (Some x, Some xs) \<Rightarrow> Some (x # xs)
      | _ \<Rightarrow> None)"

text \<open>A slice takes the elements; an array of fixed length drops what is too much and fills up with zeros.\<close>

definition read_slice :: "'a reader \<Rightarrow> 'a \<Rightarrow> 'a list option reader" where
  "read_slice r zero v old =
     (case v of
        JvArr vs \<Rightarrow> map_option Some (read_each r zero (case old of Some xs \<Rightarrow> xs | None \<Rightarrow> []) vs)
      | JvNull \<Rightarrow> Some None
      | _ \<Rightarrow> None)"

definition read_array :: "nat \<Rightarrow> 'a reader \<Rightarrow> 'a \<Rightarrow> 'a list reader" where
  "read_array n r zero v old =
     (case v of
        JvArr vs \<Rightarrow> map_option (\<lambda>xs. xs @ replicate (n - length xs) zero) (read_each r zero old (take n vs))
      | JvNull \<Rightarrow> Some old
      | _ \<Rightarrow> None)"

fun read_members :: "'a reader \<Rightarrow> 'a \<Rightarrow> (string \<times> jval) list \<Rightarrow> (string, 'a) gomap \<Rightarrow> (string, 'a) gomap option" where
  "read_members r zero [] m = Some m"
| "read_members r zero ((k, v) # js) m =
     (case r v zero of Some x \<Rightarrow> read_members r zero js (AList.update k x m) | None \<Rightarrow> None)"

definition read_map :: "'a reader \<Rightarrow> 'a \<Rightarrow> (string, 'a) gomap option reader" where
  "read_map r zero v old =
     (case v of
        JvObj js \<Rightarrow> map_option Some (read_members r zero js (case old of Some m \<Rightarrow> m | None \<Rightarrow> []))
      | JvNull \<Rightarrow> Some None
      | _ \<Rightarrow> None)"

text \<open>
  Names that differ only in case are the same to the reader, when no field has the exact name. The long s and the Kelvin
  sign fold to ASCII letters.
\<close>

fun fold_name :: "string \<Rightarrow> string" where
  "fold_name [] = []"
| "fold_name (c # s) =
     (if prefix [char_of (197 :: nat), char_of (191 :: nat)] (c # s) then CHR ''s'' # fold_name (drop 1 s)
      else if prefix [char_of (226 :: nat), char_of (132 :: nat), char_of (170 :: nat)] (c # s) then CHR ''k'' # fold_name (drop 2 s)
      else (if CHR ''A'' \<le> c \<and> c \<le> CHR ''Z'' then char_of (of_char c + 32 :: nat) else c) # fold_name s)"

type_synonym 'r table = "(string \<times> 'r reader) list"

definition find_field :: "'r table \<Rightarrow> string \<Rightarrow> 'r reader option" where
  "find_field t key =
     (case map_of t key of Some f \<Rightarrow> Some f | None \<Rightarrow> map_of (map (\<lambda>(k, f). (fold_name k, f)) t) (fold_name key))"

definition into :: "(('a \<Rightarrow> 'a) \<Rightarrow> 'r \<Rightarrow> 'r) \<Rightarrow> ('r \<Rightarrow> 'a) \<Rightarrow> 'a reader \<Rightarrow> 'r reader" where
  "into upd sel f v r = map_option (\<lambda>x. upd (\<lambda>_. x) r) (f v (sel r))"

fun read_fields :: "'r table \<Rightarrow> (string \<times> jval) list \<Rightarrow> 'r \<Rightarrow> 'r option" where
  "read_fields t [] r = Some r"
| "read_fields t ((k, v) # js) r =
     (case (case find_field t k of None \<Rightarrow> Some r | Some f \<Rightarrow> f v r) of
        None \<Rightarrow> None
      | Some r' \<Rightarrow> read_fields t js r')"

definition read_struct :: "'r table \<Rightarrow> 'r reader" where
  "read_struct t v r =
     (case v of JvObj js \<Rightarrow> read_fields t js r | JvNull \<Rightarrow> Some r | _ \<Rightarrow> None)"


section \<open>Structures\<close>

text \<open>
  A field of a structure with its tag: the name, when it is left out, how its value is written, and how it is read into the
  structure. \<open>no_tag\<close> is a tag without an option.
\<close>

type_synonym 'r field = "string \<times> ('r \<Rightarrow> slot) \<times> 'r reader"

definition no_tag :: "'a \<Rightarrow> bool" where "no_tag x \<longleftrightarrow> False"

definition field ::
  "string \<Rightarrow> ('a \<Rightarrow> bool) \<Rightarrow> ('a \<Rightarrow> jval option) \<Rightarrow> 'a reader \<Rightarrow> ('r \<Rightarrow> 'a) \<Rightarrow> (('a \<Rightarrow> 'a) \<Rightarrow> 'r \<Rightarrow> 'r) \<Rightarrow> 'r field" where
  "field name omitted write read sel upd =
     (name, \<lambda>s. omit_if (omitted (sel s)) (slot_of (write (sel s))), into upd sel read)"

definition write_struct :: "'r field list \<Rightarrow> 'r \<Rightarrow> jval option" where
  "write_struct fs s = marshal_object (map (\<lambda>(k, enc, dec). (k, enc s)) fs)"

definition table_of :: "'r field list \<Rightarrow> 'r table" where
  "table_of fs = map (\<lambda>(k, enc, dec). (k, dec)) fs"

section \<open>Round trips\<close>

text \<open>A written value is read into a fresh destination as \<open>nf\<close> of it, by the same structure or by another one.\<close>

locale json_codec =
  fixes w :: "'a \<Rightarrow> jval option"
    and r :: "'b reader"
    and zero :: 'b
    and nf :: "'a \<Rightarrow> 'b"
    and ok :: "'a \<Rightarrow> bool"
  assumes trip: "ok x \<Longrightarrow> w x = Some j \<Longrightarrow> r j zero = Some (nf x)"
begin

lemma each_trip: "\<forall>x \<in> set xs. ok x \<Longrightarrow> write_each w xs = Some js \<Longrightarrow> read_each r zero [] js = Some (map nf xs)"
  by (induction xs arbitrary: js) (auto simp: trip split: option.splits)

lemma slice_trip: "\<forall>x \<in> set xs. ok x \<Longrightarrow> write_list w xs = Some j \<Longrightarrow> read_slice r zero j None = Some (Some (map nf xs))"
  by (auto simp: write_list_def read_slice_def each_trip)

lemma members_trip:
  "\<forall>x \<in> snd ` set m. ok x \<Longrightarrow> write_members w m = Some js \<Longrightarrow>
   read_members r zero js old = Some (fold (\<lambda>(k, x). AList.update k (nf x)) m old)"
proof (induction m arbitrary: js old)
  case (Cons e m)
  obtain k x where e: "e = (k, x)" by (cases e)
  obtain j js' where "w x = Some j" "write_members w m = Some js'" "js = (k, j) # js'"
    using Cons.prems(2) by (auto simp: e split: option.splits)
  then show ?case using Cons.IH [of js'] Cons.prems(1) trip [of x j] by (simp add: e)
qed simp

lemma map_trip:
  "\<forall>x \<in> snd ` set m. ok x \<Longrightarrow> write_map w m = Some j \<Longrightarrow>
   read_map r zero j old = Some (Some (fold (\<lambda>(k, x). AList.update k (nf x)) m (case old of Some e \<Rightarrow> e | None \<Rightarrow> [])))"
  by (auto simp: write_map_def read_map_def members_trip)

end

text \<open>Written and read by the same structure.\<close>

locale json_round = json_codec w r zero nf ok
  for w :: "'a \<Rightarrow> jval option" and r :: "'a reader" and zero :: 'a and nf :: "'a \<Rightarrow> 'a" and ok :: "'a \<Rightarrow> bool"

text \<open>Numbers and strings are read whatever the destination holds.\<close>

locale json_scalar = json_round w r zero "\<lambda>x. x" "\<lambda>_. True" for w :: "'a \<Rightarrow> jval option" and r :: "'a reader" and zero :: 'a +
  assumes trip_over: "w x = Some j \<Longrightarrow> r j old = Some x"
begin

lemma each_trip_over: "write_each w xs = Some js \<Longrightarrow> read_each r zero olds js = Some xs"
  by (induction xs arbitrary: js olds) (auto simp: trip_over split: option.splits)

lemma slice_trip_over: "write_list w xs = Some j \<Longrightarrow> read_slice r zero j old = Some (Some xs)"
  by (auto simp: write_list_def read_slice_def each_trip_over)

lemma array_trip:
  assumes "length xs = n" and "write_list w xs = Some j"
  shows "read_array n r zero j old = Some xs"
proof -
  obtain js where js: "write_each w xs = Some js" "j = JvArr js" using assms(2) by (auto simp: write_list_def)
  have "length js = length xs" using js(1) by (induction xs arbitrary: js) (auto split: option.splits)
  then show ?thesis using each_trip_over [OF js(1)] assms(1) js(2) by (simp add: read_array_def)
qed

end

lemma write_read_float: "write_float x = Some j \<Longrightarrow> read_float j old = Some x"
  by (auto simp: write_float_def read_float_def split: if_splits)

lemma write_read_word: "write_word x = Some j \<Longrightarrow> read_word j old = Some x"
  using uint_lt2p [of x] by (auto simp: write_word_def read_word_def integer_text_def word_of_int_uint)

lemma write_read_int: "- (2 ^ 63) \<le> x \<Longrightarrow> x < 2 ^ 63 \<Longrightarrow> write_int x = Some j \<Longrightarrow> read_int j old = Some x"
  by (auto simp: write_int_def read_int_def integer_text_def)

lemma write_read_string: "write_string x = Some j \<Longrightarrow> read_string j old = Some x"
  by (auto simp: write_string_def read_string_def)

lemma write_read_bool: "write_bool x = Some j \<Longrightarrow> read_bool j old = Some x"
  by (auto simp: write_bool_def read_bool_def)

lemmas scalar_trips = write_read_float write_read_word write_read_string write_read_bool

interpretation float_codec: json_scalar write_float read_float "Fin 0"
  by unfold_locales (simp_all add: write_read_float)

interpretation word_codec: json_scalar write_word read_word "0 :: 'w::len word"
  by unfold_locales (simp_all add: write_read_word)

text \<open>
  \<open>trips_in t ok f tr\<close>: writing the field \<open>f\<close> of \<open>s\<close> and reading it with the table \<open>t\<close>, possibly of another structure, changes
  the destination \<open>r\<close> to \<open>tr s r\<close>.
\<close>

definition trips_in :: "'q table \<Rightarrow> ('r \<Rightarrow> bool) \<Rightarrow> 'r field \<Rightarrow> ('r \<Rightarrow> 'q \<Rightarrow> 'q) \<Rightarrow> bool" where
  "trips_in t ok f tr \<longleftrightarrow>
     (\<forall>s r. ok s \<longrightarrow>
        (case fst (snd f) s of
           Omitted \<Rightarrow> tr s r = r
         | Unsupported \<Rightarrow> True
         | Written j \<Rightarrow> (case find_field t (fst f) of None \<Rightarrow> tr s r = r | Some dec \<Rightarrow> dec j r = Some (tr s r))))"

text \<open>With the field's own reader.\<close>

definition trips :: "('r \<Rightarrow> bool) \<Rightarrow> 'r field \<Rightarrow> ('r \<Rightarrow> 'r \<Rightarrow> 'r) \<Rightarrow> bool" where
  "trips ok f tr \<longleftrightarrow>
     (\<forall>s r. ok s \<longrightarrow>
        (case fst (snd f) s of Omitted \<Rightarrow> tr s r = r | Unsupported \<Rightarrow> True | Written j \<Rightarrow> snd (snd f) j r = Some (tr s r)))"

lemma trips_scalar:
  assumes "\<And>x j old. write x = Some j \<Longrightarrow> read j old = Some x" and "\<And>r. upd (\<lambda>a. a) r = r"
  shows "trips ok (field name omitted write read sel upd) (\<lambda>s r. upd (\<lambda>a. if omitted (sel s) then a else sel s) r)"
  using assms by (auto simp: trips_def field_def omit_if_def slot_of_def into_def split: option.split)

lemma trips_norm:
  assumes "\<And>x j old. good x \<Longrightarrow> \<not> omitted x \<Longrightarrow> write x = Some j \<Longrightarrow> read j old = Some (nf x old)" and "\<And>s. ok s \<Longrightarrow> good (sel s)"
    and "\<And>r. upd (\<lambda>a. a) r = r" and "\<And>x r. upd (\<lambda>a. nf x a) r = upd (\<lambda>_. nf x (sel r)) r"
  shows "trips ok (field name omitted write read sel upd) (\<lambda>s r. upd (\<lambda>a. if omitted (sel s) then a else nf (sel s) a) r)"
proof -
  have "map_option (\<lambda>x. upd (\<lambda>_. x) r) (read j (sel r)) = Some (upd (nf (sel s)) r)"
    if "ok s" "\<not> omitted (sel s)" "write (sel s) = Some j" for s r j
    using assms(1) [OF assms(2) [OF that(1)] that(2,3)] assms(4) by simp
  then show ?thesis using assms(3) by (auto simp: trips_def field_def omit_if_def slot_of_def into_def split: option.split)
qed

lemma find_field_member:
  assumes "distinct (map fst fs)" and "(k, enc, dec) \<in> set fs"
  shows "find_field (table_of fs) k = Some dec"
proof -
  have m: "map fst (table_of fs) = map fst fs" by (simp add: table_of_def case_prod_beta comp_def)
  have "(k, dec) \<in> set (table_of fs)" using assms(2) by (force simp: table_of_def)
  then have "map_of (table_of fs) k = Some dec" using assms(1) m by simp
  then show ?thesis by (simp add: find_field_def)
qed

text \<open>A structure that was written is read field by field.\<close>

lemma read_written_fields:
  assumes "list_all2 (trips_in t ok) gs trs" and "ok s" and "Unsupported \<notin> (\<lambda>(k, enc, dec). enc s) ` set gs"
  shows "read_fields t (List.map_filter (\<lambda>(k, sl). case sl of Written j \<Rightarrow> Some (k, j) | _ \<Rightarrow> None) (map (\<lambda>(k, enc, dec). (k, enc s)) gs)) r
     = Some (fold (\<lambda>tr r. tr s r) trs r)"
  using assms(1,3)
proof (induction arbitrary: r rule: list_all2_induct)
  case Nil
  then show ?case by simp
next
  case (Cons f gs tr trs)
  obtain k enc dec where f: "f = (k, enc, dec)" by (cases f)
  have "case enc s of Omitted \<Rightarrow> tr s r = r | Unsupported \<Rightarrow> True
    | Written j \<Rightarrow> (case find_field t k of None \<Rightarrow> tr s r = r | Some d \<Rightarrow> d j r = Some (tr s r))"
    using Cons.hyps(1) assms(2) by (auto simp: trips_in_def f split: slot.splits)
  then show ?case
    using Cons.IH Cons.prems by (cases "enc s") (auto simp: f split: option.splits)
qed

lemma read_written_struct:
  assumes "list_all2 (trips_in t ok) fs trs" and "ok s" and "write_struct fs s = Some j"
    and "fold (\<lambda>tr r. tr s r) trs old = res"
  shows "read_struct t j old = Some res"
proof -
  have u: "Unsupported \<notin> (\<lambda>(k, enc, dec). enc s) ` set fs"
    and j: "j = JvObj (List.map_filter (\<lambda>(k, sl). case sl of Written j \<Rightarrow> Some (k, j) | _ \<Rightarrow> None) (map (\<lambda>(k, enc, dec). (k, enc s)) fs))"
    using assms(3) by (auto simp: write_struct_def marshal_object_def image_image case_prod_beta split: if_splits)
  show ?thesis
    using read_written_fields [OF assms(1,2) u] assms(4) by (simp add: j read_struct_def)
qed

lemma struct_trip:
  assumes "list_all2 (trips ok) fs trs" and "distinct (map fst fs)" and "ok s" and "write_struct fs s = Some j"
    and "fold (\<lambda>tr r. tr s r) trs old = res"
  shows "read_struct (table_of fs) j old = Some res"
proof -
  have "list_all2 (trips_in (table_of fs) ok) fs trs"
    using assms(1)
  proof (rule list.rel_mono_strong)
    fix f tr assume "f \<in> set fs" "trips ok f tr"
    then show "trips_in (table_of fs) ok f tr"
      using find_field_member [OF assms(2), of "fst f" "fst (snd f)" "snd (snd f)"]
      by (simp add: trips_def trips_in_def cong: slot.case_cong)
  qed
  from read_written_struct [OF this assms(3-5)] show ?thesis .
qed

section \<open>Reading with the table of another structure\<close>

lemma trips_in_skipped: "find_field t (fst f) = None \<Longrightarrow> trips_in t ok f (\<lambda>s r. r)"
  by (simp add: trips_in_def split: slot.split)

lemma trips_in_read:
  assumes "find_field t name = Some (into upd sel read)"
    and "\<And>s j old. ok s \<Longrightarrow> \<not> omitted (sel' s) \<Longrightarrow> write (sel' s) = Some j \<Longrightarrow> read j old = Some (nf (sel' s) old)"
    and "\<And>r. upd (\<lambda>a. a) r = r" and "\<And>x r. upd (\<lambda>a. nf x a) r = upd (\<lambda>_. nf x (sel r)) r"
  shows "trips_in t ok (field name omitted write read' sel' upd') (\<lambda>s r. upd (\<lambda>a. if omitted (sel' s) then a else nf (sel' s) a) r)"
proof -
  have "map_option (\<lambda>x. upd (\<lambda>_. x) r) (read j (sel r)) = Some (upd (nf (sel' s)) r)"
    if "ok s" "\<not> omitted (sel' s)" "write (sel' s) = Some j" for s r j
    using assms(2) [OF that] assms(4) by simp
  then show ?thesis
    using assms(1,3) by (auto simp: trips_in_def field_def omit_if_def slot_of_def into_def split: option.split)
qed

text \<open>Names of lower-case letters are looked up as they are.\<close>

definition lower_name :: "string \<Rightarrow> bool" where
  "lower_name = list_all (\<lambda>c. CHR ''a'' \<le> c \<and> c \<le> CHR ''z'')"

lemma fold_lower_name: "lower_name k \<Longrightarrow> fold_name k = k"
proof (induction k rule: fold_name.induct)
  case (2 c s)
  have c: "(97 :: nat) \<le> of_char c \<and> of_char c \<le> (122 :: nat)" using 2(4) by (auto simp: lower_name_def less_eq_char_def)
  then show ?case using 2 by (auto simp: lower_name_def less_eq_char_def)
qed simp

lemma find_field_lower:
  assumes "lower_name k" and "list_all (lower_name \<circ> fst) t"
  shows "find_field t k = map_of t k"
proof -
  have "map (\<lambda>(k, f). (fold_name k, f)) t = t" using assms(2) by (induction t) (auto simp: fold_lower_name)
  then show ?thesis by (simp add: find_field_def fold_lower_name [OF assms(1)] split: option.split)
qed

end
