(* ===== verification/Systemd.thy ===== *)
theory Systemd
  imports Utils
begin

text \<open>
  \<^verbatim>\<open>internal/entities/systemd/systemd.go\<close>: the state of a service, the parsing of its status and the
  CPU percentage between two samples. The clock reading and the number of CPUs are arguments.
\<close>

abbreviation zero_flt :: flt where "zero_flt \<equiv> Fin 0"

datatype service_state =
  StatusActive | StatusInactive | StatusFailed | StatusActivating | StatusDeactivating | StatusReloading

datatype service_sub_state =
  SubStateDead | SubStateRunning | SubStateExited | SubStateFailed | SubStateUnknown

definition parse_service_status :: "string \<Rightarrow> service_state" where
  "parse_service_status s =
     (if s = ''active'' then StatusActive
      else if s = ''inactive'' then StatusInactive
      else if s = ''failed'' then StatusFailed
      else if s = ''activating'' then StatusActivating
      else if s = ''deactivating'' then StatusDeactivating
      else if s = ''reloading'' then StatusReloading
      else StatusInactive)"

definition parse_service_sub_state :: "string \<Rightarrow> service_sub_state" where
  "parse_service_sub_state s =
     (if s = ''dead'' then SubStateDead
      else if s = ''running'' then SubStateRunning
      else if s = ''exited'' then SubStateExited
      else if s = ''failed'' then SubStateFailed
      else SubStateUnknown)"

record service =
  sv_name :: string
  sv_state :: service_state
  sv_cpu :: flt
  sv_mem :: u64
  sv_mem_peak :: u64
  sv_sub :: service_sub_state
  sv_cpu_peak :: flt
  sv_prev_cpu_usage :: u64
  sv_prev_read_time :: instant

text \<open>\<open>int64\<close> multiplication wraps.\<close>

definition wrap_i64 :: "int \<Rightarrow> int" where
  "wrap_i64 x = sint (word_of_int x :: u64)"

definition update_cpu_percent :: "instant \<Rightarrow> int \<Rightarrow> u64 \<Rightarrow> service \<Rightarrow> service" where
  "update_cpu_percent now num_cpu cpuUsage s =
     (if sv_prev_read_time s = zero_time \<or> cpuUsage < sv_prev_cpu_usage s then
        s\<lparr>sv_cpu := zero_flt, sv_prev_cpu_usage := cpuUsage, sv_prev_read_time := now\<rparr>
      else
        let duration = time_sub now (sv_prev_read_time s) in
        if duration \<le> 0 then s\<lparr>sv_prev_cpu_usage := cpuUsage, sv_prev_read_time := now\<rparr>
        else
          let duration = wrap_i64 (duration * num_cpu);
              usageDelta = cpuUsage - sv_prev_cpu_usage s;
              cpuPercent = div64 (float64_of_u64 usageDelta) (float64_of_int duration);
              cpu = two_decimals (mul64 cpuPercent (Fin 100));
              peak = (if fless (sv_cpu_peak s) cpu then cpu else sv_cpu_peak s)
          in s\<lparr>sv_cpu := cpu, sv_cpu_peak := peak, sv_prev_cpu_usage := cpuUsage,
               sv_prev_read_time := now\<rparr>)"

text \<open>The peak never goes down, and after a sample it is at least the value just measured.\<close>

lemma cpu_peak_grows:
  assumes "sv_cpu_peak s \<noteq> NaN"
  shows "fle (sv_cpu_peak s) (sv_cpu_peak (update_cpu_percent now n u s))"
  using assms by (auto simp: update_cpu_percent_def Let_def fless_imp_fle)

end
