(* ===== verification/Entities.thy ===== *)
theory Entities
  imports Systemd
begin

text \<open>
  The data the agent sends and the hub stores: \<^verbatim>\<open>internal/entities/system/system.go\<close> and the
  container statistics of \<^verbatim>\<open>internal/entities/container/container.go\<close>. A Go map that may be nil is an
  optional association list, a fixed array of two or three numbers a tuple, and the array
  \<open>[6]float64\<close> a list whose length \<open>stats_wf\<close> fixes. The zero values are Go's.
\<close>

section \<open>Numbers\<close>


type_synonym bytes_pair = "u64 \<times> u64"
type_synonym io_stats = "flt list"

definition zero_io :: io_stats where "zero_io = replicate 6 zero_flt"


section \<open>File systems, GPUs, containers\<close>

record fs_stats =
  fs_time :: instant
  fs_root :: bool
  fs_mountpoint :: string
  fs_name :: string
  fs_disk_total :: flt
  fs_disk_used :: flt
  fs_total_read :: u64
  fs_total_write :: u64
  fs_read_ps :: flt
  fs_write_ps :: flt
  fs_max_read_ps :: flt
  fs_max_write_ps :: flt
  fs_read_bytes :: u64
  fs_write_bytes :: u64
  fs_max_read_bytes :: u64
  fs_max_write_bytes :: u64
  fs_io_stats :: io_stats
  fs_max_io_stats :: io_stats

definition zero_fs_stats :: fs_stats where
  "zero_fs_stats =
     \<lparr>fs_time = zero_time, fs_root = False, fs_mountpoint = '''', fs_name = '''',
      fs_disk_total = zero_flt, fs_disk_used = zero_flt, fs_total_read = 0, fs_total_write = 0,
      fs_read_ps = zero_flt, fs_write_ps = zero_flt, fs_max_read_ps = zero_flt,
      fs_max_write_ps = zero_flt, fs_read_bytes = 0, fs_write_bytes = 0, fs_max_read_bytes = 0,
      fs_max_write_bytes = 0, fs_io_stats = zero_io, fs_max_io_stats = zero_io\<rparr>"

record gpu_data =
  gpu_name :: string
  gpu_temperature :: flt
  gpu_memory_used :: flt
  gpu_memory_total :: flt
  gpu_usage :: flt
  gpu_power :: flt
  gpu_count :: flt
  gpu_engines :: "(string, flt) gomap option"
  gpu_power_pkg :: flt

definition named_gpu :: "string \<Rightarrow> gpu_data" where
  "named_gpu name =
     \<lparr>gpu_name = name, gpu_temperature = zero_flt, gpu_memory_used = zero_flt,
      gpu_memory_total = zero_flt, gpu_usage = zero_flt, gpu_power = zero_flt, gpu_count = zero_flt,
      gpu_engines = None, gpu_power_pkg = zero_flt\<rparr>"

record container_stats =
  ct_name :: string
  ct_cpu :: flt
  ct_mem :: flt
  ct_network_sent :: flt
  ct_network_recv :: flt
  ct_bandwidth :: bytes_pair
  ct_health :: u8
  ct_status :: string
  ct_id :: string
  ct_image :: string
  ct_ports :: string
  ct_cpu_system :: u64
  ct_cpu_container :: u64
  ct_prev_net :: bytes_pair
  ct_prev_read :: instant

definition named_container :: "string \<Rightarrow> container_stats" where
  "named_container name =
     \<lparr>ct_name = name, ct_cpu = zero_flt, ct_mem = zero_flt, ct_network_sent = zero_flt,
      ct_network_recv = zero_flt, ct_bandwidth = (0, 0), ct_health = 0, ct_status = '''', ct_id = '''',
      ct_image = '''', ct_ports = '''', ct_cpu_system = 0, ct_cpu_container = 0,
      ct_prev_net = (0, 0), ct_prev_read = zero_time\<rparr>"

section \<open>System statistics\<close>

record stats =
  s_cpu :: flt
  s_max_cpu :: flt
  s_mem :: flt
  s_max_mem :: flt
  s_mem_used :: flt
  s_mem_pct :: flt
  s_mem_buff_cache :: flt
  s_mem_zfs_arc :: flt
  s_swap :: flt
  s_swap_used :: flt
  s_disk_total :: flt
  s_disk_used :: flt
  s_disk_pct :: flt
  s_disk_read_ps :: flt
  s_disk_write_ps :: flt
  s_max_disk_read_ps :: flt
  s_max_disk_write_ps :: flt
  s_network_sent :: flt
  s_network_recv :: flt
  s_max_network_sent :: flt
  s_max_network_recv :: flt
  s_temperatures :: "(string, flt) gomap option"
  s_extra_fs :: "(string, fs_stats) gomap option"
  s_gpu_data :: "(string, gpu_data) gomap option"
  s_bandwidth :: bytes_pair
  s_max_bandwidth :: bytes_pair
  s_load_avg :: "flt \<times> flt \<times> flt"
  s_battery :: "u8 \<times> u8"
  s_network_interfaces :: "(string, u64 \<times> u64 \<times> u64 \<times> u64) gomap option"
  s_disk_io :: bytes_pair
  s_max_disk_io :: bytes_pair
  s_cpu_breakdown :: "flt list option"
  s_cpu_cores :: "u8 list option"
  s_disk_io_stats :: io_stats
  s_max_disk_io_stats :: io_stats

definition zero_stats :: stats where
  "zero_stats =
     \<lparr>s_cpu = zero_flt, s_max_cpu = zero_flt, s_mem = zero_flt, s_max_mem = zero_flt,
      s_mem_used = zero_flt, s_mem_pct = zero_flt, s_mem_buff_cache = zero_flt,
      s_mem_zfs_arc = zero_flt, s_swap = zero_flt, s_swap_used = zero_flt, s_disk_total = zero_flt,
      s_disk_used = zero_flt, s_disk_pct = zero_flt, s_disk_read_ps = zero_flt,
      s_disk_write_ps = zero_flt, s_max_disk_read_ps = zero_flt, s_max_disk_write_ps = zero_flt,
      s_network_sent = zero_flt, s_network_recv = zero_flt, s_max_network_sent = zero_flt,
      s_max_network_recv = zero_flt, s_temperatures = None, s_extra_fs = None, s_gpu_data = None,
      s_bandwidth = (0, 0), s_max_bandwidth = (0, 0), s_load_avg = (zero_flt, zero_flt, zero_flt),
      s_battery = (0, 0), s_network_interfaces = None, s_disk_io = (0, 0), s_max_disk_io = (0, 0),
      s_cpu_breakdown = None, s_cpu_cores = None, s_disk_io_stats = zero_io,
      s_max_disk_io_stats = zero_io\<rparr>"

definition stats_wf :: "stats \<Rightarrow> bool" where
  "stats_wf s \<longleftrightarrow> length (s_disk_io_stats s) = 6 \<and> length (s_max_disk_io_stats s) = 6"

lemma zero_stats_wf: "stats_wf zero_stats"
  by (simp add: stats_wf_def zero_stats_def zero_io_def)

section \<open>Information and details\<close>

record info =
  i_hostname :: string
  i_kernel_version :: string
  i_cores :: int
  i_threads :: int
  i_cpu_model :: string
  i_uptime :: u64
  i_cpu :: flt
  i_mem_pct :: flt
  i_disk_pct :: flt
  i_bandwidth :: flt
  i_agent_version :: string
  i_podman :: bool
  i_gpu_pct :: flt
  i_dashboard_temp :: flt
  i_os :: u8
  i_bandwidth_bytes :: u64
  i_load_avg :: "flt \<times> flt \<times> flt"
  i_connection_type :: u8
  i_extra_fs_pct :: "(string, flt) gomap option"
  i_services :: "u16 list option"
  i_battery :: "u8 \<times> u8"

definition zero_info :: info where
  "zero_info =
     \<lparr>i_hostname = '''', i_kernel_version = '''', i_cores = 0, i_threads = 0, i_cpu_model = '''',
      i_uptime = 0, i_cpu = zero_flt, i_mem_pct = zero_flt, i_disk_pct = zero_flt,
      i_bandwidth = zero_flt, i_agent_version = '''', i_podman = False, i_gpu_pct = zero_flt,
      i_dashboard_temp = zero_flt, i_os = 0, i_bandwidth_bytes = 0,
      i_load_avg = (zero_flt, zero_flt, zero_flt), i_connection_type = 0, i_extra_fs_pct = None,
      i_services = None, i_battery = (0, 0)\<rparr>"

record details =
  d_hostname :: string
  d_kernel :: string
  d_cores :: int
  d_threads :: int
  d_cpu_model :: string
  d_os :: u8
  d_os_name :: string
  d_arch :: string
  d_podman :: bool
  d_memory_total :: u64
  d_smart_interval :: duration

record combined_data =
  cd_stats :: stats
  cd_info :: info
  cd_containers :: "container_stats list"
  cd_systemd_services :: "service list"
  cd_details :: "details option"

definition zero_data :: combined_data where
  "zero_data = \<lparr>cd_stats = zero_stats, cd_info = zero_info, cd_containers = [], cd_systemd_services = [],
                cd_details = None\<rparr>"

end
