(* ===== verification/CborTags.thy ===== *)
theory CborTags
  imports Entities
begin

text \<open>
  What the struct tags of \<^verbatim>\<open>internal/entities\<close> make of the data on its way from the agent to the hub. A field with the
  tag \<open>cbor:"-"\<close>, or without one and with \<open>json:"-"\<close>, is not sent; one with \<open>omitempty\<close> or \<open>omitzero\<close> is not sent when it is
  empty or zero. What is not sent is left alone by the decoder: it keeps the value the destination had, and a map keeps
  its other entries, a pointer what it points to. An array or slice is replaced.
\<close>

section \<open>Fields\<close>

text \<open>\<open>omitempty\<close> looks at the value of a float, \<open>omitzero\<close> at its sign too.\<close>

definition sent_unless :: "bool \<Rightarrow> 'a \<Rightarrow> 'a \<Rightarrow> 'a" where
  "sent_unless omitted new old = (if omitted then old else new)"

definition into_float :: "flt \<Rightarrow> flt \<Rightarrow> flt" where
  "into_float new old = sent_unless (is_zero new) new old"

definition into_zero :: "'a \<Rightarrow> 'a \<Rightarrow> 'a \<Rightarrow> 'a" where
  "into_zero zero new old = sent_unless (new = zero) new old"

definition into_map :: "('v \<Rightarrow> 'w) \<Rightarrow> (string, 'v) gomap option \<Rightarrow> (string, 'w) gomap option \<Rightarrow> (string, 'w) gomap option" where
  "into_map decoded new old =
     (case new of
        None \<Rightarrow> old
      | Some m \<Rightarrow>
          if m = [] then old
          else Some (fold (\<lambda>(k, v). AList.update k (decoded v)) m (case old of Some entries \<Rightarrow> entries | None \<Rightarrow> [])))"

definition into_slice :: "'a list option \<Rightarrow> 'a list option \<Rightarrow> 'a list option" where
  "into_slice new old = sent_unless (new = None \<or> new = Some []) new old"

lemmas into_defs = sent_unless_def into_float_def into_zero_def into_slice_def

section \<open>Structures\<close>

text \<open>The values of a map and the elements of a slice are decoded into new structures.\<close>

definition cbor_fs :: "fs_stats \<Rightarrow> fs_stats" where
  "cbor_fs s = zero_fs_stats
     \<lparr>fs_disk_total := fs_disk_total s, fs_disk_used := fs_disk_used s, fs_read_ps := fs_read_ps s, fs_write_ps := fs_write_ps s,
      fs_read_bytes := fs_read_bytes s, fs_write_bytes := fs_write_bytes s, fs_io_stats := fs_io_stats s\<rparr>"

definition cbor_gpu :: "gpu_data \<Rightarrow> gpu_data" where
  "cbor_gpu g = (named_gpu (gpu_name g))
     \<lparr>gpu_memory_used := into_float (gpu_memory_used g) zero_flt, gpu_memory_total := into_float (gpu_memory_total g) zero_flt,
      gpu_usage := into_float (gpu_usage g) zero_flt, gpu_power := into_float (gpu_power g) zero_flt,
      gpu_engines := into_map (\<lambda>x. x) (gpu_engines g) None, gpu_power_pkg := into_float (gpu_power_pkg g) zero_flt\<rparr>"

definition cbor_container :: "container_stats \<Rightarrow> container_stats" where
  "cbor_container c = (named_container (ct_name c))
     \<lparr>ct_cpu := ct_cpu c, ct_mem := ct_mem c, ct_network_sent := ct_network_sent c, ct_network_recv := ct_network_recv c,
      ct_bandwidth := ct_bandwidth c, ct_health := ct_health c, ct_status := ct_status c, ct_id := ct_id c, ct_image := ct_image c,
      ct_ports := ct_ports c\<rparr>"

definition cbor_service :: "service \<Rightarrow> service" where
  "cbor_service s = s\<lparr>sv_prev_cpu_usage := 0, sv_prev_read_time := zero_time\<rparr>"

text \<open>The first argument is what the agent sends, the second the destination.\<close>

definition cbor_stats :: "stats \<Rightarrow> stats \<Rightarrow> stats" where
  "cbor_stats s old = old
     \<lparr>s_cpu := s_cpu s, s_mem := s_mem s, s_mem_used := s_mem_used s, s_mem_pct := s_mem_pct s, s_mem_buff_cache := s_mem_buff_cache s,
      s_mem_zfs_arc := into_float (s_mem_zfs_arc s) (s_mem_zfs_arc old), s_swap := into_float (s_swap s) (s_swap old),
      s_swap_used := into_float (s_swap_used s) (s_swap_used old), s_disk_total := s_disk_total s, s_disk_used := s_disk_used s,
      s_disk_pct := s_disk_pct s, s_disk_read_ps := into_zero zero_flt (s_disk_read_ps s) (s_disk_read_ps old),
      s_disk_write_ps := into_zero zero_flt (s_disk_write_ps s) (s_disk_write_ps old),
      s_network_sent := into_zero zero_flt (s_network_sent s) (s_network_sent old),
      s_network_recv := into_zero zero_flt (s_network_recv s) (s_network_recv old),
      s_temperatures := into_map (\<lambda>x. x) (s_temperatures s) (s_temperatures old),
      s_extra_fs := into_map cbor_fs (s_extra_fs s) (s_extra_fs old), s_gpu_data := into_map cbor_gpu (s_gpu_data s) (s_gpu_data old),
      s_bandwidth := into_zero (0, 0) (s_bandwidth s) (s_bandwidth old), s_load_avg := s_load_avg s,
      s_battery := into_zero (0, 0) (s_battery s) (s_battery old),
      s_network_interfaces := into_map (\<lambda>x. x) (s_network_interfaces s) (s_network_interfaces old),
      s_disk_io := into_zero (0, 0) (s_disk_io s) (s_disk_io old),
      s_cpu_breakdown := into_slice (s_cpu_breakdown s) (s_cpu_breakdown old), s_cpu_cores := into_slice (s_cpu_cores s) (s_cpu_cores old),
      s_disk_io_stats := into_zero zero_io (s_disk_io_stats s) (s_disk_io_stats old)\<rparr>"

definition cbor_info :: "info \<Rightarrow> info \<Rightarrow> info" where
  "cbor_info i old =
     \<lparr>i_hostname = into_zero '''' (i_hostname i) (i_hostname old), i_kernel_version = into_zero '''' (i_kernel_version i) (i_kernel_version old),
      i_cores = into_zero 0 (i_cores i) (i_cores old), i_threads = into_zero 0 (i_threads i) (i_threads old),
      i_cpu_model = into_zero '''' (i_cpu_model i) (i_cpu_model old), i_uptime = i_uptime i, i_cpu = i_cpu i, i_mem_pct = i_mem_pct i,
      i_disk_pct = i_disk_pct i, i_bandwidth = i_bandwidth i, i_agent_version = i_agent_version i,
      i_podman = into_zero False (i_podman i) (i_podman old), i_gpu_pct = into_float (i_gpu_pct i) (i_gpu_pct old),
      i_dashboard_temp = into_float (i_dashboard_temp i) (i_dashboard_temp old), i_os = into_zero 0 (i_os i) (i_os old),
      i_bandwidth_bytes = i_bandwidth_bytes i, i_load_avg = i_load_avg i,
      i_connection_type = into_zero 0 (i_connection_type i) (i_connection_type old),
      i_extra_fs_pct = into_map (\<lambda>x. x) (i_extra_fs_pct i) (i_extra_fs_pct old), i_services = into_slice (i_services i) (i_services old),
      i_battery = into_zero (0, 0) (i_battery i) (i_battery old)\<rparr>"

definition zero_details :: details where
  "zero_details = \<lparr>d_hostname = '''', d_kernel = '''', d_cores = 0, d_threads = 0, d_cpu_model = '''', d_os = 0, d_os_name = '''',
     d_arch = '''', d_podman = False, d_memory_total = 0, d_smart_interval = 0\<rparr>"

definition cbor_details :: "details \<Rightarrow> details \<Rightarrow> details" where
  "cbor_details d old = d
     \<lparr>d_kernel := into_zero '''' (d_kernel d) (d_kernel old), d_podman := into_zero False (d_podman d) (d_podman old),
      d_smart_interval := into_zero 0 (d_smart_interval d) (d_smart_interval old)\<rparr>"

definition cbor_into :: "combined_data \<Rightarrow> combined_data \<Rightarrow> combined_data" where
  "cbor_into d old =
     \<lparr>cd_stats = cbor_stats (cd_stats d) (cd_stats old), cd_info = cbor_info (cd_info d) (cd_info old),
      cd_containers = map cbor_container (cd_containers d),
      cd_systemd_services = (if cd_systemd_services d = [] then cd_systemd_services old else map cbor_service (cd_systemd_services d)),
      cd_details = (case cd_details d of
          None \<Rightarrow> cd_details old
        | Some x \<Rightarrow> Some (cbor_details x (case cd_details old of Some y \<Rightarrow> y | None \<Rightarrow> zero_details)))\<rparr>"

text \<open>What arrives in a new structure.\<close>

definition on_wire :: "combined_data \<Rightarrow> combined_data" where
  "on_wire d = cbor_into d zero_data"

section \<open>What arrives\<close>

lemma into_map_keys:
  "into_map f new None = (case new of Some m \<Rightarrow> if m = [] then None else Some (fold (\<lambda>(k, v). AList.update k (f v)) m []) | None \<Rightarrow> None)"
  by (simp add: into_map_def split: option.split)

lemma fold_update_lookup:
  "distinct (map fst m) \<Longrightarrow>
   map_of (fold (\<lambda>(k, v). AList.update k (f v)) m entries) k =
     (case map_of m k of Some v \<Rightarrow> Some (f v) | None \<Rightarrow> map_of entries k)"
proof (induction m arbitrary: entries)
  case (Cons x m)
  obtain a v where x: "x = (a, v)" by (cases x)
  have "map_of m a = None" using Cons.prems x by (simp add: map_of_eq_None_iff)
  then show ?case using Cons x by (auto simp: store_laws split: option.split)
qed simp

text \<open>The numbers of every answer arrive; the peaks, which only the hub fills, and the agent's own bookkeeping do not.\<close>

lemma on_wire_values:
  "s_cpu (cd_stats (on_wire d)) = s_cpu (cd_stats d)" "s_mem_pct (cd_stats (on_wire d)) = s_mem_pct (cd_stats d)"
  "s_disk_pct (cd_stats (on_wire d)) = s_disk_pct (cd_stats d)" "s_bandwidth (cd_stats (on_wire d)) = s_bandwidth (cd_stats d)"
  "s_max_cpu (cd_stats (on_wire d)) = zero_flt"
  "map ct_id (cd_containers (on_wire d)) = map ct_id (cd_containers d)"
  "i_cpu (cd_info (on_wire d)) = i_cpu (cd_info d)" "i_agent_version (cd_info (on_wire d)) = i_agent_version (cd_info d)"
  by (simp_all add: on_wire_def cbor_into_def cbor_stats_def cbor_info_def cbor_container_def into_defs zero_data_def zero_stats_def
      zero_info_def named_container_def)

text \<open>The zero data arrives as it is, and what has arrived once arrives again unchanged.\<close>

lemma on_wire_zero: "on_wire zero_data = zero_data"
  by (simp add: on_wire_def cbor_into_def cbor_stats_def cbor_info_def into_defs into_map_def zero_data_def zero_stats_def zero_info_def
      is_zero_def)

lemma cbor_container_idem: "cbor_container (cbor_container c) = cbor_container c"
  by (simp add: cbor_container_def named_container_def)

lemma cbor_fs_idem: "cbor_fs (cbor_fs s) = cbor_fs s"
  by (simp add: cbor_fs_def zero_fs_stats_def)

end
