(* ===== verification/StatsJson.thy ===== *)
theory StatsJson
  imports Json CborTags
begin

text \<open>
  The statistics as the JSON of a record: the \<^verbatim>\<open>json\<close> tags of \<^verbatim>\<open>internal/entities\<close>, what the hub's tables
  hold (\<open>stats_json\<close>, \<open>containers_json\<close>) and what is read back from them. A field with the tag \<open>json:"-"\<close> has no entry.
\<close>

section \<open>Arrays, maps and slices\<close>

text \<open>Arrays of fixed length are tuples; \<open>els\<close> gives their elements, \<open>mk\<close> makes them from these.\<close>

definition write_tuple :: "('t \<Rightarrow> 'a list) \<Rightarrow> ('a \<Rightarrow> jval option) \<Rightarrow> 't \<Rightarrow> jval option" where
  "write_tuple els w x = write_list w (els x)"

definition read_tuple :: "('t \<Rightarrow> 'a list) \<Rightarrow> ('a list \<Rightarrow> 't) \<Rightarrow> nat \<Rightarrow> 'a reader \<Rightarrow> 'a \<Rightarrow> 't reader" where
  "read_tuple els mk n r zero v old = map_option mk (read_array n r zero v (els old))"

definition to2 :: "'a \<times> 'a \<Rightarrow> 'a list" where "to2 = (\<lambda>(a, b). [a, b])"
definition of2 :: "'a list \<Rightarrow> 'a \<times> 'a" where "of2 xs = (xs ! 0, xs ! 1)"
definition to3 :: "'a \<times> 'a \<times> 'a \<Rightarrow> 'a list" where "to3 = (\<lambda>(a, b, c). [a, b, c])"
definition of3 :: "'a list \<Rightarrow> 'a \<times> 'a \<times> 'a" where "of3 xs = (xs ! 0, xs ! 1, xs ! 2)"
definition to4 :: "'a \<times> 'a \<times> 'a \<times> 'a \<Rightarrow> 'a list" where "to4 = (\<lambda>(a, b, c, d). [a, b, c, d])"
definition of4 :: "'a list \<Rightarrow> 'a \<times> 'a \<times> 'a \<times> 'a" where "of4 xs = (xs ! 0, xs ! 1, xs ! 2, xs ! 3)"

lemmas tuples = to2_def of2_def to3_def of3_def to4_def of4_def

definition empty_map :: "(string, 'a) gomap option \<Rightarrow> bool" where
  "empty_map m \<longleftrightarrow> m = None \<or> m = Some []"

definition empty_slice :: "'a list option \<Rightarrow> bool" where
  "empty_slice m \<longleftrightarrow> m = None \<or> m = Some []"

definition write_gomap :: "('a \<Rightarrow> jval option) \<Rightarrow> (string, 'a) gomap option \<Rightarrow> jval option" where
  "write_gomap w m = (case m of None \<Rightarrow> Some JvNull | Some e \<Rightarrow> write_map w e)"

definition write_slice :: "('a \<Rightarrow> jval option) \<Rightarrow> 'a list option \<Rightarrow> jval option" where
  "write_slice w s = (case s of None \<Rightarrow> Some JvNull | Some xs \<Rightarrow> write_list w xs)"

text \<open>\<open>Uint8Slice.MarshalJSON\<close>: the bytes as numbers, not as a base64 string.\<close>

definition marshal_uint8_slice :: "u8 list option \<Rightarrow> jval option" where
  "marshal_uint8_slice s =
     (case s of None \<Rightarrow> Some JvNull | Some xs \<Rightarrow> write_list write_word (map (\<lambda>b. ucast b :: 16 word) xs))"

text \<open>Bytes are read from an array of numbers or from a base64 string, whose line breaks are skipped.\<close>

definition base64_value :: "char \<Rightarrow> nat option" where
  "base64_value c =
     (let n = of_char c in
      if CHR ''A'' \<le> c \<and> c \<le> CHR ''Z'' then Some (n - 65)
      else if CHR ''a'' \<le> c \<and> c \<le> CHR ''z'' then Some (n - 71)
      else if CHR ''0'' \<le> c \<and> c \<le> CHR ''9'' then Some (n + 4)
      else if c = CHR ''+'' then Some 62 else if c = CHR ''/'' then Some 63 else None)"

fun base64_group :: "char list \<Rightarrow> nat option" where
  "base64_group [] = Some 0"
| "base64_group (c # cs) =
     (case (base64_value c, base64_group cs) of (Some v, Some w) \<Rightarrow> Some (v * 64 ^ length cs + w) | _ \<Rightarrow> None)"

fun base64_decode :: "string \<Rightarrow> u8 list option" where
  "base64_decode (a # b # c # d # s) =
     (if s = [] \<and> d = CHR ''='' then
        (if c = CHR ''='' then map_option (\<lambda>n. [of_nat (n div 16)]) (base64_group [a, b])
         else map_option (\<lambda>n. [of_nat (n div 1024), of_nat (n div 4)]) (base64_group [a, b, c]))
      else
        case (base64_group [a, b, c, d], base64_decode s) of
          (Some n, Some rest) \<Rightarrow> Some (of_nat (n div 65536) # of_nat (n div 256) # of_nat n # rest)
        | _ \<Rightarrow> None)"
| "base64_decode s = (if s = [] then Some [] else None)"

definition read_bytes :: "u8 list option reader" where
  "read_bytes v old =
     (case v of
        JvStr s \<Rightarrow> map_option Some (base64_decode (filter (\<lambda>c. of_char c \<noteq> (10 :: nat) \<and> of_char c \<noteq> (13 :: nat)) s))
      | _ \<Rightarrow> read_slice read_word 0 v old)"

section \<open>Kinds of fields\<close>

definition float_field :: "string \<Rightarrow> (flt \<Rightarrow> bool) \<Rightarrow> ('r \<Rightarrow> flt) \<Rightarrow> ((flt \<Rightarrow> flt) \<Rightarrow> 'r \<Rightarrow> 'r) \<Rightarrow> 'r field" where
  "float_field name omitted = field name omitted write_float read_float"

definition pair_field :: "string \<Rightarrow> ('r \<Rightarrow> 'w::len word \<times> 'w word) \<Rightarrow> (('w word \<times> 'w word \<Rightarrow> 'w word \<times> 'w word) \<Rightarrow> 'r \<Rightarrow> 'r) \<Rightarrow> 'r field" where
  "pair_field name = field name ((=) (0, 0)) (write_tuple to2 write_word) (read_tuple to2 of2 2 read_word 0)"

definition io_field :: "string \<Rightarrow> ('r \<Rightarrow> io_stats) \<Rightarrow> ((io_stats \<Rightarrow> io_stats) \<Rightarrow> 'r \<Rightarrow> 'r) \<Rightarrow> 'r field" where
  "io_field name = field name ((=) zero_io) (write_list write_float) (read_array 6 read_float zero_flt)"

definition map_field ::
  "string \<Rightarrow> ('a \<Rightarrow> jval option) \<Rightarrow> 'a reader \<Rightarrow> 'a \<Rightarrow> ('r \<Rightarrow> (string, 'a) gomap option) \<Rightarrow>
   (((string, 'a) gomap option \<Rightarrow> (string, 'a) gomap option) \<Rightarrow> 'r \<Rightarrow> 'r) \<Rightarrow> 'r field" where
  "map_field name w r zero = field name empty_map (write_gomap w) (read_map r zero)"

text \<open>\<open>omitempty\<close> never leaves out an array that has elements.\<close>

definition load_field :: "string \<Rightarrow> ('r \<Rightarrow> flt \<times> flt \<times> flt) \<Rightarrow> ((flt \<times> flt \<times> flt \<Rightarrow> flt \<times> flt \<times> flt) \<Rightarrow> 'r \<Rightarrow> 'r) \<Rightarrow> 'r field" where
  "load_field name = field name no_tag (write_tuple to3 write_float) (read_tuple to3 of3 3 read_float zero_flt)"

section \<open>Structures\<close>

definition fs_fields :: "fs_stats field list" where
  "fs_fields =
     [float_field ''d'' no_tag fs_disk_total fs_disk_total_update,
      float_field ''du'' no_tag fs_disk_used fs_disk_used_update,
      float_field ''r'' no_tag fs_read_ps fs_read_ps_update,
      float_field ''w'' no_tag fs_write_ps fs_write_ps_update,
      float_field ''rm'' is_zero fs_max_read_ps fs_max_read_ps_update,
      float_field ''wm'' is_zero fs_max_write_ps fs_max_write_ps_update,
      field ''rb'' no_tag write_word read_word fs_read_bytes fs_read_bytes_update,
      field ''wb'' no_tag write_word read_word fs_write_bytes fs_write_bytes_update,
      field ''rbm'' ((=) 0) write_word read_word fs_max_read_bytes fs_max_read_bytes_update,
      field ''wbm'' ((=) 0) write_word read_word fs_max_write_bytes fs_max_write_bytes_update,
      io_field ''dios'' fs_io_stats fs_io_stats_update,
      io_field ''diosm'' fs_max_io_stats fs_max_io_stats_update]"

definition fs_json :: "fs_stats \<Rightarrow> jval option" where "fs_json = write_struct fs_fields"
definition read_fs :: "fs_stats reader" where "read_fs = read_struct (table_of fs_fields)"

definition gpu_fields :: "gpu_data field list" where
  "gpu_fields =
     [field ''n'' no_tag write_string read_string gpu_name gpu_name_update,
      float_field ''mu'' is_zero gpu_memory_used gpu_memory_used_update,
      float_field ''mt'' is_zero gpu_memory_total gpu_memory_total_update,
      float_field ''u'' no_tag gpu_usage gpu_usage_update,
      float_field ''p'' is_zero gpu_power gpu_power_update,
      map_field ''e'' write_float read_float zero_flt gpu_engines gpu_engines_update,
      float_field ''pp'' is_zero gpu_power_pkg gpu_power_pkg_update]"

definition gpu_json :: "gpu_data \<Rightarrow> jval option" where "gpu_json = write_struct gpu_fields"
definition read_gpu :: "gpu_data reader" where "read_gpu = read_struct (table_of gpu_fields)"

definition stats_fields :: "stats field list" where
  "stats_fields =
     [float_field ''cpu'' no_tag s_cpu s_cpu_update,
      float_field ''cpum'' is_zero s_max_cpu s_max_cpu_update,
      float_field ''m'' no_tag s_mem s_mem_update,
      float_field ''mm'' is_zero s_max_mem s_max_mem_update,
      float_field ''mu'' no_tag s_mem_used s_mem_used_update,
      float_field ''mp'' no_tag s_mem_pct s_mem_pct_update,
      float_field ''mb'' no_tag s_mem_buff_cache s_mem_buff_cache_update,
      float_field ''mz'' is_zero s_mem_zfs_arc s_mem_zfs_arc_update,
      float_field ''s'' is_zero s_swap s_swap_update,
      float_field ''su'' is_zero s_swap_used s_swap_used_update,
      float_field ''d'' no_tag s_disk_total s_disk_total_update,
      float_field ''du'' no_tag s_disk_used s_disk_used_update,
      float_field ''dp'' no_tag s_disk_pct s_disk_pct_update,
      float_field ''dr'' ((=) zero_flt) s_disk_read_ps s_disk_read_ps_update,
      float_field ''dw'' ((=) zero_flt) s_disk_write_ps s_disk_write_ps_update,
      float_field ''drm'' is_zero s_max_disk_read_ps s_max_disk_read_ps_update,
      float_field ''dwm'' is_zero s_max_disk_write_ps s_max_disk_write_ps_update,
      float_field ''ns'' ((=) zero_flt) s_network_sent s_network_sent_update,
      float_field ''nr'' ((=) zero_flt) s_network_recv s_network_recv_update,
      float_field ''nsm'' is_zero s_max_network_sent s_max_network_sent_update,
      float_field ''nrm'' is_zero s_max_network_recv s_max_network_recv_update,
      map_field ''t'' write_float read_float zero_flt s_temperatures s_temperatures_update,
      map_field ''efs'' fs_json read_fs zero_fs_stats s_extra_fs s_extra_fs_update,
      map_field ''g'' gpu_json read_gpu (named_gpu '''') s_gpu_data s_gpu_data_update,
      pair_field ''b'' s_bandwidth s_bandwidth_update,
      pair_field ''bm'' s_max_bandwidth s_max_bandwidth_update,
      load_field ''la'' s_load_avg s_load_avg_update,
      pair_field ''bat'' s_battery s_battery_update,
      map_field ''ni'' (write_tuple to4 write_word) (read_tuple to4 of4 4 read_word 0) (0, 0, 0, 0)
        s_network_interfaces s_network_interfaces_update,
      pair_field ''dio'' s_disk_io s_disk_io_update,
      pair_field ''diom'' s_max_disk_io s_max_disk_io_update,
      field ''cpub'' empty_slice (write_slice write_float) (read_slice read_float zero_flt) s_cpu_breakdown s_cpu_breakdown_update,
      field ''cpus'' empty_slice marshal_uint8_slice read_bytes s_cpu_cores s_cpu_cores_update,
      io_field ''dios'' s_disk_io_stats s_disk_io_stats_update,
      io_field ''diosm'' s_max_disk_io_stats s_max_disk_io_stats_update]"

definition stats_json :: "stats \<Rightarrow> jval option" where "stats_json = write_struct stats_fields"
definition read_stats :: "stats reader" where "read_stats = read_struct (table_of stats_fields)"

definition container_fields :: "container_stats field list" where
  "container_fields =
     [field ''n'' no_tag write_string read_string ct_name ct_name_update,
      float_field ''c'' no_tag ct_cpu ct_cpu_update,
      float_field ''m'' no_tag ct_mem ct_mem_update,
      float_field ''ns'' ((=) zero_flt) ct_network_sent ct_network_sent_update,
      float_field ''nr'' ((=) zero_flt) ct_network_recv ct_network_recv_update,
      pair_field ''b'' ct_bandwidth ct_bandwidth_update]"

definition container_json :: "container_stats \<Rightarrow> jval option" where "container_json = write_struct container_fields"
definition read_container :: "container_stats reader" where "read_container = read_struct (table_of container_fields)"

definition containers_json :: "container_stats list \<Rightarrow> jval option" where "containers_json = write_list container_json"

text \<open>Into a nil slice; \<open>null\<close> leaves it nil, which has no elements either.\<close>

definition read_containers :: "jval \<Rightarrow> container_stats list option" where
  "read_containers v =
     map_option (\<lambda>s. case s of Some cs \<Rightarrow> cs | None \<Rightarrow> []) (read_slice read_container (named_container '''') v None)"

definition info_fields :: "info field list" where
  "info_fields =
     [field ''h'' ((=) '''') write_string read_string i_hostname i_hostname_update,
      field ''k'' ((=) '''') write_string read_string i_kernel_version i_kernel_version_update,
      field ''c'' ((=) 0) write_int read_int i_cores i_cores_update,
      field ''t'' ((=) 0) write_int read_int i_threads i_threads_update,
      field ''m'' ((=) '''') write_string read_string i_cpu_model i_cpu_model_update,
      field ''u'' no_tag write_word read_word i_uptime i_uptime_update,
      float_field ''cpu'' no_tag i_cpu i_cpu_update,
      float_field ''mp'' no_tag i_mem_pct i_mem_pct_update,
      float_field ''dp'' no_tag i_disk_pct i_disk_pct_update,
      float_field ''b'' ((=) zero_flt) i_bandwidth i_bandwidth_update,
      field ''v'' no_tag write_string read_string i_agent_version i_agent_version_update,
      field ''p'' (\<lambda>b. \<not> b) write_bool read_bool i_podman i_podman_update,
      float_field ''g'' is_zero i_gpu_pct i_gpu_pct_update,
      float_field ''dt'' is_zero i_dashboard_temp i_dashboard_temp_update,
      field ''os'' ((=) 0) write_word read_word i_os i_os_update,
      field ''bb'' no_tag write_word read_word i_bandwidth_bytes i_bandwidth_bytes_update,
      load_field ''la'' i_load_avg i_load_avg_update,
      field ''ct'' ((=) 0) write_word read_word i_connection_type i_connection_type_update,
      map_field ''efs'' write_float read_float zero_flt i_extra_fs_pct i_extra_fs_pct_update,
      field ''sv'' empty_slice (write_slice write_word) (read_slice read_word 0) i_services i_services_update,
      pair_field ''bat'' i_battery i_battery_update]"

definition info_json :: "info \<Rightarrow> jval option" where "info_json = write_struct info_fields"

section \<open>What is read back\<close>

definition json_fs :: "fs_stats \<Rightarrow> fs_stats" where
  "json_fs f = zero_fs_stats
     \<lparr>fs_disk_total := fs_disk_total f, fs_disk_used := fs_disk_used f, fs_read_ps := fs_read_ps f, fs_write_ps := fs_write_ps f,
      fs_max_read_ps := into_float (fs_max_read_ps f) zero_flt, fs_max_write_ps := into_float (fs_max_write_ps f) zero_flt,
      fs_read_bytes := fs_read_bytes f, fs_write_bytes := fs_write_bytes f,
      fs_max_read_bytes := fs_max_read_bytes f, fs_max_write_bytes := fs_max_write_bytes f,
      fs_io_stats := fs_io_stats f, fs_max_io_stats := fs_max_io_stats f\<rparr>"

definition json_gpu :: "gpu_data \<Rightarrow> gpu_data" where
  "json_gpu g = (named_gpu (gpu_name g))
     \<lparr>gpu_memory_used := into_float (gpu_memory_used g) zero_flt, gpu_memory_total := into_float (gpu_memory_total g) zero_flt,
      gpu_usage := gpu_usage g, gpu_power := into_float (gpu_power g) zero_flt,
      gpu_engines := into_map (\<lambda>x. x) (gpu_engines g) None, gpu_power_pkg := into_float (gpu_power_pkg g) zero_flt\<rparr>"

text \<open>A negative zero that may be left out comes back as zero, an empty map or slice as nil.\<close>

definition json_stats :: "stats \<Rightarrow> stats" where
  "json_stats s = s
     \<lparr>s_max_cpu := into_float (s_max_cpu s) zero_flt, s_max_mem := into_float (s_max_mem s) zero_flt,
      s_mem_zfs_arc := into_float (s_mem_zfs_arc s) zero_flt, s_swap := into_float (s_swap s) zero_flt,
      s_swap_used := into_float (s_swap_used s) zero_flt,
      s_max_disk_read_ps := into_float (s_max_disk_read_ps s) zero_flt,
      s_max_disk_write_ps := into_float (s_max_disk_write_ps s) zero_flt,
      s_max_network_sent := into_float (s_max_network_sent s) zero_flt,
      s_max_network_recv := into_float (s_max_network_recv s) zero_flt,
      s_temperatures := into_map (\<lambda>x. x) (s_temperatures s) None, s_extra_fs := into_map json_fs (s_extra_fs s) None,
      s_gpu_data := into_map json_gpu (s_gpu_data s) None, s_network_interfaces := into_map (\<lambda>x. x) (s_network_interfaces s) None,
      s_cpu_breakdown := into_slice (s_cpu_breakdown s) None, s_cpu_cores := into_slice (s_cpu_cores s) None\<rparr>"

definition json_container :: "container_stats \<Rightarrow> container_stats" where
  "json_container c = (named_container (ct_name c))
     \<lparr>ct_cpu := ct_cpu c, ct_mem := ct_mem c, ct_network_sent := ct_network_sent c, ct_network_recv := ct_network_recv c,
      ct_bandwidth := ct_bandwidth c\<rparr>"

text \<open>The length that the array types fix.\<close>

definition arrays_fs :: "fs_stats \<Rightarrow> bool" where
  "arrays_fs f \<longleftrightarrow> length (fs_io_stats f) = 6 \<and> length (fs_max_io_stats f) = 6"

definition arrays_ok :: "stats \<Rightarrow> bool" where
  "arrays_ok s \<longleftrightarrow> stats_wf s \<and> (case s_extra_fs s of Some m \<Rightarrow> list_all (arrays_fs \<circ> snd) m | None \<Rightarrow> True)"

section \<open>Fields are read back\<close>

lemma tuple_trip:
  assumes "json_scalar w r zero" and "length (els x) = n" and "mk (els x) = x" and "write_tuple els w x = Some j"
  shows "read_tuple els mk n r zero j old = Some x"
  using json_scalar.array_trip [OF assms(1,2)] assms(3,4) by (simp add: write_tuple_def read_tuple_def)

lemmas float_scalar = float_codec.json_scalar_axioms
lemmas word_scalar = word_codec.json_scalar_axioms

lemma float_field_trips:
  "(\<And>r. upd (\<lambda>a. a) r = r) \<Longrightarrow> trips ok (float_field name omitted sel upd) (\<lambda>s r. upd (\<lambda>a. if omitted (sel s) then a else sel s) r)"
  unfolding float_field_def by (rule trips_scalar) (auto simp: write_read_float)

lemma word_field_trips:
  "(\<And>r. upd (\<lambda>a. a) r = r) \<Longrightarrow>
   trips ok (field name omitted write_word read_word sel upd) (\<lambda>s r. upd (\<lambda>a. if omitted (sel s) then a else sel s) r)"
  by (rule trips_scalar) (auto simp: write_read_word)

lemma string_field_trips:
  "(\<And>r. upd (\<lambda>a. a) r = r) \<Longrightarrow>
   trips ok (field name omitted write_string read_string sel upd) (\<lambda>s r. upd (\<lambda>a. if omitted (sel s) then a else sel s) r)"
  by (rule trips_scalar) (auto simp: write_read_string)

lemma pair_field_trips:
  "(\<And>r. upd (\<lambda>a. a) r = r) \<Longrightarrow> trips ok (pair_field name sel upd) (\<lambda>s r. upd (\<lambda>a. if (0, 0) = sel s then a else sel s) r)"
  unfolding pair_field_def by (rule trips_scalar) (auto intro!: tuple_trip [OF word_scalar] simp: tuples)

lemma load_field_trips:
  "(\<And>r. upd (\<lambda>a. a) r = r) \<Longrightarrow> trips ok (load_field name sel upd) (\<lambda>s r. upd (\<lambda>a. if no_tag (sel s) then a else sel s) r)"
  unfolding load_field_def by (rule trips_scalar) (auto intro!: tuple_trip [OF float_scalar] simp: tuples)

lemma io_field_trips:
  "(\<And>s. ok s \<Longrightarrow> length (sel s) = 6) \<Longrightarrow> (\<And>r. upd (\<lambda>a. a) r = r) \<Longrightarrow>
   trips ok (io_field name sel upd) (\<lambda>s r. upd (\<lambda>a. if zero_io = sel s then a else sel s) r)"
  unfolding io_field_def
  by (rule trips_norm [where good = "\<lambda>x. length x = 6" and nf = "\<lambda>x a. x"]) (auto simp: float_codec.array_trip)

context json_codec
begin

lemma gomap_trip:
  assumes "\<And>m. x = Some m \<Longrightarrow> \<forall>y \<in> snd ` set m. ok y" and "\<not> empty_map x" and "write_gomap w x = Some j"
  shows "read_map r zero j old = Some (into_map nf x old)"
proof -
  obtain m where m: "x = Some m" "m \<noteq> []" using assms(2) by (auto simp: empty_map_def)
  then have w: "write_map w m = Some j" using assms(3) by (simp add: write_gomap_def)
  show ?thesis using map_trip [OF assms(1) [OF m(1)] w] m by (simp add: into_map_def)
qed

end

context json_round
begin

lemma map_field_trips:
  assumes "\<And>s m. P s \<Longrightarrow> sel s = Some m \<Longrightarrow> \<forall>y \<in> snd ` set m. ok y" and "\<And>r. upd (\<lambda>a. a) r = r"
    and "\<And>x q. upd (into_map nf x) q = upd (\<lambda>_. into_map nf x (sel q)) q"
  shows "trips P (map_field name w r zero sel upd) (\<lambda>s q. upd (\<lambda>a. if empty_map (sel s) then a else into_map nf (sel s) a) q)"
  unfolding map_field_def
  by (rule trips_norm [where good = "\<lambda>x. \<forall>m. x = Some m \<longrightarrow> (\<forall>y \<in> snd ` set m. ok y)"]) (use assms gomap_trip in auto)

end

section \<open>Structures are read back\<close>

lemmas field_trips = list.rel_intros float_field_trips word_field_trips string_field_trips pair_field_trips load_field_trips

lemma into_none [simp]: "into_map f None old = old" "into_map f (Some []) old = old"
  by (simp_all add: into_map_def)

lemma empty_into [simp]: "empty_map m \<Longrightarrow> into_map f m old = old"
  by (auto simp: empty_map_def)

lemma fs_trip:
  assumes "arrays_fs f" and "fs_json f = Some j"
  shows "read_fs j zero_fs_stats = Some (json_fs f)"
  unfolding read_fs_def
  apply (rule struct_trip [where ok = arrays_fs and s = f])
      apply (unfold fs_fields_def)
      apply (rule field_trips io_field_trips | (simp add: arrays_fs_def; fail))+
     apply (simp add: float_field_def io_field_def field_def)
    apply (rule assms(1))
   apply (rule assms(2) [unfolded fs_json_def fs_fields_def])
  apply (cases f, simp add: json_fs_def zero_fs_stats_def into_defs no_tag_def)
  done

lemma gpu_trip:
  assumes "gpu_json g = Some j"
  shows "read_gpu j (named_gpu '''') = Some (json_gpu g)"
  unfolding read_gpu_def
  apply (rule struct_trip [where ok = "\<lambda>_. True" and s = g])
      apply (unfold gpu_fields_def)
      apply (rule field_trips float_codec.map_field_trips | (simp; fail))+
     apply (simp add: float_field_def map_field_def field_def)
    apply simp
   apply (rule assms [unfolded gpu_json_def gpu_fields_def])
  apply (cases g, simp add: json_gpu_def named_gpu_def into_defs no_tag_def)
  done

lemma container_trip:
  assumes "container_json c = Some j"
  shows "read_container j (named_container '''') = Some (json_container c)"
  unfolding read_container_def
  apply (rule struct_trip [where ok = "\<lambda>_. True" and s = c])
      apply (unfold container_fields_def)
      apply (rule field_trips | (simp; fail))+
     apply (simp add: float_field_def pair_field_def field_def)
    apply simp
   apply (rule assms [unfolded container_json_def container_fields_def])
  apply (cases c, simp add: json_container_def named_container_def no_tag_def)
  done

interpretation fs_codec: json_round fs_json read_fs zero_fs_stats json_fs arrays_fs
  by unfold_locales (rule fs_trip)

interpretation gpu_codec: json_round gpu_json read_gpu "named_gpu ''''" json_gpu "\<lambda>_. True"
  by unfold_locales (rule gpu_trip)

interpretation container_codec: json_round container_json read_container "named_container ''''" json_container "\<lambda>_. True"
  by unfold_locales (rule container_trip)

interpretation four_codec: json_scalar "write_tuple to4 write_word" "read_tuple to4 of4 4 read_word 0" "(0, 0, 0, 0) :: 'w::len word \<times> _"
  by unfold_locales (auto intro!: tuple_trip [OF word_scalar] simp: tuples)

lemma bytes_trip:
  "marshal_uint8_slice s = Some j \<Longrightarrow> \<not> empty_slice s \<Longrightarrow> read_bytes j old = Some s"
proof (cases s)
  case (Some xs)
  have "write_each write_word (map (\<lambda>b. ucast b :: 16 word) ys) = write_each write_word ys" for ys :: "u8 list"
  proof (induction ys)
    case (Cons y ys)
    have "take_bit 16 (uint y) = uint y" using uint_lt2p [of y] by (intro take_bit_int_eq_self) simp_all
    with Cons show ?case by (simp add: write_word_def unsigned_ucast_eq)
  qed simp
  then have "write_list write_word (map (\<lambda>b. ucast b :: 16 word) xs) = write_list write_word xs"
    by (simp add: write_list_def)
  moreover assume "marshal_uint8_slice s = Some j"
  ultimately have w: "write_list write_word xs = Some j" by (simp add: marshal_uint8_slice_def Some)
  then have "\<exists>vs. j = JvArr vs" by (auto simp: write_list_def)
  then show ?thesis using word_codec.slice_trip_over [OF w] by (auto simp: read_bytes_def Some)
qed (simp add: empty_slice_def)

lemma bytes_field_trips:
  "(\<And>r. upd (\<lambda>a. a) r = r) \<Longrightarrow>
   trips ok (field name empty_slice marshal_uint8_slice read_bytes sel upd) (\<lambda>s r. upd (\<lambda>a. if empty_slice (sel s) then a else sel s) r)"
  by (rule trips_norm [where good = "\<lambda>_. True" and nf = "\<lambda>x a. x"]) (auto simp: bytes_trip)

lemma floats_field_trips:
  "(\<And>r. upd (\<lambda>a. a) r = r) \<Longrightarrow>
   trips ok (field name empty_slice (write_slice write_float) (read_slice read_float zero_flt) sel upd)
     (\<lambda>s r. upd (\<lambda>a. if empty_slice (sel s) then a else sel s) r)"
  by (rule trips_norm [where good = "\<lambda>_. True" and nf = "\<lambda>x a. x"])
    (auto simp: write_slice_def empty_slice_def float_codec.slice_trip_over)

lemma stats_trip:
  assumes "arrays_ok s" and "stats_json s = Some j"
  shows "read_stats j zero_stats = Some (json_stats s)"
  unfolding read_stats_def
  apply (rule struct_trip [where ok = arrays_ok and s = s])
      apply (unfold stats_fields_def)
      apply (rule field_trips io_field_trips bytes_field_trips floats_field_trips float_codec.map_field_trips
        four_codec.map_field_trips fs_codec.map_field_trips gpu_codec.map_field_trips | (simp add: arrays_ok_def stats_wf_def list_all_iff; fail))+
     apply (simp add: float_field_def pair_field_def io_field_def load_field_def map_field_def field_def)
    apply (rule assms(1))
   apply (rule assms(2) [unfolded stats_json_def stats_fields_def])
  apply (simp only: fold_simps)
  apply (rule stats.equality)
                      apply (simp_all only: stats.simps json_stats_def zero_stats_def no_tag_def if_False if_cancel)
                      apply (simp_all add: into_defs empty_slice_def)
  done

end
