(* ===== verification/SystemAlerts.thy ===== *)
theory SystemAlerts
  imports StatusAlerts StatsJson
begin

text \<open>
  \<^verbatim>\<open>internal/alerts/alerts_system.go\<close>: alerts on CPU, memory and disk usage. \<open>triage\<close> is the first
  loop of \<open>HandleSystemAlerts\<close>, \<open>accumulate_rows\<close> the loop over the stored one-minute records and
  \<open>conclude\<close> the last loop; \<open>handle_system_alerts\<close> composes them and returns the alerts handed to
  \<open>sendSystemAlert\<close>, in the order of the \<open>go\<close> statements (they run concurrently afterwards).

  The stored records are JSON: a row is a JSON value (\<open>None\<close> is text that is not JSON), and decoding into the
  reused variable keeps the members that are absent, as \<open>json.Unmarshal\<close> does. Disk sums are
  \<open>float32\<close>, the others \<open>float64\<close>.
\<close>

section \<open>State\<close>

text \<open>Of an extra file system the total and the used size are read.\<close>

type_synonym alert_fs = "flt \<times> flt"

record alert_stats =
  as_cpu :: flt
  as_mem :: flt
  as_disk :: flt
  as_bandwidth :: bytes_pair
  as_extra_fs :: "(string, alert_fs) gomap"

definition zero_alert_stats :: alert_stats where
  "zero_alert_stats =
     \<lparr>as_cpu = zero_flt, as_mem = zero_flt, as_disk = zero_flt, as_bandwidth = (0, 0), as_extra_fs = []\<rparr>"

definition read_alert_fs :: "alert_fs reader" where
  "read_alert_fs = read_struct [(''d'', into apfst fst read_float), (''du'', into apsnd snd read_float)]"

definition read_alert_fs_map :: "(string, alert_fs) gomap reader" where
  "read_alert_fs_map v old =
     map_option (\<lambda>m. case m of Some e \<Rightarrow> e | None \<Rightarrow> []) (read_map read_alert_fs (zero_flt, zero_flt) v (Some old))"

definition alert_table :: "alert_stats table" where
  "alert_table =
     [(''cpu'', into as_cpu_update as_cpu read_float), (''mp'', into as_mem_update as_mem read_float),
      (''dp'', into as_disk_update as_disk read_float),
      (''b'', into as_bandwidth_update as_bandwidth (read_tuple to2 of2 2 read_word 0)),
      (''efs'', into as_extra_fs_update as_extra_fs read_alert_fs_map)]"

definition read_alert_stats :: "alert_stats reader" where
  "read_alert_stats = read_struct alert_table"

record system_alert =
  sa_alert :: cached_alert
  sa_name :: string
  sa_unit :: string
  sa_val :: flt
  sa_threshold :: flt
  sa_triggered :: bool
  sa_time :: instant
  sa_count :: u8
  sa_min :: u8
  sa_sums :: "(string, flt) gomap"
  sa_descriptor :: string

section \<open>The current value\<close>

definition max_disk_pct :: "flt \<Rightarrow> (string, fs_stats) gomap \<Rightarrow> flt" where
  "max_disk_pct disk_pct extra =
     foldl (\<lambda>m (k, fs). let usedPct = mul64 (div64 (fs_disk_used fs) (fs_disk_total fs)) (Fin 100)
                        in if fless m usedPct then usedPct else m) disk_pct extra"

definition alert_value :: "combined_data \<Rightarrow> string \<Rightarrow> flt option" where
  "alert_value data name =
     (if name = ''CPU'' then Some (i_cpu (cd_info data))
      else if name = ''Memory'' then Some (i_mem_pct (cd_info data))
      else if name = ''Disk'' then
        Some (max_disk_pct (i_disk_pct (cd_info data))
                (case s_extra_fs (cd_stats data) of Some m \<Rightarrow> m | None \<Rightarrow> []))
      else None)"

datatype triage_result = Skip | SendNow system_alert | Check system_alert

definition triage :: "combined_data \<Rightarrow> instant \<Rightarrow> cached_alert \<Rightarrow> triage_result" where
  "triage data now a =
     (case alert_value data (ca_name a) of
        None \<Rightarrow> Skip
      | Some val \<Rightarrow>
          let triggered = ca_triggered a; threshold = ca_value a in
          if (\<not> triggered \<and> fle val threshold) \<or> (triggered \<and> fless threshold val) then Skip
          else
            let min = max 1 (ca_min a);
                alert = \<lparr>sa_alert = a, sa_name = ca_name a, sa_unit = ''%'', sa_val = val,
                         sa_threshold = threshold, sa_triggered = triggered, sa_time = zero_time,
                         sa_count = 0, sa_min = min, sa_sums = [], sa_descriptor = ''''\<rparr>
            in if min = 1 then SendNow (alert\<lparr>sa_triggered := fless threshold val\<rparr>)
               else Check (alert\<lparr>sa_time := now - uint min * minute\<rparr>))"

section \<open>The stored records\<close>

definition add32 :: "flt \<Rightarrow> flt \<Rightarrow> flt" where "add32 = fadd binary32"
definition div32 :: "flt \<Rightarrow> flt \<Rightarrow> flt" where "div32 = fdiv binary32"

text \<open>\<open>m[k] += v\<close> on a map to \<open>float32\<close>.\<close>

definition add_sum :: "string \<Rightarrow> flt \<Rightarrow> (string, flt) gomap \<Rightarrow> (string, flt) gomap" where
  "add_sum k v m = AList.update k (add32 (case map_of m k of Some s \<Rightarrow> s | None \<Rightarrow> zero_flt) v) m"

definition add_disk :: "alert_stats \<Rightarrow> (string, flt) gomap \<Rightarrow> (string, flt) gomap" where
  "add_disk s totals =
     foldl (\<lambda>m (k, total, used).
              if fless zero_flt total
              then add_sum k (float32_of_float64 (mul64 (div64 used total) (Fin 100))) m else m)
       (add_sum ''root'' (float32_of_float64 (as_disk s)) totals) (as_extra_fs s)"

definition add_stats :: "alert_stats \<Rightarrow> system_alert \<Rightarrow> system_alert" where
  "add_stats s a =
     (if sa_name a = ''CPU'' then a\<lparr>sa_val := add64 (sa_val a) (as_cpu s), sa_count := sa_count a + 1\<rparr>
      else if sa_name a = ''Memory'' then a\<lparr>sa_val := add64 (sa_val a) (as_mem s), sa_count := sa_count a + 1\<rparr>
      else if sa_name a = ''Disk'' then a\<lparr>sa_sums := add_disk s (sa_sums a), sa_count := sa_count a + 1\<rparr>
      else a)"

definition visit :: "bool \<Rightarrow> instant \<Rightarrow> alert_stats \<Rightarrow> system_alert \<Rightarrow> system_alert" where
  "visit first created s a =
     (let a = (if first then a\<lparr>sa_val := zero_flt\<rparr> else a)
      in if created - 10 * second < sa_time a then a else add_stats s a)"

fun accumulate_rows ::
  "bool \<Rightarrow> alert_stats \<Rightarrow> (jval option \<times> instant) list \<Rightarrow> system_alert list \<Rightarrow> system_alert list option" where
  "accumulate_rows first s [] alerts = Some alerts"
| "accumulate_rows first s ((j, created) # rows) alerts =
     (case Option.bind j (\<lambda>v. read_alert_stats v s) of
        None \<Rightarrow> None
      | Some s \<Rightarrow> accumulate_rows False s rows (map (visit first created s) alerts))"

section \<open>The decision\<close>

definition max_sum :: "(string, flt) gomap \<Rightarrow> flt \<times> string" where
  "max_sum totals =
     foldl (\<lambda>(m, d) (k, v). if fless m v then (v, ''Usage of '' @ k) else (m, d)) (zero_flt, '''') totals"

text \<open>The constant \<open>1.2\<close> as a \<open>float32\<close>.\<close>

definition one_point_two :: flt where "one_point_two = Fin (10066330 / 2 ^ 23)"

definition count32 :: "u8 \<Rightarrow> flt" where "count32 w = Fin (of_int (uint w))"

definition enough_records :: "u8 \<Rightarrow> u8 \<Rightarrow> bool" where
  "enough_records minutes count \<longleftrightarrow> fle (div32 (count32 minutes) one_point_two) (count32 count)"

definition average :: "system_alert \<Rightarrow> system_alert" where
  "average a =
     (if sa_name a = ''Disk'' then
        let (maxPct, d) = max_sum (sa_sums a)
        in a\<lparr>sa_val := div32 maxPct (count32 (sa_count a)),
             sa_descriptor := (if d = '''' then sa_descriptor a else d)\<rparr>
      else a\<lparr>sa_val := div64 (sa_val a) (count32 (sa_count a))\<rparr>)"

definition conclude :: "system_alert \<Rightarrow> system_alert option" where
  "conclude a =
     (let a = average a in
      if enough_records (sa_min a) (sa_count a) then
        (if \<not> sa_triggered a \<and> fless (sa_threshold a) (sa_val a) then Some (a\<lparr>sa_triggered := True\<rparr>)
         else if sa_triggered a \<and> fle (sa_val a) (sa_threshold a) then Some (a\<lparr>sa_triggered := False\<rparr>)
         else None)
      else None)"

section \<open>The handler\<close>

definition sends_now :: "triage_result list \<Rightarrow> system_alert list" where
  "sends_now rs = concat (map (\<lambda>r. case r of SendNow a \<Rightarrow> [a] | _ \<Rightarrow> []) rs)"

definition to_check :: "triage_result list \<Rightarrow> system_alert list" where
  "to_check rs = concat (map (\<lambda>r. case r of Check a \<Rightarrow> [a] | _ \<Rightarrow> []) rs)"

definition oldest_time :: "instant \<Rightarrow> system_alert list \<Rightarrow> instant" where
  "oldest_time now alerts = foldl (\<lambda>t a. if sa_time a < t then sa_time a else t) now alerts"

text \<open>\<open>query\<close> gives the one-minute records created after an instant, oldest first. The flag is
  whether the handler returned without an error.\<close>

definition handle_system_alerts ::
  "(instant \<Rightarrow> (jval option \<times> instant) list option) \<Rightarrow> combined_data \<Rightarrow> instant \<Rightarrow>
   cached_alert list \<Rightarrow> bool \<times> system_alert list" where
  "handle_system_alerts query data now alerts =
     (if alerts = [] then (True, [])
      else
        let rs = map (triage data now) alerts; sent = sends_now rs; valid = to_check rs in
        case query (oldest_time now valid - 90 * second) of
          None \<Rightarrow> (False, sent)
        | Some rows \<Rightarrow>
            (case rows of
               [] \<Rightarrow> (True, sent)
             | row # _ \<Rightarrow>
                 let valid = filter (\<lambda>a. snd row < sa_time a) valid in
                 if valid = [] then (True, sent)
                 else (case accumulate_rows True zero_alert_stats rows valid of
                         None \<Rightarrow> (False, sent)
                       | Some summed \<Rightarrow> (True, sent @ List.map_filter conclude summed))))"

section \<open>The message\<close>

definition pad2 :: "nat \<Rightarrow> string" where
  "pad2 n = (if n < 10 then ''0'' else '''') @ itoa n"

text \<open>\<open>%.2f\<close>\<close>

definition format_2f :: "flt \<Rightarrow> string" where
  "format_2f x =
     (case x of
        NaN \<Rightarrow> ''NaN'' | PInf \<Rightarrow> ''+Inf'' | NInf \<Rightarrow> ''-Inf'' | NZero \<Rightarrow> ''-0.00''
      | Fin q \<Rightarrow>
          let n = nat (rne (\<bar>q\<bar> * 100))
          in (if q < 0 then ''-'' else '''') @ itoa (n div 100) @ ''.'' @ pad2 (n mod 100))"

definition system_message :: "env \<Rightarrow> string \<Rightarrow> string \<Rightarrow> system_alert \<Rightarrow> alert_message" where
  "system_message env sys systemName a =
     (let name = (if sa_name a = ''Disk'' then ''Disk usage'' else sa_name a);
          titleName = (if name \<noteq> ''CPU'' then to_lower name else name);
          subject = systemName @ '' '' @ titleName @
            (if sa_triggered a then '' above threshold'' else '' below threshold'');
          minutesLabel = (if 1 < sa_min a then ''minutes'' else ''minute'');
          descriptor = (if sa_descriptor a = '''' then name else sa_descriptor a);
          body = descriptor @ '' averaged '' @ format_2f (sa_val a) @ sa_unit a @ '' for the previous ''
                   @ itoa (unat (sa_min a)) @ '' '' @ minutesLabel @ ''.''
      in \<lparr>msg_user = ca_user (sa_alert a), msg_system = sys, msg_title = subject, msg_message = body,
          msg_link = make_link (app_url env) [''system'', sys], msg_link_text = ''View '' @ systemName\<rparr>)"

definition send_system_alert :: "env \<Rightarrow> string \<Rightarrow> string \<Rightarrow> system_alert \<Rightarrow> alert_manager \<Rightarrow> alert_manager" where
  "send_system_alert env sys systemName a st =
     (let (saved, st1) = set_alert_triggered env (ca_id (sa_alert a)) (sa_triggered a) st
      in if \<not> saved then st1
         else let m = system_message env sys systemName a
              in st1\<lparr>am_system_notices :=
                   \<lparr>n_alert = ca_id (sa_alert a), n_triggered = sa_triggered a, n_at = am_now st1,
                    n_message = m, n_delivery = send_alert env m\<rparr> # am_system_notices st1\<rparr>)"

text \<open>The handler on the manager: the alerts of the system from the cache, then the sends.\<close>

definition am_handle_system_alerts ::
  "env \<Rightarrow> (instant \<Rightarrow> (jval option \<times> instant) list option) \<Rightarrow> string \<Rightarrow> string \<Rightarrow> instant \<Rightarrow>
   combined_data \<Rightarrow> alert_manager \<Rightarrow> bool \<times> alert_manager" where
  "am_handle_system_alerts env query sys systemName updated data st =
     (let (cache, alerts) = get_alerts_excluding_names (alerts_answer env) sys [''Status''] (am_cache st);
          (ok, sent) = handle_system_alerts query data updated alerts
      in (ok, fold (send_system_alert env sys systemName) sent (st\<lparr>am_cache := cache\<rparr>)))"

section \<open>How many records are enough\<close>

lemma pack32_eighths:
  assumes "\<bar>m\<bar> \<le> 4096"
  shows "fle (pack binary32 b (of_int m / 8)) (Fin (of_int m / 8))"
    and "fle (Fin (of_int m / 8)) (pack binary32 b (of_int m / 8))"
proof -
  have e: "of_int m / 8 = of_int m * (2::rat) powi (-3)" by (simp add: power_int_minus)
  have p: "(2::int) ^ nat (precision binary32) = 16777216" by simp
  have r: "rnd binary32 (of_int m / 8) = of_int m / 8"
    unfolding e by (rule rnd_exact) (use assms p in simp_all)
  have "\<bar>of_int m / 8 :: rat\<bar> \<le> 512" using assms by (simp add: abs_div divide_le_eq)
  also have "(512::rat) < 2 powi 10" by simp
  also have "(2::rat) powi 10 \<le> 2 powi max_exp binary32" by (rule powi_mono2) simp
  finally have s: "\<bar>of_int m / 8 :: rat\<bar> < 2 powi max_exp binary32" .
  have "0 < (2::rat) powi max_exp binary32" by (rule zero_less_power_int) simp
  then have pos: "\<not> 2 powi max_exp binary32 \<le> (0::rat)" by (simp only: not_le)
  have "\<exists>x. pack binary32 b (of_int m / 8) = x \<and> fle x (Fin (of_int m / 8)) \<and> fle (Fin (of_int m / 8)) x"
    using pack_Fin [OF r s] r pos by (cases "m = 0") (auto simp: pack_def Let_def simp del: formats)
  then show "fle (pack binary32 b (of_int m / 8)) (Fin (of_int m / 8))"
    and "fle (Fin (of_int m / 8)) (pack binary32 b (of_int m / 8))" by auto
qed

lemma pack32_le: "q \<le> of_int m / 8 \<Longrightarrow> \<bar>m\<bar> \<le> 4096 \<Longrightarrow> fle (pack binary32 b q) (Fin (of_int m / 8))"
  by (rule fle_trans [OF pack_mono pack32_eighths(1)]) simp_all

lemma pack32_ge: "of_int m / 8 \<le> q \<Longrightarrow> \<bar>m\<bar> \<le> 4096 \<Longrightarrow> fle (Fin (of_int m / 8)) (pack binary32 b q)"
  by (rule fle_trans [OF pack32_eighths(2) pack_mono]) simp_all

lemma u8_bounds: "0 \<le> uint (w :: u8)" "uint (w :: u8) \<le> 255"
  using uint_lt2p [of w] by simp_all

lemma enough_records_iff: "enough_records minutes count \<longleftrightarrow> 5 * uint minutes \<le> 6 * uint count"
proof -
  define m c where "m = uint minutes" and "c = uint count"
  note b = u8_bounds [of minutes] u8_bounds [of count]
  define q :: rat where "q = of_int m / (10066330 / 2 ^ 23)"
  have "\<not> (of_int (uint minutes) :: rat) < 0" using b(1) by (simp only: of_int_less_0_iff not_less)
  then have d: "div32 (count32 minutes) one_point_two = pack binary32 False q"
    using b by (simp add: div32_def fdiv_def count32_def one_point_two_def q_def m_def is_zero_def)
  show ?thesis
  proof (cases "5 * m \<le> 6 * c")
    case True
    have "q \<le> of_int (8 * c) / 8"
    proof -
      have "of_int (5 * m) \<le> (of_int (6 * c) :: rat)" using True by (simp only: of_int_le_iff)
      moreover have "(0::rat) \<le> of_int c" using b(3) by (simp only: c_def of_int_0_le_iff)
      ultimately show ?thesis by (simp add: q_def divide_le_eq)
    qed
    then have "fle (pack binary32 False q) (Fin (of_int (8 * c) / 8))"
      using b by (intro pack32_le) (simp_all add: c_def)
    then show ?thesis using True unfolding enough_records_def d by (simp add: count32_def m_def c_def)
  next
    case False
    then have "6 * c + 1 \<le> 5 * m" by simp
    then have "of_int (6 * c + 1) \<le> (of_int (5 * m) :: rat)" by (simp only: of_int_le_iff)
    moreover have "(of_int c :: rat) \<le> of_int 255" using b(4) by (simp only: c_def of_int_le_iff)
    ultimately have "of_int (8 * c + 1) / 8 \<le> q"
      by (simp add: q_def le_divide_eq)
    then have "fle (Fin (of_int (8 * c + 1) / 8)) (pack binary32 False q)"
      using b by (intro pack32_ge) (simp_all add: c_def)
    then have "\<not> fle (pack binary32 False q) (Fin (of_int c))"
      using fle_trans [of "Fin (of_int (8 * c + 1) / 8)" _ "Fin (of_int c)"] by auto
    then show ?thesis using False unfolding enough_records_def d by (simp add: count32_def m_def c_def)
  qed
qed

section \<open>What is sent\<close>

lemma fle_not_fless: "fle x y \<Longrightarrow> \<not> fless y x"
  by (auto simp: fle_rank fless_rank)

lemma visit_keeps [simp]:
  "sa_alert (visit f t s a) = sa_alert a" "sa_name (visit f t s a) = sa_name a"
  "sa_threshold (visit f t s a) = sa_threshold a" "sa_triggered (visit f t s a) = sa_triggered a"
  "sa_min (visit f t s a) = sa_min a" "sa_time (visit f t s a) = sa_time a"
  "sa_descriptor (visit f t s a) = sa_descriptor a"
  by (auto simp: visit_def add_stats_def Let_def)

lemma average_keeps [simp]:
  "sa_alert (average a) = sa_alert a" "sa_threshold (average a) = sa_threshold a"
  "sa_triggered (average a) = sa_triggered a" "sa_min (average a) = sa_min a"
  "sa_count (average a) = sa_count a" "sa_name (average a) = sa_name a"
  by (auto simp: average_def Let_def split: prod.splits)

definition same_alert :: "system_alert \<Rightarrow> system_alert \<Rightarrow> bool" where
  "same_alert a b \<longleftrightarrow> sa_alert a = sa_alert b \<and> sa_threshold a = sa_threshold b \<and>
     sa_triggered a = sa_triggered b \<and> sa_min a = sa_min b"

lemma accumulate_same:
  "accumulate_rows first s rows alerts = Some out \<Longrightarrow> b \<in> set out \<Longrightarrow> \<exists>a \<in> set alerts. same_alert a b"
proof (induction first s rows alerts arbitrary: out rule: accumulate_rows.induct)
  case (1 first s alerts)
  then show ?case by (auto simp: same_alert_def)
next
  case (2 first s j created rows alerts)
  then obtain s' where j: "Option.bind j (\<lambda>v. read_alert_stats v s) = Some s'" by (auto split: option.splits)
  from 2 show ?case by (fastforce simp: j same_alert_def)
qed

lemma conclude_sends:
  assumes "conclude a = Some b"
  shows "(sa_triggered b \<longleftrightarrow> fless (sa_threshold b) (sa_val b)) \<and> sa_triggered b \<noteq> sa_triggered a \<and>
    sa_alert b = sa_alert a \<and> 5 * uint (sa_min b) \<le> 6 * uint (sa_count b)"
  using assms
  by (auto simp: conclude_def Let_def enough_records_iff dest: fle_not_fless split: if_splits)

lemma in_sends_now: "a \<in> set (sends_now rs) \<longleftrightarrow> SendNow a \<in> set rs"
  by (auto simp: sends_now_def split: triage_result.splits)

lemma in_to_check: "a \<in> set (to_check rs) \<longleftrightarrow> Check a \<in> set rs"
  by (auto simp: to_check_def split: triage_result.splits)

lemma triage_Check:
  "triage data now c = Check a \<Longrightarrow> sa_alert a = c \<and> sa_triggered a = ca_triggered c \<and> sa_min a \<noteq> 1"
  by (auto simp: triage_def Let_def split: option.splits if_splits)

lemma triage_SendNow:
  "triage data now c = SendNow a \<Longrightarrow>
   sa_alert a = c \<and> (sa_triggered a \<longleftrightarrow> fless (sa_threshold a) (sa_val a)) \<and> sa_min a = 1 \<and>
   (sa_val a \<noteq> NaN \<and> sa_threshold a \<noteq> NaN \<longrightarrow> sa_triggered a \<noteq> ca_triggered c)"
  using not_fless by (auto simp: triage_def Let_def split: option.splits if_splits) blast+

lemma to_check_triage:
  assumes "a \<in> set (to_check (map (triage data now) alerts))"
  shows "sa_alert a \<in> set alerts \<and> sa_triggered a = ca_triggered (sa_alert a) \<and> sa_min a \<noteq> 1"
  using assms by (auto simp: in_to_check dest!: sym [THEN triage_Check])

lemma sends_now_triage:
  assumes "a \<in> set (sends_now (map (triage data now) alerts))"
  shows "sa_alert a \<in> set alerts \<and> (sa_triggered a \<longleftrightarrow> fless (sa_threshold a) (sa_val a)) \<and> sa_min a = 1 \<and>
    (sa_val a \<noteq> NaN \<and> sa_threshold a \<noteq> NaN \<longrightarrow> sa_triggered a \<noteq> ca_triggered (sa_alert a))"
  using assms by (auto simp: in_sends_now dest!: sym [THEN triage_SendNow])

definition sent_ok :: "cached_alert list \<Rightarrow> system_alert \<Rightarrow> bool" where
  "sent_ok alerts a \<longleftrightarrow> sa_alert a \<in> set alerts \<and>
     (sa_triggered a \<longleftrightarrow> fless (sa_threshold a) (sa_val a)) \<and>
     (sa_val a \<noteq> NaN \<and> sa_threshold a \<noteq> NaN \<longrightarrow> sa_triggered a \<noteq> ca_triggered (sa_alert a)) \<and>
     (sa_min a = 1 \<or> 5 * uint (sa_min a) \<le> 6 * uint (sa_count a))"

lemma sent_now_ok: "a \<in> set (sends_now (map (triage data now) alerts)) \<Longrightarrow> sent_ok alerts a"
  using sends_now_triage by (auto simp: sent_ok_def)

lemma sent_later_ok:
  assumes "accumulate_rows first s rows (filter P (to_check (map (triage data now) alerts))) = Some out"
    and "a \<in> set (List.map_filter conclude out)"
  shows "sent_ok alerts a"
proof -
  obtain b where b: "b \<in> set out" "conclude b = Some a"
    using assms(2) by (auto simp: List.map_filter_def)
  obtain c where c: "c \<in> set (to_check (map (triage data now) alerts))" "same_alert c b"
    using accumulate_same [OF assms(1) b(1)] by auto
  show ?thesis
    using conclude_sends [OF b(2)] to_check_triage [OF c(1)] c(2)
    by (auto simp: sent_ok_def same_alert_def)
qed

lemma sent_all_ok:
  "a \<in> set (snd (handle_system_alerts query data now alerts)) \<Longrightarrow> sent_ok alerts a"
  using sent_now_ok sent_later_ok
  by (auto simp: handle_system_alerts_def Let_def simp del: accumulate_rows.simps
      split: option.splits list.splits if_splits)

lemma system_alert_in:
  "a \<in> set (snd (handle_system_alerts query data now alerts)) \<Longrightarrow> sa_alert a \<in> set alerts"
  using sent_all_ok by (auto simp: sent_ok_def)

text \<open>
  C9: an alert is handed to \<open>sendSystemAlert\<close> only when its value (current, or averaged over its
  window) has crossed its threshold: it says "above" exactly when the value exceeds the threshold, it
  reverses the stored flag (unless the value is NaN), and an average is used only when at least five
  sixths of the window's minutes have a record.
\<close>

theorem system_alert_crosses:
  assumes "a \<in> set (snd (handle_system_alerts query data now alerts))"
  shows "sent_ok alerts a"
  using assms by (rule sent_all_ok)

section \<open>The averaged value\<close>

text \<open>The readings of the CPU in the window of an alert: the records no older than its start, with ten
  seconds of tolerance.\<close>

definition window :: "instant \<Rightarrow> (flt \<times> instant) list \<Rightarrow> flt list" where
  "window start readings = map fst (filter (\<lambda>(c, t). start \<le> t - 10 * second) readings)"

definition cpu_row :: "flt \<times> instant \<Rightarrow> jval option \<times> instant \<Rightarrow> bool" where
  "cpu_row r row \<longleftrightarrow> snd row = snd r \<and> (\<forall>s. \<exists>s'. Option.bind (fst row) (\<lambda>v. read_alert_stats v s) = Some s' \<and> as_cpu s' = fst r)"

lemma accumulate_cpu:
  assumes "list_all2 cpu_row readings rows" and "sa_name a = ''CPU''"
  shows "accumulate_rows first s rows [a] =
    Some [a\<lparr>sa_val := foldl add64 (if first \<and> rows \<noteq> [] then zero_flt else sa_val a) (window (sa_time a) readings),
           sa_count := sa_count a + of_nat (length (window (sa_time a) readings))\<rparr>]"
  using assms
proof (induction arbitrary: first s a rule: list_all2_induct)
  case Nil
  then show ?case by (simp add: window_def)
next
  case (Cons r readings row rows)
  obtain c t where r: "r = (c, t)" by (cases r)
  obtain v where row: "row = (v, t)" using Cons.hyps(1) by (cases row) (auto simp: cpu_row_def r)
  obtain s' where s': "Option.bind v (\<lambda>v. read_alert_stats v s) = Some s'" "as_cpu s' = c"
    using Cons.hyps(1) by (force simp: cpu_row_def r row)
  show ?case
    using Cons.IH [of "visit first t s' a" False s'] Cons.prems
    by (auto simp: row s' r window_def visit_def add_stats_def)
qed

text \<open>What the alerts take from stored statistics; absent members keep what was there.\<close>

definition seen_by_alerts :: "stats \<Rightarrow> alert_stats \<Rightarrow> alert_stats" where
  "seen_by_alerts s a = a
     \<lparr>as_cpu := s_cpu s, as_mem := s_mem_pct s, as_disk := s_disk_pct s,
      as_bandwidth := into_zero (0, 0) (s_bandwidth s) (as_bandwidth a),
      as_extra_fs := (case s_extra_fs s of
          None \<Rightarrow> as_extra_fs a
        | Some m \<Rightarrow> fold (\<lambda>(k, f). AList.update k (fs_disk_total f, fs_disk_used f)) m (as_extra_fs a))\<rparr>"

lemma alert_fs_table:
  "list_all (lower_name \<circ> fst) [(''d'', into apfst fst read_float), (''du'', into apsnd snd read_float)]"
  by (simp add: lower_name_def less_eq_char_def)

lemma alert_table_lower: "list_all (lower_name \<circ> fst) alert_table"
  by (simp add: alert_table_def lower_name_def less_eq_char_def)

abbreviation lower_chars :: "string \<Rightarrow> bool" where
  "lower_chars \<equiv> list_all (\<lambda>c. CHR ''a'' \<le> c \<and> c \<le> CHR ''z'')"

lemma field_skipped:
  assumes "list_all (lower_name \<circ> fst) t" and "lower_chars (fst f)" and "fst f \<notin> fst ` set t"
  shows "trips_in t ok f (\<lambda>s r. r)"
proof (rule trips_in_skipped)
  have "map_of t (fst f) = None" using assms(3) by (simp add: map_of_eq_None_iff)
  then show "find_field t (fst f) = None" using find_field_lower [OF _ assms(1)] assms(2) by (simp add: lower_name_def)
qed

lemma float_field_in:
  assumes "list_all (lower_name \<circ> fst) t" and "lower_chars name" and "map_of t name = Some (into upd sel read_float)"
    and "\<And>r. upd (\<lambda>a. a) r = r"
  shows "trips_in t ok (float_field name omitted sel' upd') (\<lambda>s r. upd (\<lambda>a. if omitted (sel' s) then a else sel' s) r)"
proof -
  have f: "find_field t name = Some (into upd sel read_float)"
    using find_field_lower [OF _ assms(1)] assms(2,3) by (simp add: lower_name_def)
  show ?thesis unfolding float_field_def
    by (rule trips_in_read [OF f, where nf = "\<lambda>x a. x"]) (simp_all add: write_read_float assms(4))
qed

lemmas field_names = float_field_def io_field_def pair_field_def load_field_def map_field_def field_def less_eq_char_def

lemma alert_fs_readers:
  "map_of [(''d'', into apfst fst read_float), (''du'', into apsnd snd read_float)] ''d'' = Some (into apfst fst read_float)"
  "map_of [(''d'', into apfst fst read_float), (''du'', into apsnd snd read_float)] ''du'' = Some (into apsnd snd read_float)"
  by simp_all

lemma same_part: "apfst (\<lambda>a. a) p = p" "apsnd (\<lambda>a. a) p = p"
  by (cases p; simp)+

lemma alert_fs_read:
  assumes "fs_json f = Some j"
  shows "read_alert_fs j (zero_flt, zero_flt) = Some (fs_disk_total f, fs_disk_used f)"
  unfolding read_alert_fs_def
  apply (rule read_written_struct [where ok = "\<lambda>_. True" and s = f and fs = fs_fields])
     apply (unfold fs_fields_def)
     apply ((rule list.rel_intros)
       | (rule field_skipped [OF alert_fs_table], (simp add: field_names; fail), (simp add: field_names; fail))
       | (rule float_field_in [OF alert_fs_table _ alert_fs_readers(1)] float_field_in [OF alert_fs_table _ alert_fs_readers(2)],
          (simp add: field_names; fail), (simp add: same_part; fail)))+
    apply simp
   apply (rule assms [unfolded fs_json_def fs_fields_def])
  apply (simp add: no_tag_def)
  done

interpretation alert_fs_codec: json_codec fs_json read_alert_fs "(zero_flt, zero_flt)" "\<lambda>f. (fs_disk_total f, fs_disk_used f)" "\<lambda>_. True"
  by unfold_locales (rule alert_fs_read)

lemma alert_readers:
  "map_of alert_table ''cpu'' = Some (into as_cpu_update as_cpu read_float)"
  "map_of alert_table ''mp'' = Some (into as_mem_update as_mem read_float)"
  "map_of alert_table ''dp'' = Some (into as_disk_update as_disk read_float)"
  by (simp_all add: alert_table_def)

lemma alert_find:
  "find_field alert_table ''b'' = Some (into as_bandwidth_update as_bandwidth (read_tuple to2 of2 2 read_word 0))"
  "find_field alert_table ''efs'' = Some (into as_extra_fs_update as_extra_fs read_alert_fs_map)"
  by (subst find_field_lower [OF _ alert_table_lower]; simp add: alert_table_def lower_name_def less_eq_char_def)+

definition alert_extra_fs :: "(string, fs_stats) gomap option \<Rightarrow> (string, alert_fs) gomap \<Rightarrow> (string, alert_fs) gomap" where
  "alert_extra_fs new old =
     (case new of None \<Rightarrow> old | Some m \<Rightarrow> fold (\<lambda>(k, f). AList.update k (fs_disk_total f, fs_disk_used f)) m old)"

lemma alert_bandwidth_in:
  "trips_in alert_table ok (pair_field ''b'' s_bandwidth s_bandwidth_update)
     (\<lambda>s. as_bandwidth_update (\<lambda>a. if (0, 0) = s_bandwidth s then a else s_bandwidth s))"
  unfolding pair_field_def
  by (rule trips_in_read [OF alert_find(1), where nf = "\<lambda>x a. x"])
    (auto intro!: tuple_trip [OF word_scalar] simp: tuples split: prod.split)

lemma alert_efs_in:
  "trips_in alert_table (ok :: stats \<Rightarrow> bool) (map_field ''efs'' fs_json read_fs zero_fs_stats s_extra_fs s_extra_fs_update)
     (\<lambda>s. as_extra_fs_update (\<lambda>a. if empty_map (s_extra_fs s) then a else alert_extra_fs (s_extra_fs s) a))"
  unfolding map_field_def
proof (rule trips_in_read [OF alert_find(2)])
  fix s :: stats and j old
  assume s: "ok s" "\<not> empty_map (s_extra_fs s)" "write_gomap fs_json (s_extra_fs s) = Some j"
  then obtain m where m: "s_extra_fs s = Some m" "m \<noteq> []" by (auto simp: empty_map_def)
  have "read_map read_alert_fs (zero_flt, zero_flt) j (Some old) =
      Some (into_map (\<lambda>f. (fs_disk_total f, fs_disk_used f)) (s_extra_fs s) (Some old))"
    by (rule alert_fs_codec.gomap_trip) (use s in auto)
  then show "read_alert_fs_map j old = Some (alert_extra_fs (s_extra_fs s) old)"
    by (simp add: read_alert_fs_map_def alert_extra_fs_def into_map_def m)
qed simp_all

lemma alert_reads_stored:
  assumes "stats_json s = Some j"
  shows "read_alert_stats j a = Some (seen_by_alerts s a)"
  unfolding read_alert_stats_def
  apply (rule read_written_struct [where ok = "\<lambda>_. True" and s = s and fs = stats_fields])
     apply (unfold stats_fields_def)
     apply ((rule list.rel_intros alert_bandwidth_in alert_efs_in)
       | (rule field_skipped [OF alert_table_lower], (simp add: field_names; fail), (simp add: field_names alert_table_def; fail))
       | (rule float_field_in [OF alert_table_lower _ alert_readers(1)] float_field_in [OF alert_table_lower _ alert_readers(2)]
            float_field_in [OF alert_table_lower _ alert_readers(3)], (simp add: field_names; fail), (simp; fail)))+
    apply simp
   apply (rule assms [unfolded stats_json_def stats_fields_def])
  apply (cases "s_extra_fs s")
   apply (simp_all add: no_tag_def seen_by_alerts_def into_defs alert_extra_fs_def empty_map_def)
  done


definition stored_row :: "stats \<times> instant \<Rightarrow> jval option \<times> instant \<Rightarrow> bool" where
  "stored_row r row \<longleftrightarrow> snd row = snd r \<and> fst row \<noteq> None \<and> fst row = stats_json (fst r)"

lemma stored_cpu_rows:
  "list_all2 stored_row stored rows \<Longrightarrow> list_all2 cpu_row (map (\<lambda>(s, t). (s_cpu s, t)) stored) rows"
proof (induction rule: list_all2_induct)
  case (Cons r stored row rows)
  obtain j where "fst row = Some j" "stats_json (fst r) = Some j"
    using Cons.hyps(1) unfolding stored_row_def by (metis option.exhaust)
  then have "cpu_row (s_cpu (fst r), snd r) row"
    using Cons.hyps(1) by (simp add: cpu_row_def stored_row_def alert_reads_stored seen_by_alerts_def)
  then show ?case using Cons.IH by (simp add: case_prod_beta)
qed simp

text \<open>
  C10: the CPU alert compares the threshold with the mean of what was stored: of the statistics whose JSON the rows hold,
  the CPU values of the window are summed from zero in the order of the records, whatever the current value and
  the reused variable held, and divided by their number (modulo 256, the width of the counter).
\<close>

theorem cpu_alert_mean:
  assumes "list_all2 stored_row stored rows" and "rows \<noteq> []" and "sa_name a = ''CPU''" and "sa_count a = 0"
  shows "map_option (map (\<lambda>b. (sa_val (average b), sa_count (average b)))) (accumulate_rows True s rows [a]) =
    (let w = window (sa_time a) (map (\<lambda>(s, t). (s_cpu s, t)) stored); n = (of_nat (length w) :: u8)
     in Some [(div64 (foldl add64 zero_flt w) (count32 n), n)])"
  using assms(2-4) accumulate_cpu [OF stored_cpu_rows [OF assms(1)] assms(3), of True s]
  by (simp add: average_def Let_def)

section \<open>Composition with the status alerts\<close>

lemma status_inv_system_send:
  assumes i: "status_inv st"
    and name: "\<And>r. am_db st (ca_id (sa_alert a)) = Some r \<Longrightarrow> rec_name r \<noteq> ''Status''"
  shows "status_inv (send_system_alert env sys name a st) \<and>
    (\<forall>aid. map_option rec_name (am_db (send_system_alert env sys name a st) aid) = map_option rec_name (am_db st aid)) \<and>
    am_notices (send_system_alert env sys name a st) = am_notices st"
proof -
  have m: "cache_models (am_db st) (am_cache st)" using i by (simp add: status_inv_def)
  show ?thesis
  proof (rule set_alert_triggered_cases [OF m, of env "ca_id (sa_alert a)" "sa_triggered a"])
    assume "set_alert_triggered env (ca_id (sa_alert a)) (sa_triggered a) st = (False, st)"
    then show ?thesis using i by (simp add: send_system_alert_def)
  next
    fix r
    let ?st = "db_event (RowUpdated (r\<lparr>rec_triggered := sa_triggered a\<rparr>)) st"
    assume r: "am_db st (ca_id (sa_alert a)) = Some r" "rec_id r = ca_id (sa_alert a)"
      and s: "set_alert_triggered env (ca_id (sa_alert a)) (sa_triggered a) st = (True, ?st)"
      and m: "cache_models (am_db ?st) (am_cache ?st)"
    have log: "alert_log (?st\<lparr>am_system_notices := n\<rparr>) = alert_log st" for n
      by (simp add: alert_log_def fun_eq_iff)
    have "log_ok (?st\<lparr>am_system_notices := n\<rparr>)" for n
      using i r name [OF r(1)] unfolding log_ok_def log status_inv_def by auto
    moreover have "pending_ok (?st\<lparr>am_system_notices := n\<rparr>)" for n
      using i by (simp add: status_inv_def pending_ok_def)
    ultimately show ?thesis
      using m r by (auto simp: send_system_alert_def s Let_def status_inv_def)
  qed
qed

lemma status_inv_system_sends:
  assumes "status_inv st"
    and "\<And>a r. a \<in> set sent \<Longrightarrow> am_db st (ca_id (sa_alert a)) = Some r \<Longrightarrow> rec_name r \<noteq> ''Status''"
  shows "status_inv (fold (send_system_alert env sys name) sent st) \<and>
    am_notices (fold (send_system_alert env sys name) sent st) = am_notices st"
  using assms
proof (induction sent arbitrary: st)
  case Nil
  then show ?case by simp
next
  case (Cons a sent)
  let ?st = "send_system_alert env sys name a st"
  have h: "status_inv ?st" "am_notices ?st = am_notices st"
    "\<And>aid. map_option rec_name (am_db ?st aid) = map_option rec_name (am_db st aid)"
    using status_inv_system_send [where st = st and a = a and env = env and sys = sys and name = name]
      Cons.prems by auto
  have "rec_name r \<noteq> ''Status''" if "b \<in> set sent" "am_db ?st (ca_id (sa_alert b)) = Some r" for b r
  proof -
    from h(3) [of "ca_id (sa_alert b)"] that(2)
    obtain r0 where "am_db st (ca_id (sa_alert b)) = Some r0" "rec_name r0 = rec_name r"
      by (cases "am_db st (ca_id (sa_alert b))") auto
    then show ?thesis using Cons.prems(2) [of b r0] that(1) by auto
  qed
  from Cons.IH [OF h(1) this] show ?case using h(2) by simp
qed

lemma hook_keeps_store: "map_of (c_store c) sys \<noteq> None \<Longrightarrow> map_of (c_store (cache_hook (RowUpdated r) c)) sys \<noteq> None"
  by (simp add: cache_update_def Let_def store_laws split: option.split)

lemma sends_keep_store:
  "map_of (c_store (am_cache st)) s \<noteq> None \<Longrightarrow>
   map_of (c_store (am_cache (fold (send_system_alert env sys name) sent st))) s \<noteq> None"
proof (induction sent arbitrary: st)
  case (Cons a sent)
  have "map_of (c_store (am_cache (send_system_alert env sys name a st))) s \<noteq> None"
    using hook_keeps_store [OF Cons.prems] Cons.prems
    by (simp add: send_system_alert_def set_alert_triggered_def Let_def split: prod.split option.split)
  then show ?case by (simp add: Cons.IH)
qed simp

lemma system_alerts_status_inv:
  assumes i: "status_inv st" and ok: "answer_ok (am_db st) sys (alerts_answer env)" and sys: "sys \<noteq> ''''"
  shows "status_inv (snd (am_handle_system_alerts env query sys name updated data st)) \<and>
    am_notices (snd (am_handle_system_alerts env query sys name updated data st)) = am_notices st"
proof -
  have m: "cache_models (am_db st) (am_cache st)" using i by (simp add: status_inv_def)
  note rows = system_alerts_rows [OF m disjI2 [OF ok] sys]
  obtain c alerts where q: "get_system_alerts (alerts_answer env) sys (am_cache st) = (c, alerts)"
    by (cases "get_system_alerts (alerts_answer env) sys (am_cache st)")
  let ?others = "filter (\<lambda>a. ca_name a \<noteq> ''Status'') alerts"
  obtain ok' sent where h: "handle_system_alerts query data updated ?others = (ok', sent)"
    by (cases "handle_system_alerts query data updated ?others")
  have "status_inv (st\<lparr>am_cache := c\<rparr>)" using i rows q by (simp add: status_inv_def)
  moreover have "rec_name r \<noteq> ''Status''"
    if a: "a \<in> set sent" and r: "am_db (st\<lparr>am_cache := c\<rparr>) (ca_id (sa_alert a)) = Some r" for a r
  proof -
    have "sa_alert a \<in> set ?others"
      using system_alert_in [of a query data updated ?others] a h by simp
    then have "ca_name (sa_alert a) \<noteq> ''Status''"
      and "table_row (am_db st) sys (ca_id (sa_alert a)) = Some (sa_alert a)"
      using rows q by (auto simp: alerts_are_rows_def)
    then show ?thesis using r by (auto dest!: table_row_record dest: arg_cong [where f = ca_name])
  qed
  ultimately have "status_inv (fold (send_system_alert env sys name) sent (st\<lparr>am_cache := c\<rparr>)) \<and>
      am_notices (fold (send_system_alert env sys name) sent (st\<lparr>am_cache := c\<rparr>)) = am_notices (st\<lparr>am_cache := c\<rparr>)"
    by (rule status_inv_system_sends)
  then show ?thesis
    by (simp add: am_handle_system_alerts_def get_alerts_excluding_names_def q h Let_def)
qed

lemma handle_no_alerts: "handle_system_alerts query data updated [] = (True, [])"
  by (simp add: handle_system_alerts_def)

text \<open>Afterwards the alerts of the system are cached, or the table is as it was.\<close>

lemma system_alerts_cached:
  "map_of (c_store (am_cache (snd (am_handle_system_alerts env query sys name updated data st)))) sys \<noteq> None \<or>
   am_db (snd (am_handle_system_alerts env query sys name updated data st)) = am_db st"
proof (cases "map_of (c_store (fst (get_system_alerts (alerts_answer env) sys (am_cache st)))) sys = None")
  case True
  then have "get_system_alerts (alerts_answer env) sys (am_cache st) = (fst (get_system_alerts (alerts_answer env) sys (am_cache st)), [])"
    by (auto simp: get_system_alerts_def Let_def store_laws split: option.splits)
  then obtain c where q: "get_system_alerts (alerts_answer env) sys (am_cache st) = (c, [])" by blast
  show ?thesis by (simp add: am_handle_system_alerts_def get_alerts_excluding_names_def handle_no_alerts q)
next
  case False
  then have "map_of (c_store (am_cache (st\<lparr>am_cache := fst (get_system_alerts (alerts_answer env) sys (am_cache st))\<rparr>))) sys \<noteq> None"
    by simp
  from sends_keep_store [OF this, of env sys name] show ?thesis
    by (auto simp: am_handle_system_alerts_def get_alerts_excluding_names_def split: prod.splits)
qed

text \<open>
  Handling the CPU, memory and disk alerts of a system keeps the invariant of the status alerts
  (the cache still mirrors the table, pending alerts and timers agree, every "up" answers a "down")
  and sends no status message.
\<close>

lemma system_alerts_keep_status_alerts:
  assumes "status_inv st" and "answer_ok (am_db st) sys (alerts_answer env)" and "sys \<noteq> ''''"
  shows "let st' = snd (am_handle_system_alerts env query sys name updated data st)
         in status_inv st' \<and> am_notices st' = am_notices st"
  using system_alerts_status_inv [OF assms, of query name updated data] by (simp add: Let_def)

section \<open>A file system that is gone\<close>

text \<open>
  C12: statistics without extra file systems are stored without the "efs" member, and reading them does not clear those of
  the record before (the decoder merges into the reused variable), so a file system that was removed keeps adding
  its last usage to the sum of the disk alert with every later record.
\<close>

theorem removed_disk_still_counted:
  assumes "stats_json old = Some j1" and "s_extra_fs old = Some [(k, f)]"
    and "stats_json new = Some j2" and "empty_map (s_extra_fs new)"
    and "fless zero_flt (fs_disk_total f)" and "k \<noteq> ''root''"
    and "sa_name a = ''Disk''" and "sa_time a \<le> t1 - 10 * second" and "sa_time a \<le> t2 - 10 * second"
    and "sa_sums a = []"
  shows "map_option (map (\<lambda>b. map_of (sa_sums b) k))
      (accumulate_rows True zero_alert_stats [(Some j1, t1), (Some j2, t2)] [a]) =
    (let p = float32_of_float64 (mul64 (div64 (fs_disk_used f) (fs_disk_total f)) (Fin 100))
     in Some [Some (add32 (add32 zero_flt p) p)])"
proof -
  have n: "s_extra_fs new = None \<or> s_extra_fs new = Some []" using assms(4) by (simp add: empty_map_def)
  have r: "read_alert_stats j1 b = Some (seen_by_alerts old b)" "read_alert_stats j2 b = Some (seen_by_alerts new b)" for b
    using assms(1,3) by (simp_all add: alert_reads_stored)
  show ?thesis
    using n assms(2,5-)
    by (auto simp: r Let_def visit_def add_stats_def seen_by_alerts_def zero_alert_stats_def add_disk_def add_sum_def store_laws)
qed

section \<open>Witnesses\<close>

definition demo_alert :: system_alert where
  "demo_alert = \<lparr>sa_alert = populate_from_record demo_row, sa_name = ''Disk'', sa_unit = ''%'',
     sa_val = zero_flt, sa_threshold = Fin 80, sa_triggered = False, sa_time = 0, sa_count = 0,
     sa_min = 5, sa_sums = [], sa_descriptor = ''''\<rparr>"

definition demo_fs :: fs_stats where
  "demo_fs = zero_fs_stats\<lparr>fs_disk_total := Fin 100, fs_disk_used := Fin 50\<rparr>"

definition demo_cpu_stats :: stats where "demo_cpu_stats = zero_stats\<lparr>s_cpu := Fin 90\<rparr>"

lemma demo_stored: "stats_json demo_cpu_stats \<noteq> None" "stats_json (demo_cpu_stats\<lparr>s_extra_fs := Some [(''sdb'', demo_fs)]\<rparr>) \<noteq> None"
  by code_simp+

lemma removed_disk_still_counted_witness:
  "\<exists>j1 j2 p. stats_json (demo_cpu_stats\<lparr>s_extra_fs := Some [(''sdb'', demo_fs)]\<rparr>) = Some j1 \<and> stats_json demo_cpu_stats = Some j2 \<and>
     map_option (map (\<lambda>b. map_of (sa_sums b) ''sdb''))
      (accumulate_rows True zero_alert_stats [(Some j1, 60 * second), (Some j2, 120 * second)] [demo_alert]) =
     Some [Some (add32 (add32 zero_flt p) p)]"
proof -
  obtain j1 j2 where j: "stats_json (demo_cpu_stats\<lparr>s_extra_fs := Some [(''sdb'', demo_fs)]\<rparr>) = Some j1" "stats_json demo_cpu_stats = Some j2"
    using demo_stored by blast
  show ?thesis
    using removed_disk_still_counted [OF j(1) _ j(2), of "''sdb''" demo_fs demo_alert "60 * second" "120 * second"] j
    by (auto simp: demo_cpu_stats_def demo_fs_def zero_stats_def empty_map_def demo_alert_def go_simps Let_def simp del: accumulate_rows.simps)
qed

lemma cpu_alert_mean_witness:
  "\<exists>j. stats_json demo_cpu_stats = Some j \<and>
   map_option (map (\<lambda>b. (sa_val (average b), sa_count (average b))))
     (accumulate_rows True zero_alert_stats [(Some j, 60 * second), (Some j, 70 * second)]
        [demo_alert\<lparr>sa_name := ''CPU''\<rparr>]) =
   Some [(div64 (add64 (add64 zero_flt (Fin 90)) (Fin 90)) (count32 2), 2)]"
proof -
  obtain j where j: "stats_json demo_cpu_stats = Some j" using demo_stored by blast
  then show ?thesis
    using cpu_alert_mean [of "[(demo_cpu_stats, 60 * second), (demo_cpu_stats, 70 * second)]" "[(Some j, 60 * second), (Some j, 70 * second)]"
      "demo_alert\<lparr>sa_name := ''CPU''\<rparr>" zero_alert_stats]
    by (simp add: demo_cpu_stats_def demo_alert_def stored_row_def window_def go_simps Let_def del: accumulate_rows.simps)
qed

definition demo_data :: combined_data where
  "demo_data = zero_data\<lparr>cd_info := zero_info\<lparr>i_cpu := Fin 90\<rparr>\<rparr>"

definition demo_cpu_alert :: cached_alert where
  "demo_cpu_alert = (populate_from_record demo_row)\<lparr>ca_name := ''CPU'', ca_value := Fin 80\<rparr>"

lemma demo_triage: "\<exists>a. triage demo_data 0 demo_cpu_alert = SendNow a"
  by (simp add: triage_def demo_cpu_alert_def demo_data_def alert_value_def Let_def)

lemma system_alert_crosses_witness:
  "\<exists>a. a \<in> set (snd (handle_system_alerts (\<lambda>_. None) demo_data 0 [demo_cpu_alert])) \<and> sent_ok [demo_cpu_alert] a"
proof -
  obtain a where t: "triage demo_data 0 demo_cpu_alert = SendNow a" using demo_triage by blast
  have "a \<in> set (snd (handle_system_alerts (\<lambda>_. None) demo_data 0 [demo_cpu_alert]))"
    by (simp add: handle_system_alerts_def t sends_now_def to_check_def)
  from this system_alert_crosses [OF this] show ?thesis by blast
qed

lemma system_alerts_keep_status_alerts_demo:
  "am_notices (snd (am_handle_system_alerts demo_env (\<lambda>_. None) ''s1'' ''box'' 0 demo_data demo_start)) = []"
proof -
  have n: "am_notices demo_start = []" by (simp add: demo_start_state)
  have "answer_ok (am_db demo_start) ''s1'' (alerts_answer demo_env)"
    using demo_answer by (simp add: demo_start_state)
  from system_alerts_keep_status_alerts [OF status.inv_start [OF demo_fresh] this,
      of "\<lambda>_. None" "''box''" 0 demo_data]
  show ?thesis by (simp add: Let_def n)
qed

end
