(* ===== verification/RecordsAvg.thy ===== *)
theory RecordsAvg
  imports StatsJson
begin

text \<open>
  \<^verbatim>\<open>internal/records/records.go\<close>: the averages a longer record stores.
  \<open>accumulate_stats\<close> is the body of the loop of \<open>AverageSystemStatsSlice\<close>, \<open>finish_stats\<close> what follows
  the loop; \<open>average_container_stats\<close> is \<open>AverageContainerStatsSlice\<close>. The order in which a Go map is
  visited is the order of its association list. A float that does not fit into an integer type
  converts to a value of the implementation's choice, the parameter \<open>other\<close>.
\<close>

section \<open>Componentwise helpers\<close>

definition max3 :: "flt \<Rightarrow> flt \<Rightarrow> flt \<Rightarrow> flt" where
  "max3 a b c = fmax (fmax a b) c"

definition add_pair :: "bytes_pair \<Rightarrow> bytes_pair \<Rightarrow> bytes_pair" where
  "add_pair a b = (fst a + fst b, snd a + snd b)"

definition max_pair3 :: "bytes_pair \<Rightarrow> bytes_pair \<Rightarrow> bytes_pair \<Rightarrow> bytes_pair" where
  "max_pair3 a b c = (max (max (fst a) (fst b)) (fst c), max (max (snd a) (snd b)) (snd c))"

definition div_pair :: "bytes_pair \<Rightarrow> u64 \<Rightarrow> bytes_pair" where
  "div_pair a n = (fst a div n, snd a div n)"

definition add_io :: "io_stats \<Rightarrow> io_stats \<Rightarrow> io_stats" where
  "add_io = map2 add64"

definition max_io3 :: "io_stats \<Rightarrow> io_stats \<Rightarrow> io_stats \<Rightarrow> io_stats" where
  "max_io3 a b c = map2 fmax (map2 fmax a b) c"

definition avg :: "flt \<Rightarrow> flt \<Rightarrow> flt" where
  "avg count v = two_decimals (div64 v count)"

text \<open>A slice of sums, grown to the length of the longest record.\<close>

definition grow_add :: "('a \<Rightarrow> 'a \<Rightarrow> 'a) \<Rightarrow> 'a \<Rightarrow> 'a list \<Rightarrow> 'a list \<Rightarrow> 'a list" where
  "grow_add plus0 z acc xs =
     map2 plus0 (acc @ replicate (length xs - length acc) z) xs
       @ drop (length xs) acc"

text \<open>\<open>m[k] += v\<close> for every entry of a map; a nil sum becomes a map when a record has one.\<close>

definition get_or :: "'v \<Rightarrow> ('k, 'v) gomap \<Rightarrow> 'k \<Rightarrow> 'v" where
  "get_or z m k = (case map_of m k of Some v \<Rightarrow> v | None \<Rightarrow> z)"

definition merge_map :: "'v \<Rightarrow> ('v \<Rightarrow> 'w \<Rightarrow> 'v) \<Rightarrow> ('k, 'w) gomap \<Rightarrow> ('k, 'v) gomap \<Rightarrow> ('k, 'v) gomap" where
  "merge_map z f new acc = foldl (\<lambda>m (k, w). AList.update k (f (get_or z m k) w) m) acc new"

definition merge_opt :: "'v \<Rightarrow> ('v \<Rightarrow> 'w \<Rightarrow> 'v) \<Rightarrow> ('k, 'w) gomap option \<Rightarrow> ('k, 'v) gomap option \<Rightarrow> ('k, 'v) gomap option" where
  "merge_opt z f new acc =
     (case new of None \<Rightarrow> acc
      | Some entries \<Rightarrow> Some (merge_map z f entries (case acc of None \<Rightarrow> [] | Some m \<Rightarrow> m)))"

definition map_values :: "('v \<Rightarrow> 'w) \<Rightarrow> ('k, 'v) gomap \<Rightarrow> ('k, 'w) gomap" where
  "map_values f m = map (\<lambda>(k, v). (k, f v)) m"

section \<open>One record\<close>

definition add_fs :: "fs_stats \<Rightarrow> fs_stats \<Rightarrow> fs_stats" where
  "add_fs fs v = fs
     \<lparr>fs_disk_total := add64 (fs_disk_total fs) (fs_disk_total v),
      fs_disk_used := add64 (fs_disk_used fs) (fs_disk_used v),
      fs_write_ps := add64 (fs_write_ps fs) (fs_write_ps v),
      fs_read_ps := add64 (fs_read_ps fs) (fs_read_ps v),
      fs_max_read_ps := max3 (fs_max_read_ps fs) (fs_max_read_ps v) (fs_read_ps v),
      fs_max_write_ps := max3 (fs_max_write_ps fs) (fs_max_write_ps v) (fs_write_ps v),
      fs_read_bytes := fs_read_bytes fs + fs_read_bytes v,
      fs_write_bytes := fs_write_bytes fs + fs_write_bytes v,
      fs_max_read_bytes := max (max (fs_max_read_bytes fs) (fs_max_read_bytes v)) (fs_read_bytes v),
      fs_max_write_bytes := max (max (fs_max_write_bytes fs) (fs_max_write_bytes v)) (fs_write_bytes v),
      fs_io_stats := add_io (fs_io_stats fs) (fs_io_stats v),
      fs_max_io_stats := max_io3 (fs_max_io_stats fs) (fs_max_io_stats v) (fs_io_stats v)\<rparr>"

definition add_gpu :: "gpu_data option \<Rightarrow> gpu_data \<Rightarrow> gpu_data" where
  "add_gpu g v =
     (let g = (case g of Some g \<Rightarrow> g | None \<Rightarrow> named_gpu (gpu_name v)) in g
     \<lparr>gpu_temperature := add64 (gpu_temperature g) (gpu_temperature v),
      gpu_memory_used := add64 (gpu_memory_used g) (gpu_memory_used v),
      gpu_memory_total := add64 (gpu_memory_total g) (gpu_memory_total v),
      gpu_usage := add64 (gpu_usage g) (gpu_usage v),
      gpu_power := add64 (gpu_power g) (gpu_power v),
      gpu_count := add64 (gpu_count g) (gpu_count v),
      gpu_engines := merge_opt zero_flt add64 (gpu_engines v) (gpu_engines g)\<rparr>)"

definition add_interface ::
  "u64 \<times> u64 \<times> u64 \<times> u64 \<Rightarrow> u64 \<times> u64 \<times> u64 \<times> u64 \<Rightarrow> u64 \<times> u64 \<times> u64 \<times> u64" where
  "add_interface = (\<lambda>(a, b, c, d) (a', b', c', d'). (a + a', b + b', max c c', max d d'))"

text \<open>The local variables of the loop beside \<open>sum\<close>.\<close>

record avg_state =
  av_sum :: stats
  av_battery :: int
  av_cores :: "u64 list"
  av_breakdown :: "flt list"
  av_temp_count :: flt

definition avg_start :: avg_state where
  "avg_start = \<lparr>av_sum = zero_stats, av_battery = 0, av_cores = [], av_breakdown = [],
                av_temp_count = zero_flt\<rparr>"

definition sum_stats :: "stats \<Rightarrow> stats \<Rightarrow> stats" where
  "sum_stats t s =
     \<lparr>s_cpu = add64 (s_cpu t) (s_cpu s),
      s_max_cpu = max3 (s_max_cpu t) (s_max_cpu s) (s_cpu s),
      s_mem = add64 (s_mem t) (s_mem s),
      s_max_mem = max3 (s_max_mem t) (s_max_mem s) (s_mem_used s),
      s_mem_used = add64 (s_mem_used t) (s_mem_used s),
      s_mem_pct = add64 (s_mem_pct t) (s_mem_pct s),
      s_mem_buff_cache = add64 (s_mem_buff_cache t) (s_mem_buff_cache s),
      s_mem_zfs_arc = add64 (s_mem_zfs_arc t) (s_mem_zfs_arc s),
      s_swap = add64 (s_swap t) (s_swap s),
      s_swap_used = add64 (s_swap_used t) (s_swap_used s),
      s_disk_total = add64 (s_disk_total t) (s_disk_total s),
      s_disk_used = add64 (s_disk_used t) (s_disk_used s),
      s_disk_pct = add64 (s_disk_pct t) (s_disk_pct s),
      s_disk_read_ps = add64 (s_disk_read_ps t) (s_disk_read_ps s),
      s_disk_write_ps = add64 (s_disk_write_ps t) (s_disk_write_ps s),
      s_max_disk_read_ps = max3 (s_max_disk_read_ps t) (s_max_disk_read_ps s) (s_disk_read_ps s),
      s_max_disk_write_ps = max3 (s_max_disk_write_ps t) (s_max_disk_write_ps s) (s_disk_write_ps s),
      s_network_sent = add64 (s_network_sent t) (s_network_sent s),
      s_network_recv = add64 (s_network_recv t) (s_network_recv s),
      s_max_network_sent = max3 (s_max_network_sent t) (s_max_network_sent s) (s_network_sent s),
      s_max_network_recv = max3 (s_max_network_recv t) (s_max_network_recv s) (s_network_recv s),
      s_temperatures = merge_opt zero_flt add64 (s_temperatures s) (s_temperatures t),
      s_extra_fs = merge_opt zero_fs_stats add_fs (s_extra_fs s) (s_extra_fs t),
      s_gpu_data =
        (case s_gpu_data s of None \<Rightarrow> s_gpu_data t
         | Some gs \<Rightarrow> Some (foldl (\<lambda>m (k, v). AList.update k (add_gpu (map_of m k) v) m)
                              (case s_gpu_data t of None \<Rightarrow> [] | Some m \<Rightarrow> m) gs)),
      s_bandwidth = add_pair (s_bandwidth t) (s_bandwidth s),
      s_max_bandwidth = max_pair3 (s_max_bandwidth t) (s_max_bandwidth s) (s_bandwidth s),
      s_load_avg = (case (s_load_avg t, s_load_avg s) of
          ((a, b, c), (a', b', c')) \<Rightarrow> (add64 a a', add64 b b', add64 c c')),
      s_battery = (fst (s_battery t), snd (s_battery s)),
      s_network_interfaces =
        Some (merge_map (0, 0, 0, 0) add_interface
                (case s_network_interfaces s of None \<Rightarrow> [] | Some m \<Rightarrow> m)
                (case s_network_interfaces t of None \<Rightarrow> [] | Some m \<Rightarrow> m)),
      s_disk_io = add_pair (s_disk_io t) (s_disk_io s),
      s_max_disk_io = max_pair3 (s_max_disk_io t) (s_max_disk_io s) (s_disk_io s),
      s_cpu_breakdown = s_cpu_breakdown t,
      s_cpu_cores = s_cpu_cores t,
      s_disk_io_stats = add_io (s_disk_io_stats t) (s_disk_io_stats s),
      s_max_disk_io_stats = max_io3 (s_max_disk_io_stats t) (s_max_disk_io_stats s) (s_disk_io_stats s)\<rparr>"

definition accumulate_stats :: "avg_state \<Rightarrow> stats \<Rightarrow> avg_state" where
  "accumulate_stats st s =
     \<lparr>av_sum = sum_stats (av_sum st) s,
      av_battery = av_battery st + uint (fst (s_battery s)),
      av_cores = (case s_cpu_cores s of None \<Rightarrow> av_cores st
        | Some cs \<Rightarrow> grow_add (+) 0 (av_cores st) (map ucast cs)),
      av_breakdown = (case s_cpu_breakdown s of None \<Rightarrow> av_breakdown st
        | Some vs \<Rightarrow> grow_add add64 zero_flt (av_breakdown st) vs),
      av_temp_count = (if s_temperatures s = None then av_temp_count st
        else add64 (av_temp_count st) (Fin 1))\<rparr>"

section \<open>The averages\<close>

definition finish_fs :: "flt \<Rightarrow> u64 \<Rightarrow> fs_stats \<Rightarrow> fs_stats" where
  "finish_fs count n fs = fs
     \<lparr>fs_disk_total := avg count (fs_disk_total fs), fs_disk_used := avg count (fs_disk_used fs),
      fs_write_ps := avg count (fs_write_ps fs), fs_read_ps := avg count (fs_read_ps fs),
      fs_read_bytes := fs_read_bytes fs div n, fs_write_bytes := fs_write_bytes fs div n,
      fs_io_stats := map (avg count) (fs_io_stats fs)\<rparr>"

definition finish_gpu :: "flt \<Rightarrow> gpu_data \<Rightarrow> gpu_data" where
  "finish_gpu count g = g
     \<lparr>gpu_temperature := avg count (gpu_temperature g), gpu_memory_used := avg count (gpu_memory_used g),
      gpu_memory_total := avg count (gpu_memory_total g), gpu_usage := avg count (gpu_usage g),
      gpu_power := avg count (gpu_power g), gpu_count := avg count (gpu_count g),
      gpu_engines := map_option (map_values (avg count)) (gpu_engines g)\<rparr>"

definition finish_stats :: "(flt \<Rightarrow> u64) \<Rightarrow> (flt \<Rightarrow> u8) \<Rightarrow> nat \<Rightarrow> avg_state \<Rightarrow> stats" where
  "finish_stats other64 other8 len st =
     (let t = av_sum st; count = float64_of_int (int len); n = word_of_float other64 count in t
     \<lparr>s_cpu := avg count (s_cpu t), s_mem := avg count (s_mem t),
      s_mem_used := avg count (s_mem_used t), s_mem_pct := avg count (s_mem_pct t),
      s_mem_buff_cache := avg count (s_mem_buff_cache t), s_mem_zfs_arc := avg count (s_mem_zfs_arc t),
      s_swap := avg count (s_swap t), s_swap_used := avg count (s_swap_used t),
      s_disk_total := avg count (s_disk_total t), s_disk_used := avg count (s_disk_used t),
      s_disk_pct := avg count (s_disk_pct t), s_disk_read_ps := avg count (s_disk_read_ps t),
      s_disk_write_ps := avg count (s_disk_write_ps t), s_disk_io := div_pair (s_disk_io t) n,
      s_disk_io_stats := map (avg count) (s_disk_io_stats t),
      s_network_sent := avg count (s_network_sent t), s_network_recv := avg count (s_network_recv t),
      s_load_avg := (case s_load_avg t of (a, b, c) \<Rightarrow> (avg count a, avg count b, avg count c)),
      s_bandwidth := div_pair (s_bandwidth t) n,
      s_battery := (word_of_int (go_quot (av_battery st) (int len)), snd (s_battery t)),
      s_network_interfaces := map_option (map_values (\<lambda>(a, b, c, d). (a div n, b div n, c, d)))
          (s_network_interfaces t),
      s_temperatures :=
        (if fless zero_flt (av_temp_count st)
         then map_option (map_values (avg (av_temp_count st))) (s_temperatures t) else s_temperatures t),
      s_extra_fs := map_option (map_values (finish_fs count n)) (s_extra_fs t),
      s_gpu_data := map_option (map_values (finish_gpu count)) (s_gpu_data t),
      s_cpu_cores :=
        (if av_cores st \<noteq> []
         then Some (map (\<lambda>w. word_of_float other8 (math_round (div64 (float64_of_u64 w) count))) (av_cores st))
         else s_cpu_cores t),
      s_cpu_breakdown :=
        (if av_breakdown st \<noteq> [] then Some (map (avg count) (av_breakdown st)) else s_cpu_breakdown t)\<rparr>)"

definition average_system_stats :: "(flt \<Rightarrow> u64) \<Rightarrow> (flt \<Rightarrow> u8) \<Rightarrow> stats list \<Rightarrow> stats" where
  "average_system_stats other64 other8 records =
     (if records = [] then zero_stats
      else finish_stats other64 other8 (length records) (foldl accumulate_stats avg_start records))"

text \<open>
  \<open>AverageSystemStats\<close>: \<open>load\<close> is the stored JSON of a row (\<open>None\<close>: there is no row, or its text is not JSON); a record
  whose row is missing or does not decode is left out.
\<close>

definition average_system_records :: "(flt \<Rightarrow> u64) \<Rightarrow> (flt \<Rightarrow> u8) \<Rightarrow> (string \<Rightarrow> jval option) \<Rightarrow> string list \<Rightarrow> stats" where
  "average_system_records other64 other8 load ids =
     average_system_stats other64 other8 (List.map_filter (\<lambda>i. Option.bind (load i) (\<lambda>v. read_stats v zero_stats)) ids)"

section \<open>Containers\<close>

definition container_bytes :: "(flt \<Rightarrow> u64) \<Rightarrow> container_stats \<Rightarrow> bytes_pair" where
  "container_bytes other64 s =
     (let mb = (\<lambda>v. word_of_float other64 (mul64 (mul64 v (Fin 1024)) (Fin 1024))) in
      if ct_bandwidth s = (0, 0) \<and> (\<not> feq (ct_network_sent s) zero_flt \<or> \<not> feq (ct_network_recv s) zero_flt)
      then (mb (ct_network_sent s), mb (ct_network_recv s)) else ct_bandwidth s)"

definition add_container :: "(flt \<Rightarrow> u64) \<Rightarrow> (string, container_stats) gomap \<Rightarrow> container_stats \<Rightarrow> (string, container_stats) gomap" where
  "add_container other64 m s =
     (let t = get_or (named_container (ct_name s)) m (ct_name s) in
      AList.update (ct_name s)
        (t\<lparr>ct_cpu := add64 (ct_cpu t) (ct_cpu s), ct_mem := add64 (ct_mem t) (ct_mem s),
           ct_bandwidth := add_pair (ct_bandwidth t) (container_bytes other64 s)\<rparr>) m)"

definition finish_container :: "(flt \<Rightarrow> u64) \<Rightarrow> flt \<Rightarrow> container_stats \<Rightarrow> container_stats" where
  "finish_container other64 count t =
     (let mean = (\<lambda>w. word_of_float other64 (div64 (float64_of_u64 w) count)) in
      (named_container (ct_name t))
        \<lparr>ct_cpu := avg count (ct_cpu t), ct_mem := avg count (ct_mem t),
         ct_bandwidth := (mean (fst (ct_bandwidth t)), mean (snd (ct_bandwidth t)))\<rparr>)"

definition average_container_stats :: "(flt \<Rightarrow> u64) \<Rightarrow> container_stats list list \<Rightarrow> container_stats list" where
  "average_container_stats other64 records =
     (if records = [] then []
      else map (finish_container other64 (float64_of_int (int (length records))) \<circ> snd)
             (foldl (add_container other64) [] (concat records)))"

text \<open>\<open>AverageContainerStats\<close>: one row that does not decode makes the result empty.\<close>

definition average_container_records :: "(flt \<Rightarrow> u64) \<Rightarrow> (string \<Rightarrow> jval option) \<Rightarrow> string list \<Rightarrow> container_stats list" where
  "average_container_records other64 load ids =
     (let decoded = (\<lambda>i. Option.bind (load i) read_containers) in
      if list_ex (\<lambda>i. Option.is_none (decoded i)) ids then []
      else average_container_stats other64 (List.map_filter decoded ids))"

section \<open>Sums and means stay in range\<close>

lemma add64_between:
  assumes "fle (Fin (of_int a)) x" "fle x (Fin (of_int b))" "fle (Fin (of_int c)) y" "fle y (Fin (of_int d))"
    and "\<bar>a + c\<bar> \<le> 9007199254740992" and "\<bar>b + d\<bar> \<le> 9007199254740992"
  shows "fle (Fin (of_int (a + c))) (add64 x y)" and "fle (add64 x y) (Fin (of_int (b + d)))"
proof -
  have x: "finite_flt x" "of_int a \<le> val_of x" "val_of x \<le> of_int b"
    using fle_between [OF assms(1,2)] by auto
  have y: "finite_flt y" "of_int c \<le> val_of y" "val_of y \<le> of_int d"
    using fle_between [OF assms(3,4)] by auto
  have s: "of_int (a + c) \<le> val_of x + val_of y" "val_of x + val_of y \<le> of_int (b + d)"
    using x y by simp_all
  have nan: "x \<noteq> NaN" "y \<noteq> NaN" using x(1) y(1) by auto
  have "fle (Fin (of_int (a + c))) (add64 x y) \<and> fle (add64 x y) (Fin (of_int (b + d)))"
    using x(1) y(1) nan s pack64_ge_int [OF s(1) assms(5)] pack64_le_int [OF s(2) assms(6)]
    by (auto simp: fadd_def Let_def)
  then show "fle (Fin (of_int (a + c))) (add64 x y)" and "fle (add64 x y) (Fin (of_int (b + d)))"
    by auto
qed

lemma sum_between:
  assumes "fle (Fin (of_int (k * lo))) acc" "fle acc (Fin (of_int (k * hi)))"
    and "\<And>x. x \<in> set xs \<Longrightarrow> fle (Fin (of_int lo)) x \<and> fle x (Fin (of_int hi))"
    and "0 \<le> lo" "lo \<le> hi" "0 \<le> k" "(k + int (length xs)) * hi \<le> 9007199254740992"
  shows "fle (Fin (of_int ((k + int (length xs)) * lo))) (foldl add64 acc xs)"
    and "fle (foldl add64 acc xs) (Fin (of_int ((k + int (length xs)) * hi)))"
  using assms
proof (induction xs arbitrary: acc k)
  case Nil
  { case 1 then show ?case by simp next case 2 then show ?case by simp }
next
  case (Cons x xs)
  have step: "fle (Fin (of_int ((k + 1) * lo))) (add64 acc x) \<and> fle (add64 acc x) (Fin (of_int ((k + 1) * hi)))"
    if p: "fle (Fin (of_int (k * lo))) acc" "fle acc (Fin (of_int (k * hi)))"
      "fle (Fin (of_int lo)) x \<and> fle x (Fin (of_int hi))"
      "0 \<le> lo" "lo \<le> hi" "0 \<le> k" "(k + int (length (x # xs))) * hi \<le> 9007199254740992" for k acc
  proof -
    have "(k + 1) * hi \<le> (k + int (length (x # xs))) * hi"
      using p by (intro mult_right_mono) simp_all
    then have b: "(k + 1) * hi \<le> 9007199254740992" using p(7) by linarith
    moreover have "(k + 1) * lo \<le> (k + 1) * hi" using p by (intro mult_left_mono) simp_all
    moreover have "0 \<le> (k + 1) * lo" using p by simp
    ultimately have "\<bar>k * lo + lo\<bar> \<le> 9007199254740992" "\<bar>k * hi + hi\<bar> \<le> 9007199254740992"
      by (simp_all add: distrib_right)
    from add64_between [OF p(1,2) conjunct1 [OF p(3)] conjunct2 [OF p(3)] this]
    show ?thesis by (simp add: distrib_right)
  qed
  have len: "k + int (length (x # xs)) = (k + 1) + int (length xs)" for k by simp
  { case 1
    have "fle (Fin (of_int ((k + 1 + int (length xs)) * lo))) (foldl add64 (add64 acc x) xs)"
      by (rule Cons.IH(1)) (use 1 step [of k acc] in \<open>auto simp: algebra_simps\<close>)
    then show ?case unfolding len foldl_Cons .
  next
    case 2
    have "fle (foldl add64 (add64 acc x) xs) (Fin (of_int ((k + 1 + int (length xs)) * hi)))"
      by (rule Cons.IH(2)) (use 2 step [of k acc] in \<open>auto simp: algebra_simps\<close>)
    then show ?case unfolding len foldl_Cons . }
qed

lemma float64_of_len: "int n \<le> 90071992547409 \<Longrightarrow> float64_of_int (int n) = Fin (of_int (int n))"
  by (rule float64_of_int_small) simp

lemma avg_between:
  assumes "\<And>x. x \<in> set xs \<Longrightarrow> fle (Fin 0) x \<and> fle x (Fin (of_int hi))"
    and "0 \<le> hi" "xs \<noteq> []" "int (length xs) * hi \<le> 90071992547409" "int (length xs) \<le> 90071992547409" "hi \<le> 90071992547409"
  shows "fle (Fin 0) (avg (float64_of_int (int (length xs))) (foldl add64 zero_flt xs))"
    and "fle (avg (float64_of_int (int (length xs))) (foldl add64 zero_flt xs)) (Fin (of_int hi))"
proof -
  let ?n = "int (length xs)" and ?s = "foldl add64 zero_flt xs"
  have n: "0 < ?n" "?n \<noteq> 0" using assms(3) by simp_all
  have b: "?n * hi \<le> 9007199254740992" using assms(4) by linarith
  have s: "fle (Fin (of_int 0)) ?s" "fle ?s (Fin (of_int (hi * ?n)))"
    using sum_between [where k = 0 and lo = 0 and hi = hi and acc = zero_flt and xs = xs] assms(1,2) b
    by (auto simp: mult.commute)
  have z: "div64 (Fin 0) (Fin (of_int ?n)) = Fin 0"
    using n by (simp add: fdiv_def Let_def is_zero_def zero_of_def)
  have d1: "fle (Fin 0) (div64 ?s (Fin (of_int ?n)))"
    using div64_mono [OF s(1), of "of_int ?n"] n z by simp
  have "fle (div64 ?s (Fin (of_int ?n))) (div64 (Fin (of_int (hi * ?n))) (Fin (of_int ?n)))"
    using div64_mono [OF s(2), of "of_int ?n"] n by simp
  moreover have "div64 (Fin (of_int (hi * ?n))) (Fin (of_int ?n)) = Fin (of_int hi)"
  proof (cases "hi = 0")
    case False
    then show ?thesis using div64_int [of hi ?n] assms(2,6) n by simp
  qed (use z in simp)
  ultimately have d2: "fle (div64 ?s (Fin (of_int ?n))) (Fin (of_int hi))" by simp
  have f: "float64_of_int ?n = Fin (of_int ?n)" by (rule float64_of_len [OF assms(5)])
  have d1': "fle (Fin (of_int 0)) (div64 ?s (Fin (of_int ?n)))" using d1 by simp
  have "\<bar>0\<bar> \<le> (90071992547409 :: int)" "\<bar>hi\<bar> \<le> 90071992547409" using assms(2,6) by simp_all
  from two_decimals_between [OF d1' d2 this]
  show "fle (Fin 0) (avg (float64_of_int ?n) ?s)" and "fle (avg (float64_of_int ?n) ?s) (Fin (of_int hi))"
    by (simp_all add: avg_def f)
qed

section \<open>The fields of the result\<close>

lemma float_sums:
  "s_cpu (av_sum (foldl accumulate_stats st rs)) = foldl add64 (s_cpu (av_sum st)) (map s_cpu rs)"
  "s_mem_pct (av_sum (foldl accumulate_stats st rs)) = foldl add64 (s_mem_pct (av_sum st)) (map s_mem_pct rs)"
  "s_disk_pct (av_sum (foldl accumulate_stats st rs)) = foldl add64 (s_disk_pct (av_sum st)) (map s_disk_pct rs)"
  by (rule foldl_proj [where p = "s_cpu \<circ> av_sum", simplified o_def],
      simp add: accumulate_stats_def sum_stats_def,
      rule foldl_proj [where p = "s_mem_pct \<circ> av_sum", simplified o_def],
      simp add: accumulate_stats_def sum_stats_def,
      rule foldl_proj [where p = "s_disk_pct \<circ> av_sum", simplified o_def],
      simp add: accumulate_stats_def sum_stats_def)

lemma battery_sum:
  "av_battery (foldl accumulate_stats st rs) = av_battery st + (\<Sum>r\<leftarrow>rs. uint (fst (s_battery r)))"
  by (induction rs arbitrary: st) (simp_all add: accumulate_stats_def)

lemma battery_state:
  "rs \<noteq> [] \<Longrightarrow> snd (s_battery (av_sum (foldl accumulate_stats st rs))) = snd (s_battery (last rs))"
  by (induction rs arbitrary: st rule: rev_induct) (simp_all add: accumulate_stats_def sum_stats_def)

text \<open>
  C13: averages of percentages are percentages: when the CPU, memory and disk percentages of every
  record lie between 0 and 100, so do those of the longer record, rounding included.
\<close>

theorem average_percentages:
  assumes "records \<noteq> []" and "length records \<le> 900719925474"
    and "\<And>r. r \<in> set records \<Longrightarrow> list_all (\<lambda>p. fle (Fin 0) p \<and> fle p (Fin 100)) [s_cpu r, s_mem_pct r, s_disk_pct r]"
  shows "let a = average_system_stats other64 other8 records
         in list_all (\<lambda>p. fle (Fin 0) p \<and> fle p (Fin 100)) [s_cpu a, s_mem_pct a, s_disk_pct a]"
proof -
  have b: "fle (Fin 0) (avg (float64_of_int (int (length records))) (foldl add64 zero_flt (map p records))) \<and>
      fle (avg (float64_of_int (int (length records))) (foldl add64 zero_flt (map p records))) (Fin 100)"
    if "\<And>r. r \<in> set records \<Longrightarrow> fle (Fin 0) (p r) \<and> fle (p r) (Fin 100)" for p :: "stats \<Rightarrow> flt"
    using avg_between [of "map p records" 100] that assms(1,2) by auto
  show ?thesis
    using assms(1,3) b [of s_cpu] b [of s_mem_pct] b [of s_disk_pct]
    by (simp add: average_system_stats_def finish_stats_def Let_def float_sums avg_start_def zero_stats_def)
qed

lemma go_quot_pos: "0 \<le> a \<Longrightarrow> 0 < b \<Longrightarrow> go_quot a (int b) = a div int b"
  by (rule go_quot_nonneg) simp_all

text \<open>
  The battery percentage of the longer record is the whole part of the mean of the percentages
  (the sum is wider than a byte, so it does not wrap), and its charge state is the last record's.
\<close>

lemma average_battery:
  assumes "records \<noteq> []"
  shows "let a = average_system_stats other64 other8 records
         in uint (fst (s_battery a)) = (\<Sum>r\<leftarrow>records. uint (fst (s_battery r))) div int (length records) \<and>
            snd (s_battery a) = snd (s_battery (last records))"
proof -
  let ?sum = "\<Sum>r\<leftarrow>records. uint (fst (s_battery r))"
  have s: "0 \<le> ?sum" by (rule sum_list_nonneg) auto
  have "?sum \<le> (\<Sum>r\<leftarrow>records. 255)"
  proof (rule sum_list_mono)
    show "uint (fst (s_battery r)) \<le> 255" for r :: stats
      using uint_lt2p [of "fst (s_battery r)"] by simp
  qed
  then have le: "?sum \<le> int (length records) * 255" by (simp add: sum_list_triv)
  have l: "0 < int (length records)" using assms by simp
  have d: "0 \<le> ?sum div int (length records)" using s l by (simp add: pos_imp_zdiv_nonneg_iff)
  have "?sum div int (length records) \<le> int (length records) * 255 div int (length records)"
    by (rule zdiv_mono1 [OF le l])
  then have "?sum div int (length records) \<le> 255" using l by simp
  then have "uint (word_of_int (?sum div int (length records)) :: u8) = ?sum div int (length records)"
    using d by (simp add: uint_word_of_int)
  then show ?thesis
    using assms s
    by (simp add: average_system_stats_def finish_stats_def Let_def battery_sum battery_state
        avg_start_def go_quot_pos)
qed

section \<open>Peaks\<close>

lemma max3_upper:
  "a \<noteq> NaN \<Longrightarrow> b \<noteq> NaN \<Longrightarrow> c \<noteq> NaN \<Longrightarrow>
   max3 a b c \<noteq> NaN \<and> fle a (max3 a b c) \<and> fle b (max3 a b c) \<and> fle c (max3 a b c)"
  using fmax_upper [of "fmax a b" c] fmax_upper [of a b]
  by (auto simp: max3_def intro: fle_trans)

lemma fold_max3:
  assumes "m \<noteq> NaN" and "\<And>r. r \<in> set rs \<Longrightarrow> p r \<noteq> NaN \<and> q r \<noteq> NaN"
  shows "fle m (foldl (\<lambda>m (a, b). max3 m a b) m (map (\<lambda>r. (p r, q r)) rs)) \<and>
    (\<forall>r \<in> set rs. fle (p r) (foldl (\<lambda>m (a, b). max3 m a b) m (map (\<lambda>r. (p r, q r)) rs)) \<and>
                  fle (q r) (foldl (\<lambda>m (a, b). max3 m a b) m (map (\<lambda>r. (p r, q r)) rs)))"
  using assms
proof (induction rs arbitrary: m)
  case Nil
  then show ?case by simp
next
  case (Cons r rs)
  have u: "max3 m (p r) (q r) \<noteq> NaN" "fle m (max3 m (p r) (q r))" "fle (p r) (max3 m (p r) (q r))"
    "fle (q r) (max3 m (p r) (q r))"
    using max3_upper [of m "p r" "q r"] Cons.prems by auto
  let ?f = "foldl (\<lambda>m (a, b). max3 m a b) (max3 m (p r) (q r)) (map (\<lambda>r. (p r, q r)) rs)"
  have f: "fle (max3 m (p r) (q r)) ?f" "\<forall>r \<in> set rs. fle (p r) ?f \<and> fle (q r) ?f"
    using Cons.IH [OF u(1)] Cons.prems(2) by auto
  show ?case using f fle_trans [OF u(2) f(1)] fle_trans [OF u(3) f(1)] fle_trans [OF u(4) f(1)] by simp
qed

lemma fold_max_pair3:
  "fst m \<le> fst (foldl (\<lambda>m (a, b). max_pair3 m a b) m (map (\<lambda>r. (p r, q r)) rs)) \<and>
   snd m \<le> snd (foldl (\<lambda>m (a, b). max_pair3 m a b) m (map (\<lambda>r. (p r, q r)) rs)) \<and>
   (\<forall>r \<in> set rs.
      fst (p r) \<le> fst (foldl (\<lambda>m (a, b). max_pair3 m a b) m (map (\<lambda>r. (p r, q r)) rs)) \<and>
      fst (q r) \<le> fst (foldl (\<lambda>m (a, b). max_pair3 m a b) m (map (\<lambda>r. (p r, q r)) rs)) \<and>
      snd (p r) \<le> snd (foldl (\<lambda>m (a, b). max_pair3 m a b) m (map (\<lambda>r. (p r, q r)) rs)) \<and>
      snd (q r) \<le> snd (foldl (\<lambda>m (a, b). max_pair3 m a b) m (map (\<lambda>r. (p r, q r)) rs)))"
proof (induction rs arbitrary: m)
  case Nil
  then show ?case by simp
next
  case (Cons r rs)
  have u: "fst m \<le> fst (max_pair3 m (p r) (q r))" "fst (p r) \<le> fst (max_pair3 m (p r) (q r))"
    "fst (q r) \<le> fst (max_pair3 m (p r) (q r))" "snd m \<le> snd (max_pair3 m (p r) (q r))"
    "snd (p r) \<le> snd (max_pair3 m (p r) (q r))" "snd (q r) \<le> snd (max_pair3 m (p r) (q r))"
    by (auto simp: max_pair3_def le_max_iff_disj)
  show ?case using Cons.IH [of "max_pair3 m (p r) (q r)"] u
    by (auto intro: order_trans)
qed

lemma peak_fields:
  "s_max_cpu (av_sum (foldl accumulate_stats st rs)) =
     foldl (\<lambda>m (a, b). max3 m a b) (s_max_cpu (av_sum st)) (map (\<lambda>r. (s_max_cpu r, s_cpu r)) rs)"
  "s_max_mem (av_sum (foldl accumulate_stats st rs)) =
     foldl (\<lambda>m (a, b). max3 m a b) (s_max_mem (av_sum st)) (map (\<lambda>r. (s_max_mem r, s_mem_used r)) rs)"
  "s_max_bandwidth (av_sum (foldl accumulate_stats st rs)) =
     foldl (\<lambda>m (a, b). max_pair3 m a b) (s_max_bandwidth (av_sum st)) (map (\<lambda>r. (s_max_bandwidth r, s_bandwidth r)) rs)"
  "s_max_disk_io (av_sum (foldl accumulate_stats st rs)) =
     foldl (\<lambda>m (a, b). max_pair3 m a b) (s_max_disk_io (av_sum st)) (map (\<lambda>r. (s_max_disk_io r, s_disk_io r)) rs)"
  by (rule foldl_proj [where p = "s_max_cpu \<circ> av_sum", simplified o_def],
      simp add: accumulate_stats_def sum_stats_def,
      rule foldl_proj [where p = "s_max_mem \<circ> av_sum", simplified o_def],
      simp add: accumulate_stats_def sum_stats_def,
      rule foldl_proj [where p = "s_max_bandwidth \<circ> av_sum", simplified o_def],
      simp add: accumulate_stats_def sum_stats_def,
      rule foldl_proj [where p = "s_max_disk_io \<circ> av_sum", simplified o_def],
      simp add: accumulate_stats_def sum_stats_def)

definition dominates :: "stats \<Rightarrow> stats \<Rightarrow> bool" where
  "dominates a r \<longleftrightarrow>
     fle (s_cpu r) (s_max_cpu a) \<and> fle (s_max_cpu r) (s_max_cpu a) \<and>
     fle (s_mem_used r) (s_max_mem a) \<and> fle (s_max_mem r) (s_max_mem a) \<and>
     fst (s_bandwidth r) \<le> fst (s_max_bandwidth a) \<and> snd (s_bandwidth r) \<le> snd (s_max_bandwidth a) \<and>
     fst (s_max_bandwidth r) \<le> fst (s_max_bandwidth a) \<and> snd (s_max_bandwidth r) \<le> snd (s_max_bandwidth a) \<and>
     fst (s_disk_io r) \<le> fst (s_max_disk_io a) \<and> snd (s_disk_io r) \<le> snd (s_max_disk_io a) \<and>
     fst (s_max_disk_io r) \<le> fst (s_max_disk_io a) \<and> snd (s_max_disk_io r) \<le> snd (s_max_disk_io a)"


section \<open>Conversions stay in range\<close>

lemma word_of_float_Fin:
  "0 \<le> trunc q \<Longrightarrow> trunc q < 2 ^ LENGTH('a::len) \<Longrightarrow> word_of_float other (Fin q) = (word_of_int (trunc q) :: 'a word)"
  by (simp add: word_of_float_def)

lemma word_of_float_other:
  assumes "fle (Fin 0) x" and "fle x (Fin (of_int m))" and "m < 2 ^ LENGTH('a::len)"
  shows "word_of_float other x = (word_of_float other' x :: 'a word)"
proof -
  have f: "finite_flt x" "0 \<le> val_of x" "val_of x \<le> of_int m" using fle_between [OF assms(1,2)] by auto
  then have "\<lfloor>val_of x\<rfloor> \<le> m" by (metis floor_mono floor_of_int)
  then show ?thesis using f assms(3) by (simp add: word_of_float_def trunc_def)
qed

lemma length_grow_add [simp]: "length (grow_add f z acc xs) = max (length acc) (length xs)"
  by (simp add: grow_add_def)

lemma nth_grow_add:
  "i < max (length acc) (length xs) \<Longrightarrow>
   grow_add f z acc xs ! i =
     (if i < length xs then f (if i < length acc then acc ! i else z) (xs ! i) else acc ! i)"
  by (auto simp: grow_add_def nth_append)

lemma grow_add_bound:
  assumes "\<And>w. w \<in> set acc \<Longrightarrow> uint (w :: u64) \<le> b" and "\<And>w. w \<in> set xs \<Longrightarrow> uint w \<le> c"
    and "0 \<le> b" "0 \<le> c" "b + c < 18446744073709551616" and "w \<in> set (grow_add (+) 0 acc xs)"
  shows "uint w \<le> b + c"
proof -
  have plus: "uint (u + v) \<le> b + c" if "uint u \<le> b" "uint v \<le> c" for u v :: u64
    using that uint_add_le [of u v] by linarith
  obtain i where i: "i < max (length acc) (length xs)" "w = grow_add (+) 0 acc xs ! i"
    using assms(6) unfolding in_set_conv_nth by auto
  show ?thesis
    using i(1) assms(1) [of "acc ! i"] assms(2) [of "xs ! i"] assms(3,4) plus [of "acc ! i" "xs ! i"]
      plus [of 0 "xs ! i"]
    by (auto simp: i(2) nth_grow_add split: if_splits)
qed

lemma av_cores_step:
  "av_cores (accumulate_stats st s) =
     (case s_cpu_cores s of None \<Rightarrow> av_cores st | Some cs \<Rightarrow> grow_add (+) 0 (av_cores st) (map ucast cs))"
  by (simp add: accumulate_stats_def)

lemma cores_bound:
  assumes "int (length rs) * 255 < 18446744073709551616" and "w \<in> set (av_cores (foldl accumulate_stats avg_start rs))"
  shows "uint w \<le> int (length rs) * 255"
  using assms
proof (induction rs arbitrary: w rule: rev_induct)
  case Nil
  then show ?case by (simp add: avg_start_def)
next
  case (snoc r rs)
  let ?b = "int (length rs) * 255"
  let ?st = "foldl accumulate_stats avg_start rs"
  have b: "?b + 255 = int (length (rs @ [r])) * 255" by simp
  have ih: "uint v \<le> ?b" if "v \<in> set (av_cores ?st)" for v using snoc that by simp
  show ?case
  proof (cases "s_cpu_cores r")
    case None
    then show ?thesis using snoc.prems(2) ih [of w] by (simp add: av_cores_step)
  next
    case (Some cs)
    have c: "uint (ucast c :: u64) \<le> 255" for c :: u8
      using uint_lt2p [of c] by (simp add: unsigned_ucast_eq take_bit_int_eq_self)
    have "uint w \<le> ?b + 255"
      by (rule grow_add_bound [of "av_cores ?st" _ "map ucast cs"])
        (use ih c snoc.prems Some in \<open>auto simp: av_cores_step\<close>)
    then show ?thesis unfolding b .
  qed
qed

lemma core_mean_range:
  assumes "uint w \<le> int n * 255" and "0 < n" and "int n * 255 \<le> 9007199254740992"
  shows "fle (Fin 0) (math_round (div64 (float64_of_u64 w) (float64_of_int (int n)))) \<and>
    fle (math_round (div64 (float64_of_u64 w) (float64_of_int (int n)))) (Fin (of_int 255))"
proof -
  have n: "float64_of_int (int n) = Fin (of_int (int n))" "int n \<noteq> 0" "(0::rat) < of_int (int n)"
    using assms(2,3) float64_of_int_small [of "int n"] by simp_all
  have w: "float64_of_u64 w = Fin (of_int (uint w))"
    using assms(1,3) float64_of_int_small [of "uint w"] by (simp add: float64_of_u64_def)
  have le: "fle (Fin (of_int (uint w))) (Fin (of_int (255 * int n)))" "fle (Fin 0) (Fin (of_int (uint w)))"
    using assms(1) by (simp_all only: fle_Fin of_int_le_iff of_int_0_le_iff) simp_all
  have q: "div64 (Fin (of_int (255 * int n))) (Fin (of_int (int n))) = Fin (of_int 255)"
    using div64_int [of 255 "int n"] n(2) by simp
  have z: "div64 (Fin 0) (Fin (of_int (int n))) = Fin (of_int 0)"
    using n(3) by (simp add: fdiv_def Let_def is_zero_def zero_of_def)
  have "fle (math_round (Fin (of_int 0))) (math_round (div64 (float64_of_u64 w) (float64_of_int (int n))))"
    and "fle (math_round (div64 (float64_of_u64 w) (float64_of_int (int n)))) (math_round (Fin (of_int 255)))"
    using div64_mono [OF le(2) n(3)] div64_mono [OF le(1) n(3)] unfolding q z w n(1)
    by (auto intro!: math_round_mono)
  then show ?thesis unfolding math_round_int by simp
qed

text \<open>
  No conversion of \<open>AverageSystemStatsSlice\<close> leaves the range of its integer type (for fewer than
  $2^{44}$ records), so the result does not depend on what the platform does with such a value.
\<close>

lemma average_conversions_in_range:
  assumes "length records \<le> 17592186044416"
  shows "average_system_stats other64 other8 records = average_system_stats other64' other8' records"
proof (cases "records = []")
  case False
  let ?n = "int (length records)" and ?st = "foldl accumulate_stats avg_start records"
  have n: "float64_of_int ?n = Fin (of_int ?n)" using assms float64_of_int_small [of ?n] by simp
  have r: "fle (Fin 0) (float64_of_int ?n)" "fle (float64_of_int ?n) (Fin (of_int 17592186044416))"
    unfolding n using assms by simp_all
  have w: "word_of_float other64 (float64_of_int ?n) = word_of_float other64' (float64_of_int ?n)"
    by (rule word_of_float_other [OF r]) simp
  have c: "word_of_float other8 (math_round (div64 (float64_of_u64 v) (float64_of_int ?n))) =
      word_of_float other8' (math_round (div64 (float64_of_u64 v) (float64_of_int ?n)))"
    if "v \<in> set (av_cores ?st)" for v
  proof -
    have "uint v \<le> ?n * 255" using cores_bound [of records v] that assms by simp
    from core_mean_range [OF this] False assms
    show ?thesis by (intro word_of_float_other [where m = 255]) auto
  qed
  have m: "map (\<lambda>v. word_of_float other8 (math_round (div64 (float64_of_u64 v) (float64_of_int ?n)))) (av_cores ?st) =
      map (\<lambda>v. word_of_float other8' (math_round (div64 (float64_of_u64 v) (float64_of_int ?n)))) (av_cores ?st)"
    using c by simp
  show ?thesis unfolding average_system_stats_def finish_stats_def Let_def w m by simp
qed (simp add: average_system_stats_def)

section \<open>Containers by name\<close>

definition add_sample :: "(flt \<Rightarrow> u64) \<Rightarrow> container_stats \<Rightarrow> container_stats \<Rightarrow> container_stats" where
  "add_sample other64 t s =
     t\<lparr>ct_cpu := add64 (ct_cpu t) (ct_cpu s), ct_mem := add64 (ct_mem t) (ct_mem s),
       ct_bandwidth := add_pair (ct_bandwidth t) (container_bytes other64 s)\<rparr>"

lemma add_container_sample:
  "add_container o64 m s =
     AList.update (ct_name s) (add_sample o64 (get_or (named_container (ct_name s)) m (ct_name s)) s) m"
  by (simp add: add_container_def add_sample_def Let_def)

lemma named_sample [simp]:
  "ct_name (add_sample o64 t s) = ct_name t" "ct_name (named_container k) = k"
  "ct_name (finish_container o64 n t) = ct_name t"
  by (simp_all add: add_sample_def named_container_def finish_container_def Let_def)

lemma fold_containers:
  "map_of (foldl (add_container o64) m xs) k =
     (let ys = filter (\<lambda>s. ct_name s = k) xs
      in if ys = [] then map_of m k
         else Some (foldl (add_sample o64) (get_or (named_container k) m k) ys))"
proof (induction xs arbitrary: m)
  case Nil
  then show ?case by simp
next
  case (Cons x xs)
  then show ?case
    by (auto simp: Let_def add_container_sample store_laws get_or_def filter_empty_conv)
qed

definition named_ok :: "(string, container_stats) gomap \<Rightarrow> bool" where
  "named_ok m \<longleftrightarrow> keys_distinct m \<and> (\<forall>k t. map_of m k = Some t \<longrightarrow> ct_name t = k)"

lemma named_ok_fold: "named_ok (foldl (add_container o64) [] xs)"
  by (rule foldl_inv)
    (auto simp: named_ok_def add_container_sample store_laws gm.inv_put get_or_def split: option.splits)

lemma named_ok_values:
  assumes "named_ok m"
  shows "map (\<lambda>c. (ct_name c, c)) (map (finish_container o64 n \<circ> snd) m) = map (\<lambda>(k, t). (k, finish_container o64 n t)) m"
  using assms by (auto simp: named_ok_def keys_distinct_def)

text \<open>
  The averaged containers have distinct names, one for each name that occurs in some record, and
  the entry of a name is made of all its samples, whatever else the records hold: the sum of the
  samples, divided by the number of records (a record without the container counts as zero).
\<close>

lemma container_average:
  assumes "records \<noteq> []"
  shows "let result = average_container_stats o64 records;
             samples = (\<lambda>k. filter (\<lambda>s. ct_name s = k) (concat records))
         in distinct (map ct_name result) \<and>
            (\<forall>k. map_of (map (\<lambda>c. (ct_name c, c)) result) k =
               (if samples k = [] then None
                else Some (finish_container o64 (float64_of_int (int (length records)))
                       (foldl (add_sample o64) (named_container k) (samples k)))))"
proof -
  let ?m = "foldl (add_container o64) [] (concat records)" and ?n = "float64_of_int (int (length records))"
  have r: "average_container_stats o64 records = map (finish_container o64 ?n \<circ> snd) ?m"
    using assms by (simp add: average_container_stats_def)
  have v: "map (\<lambda>c. (ct_name c, c)) (map (finish_container o64 ?n \<circ> snd) ?m) =
      map (\<lambda>(k, t). (k, finish_container o64 ?n t)) ?m"
    by (rule named_ok_values [OF named_ok_fold])
  have "map ct_name (map (finish_container o64 ?n \<circ> snd) ?m) = map fst ?m"
    using arg_cong [OF v, of "map fst"] by (simp add: o_def case_prod_unfold)
  moreover have "keys_distinct ?m" using named_ok_fold by (simp add: named_ok_def)
  ultimately have d: "distinct (map ct_name (map (finish_container o64 ?n \<circ> snd) ?m))"
    by (simp only: keys_distinct_def)
  show ?thesis
    unfolding r Let_def v using d
    by (simp add: map_of_map_values fold_containers Let_def get_or_def)
qed

section \<open>What was stored is averaged\<close>

text \<open>The averages take from a container only what its JSON has.\<close>

lemma container_bytes_json: "container_bytes o64 (json_container c) = container_bytes o64 c"
proof -
  have "ct_bandwidth (json_container c) = ct_bandwidth c" "ct_network_sent (json_container c) = ct_network_sent c"
    "ct_network_recv (json_container c) = ct_network_recv c" by (simp_all add: json_container_def)
  then show ?thesis by (simp only: container_bytes_def)
qed

lemma add_container_json: "add_container o64 m (json_container c) = add_container o64 m c"
proof -
  have "ct_name (json_container c) = ct_name c" "ct_cpu (json_container c) = ct_cpu c" "ct_mem (json_container c) = ct_mem c"
    by (simp_all add: json_container_def named_container_def)
  then show ?thesis by (simp only: add_container_def container_bytes_json)
qed

lemma add_containers_json: "foldl (add_container o64) m (map json_container cs) = foldl (add_container o64) m cs"
  by (induction cs arbitrary: m) (simp_all add: add_container_json)

lemma average_container_json: "average_container_stats o64 (map (map json_container) css) = average_container_stats o64 css"
proof -
  have "concat (map (map json_container) css) = map json_container (concat css)" by (simp add: map_concat)
  then show ?thesis by (simp add: average_container_stats_def add_containers_json)
qed

lemma containers_read: "containers_json cs = Some j \<Longrightarrow> read_containers j = Some (map json_container cs)"
  using container_codec.slice_trip [of cs j] by (simp add: containers_json_def read_containers_def)

lemma map_filter_all: "(\<And>i. i \<in> set ids \<Longrightarrow> f i = Some (g i)) \<Longrightarrow> List.map_filter f ids = map g ids"
  by (induction ids) simp_all

text \<open>
  C17: the statistics and the containers of rows are stored as JSON and averaged from what is read back. From every row
  all the statistics come back (a negative zero or an empty map that was left out as zero or nil), and the averaged
  containers are those of the containers that were stored.
\<close>

theorem stored_rows_averaged:
  assumes "\<And>i. i \<in> set ids \<Longrightarrow> load i \<noteq> None \<and> load i = stats_json (system i) \<and> arrays_ok (system i)"
    and "\<And>i. i \<in> set ids \<Longrightarrow> cload i \<noteq> None \<and> cload i = containers_json (containers i)"
  shows "average_system_records o64 o8 load ids = average_system_stats o64 o8 (map (json_stats \<circ> system) ids) \<and>
    average_container_records o64 cload ids = average_container_stats o64 (map containers ids)"
proof
  have "Option.bind (load i) (\<lambda>v. read_stats v zero_stats) = Some ((json_stats \<circ> system) i)" if "i \<in> set ids" for i
    using assms(1) [OF that] stats_trip [of "system i"] by (cases "stats_json (system i)") auto
  from map_filter_all [where g = "json_stats \<circ> system", OF this]
  show "average_system_records o64 o8 load ids = average_system_stats o64 o8 (map (json_stats \<circ> system) ids)"
    by (simp add: average_system_records_def)
  have c: "Option.bind (cload i) read_containers = Some (map json_container (containers i))" if "i \<in> set ids" for i
    using assms(2) [OF that] containers_read [of "containers i"] by (cases "containers_json (containers i)") auto
  have e: "\<not> list_ex (\<lambda>i. Option.is_none (Option.bind (cload i) read_containers)) ids" using c by (auto simp: list_ex_iff)
  have m: "List.map_filter (\<lambda>i. Option.bind (cload i) read_containers) ids = map (map json_container) (map containers ids)"
    using map_filter_all [where g = "\<lambda>i. map json_container (containers i)", OF c] by (simp add: comp_def)
  show "average_container_records o64 cload ids = average_container_stats o64 (map containers ids)"
    using e by (simp only: average_container_records_def m average_container_json Let_def if_False)
qed

section \<open>Witnesses\<close>

definition demo_stats :: stats where
  "demo_stats = zero_stats\<lparr>s_cpu := Fin 90, s_mem_pct := Fin 40, s_disk_pct := Fin 10, s_battery := (200, 3)\<rparr>"

lemma average_percentages_witness:
  "let a = average_system_stats (\<lambda>_. 0) (\<lambda>_. 0) [demo_stats, demo_stats]
   in list_all (\<lambda>p. fle (Fin 0) p \<and> fle p (Fin 100)) [s_cpu a, s_mem_pct a, s_disk_pct a]"
  by (rule average_percentages) (auto simp: demo_stats_def)

lemma average_battery_demo:
  "uint (fst (s_battery (average_system_stats (\<lambda>_. 0) (\<lambda>_. 0) [demo_stats, demo_stats]))) = 200"
  using average_battery [of "[demo_stats, demo_stats]" "\<lambda>_. 0" "\<lambda>_. 0"]
  by (simp add: demo_stats_def Let_def)


lemma average_conversions_in_range_demo:
  "average_system_stats (\<lambda>_. 0) (\<lambda>_. 0) [demo_stats] = average_system_stats (\<lambda>_. 7) (\<lambda>_. 9) [demo_stats]"
  by (rule average_conversions_in_range) simp

lemma container_average_demo:
  "distinct (map ct_name (average_container_stats (\<lambda>_. 0) [[named_container ''a'', named_container ''b''], [named_container ''a'']]))"
  using container_average [of "[[named_container ''a'', named_container ''b''], [named_container ''a'']]" "\<lambda>_. 0"]
  by (simp add: Let_def)


lemma stored_rows_averaged_witness:
  "average_system_records (\<lambda>_. 0) (\<lambda>_. 0) (\<lambda>_. stats_json demo_stats) [''a'', ''b''] =
     average_system_stats (\<lambda>_. 0) (\<lambda>_. 0) [json_stats demo_stats, json_stats demo_stats] \<and>
   average_container_records (\<lambda>_. 0) (\<lambda>_. containers_json [named_container ''web'']) [''a'', ''b''] =
     average_container_stats (\<lambda>_. 0) [[named_container ''web''], [named_container ''web'']]"
proof -
  have "stats_json demo_stats \<noteq> None" "containers_json [named_container ''web''] \<noteq> None" "arrays_ok demo_stats" by code_simp+
  then show ?thesis
    using stored_rows_averaged [of "[''a'', ''b'']" "\<lambda>_. stats_json demo_stats" "\<lambda>_. demo_stats"
      "\<lambda>_. containers_json [named_container ''web'']" "\<lambda>_. [named_container ''web'']" "\<lambda>_. 0" "\<lambda>_. 0"] by simp
qed

end
