(* ===== verification/RecordsStore.thy ===== *)
theory RecordsStore
  imports RecordsAvg
begin

text \<open>
  \<^verbatim>\<open>CreateLongerRecords\<close> of \<^verbatim>\<open>internal/records/records.go\<close> and \<^verbatim>\<open>internal/records/records_deletion.go\<close>:
  which longer records are created from which shorter ones, and which rows are deleted. A table is
  the list of its rows and each SQL statement of the source is the filter it states; a statement
  that fails is a flag. One reading of the clock stands for the readings of one run.
\<close>

section \<open>Longer records\<close>

record 'p stats_row =
  sr_system :: string
  sr_type :: string
  sr_created :: instant
  sr_stats :: 'p

record longer_record_data =
  lr_shorter :: string
  lr_longer :: string
  lr_period :: duration
  lr_min :: nat

definition longer_record_plan :: "longer_record_data list" where
  "longer_record_plan =
     [\<lparr>lr_shorter = ''1m'', lr_longer = ''10m'', lr_period = 10 * minute, lr_min = 9\<rparr>,
      \<lparr>lr_shorter = ''10m'', lr_longer = ''20m'', lr_period = 20 * minute, lr_min = 2\<rparr>,
      \<lparr>lr_shorter = ''20m'', lr_longer = ''120m'', lr_period = 120 * minute, lr_min = 6\<rparr>,
      \<lparr>lr_shorter = ''120m'', lr_longer = ''480m'', lr_period = 480 * minute, lr_min = 4\<rparr>]"

definition longer_exists :: "instant \<Rightarrow> string \<Rightarrow> longer_record_data \<Rightarrow> 'p stats_row list \<Rightarrow> bool" where
  "longer_exists now sys d table \<longleftrightarrow>
     list_ex (\<lambda>r. sr_system r = sys \<and> sr_type r = lr_longer d \<and> now - lr_period d + minute < sr_created r) table"

definition shorter_rows :: "instant \<Rightarrow> string \<Rightarrow> longer_record_data \<Rightarrow> 'p stats_row list \<Rightarrow> 'p stats_row list" where
  "shorter_rows now sys d table =
     filter (\<lambda>r. sr_system r = sys \<and> sr_type r = lr_shorter d \<and> now - lr_period d < sr_created r) table"

text \<open>The body of the loop for one system, one period and one collection; \<open>ok\<close> tells whether the
  statements and the save succeed.\<close>

definition longer_step ::
  "('p list \<Rightarrow> 'p) \<Rightarrow> bool \<Rightarrow> instant \<Rightarrow> string \<Rightarrow> longer_record_data \<Rightarrow> 'p stats_row list \<Rightarrow> 'p stats_row list" where
  "longer_step average ok now sys d table =
     (if \<not> ok then table
      else if lr_longer d \<noteq> ''10m'' \<and> longer_exists now sys d table then table
      else let rows = shorter_rows now sys d table
           in if length rows < lr_min d then table
              else table @ [\<lparr>sr_system = sys, sr_type = lr_longer d, sr_created = now,
                             sr_stats = average (map sr_stats rows)\<rparr>])"

text \<open>
  A row holds what was stored in it; the averages read its JSON (\<open>average_system_records\<close>), which gives the containers back
  as far as they are averaged, and \<open>json_stats\<close> of the statistics.
\<close>

record stats_tables =
  t_system :: "stats stats_row list"
  t_container :: "container_stats list stats_row list"

definition create_for ::
  "(flt \<Rightarrow> u64) \<Rightarrow> (flt \<Rightarrow> u8) \<Rightarrow> (string \<Rightarrow> string \<Rightarrow> bool) \<Rightarrow> instant \<Rightarrow> string \<Rightarrow> longer_record_data \<Rightarrow>
   stats_tables \<Rightarrow> stats_tables" where
  "create_for o64 o8 ok now sys d t =
     t\<lparr>t_system := longer_step (average_system_stats o64 o8 \<circ> map json_stats) (ok sys (lr_longer d)) now sys d (t_system t),
       t_container := longer_step (average_container_stats o64) (ok sys (lr_longer d)) now sys d (t_container t)\<rparr>"

definition create_longer_records ::
  "(flt \<Rightarrow> u64) \<Rightarrow> (flt \<Rightarrow> u8) \<Rightarrow> (string \<Rightarrow> string \<Rightarrow> bool) \<Rightarrow> instant \<Rightarrow> string list \<Rightarrow> stats_tables \<Rightarrow> stats_tables" where
  "create_longer_records o64 o8 ok now up_systems t =
     fold (\<lambda>sys t. fold (create_for o64 o8 ok now sys) longer_record_plan t) up_systems t"

section \<open>Deletion\<close>

definition retention :: "string \<Rightarrow> duration option" where
  "retention = map_of
     [(''1m'', hour), (''10m'', 12 * hour), (''20m'', 24 * hour), (''120m'', 7 * 24 * hour),
      (''480m'', 30 * 24 * hour)]"

definition expired :: "instant \<Rightarrow> 'p stats_row \<Rightarrow> bool" where
  "expired now r \<longleftrightarrow> (case retention (sr_type r) of Some d \<Rightarrow> sr_created r < now - d | None \<Rightarrow> False)"

definition delete_expired :: "instant \<Rightarrow> 'p stats_row list \<Rightarrow> 'p stats_row list" where
  "delete_expired now table = filter (\<lambda>r. \<not> expired now r) table"

text \<open>The two statements; the second is not reached when the first fails.\<close>

definition delete_old_system_stats :: "bool \<Rightarrow> bool \<Rightarrow> instant \<Rightarrow> stats_tables \<Rightarrow> bool \<times> stats_tables" where
  "delete_old_system_stats ok1 ok2 now t =
     (if \<not> ok1 then (False, t)
      else let t = t\<lparr>t_system := delete_expired now (t_system t)\<rparr>
           in if \<not> ok2 then (False, t)
              else (True, t\<lparr>t_container := delete_expired now (t_container t)\<rparr>))"

definition unix_epoch :: instant where "unix_epoch = 62135596800 * second"

definition unix_milli :: "instant \<Rightarrow> int" where
  "unix_milli t = (t - unix_epoch) div millisecond"

record updated_row =
  ur_id :: string
  ur_updated :: int

definition delete_stale :: "duration \<Rightarrow> bool \<Rightarrow> instant \<Rightarrow> updated_row list \<Rightarrow> bool \<times> updated_row list" where
  "delete_stale age ok now rows =
     (if ok then (True, filter (\<lambda>r. \<not> ur_updated r < unix_milli (now - age)) rows) else (False, rows))"

definition delete_old_container_records :: "bool \<Rightarrow> instant \<Rightarrow> updated_row list \<Rightarrow> bool \<times> updated_row list" where
  "delete_old_container_records = delete_stale (10 * minute)"

definition delete_old_systemd_service_records :: "bool \<Rightarrow> instant \<Rightarrow> updated_row list \<Rightarrow> bool \<times> updated_row list" where
  "delete_old_systemd_service_records = delete_stale (20 * minute)"

record history_row =
  hr_id :: string
  hr_user :: string
  hr_created :: instant

text \<open>\<open>ORDER BY created DESC LIMIT keep\<close>; rows of one instant stay in the order of the table.\<close>

definition newest :: "nat \<Rightarrow> history_row list \<Rightarrow> history_row list" where
  "newest keep rows = take keep (sort_key (\<lambda>r. - hr_created r) rows)"

definition trim_user :: "nat \<Rightarrow> string \<Rightarrow> history_row list \<Rightarrow> history_row list" where
  "trim_user keep user rows =
     (let kept = map hr_id (newest keep (filter (\<lambda>r. hr_user r = user) rows))
      in filter (\<lambda>r. hr_user r \<noteq> user \<or> hr_id r \<in> set kept) rows)"

definition busy_users :: "nat \<Rightarrow> history_row list \<Rightarrow> string list" where
  "busy_users limit rows =
     filter (\<lambda>u. limit < length (filter (\<lambda>r. hr_user r = u) rows)) (remdups (map hr_user rows))"

text \<open>\<open>ok\<close> tells for each user whether the statement succeeds; the first failure ends the loop.\<close>

fun trim_users :: "nat \<Rightarrow> (string \<Rightarrow> bool) \<Rightarrow> string list \<Rightarrow> history_row list \<Rightarrow> bool \<times> history_row list" where
  "trim_users keep ok [] rows = (True, rows)"
| "trim_users keep ok (u # us) rows =
     (if ok u then trim_users keep ok us (trim_user keep u rows) else (False, rows))"

definition delete_old_alerts_history ::
  "nat \<Rightarrow> nat \<Rightarrow> bool \<Rightarrow> (string \<Rightarrow> bool) \<Rightarrow> history_row list \<Rightarrow> bool \<times> history_row list" where
  "delete_old_alerts_history keep limit query_ok ok rows =
     (if \<not> query_ok then (False, rows) else trim_users keep ok (busy_users limit rows) rows)"

record quiet_row =
  qr_type :: string
  qr_end :: instant

definition delete_old_quiet_hours :: "bool \<Rightarrow> instant \<Rightarrow> quiet_row list \<Rightarrow> bool \<times> quiet_row list" where
  "delete_old_quiet_hours ok now rows =
     (if ok then (True, filter (\<lambda>r. \<not> (qr_type r = ''one-time'' \<and> qr_end r < now)) rows) else (False, rows))"

record old_tables =
  ot_stats :: stats_tables
  ot_containers :: "updated_row list"
  ot_services :: "updated_row list"
  ot_history :: "history_row list"
  ot_quiet :: "quiet_row list"

record deletion_faults =
  df_stats :: "bool \<times> bool"
  df_containers :: bool
  df_services :: bool
  df_history_query :: bool
  df_history :: "string \<Rightarrow> bool"
  df_quiet :: bool

text \<open>Every error is logged and the next deletion is tried.\<close>

definition delete_old_records :: "deletion_faults \<Rightarrow> instant \<Rightarrow> old_tables \<Rightarrow> old_tables" where
  "delete_old_records f now t =
     \<lparr>ot_stats = snd (delete_old_system_stats (fst (df_stats f)) (snd (df_stats f)) now (ot_stats t)),
      ot_containers = snd (delete_old_container_records (df_containers f) now (ot_containers t)),
      ot_services = snd (delete_old_systemd_service_records (df_services f) now (ot_services t)),
      ot_history = snd (delete_old_alerts_history 200 250 (df_history_query f) (df_history f) (ot_history t)),
      ot_quiet = snd (delete_old_quiet_hours (df_quiet f) now (ot_quiet t))\<rparr>"

section \<open>Deletion and creation do not interfere\<close>

lemma plan_cases:
  "d \<in> set longer_record_plan \<Longrightarrow>
   (\<exists>r s. retention (lr_shorter d) = Some r \<and> lr_period d \<le> r \<and>
          retention (lr_longer d) = Some s \<and> lr_period d - minute \<le> s \<and> 0 \<le> s)"
  by (auto simp: longer_record_plan_def retention_def go_simps)

lemma shorter_rows_kept:
  assumes "d \<in> set longer_record_plan"
  shows "shorter_rows now sys d (delete_expired now table) = shorter_rows now sys d table"
proof -
  obtain r where "retention (lr_shorter d) = Some r" "lr_period d \<le> r" using plan_cases [OF assms] by blast
  then show ?thesis
    by (auto simp: shorter_rows_def delete_expired_def expired_def intro!: filter_cong)
qed

lemma longer_exists_kept:
  assumes "d \<in> set longer_record_plan"
  shows "longer_exists now sys d (delete_expired now table) \<longleftrightarrow> longer_exists now sys d table"
proof -
  obtain s where "retention (lr_longer d) = Some s" "lr_period d - minute \<le> s" using plan_cases [OF assms] by blast
  then show ?thesis
    by (auto simp: longer_exists_def delete_expired_def expired_def list_ex_iff)
qed


section \<open>Longer records are spaced\<close>

definition spaced :: "longer_record_data \<Rightarrow> 'p stats_row list \<Rightarrow> bool" where
  "spaced d table \<longleftrightarrow>
     sorted_wrt (\<lambda>r r'. sr_system r = sr_system r' \<and> sr_type r = lr_longer d \<and> sr_type r' = lr_longer d \<longrightarrow>
        lr_period d - minute \<le> sr_created r' - sr_created r) table"

lemma spaced_step:
  assumes "spaced d table" and "d \<in> set longer_record_plan" and "d' \<in> set longer_record_plan"
    and "lr_longer d \<noteq> ''10m''"
  shows "spaced d (longer_step average ok now sys d' table)"
proof (cases "lr_longer d' = lr_longer d")
  case True
  have same: "d' = d" using True assms(2,3) by (auto simp: longer_record_plan_def)
  show ?thesis
    using assms(1,4)
    by (auto simp: same longer_step_def spaced_def sorted_wrt_append longer_exists_def list_ex_iff Let_def)
next
  case False
  then show ?thesis
    using assms(1) by (auto simp: longer_step_def spaced_def sorted_wrt_append Let_def)
qed

lemma spaced_delete: "spaced d table \<Longrightarrow> spaced d (delete_expired now table)"
  unfolding spaced_def delete_expired_def by (rule sorted_wrt_filter)

lemma spaced_create:
  assumes d: "d \<in> set longer_record_plan" "lr_longer d \<noteq> ''10m''"
    and s: "spaced d (t_system t) \<and> spaced d (t_container t)"
  shows "spaced d (t_system (create_longer_records o64 o8 ok now up t)) \<and>
    spaced d (t_container (create_longer_records o64 o8 ok now up t))"
  unfolding create_longer_records_def
proof (rule fold_keeps [where P = "\<lambda>t. spaced d (t_system t) \<and> spaced d (t_container t)"])
  show "spaced d (t_system (fold (create_for o64 o8 ok now sys) longer_record_plan t)) \<and>
      spaced d (t_container (fold (create_for o64 o8 ok now sys) longer_record_plan t))"
    if "spaced d (t_system t) \<and> spaced d (t_container t)" for sys t
    by (rule fold_keeps [where P = "\<lambda>t. spaced d (t_system t) \<and> spaced d (t_container t)"])
      (use d that in \<open>auto simp: create_for_def intro!: spaced_step\<close>)
qed (rule s)

text \<open>The tables over time: the jobs run, and the systems add their one-minute records.\<close>

datatype store_event =
    CreateRun "flt \<Rightarrow> u64" "flt \<Rightarrow> u8" "string \<Rightarrow> string \<Rightarrow> bool" instant "string list"
  | DeleteRun bool bool instant
  | AddSystemStats string instant stats
  | AddContainerStats string instant "container_stats list"

fun store_step :: "stats_tables \<Rightarrow> store_event \<Rightarrow> stats_tables" where
  "store_step t (CreateRun o64 o8 ok now up) = create_longer_records o64 o8 ok now up t"
| "store_step t (DeleteRun ok1 ok2 now) = snd (delete_old_system_stats ok1 ok2 now t)"
| "store_step t (AddSystemStats sys now p) =
     t\<lparr>t_system := t_system t @ [\<lparr>sr_system = sys, sr_type = ''1m'', sr_created = now, sr_stats = p\<rparr>]\<rparr>"
| "store_step t (AddContainerStats sys now p) =
     t\<lparr>t_container := t_container t @ [\<lparr>sr_system = sys, sr_type = ''1m'', sr_created = now, sr_stats = p\<rparr>]\<rparr>"

definition all_spaced :: "stats_tables \<Rightarrow> bool" where
  "all_spaced t \<longleftrightarrow>
     (\<forall>d \<in> set longer_record_plan. lr_longer d \<noteq> ''10m'' \<longrightarrow>
        spaced d (t_system t) \<and> spaced d (t_container t))"

definition empty_tables :: stats_tables where "empty_tables = \<lparr>t_system = [], t_container = []\<rparr>"

lemma plan_not_minute: "d \<in> set longer_record_plan \<Longrightarrow> lr_longer d \<noteq> ''1m''"
  by (auto simp: longer_record_plan_def)

lemma spaced_minute:
  "d \<in> set longer_record_plan \<Longrightarrow> spaced d table \<Longrightarrow>
   spaced d (table @ [\<lparr>sr_system = sys, sr_type = ''1m'', sr_created = now, sr_stats = p\<rparr>])"
  using plan_not_minute [of d] by (auto simp: spaced_def sorted_wrt_append)

interpretation longer: machine "\<lambda>t. t = empty_tables" store_step all_spaced
proof
  show "all_spaced (store_step t e)" if "all_spaced t" for t e
    using that
    by (cases e)
      (auto simp: all_spaced_def spaced_create spaced_minute delete_old_system_stats_def Let_def
        intro: spaced_delete)
qed (simp add: all_spaced_def empty_tables_def spaced_def)


section \<open>The history of alerts\<close>

lemma newest_set: "set (newest keep rows) \<subseteq> set rows"
  using set_take_subset [of keep "sort_key (\<lambda>r. - hr_created r) rows"] by (simp add: newest_def)

lemma newest_length: "length (newest keep rows) = min keep (length rows)"
  by (simp add: newest_def)

lemma newest_are_newest:
  assumes "r \<in> set (newest keep rows)" and "r' \<in> set rows" and "r' \<notin> set (newest keep rows)"
  shows "hr_created r' \<le> hr_created r"
proof -
  let ?s = "sort_key (\<lambda>r. - hr_created r) rows"
  have "r' \<in> set (drop keep ?s)"
    using assms(2,3) set_append [of "take keep ?s" "drop keep ?s"] by (simp add: newest_def)
  moreover have "sorted (map (\<lambda>r. - hr_created r) (take keep ?s @ drop keep ?s))" by simp
  ultimately show ?thesis
    using assms(1) unfolding map_append sorted_append newest_def by auto
qed

lemma trim_user_filter:
  assumes "distinct (map hr_id rows)"
  shows "set (filter (\<lambda>r. hr_user r = v) (trim_user keep u rows)) =
    (if v = u then set (newest keep (filter (\<lambda>r. hr_user r = u) rows)) else set (filter (\<lambda>r. hr_user r = v) rows))"
proof (cases "v = u")
  case True
  let ?mine = "filter (\<lambda>r. hr_user r = u) rows"
  have "r = r'" if "r \<in> set rows" "r' \<in> set (newest keep ?mine)" "hr_id r = hr_id r'" for r r'
  proof -
    have "r' \<in> set rows" using that(2) newest_set [of keep ?mine] by auto
    then show ?thesis using assms that unfolding distinct_map by (meson inj_onD)
  qed
  then show ?thesis using True newest_set [of keep ?mine] by (auto simp: trim_user_def Let_def)
qed (auto simp: trim_user_def Let_def)

lemma trim_user_same:
  assumes "v \<noteq> u"
  shows "filter (\<lambda>r. hr_user r = v) (trim_user keep u rows) = filter (\<lambda>r. hr_user r = v) rows"
  using assms by (auto simp: trim_user_def Let_def intro!: filter_cong)

lemma trim_user_distinct: "distinct (map hr_id rows) \<Longrightarrow> distinct (map hr_id (trim_user keep u rows))"
  by (simp add: trim_user_def Let_def distinct_map_filter)

lemma trim_users_filter:
  assumes "distinct (map hr_id rows)" and "distinct us"
  shows "set (filter (\<lambda>r. hr_user r = v) (snd (trim_users keep (\<lambda>_. True) us rows))) =
    (if v \<in> set us then set (newest keep (filter (\<lambda>r. hr_user r = v) rows))
     else set (filter (\<lambda>r. hr_user r = v) rows))"
  using assms
proof (induction us arbitrary: rows)
  case Nil
  then show ?case by simp
next
  case (Cons u us)
  note ih = Cons.IH [OF trim_user_distinct [OF Cons.prems(1)]]
  show ?case
  proof (cases "v = u")
    case True
    then show ?thesis using ih Cons.prems trim_user_filter [OF Cons.prems(1), of v keep u]
      by (simp del: set_filter)
  next
    case False
    then show ?thesis using ih Cons.prems trim_user_same [OF False, of keep rows] by (simp del: set_filter)
  qed
qed

text \<open>
  Trimming the history keeps, for a user with more than the limit, exactly the newest rows, and
  for every other user all rows; no deleted row is newer than a row that is kept.
\<close>

lemma history_keeps_newest:
  assumes "distinct (map hr_id rows)"
  shows "let out = snd (delete_old_alerts_history keep limit True (\<lambda>_. True) rows);
             mine = filter (\<lambda>r. hr_user r = u) rows; kept = filter (\<lambda>r. hr_user r = u) out
         in set kept = (if limit < length mine then set (newest keep mine) else set mine) \<and>
            (\<forall>r \<in> set kept. \<forall>r' \<in> set mine - set kept. hr_created r' \<le> hr_created r)"
proof -
  let ?mine = "filter (\<lambda>r. hr_user r = u) rows"
  have busy: "u \<in> set (busy_users limit rows) \<longleftrightarrow> limit < length ?mine"
    by (cases ?mine) (auto simp: busy_users_def filter_eq_Cons_iff)
  have "distinct (busy_users limit rows)" by (simp add: busy_users_def)
  from trim_users_filter [OF assms this, of u keep]
  have k: "set (filter (\<lambda>r. hr_user r = u) (snd (delete_old_alerts_history keep limit True (\<lambda>_. True) rows))) =
      (if limit < length ?mine then set (newest keep ?mine) else set ?mine)"
    by (simp add: delete_old_alerts_history_def busy del: set_filter)
  show ?thesis
    unfolding Let_def k using newest_are_newest [of _ keep ?mine] by (simp del: set_filter)
qed

section \<open>Witnesses\<close>



lemma history_keeps_newest_demo:
  "set (filter (\<lambda>r. hr_user r = ''u'') (snd (delete_old_alerts_history 1 1 True (\<lambda>_. True)
     [\<lparr>hr_id = ''a'', hr_user = ''u'', hr_created = 1\<rparr>, \<lparr>hr_id = ''b'', hr_user = ''u'', hr_created = 2\<rparr>]))) =
   {\<lparr>hr_id = ''b'', hr_user = ''u'', hr_created = 2\<rparr>}"
  using history_keeps_newest [of "[\<lparr>hr_id = ''a'', hr_user = ''u'', hr_created = 1\<rparr>,
      \<lparr>hr_id = ''b'', hr_user = ''u'', hr_created = 2\<rparr>]" 1 1 "''u''"]
  by (simp add: newest_def Let_def)

end
