(* ===== verification/ReqManager.thy ===== *)
theory ReqManager
  imports Prelude "HOL-Library.Multiset"
begin

text \<open>
  \<^verbatim>\<open>internal/hub/ws/request_manager.go\<close>: the requests of the hub to one agent that wait for an
  answer. A request is an object with a channel of capacity one and a context; the pending map leads
  from request ids to objects, here the position of the object in the list of all requests made.
  The lock makes each use of the map atomic; the steps between them (\<open>handleResponse\<close> against
  timeouts and \<open>Close\<close>) are the steps of \<open>req_step\<close>. The wire format is CBOR, outside the
  repository: the decoding of a message is the parameter \<open>decode\<close>.

  A message is \<open>None\<close> of \<open>decode\<close> when it is not an \<open>AgentResponse\<close>, \<open>Some None\<close> when it has no id.
\<close>

section \<open>State\<close>

record 'm request =
  rq_id :: u32
  rq_channel :: "'m option"
  rq_done :: bool
  rq_created :: instant

record 'm req_manager =
  rm_connected :: bool
  rm_pending :: "(u32, nat) gomap"
  rm_next :: u32
  rm_requests :: "'m request list"
  rm_closed :: "'m list"
  rm_received :: "(nat \<times> 'm) list"

definition new_request_manager :: "bool \<Rightarrow> 'm req_manager" where
  "new_request_manager connected =
     \<lparr>rm_connected = connected, rm_pending = [], rm_next = 0, rm_requests = [], rm_closed = [],
      rm_received = []\<rparr>"

section \<open>Operations\<close>

definition set_done :: "nat \<Rightarrow> 'm req_manager \<Rightarrow> 'm req_manager" where
  "set_done k st = st\<lparr>rm_requests := (rm_requests st)[k := (rm_requests st ! k)\<lparr>rq_done := True\<rparr>]\<rparr>"

definition cancel_request :: "u32 \<Rightarrow> 'm req_manager \<Rightarrow> 'm req_manager" where
  "cancel_request i st =
     (case map_of (rm_pending st) i of
        Some k \<Rightarrow> (set_done k st)\<lparr>rm_pending := AList.delete i (rm_pending st)\<rparr>
      | None \<Rightarrow> st)"

definition delete_request :: "u32 \<Rightarrow> 'm req_manager \<Rightarrow> 'm req_manager" where
  "delete_request i st = st\<lparr>rm_pending := AList.delete i (rm_pending st)\<rparr>"

text \<open>\<open>write_ok\<close>: the request is encoded and written to the connection.\<close>

definition send_message :: "bool \<Rightarrow> 'm req_manager \<Rightarrow> bool" where
  "send_message write_ok st \<longleftrightarrow> rm_connected st \<and> write_ok"

definition send_request :: "bool \<Rightarrow> instant \<Rightarrow> 'm req_manager \<Rightarrow> nat option \<times> 'm req_manager" where
  "send_request write_ok now st =
     (let i = rm_next st + 1; k = length (rm_requests st);
          req = \<lparr>rq_id = i, rq_channel = None, rq_done = False, rq_created = now\<rparr>;
          st1 = st\<lparr>rm_next := i, rm_requests := rm_requests st @ [req],
                   rm_pending := AList.update i k (rm_pending st)\<rparr>
      in if send_message write_ok st1 then (Some k, st1) else (None, cancel_request i st1))"

definition close_message :: "'m \<Rightarrow> 'm req_manager \<Rightarrow> 'm req_manager" where
  "close_message m st = st\<lparr>rm_closed := m # rm_closed st\<rparr>"

definition put_channel :: "nat \<Rightarrow> 'm \<Rightarrow> 'm req_manager \<Rightarrow> 'm req_manager" where
  "put_channel k m st =
     st\<lparr>rm_requests := (rm_requests st)[k := (rm_requests st ! k)\<lparr>rq_channel := Some m\<rparr>]\<rparr>"

text \<open>The \<open>select\<close> of a send on the channel and the context: when both are ready, either may be
  chosen (\<open>prefer_send\<close>); when none is, the goroutine blocks (\<open>None\<close>).\<close>

definition deliver :: "bool \<Rightarrow> nat \<Rightarrow> 'm \<Rightarrow> 'm req_manager \<Rightarrow> 'm req_manager option" where
  "deliver prefer_send k m st =
     (let req = rm_requests st ! k; can_send = (rq_channel req = None) in
      if can_send \<and> (prefer_send \<or> \<not> rq_done req) then Some (delete_request (rq_id req) (put_channel k m st))
      else if rq_done req then Some (close_message m st)
      else None)"

definition oldest :: "'m req_manager \<Rightarrow> nat option" where
  "oldest st =
     foldl (\<lambda>best (i, k). case best of
              None \<Rightarrow> Some k
            | Some b \<Rightarrow> if rq_created (rm_requests st ! k) < rq_created (rm_requests st ! b) then Some k else best)
       None (rm_pending st)"

definition route_legacy_response :: "bool \<Rightarrow> 'm \<Rightarrow> 'm req_manager \<Rightarrow> 'm req_manager option" where
  "route_legacy_response prefer_send m st =
     (case oldest st of Some k \<Rightarrow> deliver prefer_send k m st | None \<Rightarrow> Some (close_message m st))"

definition handle_response ::
  "('m \<Rightarrow> u32 option option) \<Rightarrow> bool \<Rightarrow> 'm \<Rightarrow> 'm req_manager \<Rightarrow> 'm req_manager option" where
  "handle_response decode prefer_send m st =
     (case decode m of
        None \<Rightarrow> route_legacy_response prefer_send m st
      | Some None \<Rightarrow> route_legacy_response prefer_send m st
      | Some (Some i) \<Rightarrow>
          (case map_of (rm_pending st) i of
             None \<Rightarrow> Some (close_message m st)
           | Some k \<Rightarrow> deliver prefer_send k m st))"

text \<open>The watcher of a request: once its context is done, the request is cancelled by id.\<close>

definition cleanup_request :: "nat \<Rightarrow> 'm req_manager \<Rightarrow> 'm req_manager" where
  "cleanup_request k st =
     (if k < length (rm_requests st) \<and> rq_done (rm_requests st ! k)
      then cancel_request (rq_id (rm_requests st ! k)) st else st)"

definition close_manager :: "'m req_manager \<Rightarrow> 'm req_manager" where
  "close_manager st = (fold (\<lambda>(i, k). set_done k) (rm_pending st) st)\<lparr>rm_pending := []\<rparr>"

text \<open>The receiver of \<open>handleAgentRequest\<close>: it takes the message and cancels the context.\<close>

definition receive :: "nat \<Rightarrow> 'm req_manager \<Rightarrow> 'm req_manager" where
  "receive k st =
     (if k < length (rm_requests st) then
        (case rq_channel (rm_requests st ! k) of
           Some m \<Rightarrow> st\<lparr>rm_received := (k, m) # rm_received st,
             rm_requests := (rm_requests st)
               [k := (rm_requests st ! k)\<lparr>rq_channel := None, rq_done := True\<rparr>]\<rparr>
         | None \<Rightarrow> st)
      else st)"

section \<open>Steps\<close>

datatype 'm req_event =
    SendRequest bool instant
  | Response bool 'm
  | ContextDone nat
  | Cleanup nat
  | Receive nat
  | ConnectionLost
  | CloseManager

text \<open>A response that blocks leaves the state unchanged; \<open>response_never_blocks\<close> excludes it.\<close>

fun req_step :: "('m \<Rightarrow> u32 option option) \<Rightarrow> 'm req_manager \<Rightarrow> 'm req_event \<Rightarrow> 'm req_manager" where
  "req_step decode st (SendRequest ok now) = snd (send_request ok now st)"
| "req_step decode st (Response prefer m) =
     (case handle_response decode prefer m st of Some st' \<Rightarrow> st' | None \<Rightarrow> st)"
| "req_step decode st (ContextDone k) = (if k < length (rm_requests st) then set_done k st else st)"
| "req_step decode st (Cleanup k) = cleanup_request k st"
| "req_step decode st (Receive k) = receive k st"
| "req_step decode st ConnectionLost = st\<lparr>rm_connected := False\<rparr>"
| "req_step decode st CloseManager = close_manager st"

section \<open>Invariant\<close>

definition routed_ok :: "('m \<Rightarrow> u32 option option) \<Rightarrow> u32 \<Rightarrow> 'm \<Rightarrow> bool" where
  "routed_ok decode i m \<longleftrightarrow> (case decode m of Some (Some j) \<Rightarrow> j = i | _ \<Rightarrow> True)"

definition req_inv :: "('m \<Rightarrow> u32 option option) \<Rightarrow> 'm req_manager \<Rightarrow> bool" where
  "req_inv decode st \<longleftrightarrow>
     (\<forall>i k. map_of (rm_pending st) i = Some k \<longrightarrow>
        k < length (rm_requests st) \<and> rq_id (rm_requests st ! k) = i \<and> rq_channel (rm_requests st ! k) = None) \<and>
     (\<forall>k m. k < length (rm_requests st) \<longrightarrow> rq_channel (rm_requests st ! k) = Some m \<longrightarrow>
        routed_ok decode (rq_id (rm_requests st ! k)) m) \<and>
     (\<forall>k m. (k, m) \<in> set (rm_received st) \<longrightarrow>
        k < length (rm_requests st) \<and> routed_ok decode (rq_id (rm_requests st ! k)) m) \<and>
     keys_distinct (rm_pending st)"

lemma inv_pendingD:
  "req_inv decode st \<Longrightarrow> map_of (rm_pending st) i = Some k \<Longrightarrow>
   k < length (rm_requests st) \<and> rq_id (rm_requests st ! k) = i \<and> rq_channel (rm_requests st ! k) = None"
  by (simp add: req_inv_def)

lemma nth_set_done:
  "rq_id (xs[k := (xs ! k)\<lparr>rq_done := b\<rparr>] ! j) = rq_id (xs ! j)"
  "rq_channel (xs[k := (xs ! k)\<lparr>rq_done := b\<rparr>] ! j) = rq_channel (xs ! j)"
  by (cases "k < length xs"; cases "j = k"; simp add: list_update_beyond)+

lemma disconnect_inv [simp]: "req_inv decode (st\<lparr>rm_connected := b\<rparr>) = req_inv decode st"
  by (simp add: req_inv_def)

lemma set_done_inv: "req_inv decode st \<Longrightarrow> req_inv decode (set_done k st)"
  by (auto simp: req_inv_def set_done_def nth_set_done)

lemma cancel_inv: "req_inv decode st \<Longrightarrow> req_inv decode (cancel_request i st)"
  using set_done_inv [of decode st]
  by (auto simp: req_inv_def cancel_request_def store_laws set_done_def gm.inv_del split: option.splits)

lemma send_inv: "req_inv decode st \<Longrightarrow> req_inv decode (snd (send_request ok now st))"
proof -
  assume i: "req_inv decode st"
  let ?st = "st\<lparr>rm_next := rm_next st + 1,
    rm_requests := rm_requests st @ [\<lparr>rq_id = rm_next st + 1, rq_channel = None, rq_done = False, rq_created = now\<rparr>],
    rm_pending := AList.update (rm_next st + 1) (length (rm_requests st)) (rm_pending st)\<rparr>"
  have "req_inv decode ?st"
    using i by (auto simp: req_inv_def store_laws nth_append gm.inv_put less_Suc_eq split: if_splits)
  then show ?thesis by (auto simp: send_request_def Let_def cancel_inv)
qed

lemma oldest_pending: "oldest st = Some k \<Longrightarrow> \<exists>i. (i, k) \<in> set (rm_pending st)"
proof -
  have "case foldl (\<lambda>best (i, k). case best of
              None \<Rightarrow> Some k
            | Some b \<Rightarrow> if rq_created (rm_requests st ! k) < rq_created (rm_requests st ! b) then Some k else best)
       b ps of None \<Rightarrow> True | Some k \<Rightarrow> b = Some k \<or> (\<exists>i. (i, k) \<in> set ps)" for b and ps :: "(u32 \<times> nat) list"
    by (induction ps arbitrary: b) (fastforce split: option.splits prod.splits if_splits)+
  from this [of None "rm_pending st"] show "oldest st = Some k \<Longrightarrow> \<exists>i. (i, k) \<in> set (rm_pending st)"
    by (simp add: oldest_def)
qed

lemma oldest_entry:
  "req_inv decode st \<Longrightarrow> oldest st = Some k \<Longrightarrow> map_of (rm_pending st) (rq_id (rm_requests st ! k)) = Some k"
  using oldest_pending [of st k] map_of_in_set [of "rm_pending st"]
  by (metis req_inv_def)

lemma deliver_inv:
  assumes i: "req_inv decode st" and p: "map_of (rm_pending st) (rq_id (rm_requests st ! k)) = Some k"
    and r: "routed_ok decode (rq_id (rm_requests st ! k)) m"
  shows "\<exists>st'. deliver prefer k m st = Some st' \<and> req_inv decode st'"
proof -
  note k = inv_pendingD [OF i p]
  have only: "i = rq_id (rm_requests st ! k)" if "map_of (rm_pending st) i = Some k" for i
    using inv_pendingD [OF i that] by simp
  have "req_inv decode (delete_request (rq_id (rm_requests st ! k)) (put_channel k m st))"
    using i r k only
    by (auto simp: req_inv_def delete_request_def put_channel_def store_laws nth_list_update gm.inv_del)
  moreover have "req_inv decode (close_message m st)"
    using i by (simp add: req_inv_def close_message_def)
  ultimately show ?thesis using k by (auto simp: deliver_def Let_def)
qed

lemma response_inv:
  assumes "req_inv decode st"
  shows "\<exists>st'. handle_response decode prefer m st = Some st' \<and> req_inv decode st'"
proof -
  have c: "req_inv decode (close_message m st)"
    using assms by (simp add: req_inv_def close_message_def)
  have l: "\<exists>st'. route_legacy_response prefer m st = Some st' \<and> req_inv decode st'"
    if "\<not> (\<exists>i. decode m = Some (Some i))"
  proof (cases "oldest st")
    case (Some k)
    then show ?thesis
      using deliver_inv [OF assms oldest_entry [OF assms Some]] that
      by (auto simp: route_legacy_response_def routed_ok_def split: option.splits)
  qed (use c in \<open>simp add: route_legacy_response_def\<close>)
  show ?thesis
  proof (cases "\<exists>i. decode m = Some (Some i)")
    case True
    then obtain i where i: "decode m = Some (Some i)" by blast
    show ?thesis
    proof (cases "map_of (rm_pending st) i")
      case (Some k)
      then have "map_of (rm_pending st) (rq_id (rm_requests st ! k)) = Some k" "rq_id (rm_requests st ! k) = i"
        using inv_pendingD [OF assms Some] by auto
      then show ?thesis
        using deliver_inv [OF assms] i Some by (simp add: handle_response_def routed_ok_def)
    qed (use c i in \<open>simp add: handle_response_def\<close>)
  next
    case False
    then show ?thesis using l by (auto simp: handle_response_def split: option.splits)
  qed
qed


lemma close_inv: "req_inv decode st \<Longrightarrow> req_inv decode (close_manager st)"
proof -
  assume i: "req_inv decode st"
  have "req_inv decode (fold (\<lambda>(i, k). set_done k) (rm_pending st) st)"
    by (rule fold_keeps [where P = "req_inv decode"]) (use i in \<open>auto intro: set_done_inv\<close>)
  then show ?thesis by (simp add: close_manager_def req_inv_def)
qed

lemma receive_inv: "req_inv decode st \<Longrightarrow> req_inv decode (receive k st)"
  by (auto simp: req_inv_def receive_def nth_list_update split: option.splits)

interpretation requests: machine "\<lambda>st. \<exists>c. st = new_request_manager c" "req_step decode" "req_inv decode"
  for decode :: "'m \<Rightarrow> u32 option option"
proof
  show "req_inv decode st" if "\<exists>c. st = new_request_manager c" for st :: "'m req_manager"
    using that by (auto simp: req_inv_def new_request_manager_def)
  show "req_inv decode (req_step decode st e)" if i: "req_inv decode st" for st :: "'m req_manager" and e
  proof (cases e)
    case (Response choice m)
    then show ?thesis using response_inv [OF i, of choice m] by auto
  qed (use i in \<open>auto simp: send_inv set_done_inv cleanup_request_def cancel_inv receive_inv close_inv\<close>)
qed

section \<open>Properties\<close>

text \<open>
  In every run (requests, answers in any order, timeouts, cancellations, a lost connection and
  \<open>Close\<close> at any time) the handler of an answer never blocks: the channel of a pending request is
  always empty, so the goroutine that reads the connection is never held up.
\<close>

lemma response_never_blocks:
  "handle_response decode prefer m (foldl (req_step decode) (new_request_manager c) es) \<noteq> None"
proof -
  have "req_inv decode (foldl (req_step decode) (new_request_manager c) es)"
    by (rule requests.inv_reachable) blast
  from response_inv [OF this] show ?thesis by auto
qed

text \<open>
  C22: an answer that carries an id is only ever received by a request with that id.
\<close>

theorem answers_reach_their_request:
  assumes "(k, m) \<in> set (rm_received (foldl (req_step decode) (new_request_manager c) es))"
    and "decode m = Some (Some i)"
  shows "rq_id (rm_requests (foldl (req_step decode) (new_request_manager c) es) ! k) = i"
proof -
  have "req_inv decode (foldl (req_step decode) (new_request_manager c) es)"
    by (rule requests.inv_reachable) blast
  then show ?thesis using assms by (fastforce simp: req_inv_def routed_ok_def)
qed

subsection \<open>No message is lost or delivered twice\<close>

definition opt_mset :: "'m option \<Rightarrow> 'm multiset" where
  "opt_mset x = (case x of Some m \<Rightarrow> {#m#} | None \<Rightarrow> {#})"

definition waiting :: "'m request list \<Rightarrow> 'm multiset" where
  "waiting rs = sum_list (map (\<lambda>r. opt_mset (rq_channel r)) rs)"

definition accounted :: "'m req_manager \<Rightarrow> 'm multiset" where
  "accounted st = mset (rm_closed st) + mset (map snd (rm_received st)) + waiting (rm_requests st)"

lemma waiting_update:
  assumes "k < length rs"
  shows "waiting (rs[k := r]) + opt_mset (rq_channel (rs ! k)) = waiting rs + opt_mset (rq_channel r)"
proof -
  have "rs = take k rs @ rs ! k # drop (Suc k) rs" using assms by (rule id_take_nth_drop)
  then have "waiting rs = waiting (take k rs) + opt_mset (rq_channel (rs ! k)) + waiting (drop (Suc k) rs)"
    by (metis (no_types, lifting) waiting_def map_append sum_list_append list.simps(9) sum_list.Cons add.assoc)
  moreover have "waiting (rs[k := r]) = waiting (take k rs) + opt_mset (rq_channel r) + waiting (drop (Suc k) rs)"
    using assms by (simp add: upd_conv_take_nth_drop waiting_def add.assoc)
  ultimately show ?thesis by (simp add: ac_simps)
qed

lemma waiting_done: "waiting (rs[k := (rs ! k)\<lparr>rq_done := b\<rparr>]) = waiting rs"
  using waiting_update [of k rs "(rs ! k)\<lparr>rq_done := b\<rparr>"]
  by (cases "k < length rs") (simp_all add: list_update_beyond)

lemma accounted_simps [simp]:
  "accounted (set_done k st) = accounted st" "accounted (cancel_request i st) = accounted st"
  "accounted (delete_request i st) = accounted st" "accounted (st\<lparr>rm_connected := b\<rparr>) = accounted st"
  "accounted (st\<lparr>rm_pending := p\<rparr>) = accounted st"
  "accounted (close_message m st) = add_mset m (accounted st)"
  by (auto simp: accounted_def set_done_def cancel_request_def delete_request_def close_message_def
      waiting_done split: option.splits)

lemma accounted_send: "accounted (snd (send_request ok now st)) = accounted st"
  by (auto simp: send_request_def Let_def accounted_def waiting_def opt_mset_def cancel_request_def
      set_done_def store_laws waiting_done [unfolded waiting_def] nth_append list_update_append)

lemma accounted_put:
  "k < length (rm_requests st) \<Longrightarrow> rq_channel (rm_requests st ! k) = None \<Longrightarrow>
   accounted (put_channel k m st) = add_mset m (accounted st)"
  using waiting_update [of k "rm_requests st" "(rm_requests st ! k)\<lparr>rq_channel := Some m\<rparr>"]
  by (simp add: accounted_def put_channel_def opt_mset_def)

lemma accounted_deliver:
  "deliver prefer k m st = Some st' \<Longrightarrow> k < length (rm_requests st) \<Longrightarrow> accounted st' = add_mset m (accounted st)"
  by (auto simp: deliver_def Let_def accounted_put split: if_splits)

lemma accounted_response:
  assumes "req_inv decode st" and "handle_response decode prefer m st = Some st'"
  shows "accounted st' = add_mset m (accounted st)"
proof -
  have "k < length (rm_requests st)" if "oldest st = Some k" for k
    using inv_pendingD [OF assms(1) oldest_entry [OF assms(1) that]] by simp
  then show ?thesis
    using assms(2) inv_pendingD [OF assms(1)]
    by (auto simp: handle_response_def route_legacy_response_def accounted_deliver split: option.splits)
qed

lemma accounted_receive: "accounted (receive k st) = accounted st"
proof (cases "k < length (rm_requests st)")
  case True
  show ?thesis
  proof (cases "rq_channel (rm_requests st ! k)")
    case (Some m)
    have "add_mset m (waiting ((rm_requests st)[k := (rm_requests st ! k)\<lparr>rq_channel := None, rq_done := True\<rparr>]))
        = waiting (rm_requests st)"
      using waiting_update [OF True, of "(rm_requests st ! k)\<lparr>rq_channel := None, rq_done := True\<rparr>"] Some
      by (simp add: opt_mset_def)
    then show ?thesis using True Some by (simp add: receive_def accounted_def)
  qed (simp add: receive_def)
qed (simp add: receive_def)

lemma accounted_close: "accounted (close_manager st) = accounted st"
proof -
  have "accounted (fold (\<lambda>(i, k). set_done k) ps st) = accounted st" for ps :: "(u32 \<times> nat) list"
    by (induction ps arbitrary: st) auto
  then show ?thesis by (simp add: close_manager_def)
qed

fun response_of :: "'m req_event \<Rightarrow> 'm list" where
  "response_of (Response prefer m) = [m]"
| "response_of _ = []"

lemma accounted_step:
  assumes "req_inv decode st"
  shows "accounted (req_step decode st e) = accounted st + mset (response_of e)"
proof (cases e)
  case (Response choice m)
  then show ?thesis
    using response_inv [OF assms, of choice m] accounted_response [OF assms] by auto
qed (auto simp: accounted_send accounted_receive accounted_close cleanup_request_def)

text \<open>
  C23: every answer that arrives ends up in exactly one place: closed, waiting in the channel of one
  request, or received by one request. None is lost and none is handed to two requests.
\<close>

theorem answers_accounted_for:
  "accounted (foldl (req_step decode) (new_request_manager c) es) = mset (concat (map response_of es))"
proof (induction es rule: rev_induct)
  case Nil
  then show ?case by (simp add: accounted_def new_request_manager_def waiting_def)
next
  case (snoc e es)
  have "req_inv decode (foldl (req_step decode) (new_request_manager c) es)"
    by (rule requests.inv_reachable) blast
  from accounted_step [OF this, of e] show ?case using snoc.IH by simp
qed

section \<open>Witnesses\<close>

lemma answers_reach_their_request_witness:
  "rq_id (rm_requests (foldl (req_step (\<lambda>m :: nat. Some (Some (of_nat m))))
     (new_request_manager True) [SendRequest True 0, SendRequest True 1, Response True 2, Receive 1]) ! 1) = 2"
  by (rule answers_reach_their_request [where m = "2 :: nat"])
    (simp_all add: send_request_def send_message_def new_request_manager_def handle_response_def
      deliver_def put_channel_def delete_request_def receive_def)

end
