(* ===== verification/Systems.thy ===== *)
theory Systems
  imports SystemAlerts
begin

text \<open>
  \<^verbatim>\<open>internal/hub/systems/system_manager.go\<close> and \<^verbatim>\<open>internal/hub/systems/system.go\<close>: the systems the
  hub watches. A \<open>System\<close> is a shared object, so the store leads from ids to positions in the list of
  all objects made; a removed object lives on until its updater sees that its context is cancelled.
  The state also holds the \<^verbatim>\<open>systems\<close> table and the alert manager, since every save of a system
  record runs the hooks \<open>onRecordUpdate\<close> and \<open>onRecordAfterUpdateSuccess\<close>.

  An update asks the agent and waits, so it is two steps: \<open>begin_update\<close> checks the status,
  \<open>finish_update\<close> decodes the answer into the object's data and writes the records. What the
  database, the transaction and the agent answer is in a \<open>hub_env\<close>.
\<close>

section \<open>State\<close>

definition paused :: string where "paused = ''paused''"
definition pending :: string where "pending = ''pending''"
definition interval_ms :: int where "interval_ms = 60000"

text \<open>A WebSocket connection: whether it is connected, and whether a ping succeeds.\<close>

record ws_conn =
  ws_connected :: bool
  ws_closed :: bool

record system =
  sy_id :: string
  sy_host :: string
  sy_port :: string
  sy_status :: string
  sy_data :: combined_data
  sy_cancelled :: bool
  sy_ws :: "ws_conn option"
  sy_details_fetched :: bool

record system_row =
  row_id :: string
  row_name :: string
  row_host :: string
  row_port :: string
  row_status :: string
  row_info :: info
  row_updated :: instant

record hub_state =
  hs_systems :: "(string, nat) gomap"
  hs_objects :: "system list"
  hs_rows :: "string \<Rightarrow> system_row option"
  hs_alerts :: alert_manager
  hs_updaters :: "nat list"
  hs_updating :: "(nat \<times> bool) list"

record hub_env =
  he_env :: env
  he_status_env :: env
  he_triggered :: "alert_record list option"
  he_query :: "instant \<Rightarrow> (jval option \<times> instant) list option"
  he_find_ok :: bool
  he_save_ok :: bool

section \<open>The store of systems\<close>

definition new_system :: "string \<Rightarrow> system" where
  "new_system i =
     \<lparr>sy_id = i, sy_host = '''', sy_port = '''', sy_status = '''', sy_data = zero_data,
      sy_cancelled = False, sy_ws = None, sy_details_fetched = False\<rparr>"

definition set_object :: "nat \<Rightarrow> (system \<Rightarrow> system) \<Rightarrow> hub_state \<Rightarrow> hub_state" where
  "set_object k f st = st\<lparr>hs_objects := (hs_objects st)[k := f (hs_objects st ! k)]\<rparr>"

definition get_system :: "string \<Rightarrow> hub_state \<Rightarrow> system option" where
  "get_system i st = map_option (\<lambda>k. hs_objects st ! k) (map_of (hs_systems st) i)"

definition close_ws :: "system \<Rightarrow> system" where
  "close_ws s = s\<lparr>sy_ws := map_option (\<lambda>w. w\<lparr>ws_closed := True\<rparr>) (sy_ws s)\<rparr>"

definition remove_system :: "string \<Rightarrow> hub_state \<Rightarrow> bool \<times> hub_state" where
  "remove_system i st =
     (case map_of (hs_systems st) i of
        None \<Rightarrow> (False, st)
      | Some k \<Rightarrow>
          (True, (set_object k (\<lambda>s. close_ws (s\<lparr>sy_cancelled := True\<rparr>)) st)
                   \<lparr>hs_systems := AList.delete i (hs_systems st)\<rparr>))"

datatype add_result = Added | SystemExists | MissingFields

text \<open>\<open>AddSystem\<close> stores the object and starts its updater goroutine; the data starts empty.\<close>

definition add_system :: "system \<Rightarrow> hub_state \<Rightarrow> add_result \<times> hub_state" where
  "add_system s st =
     (if map_of (hs_systems st) (sy_id s) \<noteq> None then (SystemExists, st)
      else if sy_id s = '''' \<or> sy_host s = '''' then (MissingFields, st)
      else let k = length (hs_objects st)
           in (Added, st\<lparr>hs_objects := hs_objects st @ [s\<lparr>sy_data := zero_data\<rparr>],
                        hs_systems := AList.update (sy_id s) k (hs_systems st),
                        hs_updaters := k # hs_updaters st\<rparr>))"

definition add_record :: "system_row \<Rightarrow> system option \<Rightarrow> hub_state \<Rightarrow> add_result \<times> hub_state" where
  "add_record row s st =
     (let st1 = (if map_of (hs_systems st) (row_id row) \<noteq> None then snd (remove_system (row_id row) st) else st);
          s = (case s of Some s \<Rightarrow> s | None \<Rightarrow> new_system (row_id row))
      in add_system (s\<lparr>sy_status := row_status row, sy_host := row_host row, sy_port := row_port row\<rparr>) st1)"

definition add_websocket_system :: "hub_env \<Rightarrow> string \<Rightarrow> ws_conn \<Rightarrow> hub_state \<Rightarrow> bool \<times> hub_state" where
  "add_websocket_system env i w st =
     (case (if he_find_ok env then hs_rows st i else None) of
        None \<Rightarrow> (False, st)
      | Some row \<Rightarrow>
          let (r, st1) = add_record row (Some ((new_system i)\<lparr>sy_ws := Some w\<rparr>)) st
          in (r = Added, st1))"

section \<open>Record hooks\<close>

definition on_record_create :: "system_row \<Rightarrow> system_row" where
  "on_record_create row = row\<lparr>row_info := zero_info, row_status := pending\<rparr>"

definition on_record_update :: "system_row \<Rightarrow> system_row" where
  "on_record_update row = (if row_status row = paused then row\<lparr>row_info := zero_info\<rparr> else row)"

fun deactivate_rows :: "env \<Rightarrow> alert_record list \<Rightarrow> alert_manager \<Rightarrow> bool \<times> alert_manager" where
  "deactivate_rows env [] am = (True, am)"
| "deactivate_rows env (r # rs) am =
     (if save_ok env (rec_id r)
      then deactivate_rows env rs (db_event (RowUpdated (r\<lparr>rec_triggered := False\<rparr>)) am)
      else (False, am))"

definition deactivate_alerts :: "hub_env \<Rightarrow> alert_manager \<Rightarrow> bool \<times> alert_manager" where
  "deactivate_alerts env am =
     (case he_triggered env of None \<Rightarrow> (False, am) | Some rs \<Rightarrow> deactivate_rows (he_env env) rs am)"

text \<open>The hook after a save. The object of \<open>go system.update()\<close> goes into \<open>hs_updating\<close>; the flag is
  whether the updater waits for the result (and sets the system down when it is an error).\<close>

definition update_alerts ::
  "(alert_manager \<Rightarrow> alert_manager) \<Rightarrow> hub_state \<Rightarrow> hub_state" where
  "update_alerts f st = st\<lparr>hs_alerts := f (hs_alerts st)\<rparr>"

definition on_record_after_update_success :: "hub_env \<Rightarrow> system_row \<Rightarrow> hub_state \<Rightarrow> hub_state" where
  "on_record_after_update_success env row st =
     (let i = row_id row; newStatus = row_status row; found = map_of (hs_systems st) i;
          prevStatus = (case found of Some k \<Rightarrow> sy_status (hs_objects st ! k) | None \<Rightarrow> pending);
          st = (case found of Some k \<Rightarrow> set_object k (\<lambda>s. s\<lparr>sy_status := newStatus\<rparr>) st | None \<Rightarrow> st)
      in if newStatus = paused then
           update_alerts (\<lambda>am. cancel_pending_status_alerts i (snd (deactivate_alerts env am))) st
         else if newStatus = pending then
           (case found of
              Some k \<Rightarrow>
                if sy_ws (hs_objects st ! k) \<noteq> None then st\<lparr>hs_updating := (k, False) # hs_updating st\<rparr>
                else update_alerts (\<lambda>am. snd (deactivate_alerts env am)) (snd (add_record row None st))
            | None \<Rightarrow> update_alerts (\<lambda>am. snd (deactivate_alerts env am)) (snd (add_record row None st)))
         else (case found of
             None \<Rightarrow> snd (add_record row None st)
           | Some k \<Rightarrow>
               let st1 = (if newStatus = up
                     then update_alerts (\<lambda>am. snd (am_handle_system_alerts (he_env env) (he_query env) i
                            (row_name row) (row_updated row) (sy_data (hs_objects st ! k)) am)) st
                     else st)
               in if (newStatus = down \<and> prevStatus = up) \<or> (newStatus = up \<and> prevStatus = down)
                  then update_alerts (handle_status_alerts (he_status_env env) newStatus i (row_name row)) st1
                  else st1))"

text \<open>A save: the update hook, the row with its new time, the hook after success.\<close>

definition save_row :: "hub_env \<Rightarrow> system_row \<Rightarrow> hub_state \<Rightarrow> bool \<times> hub_state" where
  "save_row env row st =
     (if \<not> he_save_ok env then (False, st)
      else let row = (on_record_update row)\<lparr>row_updated := am_now (hs_alerts st)\<rparr>
           in (True, on_record_after_update_success env row (st\<lparr>hs_rows := (hs_rows st)(row_id row \<mapsto> row)\<rparr>)))"

definition create_row :: "hub_env \<Rightarrow> system_row \<Rightarrow> hub_state \<Rightarrow> hub_state" where
  "create_row env row st =
     (if \<not> he_save_ok env then st
      else let row = on_record_create row
           in snd (add_record row None (st\<lparr>hs_rows := (hs_rows st)(row_id row \<mapsto> row)\<rparr>)))"

definition delete_row :: "string \<Rightarrow> hub_state \<Rightarrow> hub_state" where
  "delete_row i st = snd (remove_system i (st\<lparr>hs_rows := (hs_rows st)(i := None)\<rparr>))"

section \<open>One system\<close>

definition get_record :: "hub_env \<Rightarrow> nat \<Rightarrow> hub_state \<Rightarrow> system_row option \<times> hub_state" where
  "get_record env k st =
     (let i = sy_id (hs_objects st ! k) in
      case (if he_find_ok env then hs_rows st i else None) of
        Some row \<Rightarrow> (Some row, st)
      | None \<Rightarrow> (None, snd (remove_system i st)))"

definition set_down :: "hub_env \<Rightarrow> nat \<Rightarrow> hub_state \<Rightarrow> bool \<times> hub_state" where
  "set_down env k st =
     (let s = hs_objects st ! k in
      if sy_status s = down \<or> sy_status s = paused then (True, st)
      else case get_record env k st of
             (None, st1) \<Rightarrow> (False, st1)
           | (Some row, st1) \<Rightarrow> save_row env (row\<lparr>row_status := down\<rparr>) st1)"

definition handle_paused :: "bool \<Rightarrow> nat \<Rightarrow> hub_state \<Rightarrow> hub_state" where
  "handle_paused ping_ok k st =
     (let s = hs_objects st ! k in
      case sy_ws s of
        None \<Rightarrow> snd (remove_system (sy_id s) st)
      | Some w \<Rightarrow> if ws_connected w \<and> ping_ok then st else snd (remove_system (sy_id s) st))"

definition begin_update :: "bool \<Rightarrow> nat \<Rightarrow> hub_state \<Rightarrow> hub_state" where
  "begin_update ping_ok k st =
     (if sy_status (hs_objects st ! k) = paused then handle_paused ping_ok k st
      else st\<lparr>hs_updating := (k, True) # hs_updating st\<rparr>)"

section \<open>The received data\<close>

definition mib :: "(flt \<Rightarrow> u64) \<Rightarrow> flt \<Rightarrow> u64" where
  "mib other64 v = word_of_float other64 (mul64 (mul64 v (Fin 1024)) (Fin 1024))"

definition migrate_stats :: "(flt \<Rightarrow> u64) \<Rightarrow> stats \<Rightarrow> stats" where
  "migrate_stats o64 s =
     (let s = (if s_bandwidth s = (0, 0)
               then s\<lparr>s_bandwidth := (mib o64 (s_network_sent s), mib o64 (s_network_recv s)),
                      s_network_sent := zero_flt, s_network_recv := zero_flt\<rparr> else s)
      in if s_disk_io s = (0, 0)
         then s\<lparr>s_disk_io := (mib o64 (s_disk_read_ps s), mib o64 (s_disk_write_ps s)),
                s_disk_read_ps := zero_flt, s_disk_write_ps := zero_flt\<rparr> else s)"

definition migrate_info :: "(flt \<Rightarrow> u64) \<Rightarrow> info \<Rightarrow> info" where
  "migrate_info o64 i =
     (if i_bandwidth_bytes i = 0
      then i\<lparr>i_bandwidth_bytes := mib o64 (i_bandwidth i), i_bandwidth := zero_flt\<rparr> else i)"

definition details_of_info :: "(flt \<Rightarrow> u64) \<Rightarrow> combined_data \<Rightarrow> details" where
  "details_of_info o64 cd =
     (let i = cd_info cd in
      \<lparr>d_hostname = i_hostname i, d_kernel = i_kernel_version i, d_cores = i_cores i,
       d_threads = i_threads i, d_cpu_model = i_cpu_model i, d_os = i_os i, d_os_name = '''', d_arch = '''',
       d_podman = i_podman i,
       d_memory_total =
         word_of_float o64 (mul64 (mul64 (mul64 (s_mem (cd_stats cd)) (Fin 1024)) (Fin 1024)) (Fin 1024)),
       d_smart_interval = 0\<rparr>)"

definition clear_info :: "info \<Rightarrow> info" where
  "clear_info i = i\<lparr>i_hostname := '''', i_kernel_version := '''', i_cores := 0, i_cpu_model := '''',
                    i_podman := False, i_os := 0\<rparr>"

definition migrate_deprecated_fields :: "(flt \<Rightarrow> u64) \<Rightarrow> bool \<Rightarrow> combined_data \<Rightarrow> combined_data" where
  "migrate_deprecated_fields o64 createDetails cd =
     (let cd = cd\<lparr>cd_stats := migrate_stats o64 (cd_stats cd), cd_info := migrate_info o64 (cd_info cd)\<rparr>
      in if cd_details cd = None \<and> i_hostname (cd_info cd) \<noteq> ''''
         then cd\<lparr>cd_details := (if createDetails then Some (details_of_info o64 cd) else None),
                 cd_info := clear_info (cd_info cd)\<rparr>
         else cd)"

text \<open>The answer of the agent: \<open>None\<close> when the request fails, else how it is decoded into the data the
  object already has (the decoder keeps what the message leaves out).\<close>

type_synonym agent_answer = "(combined_data \<Rightarrow> combined_data) option"

definition fetch_data :: "agent_answer \<Rightarrow> nat \<Rightarrow> hub_state \<Rightarrow> combined_data option \<times> hub_state" where
  "fetch_data answer k st =
     (case sy_ws (hs_objects st ! k) of
        Some w \<Rightarrow>
          if ws_connected w then
            (case answer of
               Some decode \<Rightarrow>
                 let d = decode (sy_data (hs_objects st ! k))
                 in (Some d, set_object k (\<lambda>s. s\<lparr>sy_data := d\<rparr>) st)
             | None \<Rightarrow> (None, set_object k close_ws st))
          else (None, st)
      | None \<Rightarrow> (None, st))"

text \<open>The records of one update are written in one transaction; \<open>tx_ok\<close> tells whether it commits.\<close>

definition create_records :: "hub_env \<Rightarrow> bool \<Rightarrow> combined_data \<Rightarrow> nat \<Rightarrow> hub_state \<Rightarrow> bool \<times> hub_state" where
  "create_records env tx_ok data k st =
     (case get_record env k st of
        (None, st1) \<Rightarrow> (False, st1)
      | (Some row, st1) \<Rightarrow>
          if tx_ok then save_row env (row\<lparr>row_status := up, row_info := cd_info data\<rparr>) st1
          else (False, st1))"

definition finish_update ::
  "hub_env \<Rightarrow> (flt \<Rightarrow> u64) \<Rightarrow> agent_answer \<Rightarrow> bool \<Rightarrow> nat \<Rightarrow> hub_state \<Rightarrow> bool \<times> hub_state" where
  "finish_update env o64 answer tx_ok k st =
     (case fetch_data answer k st of
        (None, st1) \<Rightarrow> (False, st1)
      | (Some data, st1) \<Rightarrow>
          let data = migrate_deprecated_fields o64 (\<not> sy_details_fetched (hs_objects st1 ! k)) data;
              st2 = set_object k (\<lambda>s. s\<lparr>sy_data := data\<rparr>) st1;
              (ok, st3) = create_records env tx_ok data k st2
          in (ok, if ok \<and> cd_details data \<noteq> None
                  then set_object k (\<lambda>s. s\<lparr>sy_details_fetched := True\<rparr>) st3 else st3))"

text \<open>The updater: an update that fails sets the system down; a closed connection does too.\<close>

definition updater_finish ::
  "hub_env \<Rightarrow> hub_env \<Rightarrow> (flt \<Rightarrow> u64) \<Rightarrow> agent_answer \<Rightarrow> bool \<Rightarrow> nat \<Rightarrow> bool \<Rightarrow> hub_state \<Rightarrow> hub_state" where
  "updater_finish env down_env o64 answer tx_ok k waits st =
     (if (k, waits) \<in> set (hs_updating st) then
        let (ok, st1) = finish_update env o64 answer tx_ok k
              (st\<lparr>hs_updating := remove1 (k, waits) (hs_updating st)\<rparr>)
        in if ok \<or> \<not> waits then st1 else snd (set_down down_env k st1)
      else st)"

text \<open>The updater waits for an update it has begun. The first update is skipped for a paused system,
  the later ones ping it. A cancelled updater stops, but when the ticker or the connection is ready
  too, the \<open>select\<close> may still choose those.\<close>

definition updater_start :: "nat \<Rightarrow> hub_state \<Rightarrow> hub_state" where
  "updater_start k st =
     (if k \<in> set (hs_updaters st) \<and> \<not> sy_cancelled (hs_objects st ! k) \<and> sy_status (hs_objects st ! k) \<noteq> paused
      then begin_update True k st else st)"

definition updater_tick :: "bool \<Rightarrow> nat \<Rightarrow> hub_state \<Rightarrow> hub_state" where
  "updater_tick ping_ok k st =
     (if k \<in> set (hs_updaters st) \<and> (k, True) \<notin> set (hs_updating st) then begin_update ping_ok k st else st)"

definition updater_down :: "hub_env \<Rightarrow> nat \<Rightarrow> hub_state \<Rightarrow> hub_state" where
  "updater_down env k st =
     (if k \<in> set (hs_updaters st) \<and> (k, True) \<notin> set (hs_updating st)
      then snd (set_down env k (set_object k (\<lambda>s. s\<lparr>sy_ws := None\<rparr>) st)) else st)"

definition updater_stop :: "nat \<Rightarrow> hub_state \<Rightarrow> hub_state" where
  "updater_stop k st =
     (if sy_cancelled (hs_objects st ! k) then st\<lparr>hs_updaters := removeAll k (hs_updaters st)\<rparr> else st)"

text \<open>The jitter before the second update, in milliseconds; \<open>r\<close> is \<open>rand.Intn\<close>'s choice.\<close>

definition jitter_ms :: "int \<Rightarrow> int" where
  "jitter_ms r = go_quot (interval_ms * 51) 100 + r"

definition jitter_range :: int where "jitter_range = go_quot (interval_ms * (95 - 51)) 100"

text \<open>\<open>Initialize\<close>: the systems that are not paused are added in the order of the query.\<close>

definition initialize_systems :: "system_row list option \<Rightarrow> hub_state \<Rightarrow> bool \<times> hub_state" where
  "initialize_systems query st =
     (case query of
        None \<Rightarrow> (False, st)
      | Some rows \<Rightarrow>
          (True, fold (\<lambda>r st. snd (add_system ((new_system (row_id r))
                     \<lparr>sy_host := row_host r, sy_port := row_port r, sy_status := row_status r\<rparr>) st)) rows st))"

section \<open>Runs of the hub\<close>

datatype hub_event =
    UpdaterStart nat
  | UpdaterTick bool nat
  | UpdaterDown hub_env nat
  | UpdaterStop nat
  | FinishUpdate hub_env hub_env "flt \<Rightarrow> u64" agent_answer bool nat bool
  | SaveRow hub_env system_row
  | CreateRow hub_env system_row
  | DeleteRow string
  | AgentConnect hub_env string ws_conn
  | AlertEvent status_event

text \<open>What the database answers about the alerts of system \<open>i\<close> is true of its table.\<close>

definition hub_env_ok :: "string \<Rightarrow> hub_env \<Rightarrow> hub_state \<Rightarrow> bool" where
  "hub_env_ok i env st \<longleftrightarrow>
     i \<noteq> '''' \<and> answer_ok (am_db (hs_alerts st)) i (alerts_answer (he_env env)) \<and>
     answer_ok (am_db (hs_alerts st)) i (alerts_answer (he_status_env env)) \<and>
     (case he_triggered env of
        None \<Rightarrow> True
      | Some rs \<Rightarrow> distinct (map rec_id rs) \<and> (\<forall>r \<in> set rs. am_db (hs_alerts st) (rec_id r) = Some r))"

fun hub_step :: "hub_state \<Rightarrow> hub_event \<Rightarrow> hub_state" where
  "hub_step st (UpdaterStart k) = updater_start k st"
| "hub_step st (UpdaterTick ping_ok k) = updater_tick ping_ok k st"
| "hub_step st (UpdaterDown env k) =
     (if hub_env_ok (sy_id (hs_objects st ! k)) env st then updater_down env k st else st)"
| "hub_step st (UpdaterStop k) = updater_stop k st"
| "hub_step st (FinishUpdate env down_env o64 answer tx_ok k waits) =
     (if hub_env_ok (sy_id (hs_objects st ! k)) env st \<and> hub_env_ok (sy_id (hs_objects st ! k)) down_env st
      then updater_finish env down_env o64 answer tx_ok k waits st else st)"
| "hub_step st (SaveRow env row) =
     (if hub_env_ok (row_id row) env st \<and> hs_rows st (row_id row) \<noteq> None then snd (save_row env row st) else st)"
| "hub_step st (CreateRow env row) =
     (if hs_rows st (row_id row) = None then create_row env row st else st)"
| "hub_step st (DeleteRow i) = delete_row i st"
| "hub_step st (AgentConnect env i w) = snd (add_websocket_system env i w st)"
| "hub_step st (AlertEvent e) =
     (case e of StatusChange _ _ _ _ \<Rightarrow> st | _ \<Rightarrow> st\<lparr>hs_alerts := status_step (hs_alerts st) e\<rparr>)"

definition hub_start :: "alert_manager \<Rightarrow> hub_state" where
  "hub_start am = \<lparr>hs_systems = [], hs_objects = [], hs_rows = (\<lambda>_. None), hs_alerts = am,
                   hs_updaters = [], hs_updating = []\<rparr>"

section \<open>The store and its objects\<close>

text \<open>An object that is not cancelled is the one the store knows under its id.\<close>

definition store_inv :: "hub_state \<Rightarrow> bool" where
  "store_inv st \<longleftrightarrow>
     (\<forall>i k. map_of (hs_systems st) i = Some k \<longrightarrow> k < length (hs_objects st) \<and> sy_id (hs_objects st ! k) = i) \<and>
     (\<forall>k < length (hs_objects st). \<not> sy_cancelled (hs_objects st ! k) \<longrightarrow>
        map_of (hs_systems st) (sy_id (hs_objects st ! k)) = Some k) \<and>
     (\<forall>k \<in> set (hs_updaters st). k < length (hs_objects st)) \<and>
     (\<forall>(k, w) \<in> set (hs_updating st). k < length (hs_objects st))"

lemma store_inv_alerts [simp]:
  "store_inv (st\<lparr>hs_alerts := am\<rparr>) = store_inv st" "store_inv (st\<lparr>hs_rows := rows\<rparr>) = store_inv st"
  "store_inv (update_alerts f st) = store_inv st"
  by (simp_all add: store_inv_def update_alerts_def)

lemma set_object_store:
  assumes "store_inv st" and "\<And>s. sy_id (f s) = sy_id s" and "\<And>s. sy_cancelled (f s) = sy_cancelled s"
  shows "store_inv (set_object k f st)"
proof -
  have "sy_id ((hs_objects st)[k := f (hs_objects st ! k)] ! j) = sy_id (hs_objects st ! j) \<and>
      sy_cancelled ((hs_objects st)[k := f (hs_objects st ! k)] ! j) = sy_cancelled (hs_objects st ! j)" for j
    using assms(2,3) by (cases "k < length (hs_objects st)"; cases "j = k") (auto simp: list_update_beyond)
  then show ?thesis using assms(1) by (simp add: store_inv_def set_object_def)
qed

lemma close_ws_keeps [simp]: "sy_id (close_ws s) = sy_id s" "sy_cancelled (close_ws s) = sy_cancelled s"
  by (simp_all add: close_ws_def)

lemma remove_store: "store_inv st \<Longrightarrow> store_inv (snd (remove_system i st))"
proof (cases "map_of (hs_systems st) i")
  case (Some k)
  assume inv: "store_inv st"
  then have k: "k < length (hs_objects st)" "sy_id (hs_objects st ! k) = i"
    using Some by (auto simp: store_inv_def)
  have other: "j \<noteq> k" if "map_of (hs_systems st) i' = Some j" "i' \<noteq> i" for i' j
    using inv k that by (auto simp: store_inv_def)
  have same: "j = k" if "j < length (hs_objects st)" "\<not> sy_cancelled (hs_objects st ! j)" "sy_id (hs_objects st ! j) = i" for j
    using inv Some that by (auto simp: store_inv_def)
  show ?thesis
    using inv k other same Some
    by (auto simp: remove_system_def set_object_def store_inv_def store_laws nth_list_update)
qed (simp add: remove_system_def)

lemma add_store:
  assumes inv: "store_inv st"
  shows "store_inv (snd (add_system s st))"
proof (cases "map_of (hs_systems st) (sy_id s) = None \<and> sy_id s \<noteq> '''' \<and> sy_host s \<noteq> ''''")
  case True
  define k where "k = length (hs_objects st)"
  define t where "t = snd (add_system s st)"
  have objects: "hs_objects t = hs_objects st @ [s\<lparr>sy_data := zero_data\<rparr>]"
    and others: "map_of (hs_systems t) i = (if i = sy_id s then Some k else map_of (hs_systems st) i)"
    and lists: "hs_updaters t = k # hs_updaters st" "hs_updating t = hs_updating st" for i
    using True by (simp_all add: t_def k_def add_system_def Let_def store_laws)
  have known: "i < length (hs_objects t) \<and> sy_id (hs_objects t ! i) = j" if "map_of (hs_systems t) j = Some i" for i j
    using that inv unfolding objects others
    by (cases "j = sy_id s") (auto simp: k_def nth_append store_inv_def less_SucI)
  have live: "map_of (hs_systems t) (sy_id (hs_objects t ! i)) = Some i"
    if "i < length (hs_objects t)" "\<not> sy_cancelled (hs_objects t ! i)" for i
  proof (cases "i = k")
    case False
    then have "i < length (hs_objects st)" using that(1) by (simp add: objects k_def)
    moreover from this have "map_of (hs_systems st) (sy_id (hs_objects st ! i)) = Some i"
      using that(2) inv by (simp add: objects nth_append store_inv_def)
    ultimately show ?thesis using True by (auto simp: objects others nth_append)
  qed (simp add: objects others k_def)
  have "\<forall>k \<in> set (hs_updaters st). k < length (hs_objects st)" "\<forall>(k, w) \<in> set (hs_updating st). k < length (hs_objects st)"
    using inv unfolding store_inv_def by blast+
  then have "\<forall>k \<in> set (hs_updaters t). k < length (hs_objects t)" "\<forall>(k, w) \<in> set (hs_updating t). k < length (hs_objects t)"
    by (auto simp: lists objects k_def)
  then have "store_inv t" using known live by (simp add: store_inv_def)
  then show ?thesis by (simp add: t_def)
qed (use inv in \<open>auto simp: add_system_def\<close>)

lemma add_record_store: "store_inv st \<Longrightarrow> store_inv (snd (add_record row s st))"
  by (simp add: add_record_def Let_def add_store remove_store)


lemma store_updating:
  "store_inv st \<Longrightarrow> k < length (hs_objects st) \<Longrightarrow> store_inv (st\<lparr>hs_updating := (k, w) # hs_updating st\<rparr>)"
  by (simp add: store_inv_def)

lemma store_updated: "store_inv st \<Longrightarrow> store_inv (st\<lparr>hs_updating := remove1 x (hs_updating st)\<rparr>)"
  by (auto simp: store_inv_def dest: notin_set_remove1 [THEN contrapos_nn])

lemma set_object_fields [simp]:
  "hs_systems (set_object k f st) = hs_systems st" "hs_rows (set_object k f st) = hs_rows st"
  "hs_alerts (set_object k f st) = hs_alerts st" "hs_updaters (set_object k f st) = hs_updaters st"
  "hs_updating (set_object k f st) = hs_updating st"
  "length (hs_objects (set_object k f st)) = length (hs_objects st)"
  by (simp_all add: set_object_def)

lemma update_alerts_fields [simp]:
  "hs_systems (update_alerts f st) = hs_systems st" "hs_rows (update_alerts f st) = hs_rows st"
  "hs_alerts (update_alerts f st) = f (hs_alerts st)" "hs_updaters (update_alerts f st) = hs_updaters st"
  "hs_objects (update_alerts f st) = hs_objects st" "hs_updating (update_alerts f st) = hs_updating st"
  by (simp_all add: update_alerts_def)

lemma found_object: "store_inv st \<Longrightarrow> map_of (hs_systems st) i = Some k \<Longrightarrow> k < length (hs_objects st)"
  by (simp add: store_inv_def)

lemma store_if: "store_inv a \<Longrightarrow> store_inv b \<Longrightarrow> store_inv (if c then a else b)"
  by simp

lemma after_update_store:
  assumes inv: "store_inv st"
  shows "store_inv (on_record_after_update_success env row st)"
proof (cases "map_of (hs_systems st) (row_id row)")
  case None
  then show ?thesis using inv by (simp add: on_record_after_update_success_def Let_def add_record_store)
next
  case (Some k)
  define t where "t = set_object k (\<lambda>s. s\<lparr>sy_status := row_status row\<rparr>) st"
  have "store_inv t" "k < length (hs_objects t)"
    using inv found_object [OF inv Some] by (auto simp: t_def intro: set_object_store)
  then show ?thesis
    unfolding on_record_after_update_success_def Let_def Some option.case t_def [symmetric]
    by (intro store_if) (simp_all add: add_record_store store_updating)
qed

lemma save_row_store: "store_inv st \<Longrightarrow> store_inv (snd (save_row env row st))"
  by (simp add: save_row_def Let_def after_update_store)

lemma get_record_store: "store_inv st \<Longrightarrow> store_inv (snd (get_record env k st))"
  by (simp add: get_record_def Let_def remove_store split: option.split)

lemma set_down_store: "store_inv st \<Longrightarrow> store_inv (snd (set_down env k st))"
  using get_record_store [of st env k]
  by (simp add: set_down_def Let_def split: prod.split option.split) (auto intro: save_row_store)

lemma begin_update_store: "store_inv st \<Longrightarrow> k < length (hs_objects st) \<Longrightarrow> store_inv (begin_update ping_ok k st)"
  by (simp add: begin_update_def handle_paused_def Let_def remove_store store_updating split: option.split)

lemma fetch_data_store: "store_inv st \<Longrightarrow> store_inv (snd (fetch_data answer k st))"
  by (simp add: fetch_data_def Let_def set_object_store split: option.split)

lemma create_records_store: "store_inv st \<Longrightarrow> store_inv (snd (create_records env tx_ok data k st))"
  using get_record_store [of st env k]
  by (simp add: create_records_def split: prod.split option.split) (auto intro: save_row_store)

lemma finish_update_store:
  assumes "store_inv st"
  shows "store_inv (snd (finish_update env o64 answer tx_ok k st))"
proof (cases "fetch_data answer k st")
  case (Pair d st1)
  then have st1: "store_inv st1" using assms fetch_data_store [of st answer k] by simp
  define data where "data = migrate_deprecated_fields o64 (\<not> sy_details_fetched (hs_objects st1 ! k)) (the d)"
  obtain ok st3 where c: "create_records env tx_ok data k (set_object k (\<lambda>s. s\<lparr>sy_data := data\<rparr>) st1) = (ok, st3)"
    by (rule prod.exhaust)
  then have "store_inv st3"
    using create_records_store [of "set_object k (\<lambda>s. s\<lparr>sy_data := data\<rparr>) st1" env tx_ok data k] st1
    by (simp add: set_object_store)
  then show ?thesis
    using st1 c Pair by (cases d) (simp_all add: finish_update_def Let_def data_def set_object_store)
qed

lemma updater_finish_store:
  assumes "store_inv st"
  shows "store_inv (updater_finish env down_env o64 answer tx_ok k waits st)"
  using finish_update_store [OF store_updated, OF assms, of env o64 answer tx_ok k "(k, waits)"] assms
  by (auto simp: updater_finish_def set_down_store split: prod.split)

lemma known_updater: "store_inv st \<Longrightarrow> k \<in> set (hs_updaters st) \<Longrightarrow> k < length (hs_objects st)"
  by (simp add: store_inv_def)

lemma updater_stop_store: "store_inv st \<Longrightarrow> store_inv (updater_stop k st)"
  by (auto simp: updater_stop_def store_inv_def)

lemma hub_step_store: "store_inv st \<Longrightarrow> store_inv (hub_step st e)"
proof (induction st e rule: hub_step.induct)
  case (3 st env k) then show ?case
    by (simp add: updater_down_def set_down_store set_object_store)
next
  case (9 st env i w) then show ?case
    by (simp add: add_websocket_system_def Let_def add_record_store split: option.split prod.split)
       (metis add_record_store snd_conv)
qed (simp_all add: updater_start_def updater_tick_def updater_finish_store save_row_store create_row_def
       Let_def add_record_store delete_row_def remove_store begin_update_store known_updater updater_stop_store
     split: status_event.split)


section \<open>The alerts of the hub\<close>

lemma deactivate_rows_inv:
  assumes "status_inv am" and "distinct (map rec_id rs)" and "\<forall>r \<in> set rs. am_db am (rec_id r) = Some r"
  shows "status_inv (snd (deactivate_rows env rs am))"
  using assms
proof (induction env rs am rule: deactivate_rows.induct)
  case (2 env r rs am)
  let ?am = "db_event (RowUpdated (r\<lparr>rec_triggered := False\<rparr>)) am"
  have "status_inv ?am" using 2 by (intro status_inv_row) auto
  moreover have "\<forall>r' \<in> set rs. am_db ?am (rec_id r') = Some r'" using 2 by (auto simp: image_iff)
  ultimately show ?case using 2 by simp
qed simp

lemma deactivate_alerts_inv:
  "status_inv (hs_alerts st) \<Longrightarrow> hub_env_ok i env st \<Longrightarrow> status_inv (snd (deactivate_alerts env (hs_alerts st)))"
  by (auto simp: deactivate_alerts_def hub_env_ok_def intro: deactivate_rows_inv split: option.splits)

lemma remove_system_fields [simp]:
  "hs_alerts (snd (remove_system i st)) = hs_alerts st" "hs_rows (snd (remove_system i st)) = hs_rows st"
  by (simp_all add: remove_system_def split: option.split)

lemma add_record_fields [simp]:
  "hs_alerts (snd (add_record row s st)) = hs_alerts st" "hs_rows (snd (add_record row s st)) = hs_rows st"
  by (simp_all add: add_record_def add_system_def Let_def)

lemma after_update_rows [simp]: "hs_rows (on_record_after_update_success env row st) = hs_rows st"
  by (simp add: on_record_after_update_success_def Let_def split: option.split)

text \<open>The alerts of a system are handled once or twice in one save; the second time they are cached,
  or the table has not changed.\<close>

definition handle_alerts ::
  "hub_env \<Rightarrow> system_row \<Rightarrow> combined_data \<Rightarrow> string \<Rightarrow> alert_manager \<Rightarrow> alert_manager" where
  "handle_alerts env row data prevStatus am =
     (let i = row_id row; newStatus = row_status row;
          am1 = (if newStatus = up
                 then snd (am_handle_system_alerts (he_env env) (he_query env) i (row_name row) (row_updated row) data am)
                 else am)
      in if (newStatus = down \<and> prevStatus = up) \<or> (newStatus = up \<and> prevStatus = down)
         then handle_status_alerts (he_status_env env) newStatus i (row_name row) am1 else am1)"

lemma handle_alerts_inv:
  assumes i: "status_inv (hs_alerts st)" and ok: "hub_env_ok (row_id row) env st"
  shows "status_inv (handle_alerts env row data prevStatus (hs_alerts st))"
proof -
  define am where "am = (if row_status row = up
    then snd (am_handle_system_alerts (he_env env) (he_query env) (row_id row) (row_name row) (row_updated row) data
      (hs_alerts st)) else hs_alerts st)"
  have sys: "row_id row \<noteq> ''''" and first: "answer_ok (am_db (hs_alerts st)) (row_id row) (alerts_answer (he_env env))"
    and second: "answer_ok (am_db (hs_alerts st)) (row_id row) (alerts_answer (he_status_env env))"
    using ok by (simp_all add: hub_env_ok_def)
  have "status_inv am" using i system_alerts_status_inv [OF i first sys] by (simp add: am_def)
  moreover have "map_of (c_store (am_cache am)) (row_id row) \<noteq> None
      \<or> answer_ok (am_db am) (row_id row) (alerts_answer (he_status_env env))"
    using second system_alerts_cached [of "he_env env" "he_query env" "row_id row" "row_name row" "row_updated row" data "hs_alerts st"]
    by (auto simp: am_def)
  ultimately show ?thesis
    by (simp add: handle_alerts_def Let_def am_def [symmetric] status_inv_status_change sys)
qed



lemma alerts_if: "status_inv (hs_alerts a) \<Longrightarrow> status_inv (hs_alerts b) \<Longrightarrow> status_inv (hs_alerts (if c then a else b))"
  by simp

lemma after_update_inv:
  assumes i: "status_inv (hs_alerts st)" and ok: "hub_env_ok (row_id row) env st"
  shows "status_inv (hs_alerts (on_record_after_update_success env row st))"
proof (cases "map_of (hs_systems st) (row_id row)")
  case None
  then show ?thesis
    using i deactivate_alerts_inv [OF i ok]
    by (simp add: on_record_after_update_success_def Let_def status_inv_cancel_system)
next
  case (Some k)
  define t where "t = set_object k (\<lambda>s. s\<lparr>sy_status := row_status row\<rparr>) st"
  have t: "hs_alerts t = hs_alerts st" by (simp add: t_def)
  note h = handle_alerts_inv [OF i ok, of "sy_data (hs_objects t ! k)" "sy_status (hs_objects st ! k)"]
  show ?thesis
    unfolding on_record_after_update_success_def Let_def Some option.case t_def [symmetric]
    by (rule alerts_if [OF _ alerts_if])
       (use h in \<open>simp_all add: t deactivate_alerts_inv [OF i ok] status_inv_cancel_system i handle_alerts_def Let_def
         if_distrib [where f = hs_alerts] cong: if_cong\<close>)
qed

lemma hub_env_ok_alerts: "hs_alerts st' = hs_alerts st \<Longrightarrow> hub_env_ok i env st' = hub_env_ok i env st"
  by (simp add: hub_env_ok_def cong: option.case_cong)

lemma hub_env_ok_rows [simp]: "hub_env_ok i env (st\<lparr>hs_rows := rows\<rparr>) = hub_env_ok i env st"
  by (rule hub_env_ok_alerts) simp

lemma on_record_update_id [simp]:
  "row_id (on_record_update row) = row_id row" "row_status (on_record_update row) = row_status row"
  by (simp_all add: on_record_update_def)

lemma save_row_inv:
  assumes "status_inv (hs_alerts st)" and "hub_env_ok (row_id row) env st"
  shows "status_inv (hs_alerts (snd (save_row env row st)))"
proof (cases "he_save_ok env")
  case True
  let ?row = "on_record_update row\<lparr>row_updated := am_now (hs_alerts st)\<rparr>"
  have "status_inv (hs_alerts (on_record_after_update_success env ?row (st\<lparr>hs_rows := (hs_rows st)(row_id ?row \<mapsto> ?row)\<rparr>)))"
    using assms by (intro after_update_inv) simp_all
  then show ?thesis using True by (simp add: save_row_def Let_def)
qed (use assms in \<open>simp add: save_row_def\<close>)


lemma get_record_row:
  "get_record env k st = (r, st') \<Longrightarrow> hs_alerts st' = hs_alerts st \<and> hs_rows st' = hs_rows st \<and>
     (\<forall>row. r = Some row \<longrightarrow> st' = st \<and> hs_rows st (sy_id (hs_objects st ! k)) = Some row)"
  by (auto simp: get_record_def Let_def split: option.splits if_splits)

text \<open>The table of systems keeps each row under its own id.\<close>

definition rows_keyed :: "hub_state \<Rightarrow> bool" where
  "rows_keyed st \<longleftrightarrow> (\<forall>i row. hs_rows st i = Some row \<longrightarrow> row_id row = i)"

lemma set_down_inv:
  assumes "status_inv (hs_alerts st)" and "rows_keyed st" and "hub_env_ok (sy_id (hs_objects st ! k)) env st"
  shows "status_inv (hs_alerts (snd (set_down env k st)))"
proof (cases "get_record env k st")
  case (Pair r st1)
  note g = get_record_row [OF Pair]
  show ?thesis
  proof (cases r)
    case (Some row)
    then have "row_id row = sy_id (hs_objects st ! k)" "st1 = st" using g assms(2) by (auto simp: rows_keyed_def)
    then have "status_inv (hs_alerts (snd (save_row env (row\<lparr>row_status := down\<rparr>) st1)))"
      using assms by (intro save_row_inv) simp_all
    then show ?thesis using assms Pair Some by (simp add: set_down_def Let_def)
  qed (use g assms Pair in \<open>simp add: set_down_def Let_def\<close>)
qed

lemma create_records_inv:
  assumes "status_inv (hs_alerts st)" and "rows_keyed st" and "hub_env_ok (sy_id (hs_objects st ! k)) env st"
  shows "status_inv (hs_alerts (snd (create_records env tx_ok data k st)))"
proof (cases "get_record env k st")
  case (Pair r st1)
  note g = get_record_row [OF Pair]
  show ?thesis
  proof (cases r)
    case (Some row)
    then have "row_id row = sy_id (hs_objects st ! k)" "st1 = st" using g assms(2) by (auto simp: rows_keyed_def)
    then have "status_inv (hs_alerts (snd (save_row env (row\<lparr>row_status := up, row_info := cd_info data\<rparr>) st1)))"
      using assms by (intro save_row_inv) simp_all
    then show ?thesis using assms Pair Some g by (simp add: create_records_def)
  qed (use g assms Pair in \<open>simp add: create_records_def\<close>)
qed

lemma fetch_data_alerts: "hs_alerts (snd (fetch_data answer k st)) = hs_alerts st \<and> hs_rows (snd (fetch_data answer k st)) = hs_rows st
    \<and> sy_id (hs_objects (snd (fetch_data answer k st)) ! k) = sy_id (hs_objects st ! k)"
  by (cases "k < length (hs_objects st)")
     (auto simp: fetch_data_def Let_def set_object_def list_update_beyond split: option.split)


lemma set_object_nth:
  "hs_objects (set_object k f st) ! j =
     (if j = k \<and> k < length (hs_objects st) then f (hs_objects st ! k) else hs_objects st ! j)"
  by (cases "k < length (hs_objects st)") (auto simp: set_object_def nth_list_update list_update_beyond)

lemma remove_system_id: "sy_id (hs_objects (snd (remove_system i st)) ! k) = sy_id (hs_objects st ! k)"
  by (auto simp: remove_system_def set_object_nth split: option.split)

lemma get_record_id: "get_record env k st = (r, st') \<Longrightarrow> sy_id (hs_objects st' ! j) = sy_id (hs_objects st ! j)"
  by (auto simp: get_record_def Let_def remove_system_id split: option.splits if_splits
      dest!: arg_cong [where f = snd])

lemma save_row_failed: "save_row env row st = (False, st') \<Longrightarrow> st' = st"
  by (auto simp: save_row_def Let_def split: if_splits)

lemma create_records_failed:
  assumes "create_records env tx_ok data k st = (False, st')"
  shows "hs_alerts st' = hs_alerts st \<and> hs_rows st' = hs_rows st \<and> sy_id (hs_objects st' ! j) = sy_id (hs_objects st ! j)"
proof (cases "get_record env k st")
  case (Pair r st1)
  note g = get_record_row [OF Pair] get_record_id [OF Pair, of j]
  show ?thesis
    using assms g Pair save_row_failed [of env _ st1 st']
    by (auto simp: create_records_def split: option.splits if_splits)
qed

definition same_outside :: "nat \<Rightarrow> hub_state \<Rightarrow> hub_state \<Rightarrow> bool" where
  "same_outside k st st' \<longleftrightarrow>
     hs_alerts st' = hs_alerts st \<and> hs_rows st' = hs_rows st \<and> sy_id (hs_objects st' ! k) = sy_id (hs_objects st ! k)"

lemma same_outside_object [simp]:
  "(\<And>s. sy_id (f s) = sy_id s) \<Longrightarrow> same_outside k st (set_object j f st') = same_outside k st st'"
  by (auto simp: same_outside_def set_object_nth)

lemma finish_update_alerts:
  assumes i: "status_inv (hs_alerts st)" and r: "rows_keyed st" and ok: "hub_env_ok (sy_id (hs_objects st ! k)) env st"
    and f: "finish_update env o64 answer tx_ok k st = (done_ok, st')"
  shows "status_inv (hs_alerts st') \<and> (\<not> done_ok \<longrightarrow> same_outside k st st')"
proof (cases "fetch_data answer k st")
  case (Pair d st1)
  then have st1: "same_outside k st st1" using fetch_data_alerts [of answer k st] by (simp add: same_outside_def)
  show ?thesis
  proof (cases d)
    case None
    then show ?thesis using f Pair st1 i by (simp add: finish_update_def same_outside_def)
  next
    case (Some dat)
    define data where "data = migrate_deprecated_fields o64 (\<not> sy_details_fetched (hs_objects st1 ! k)) dat"
    define st2 where "st2 = set_object k (\<lambda>s. s\<lparr>sy_data := data\<rparr>) st1"
    have s2: "same_outside k st st2" using st1 by (simp add: st2_def)
    then have "hub_env_ok (sy_id (hs_objects st2 ! k)) env st2" "rows_keyed st2" "status_inv (hs_alerts st2)"
      using i r ok hub_env_ok_alerts [of st2 st] by (simp_all add: same_outside_def rows_keyed_def)
    then have inv: "status_inv (hs_alerts (snd (create_records env tx_ok data k st2)))"
      using create_records_inv by blast
    obtain c st3 where c: "create_records env tx_ok data k st2 = (c, st3)" by (rule prod.exhaust)
    have st': "done_ok = c" "st' = (if c \<and> cd_details data \<noteq> None
        then set_object k (\<lambda>s. s\<lparr>sy_details_fetched := True\<rparr>) st3 else st3)"
      using f Pair Some c by (auto simp: finish_update_def Let_def data_def st2_def split: if_splits)
    have "same_outside k st st3" if "\<not> c"
      using create_records_failed [of env tx_ok data k st2 st3 k] c that s2 by (simp add: same_outside_def)
    then show ?thesis using inv c by (simp add: st')
  qed
qed


lemma updater_finish_inv:
  assumes i: "status_inv (hs_alerts st)" and r: "rows_keyed st"
    and ok: "hub_env_ok (sy_id (hs_objects st ! k)) env st" "hub_env_ok (sy_id (hs_objects st ! k)) down_env st"
  shows "status_inv (hs_alerts (updater_finish env down_env o64 answer tx_ok k waits st))"
proof -
  let ?st = "st\<lparr>hs_updating := remove1 (k, waits) (hs_updating st)\<rparr>"
  obtain c st1 where f: "finish_update env o64 answer tx_ok k ?st = (c, st1)" by (rule prod.exhaust)
  have "status_inv (hs_alerts st1) \<and> (\<not> c \<longrightarrow> same_outside k ?st st1)"
    by (rule finish_update_alerts [OF _ _ _ f]) (use i r ok(1) hub_env_ok_alerts [of ?st st] in \<open>simp_all add: rows_keyed_def\<close>)
  moreover have "status_inv (hs_alerts (snd (set_down down_env k st1)))" if "same_outside k ?st st1"
  proof (rule set_down_inv)
    show "status_inv (hs_alerts st1)" "rows_keyed st1" using i r that by (simp_all add: same_outside_def rows_keyed_def)
    show "hub_env_ok (sy_id (hs_objects st1 ! k)) down_env st1"
      using ok(2) that hub_env_ok_alerts [of st1 st] by (simp add: same_outside_def)
  qed
  ultimately show ?thesis using i f by (auto simp: updater_finish_def)
qed

text \<open>The rows, and that every watched system has one.\<close>

definition rows_inv :: "hub_state \<Rightarrow> bool" where
  "rows_inv st \<longleftrightarrow>
     (\<forall>i row. hs_rows st i = Some row \<longrightarrow>
        row_id row = i \<and> (row_status row = paused \<longrightarrow> row_info row = zero_info)) \<and>
     (\<forall>i. map_of (hs_systems st) i \<noteq> None \<longrightarrow> hs_rows st i \<noteq> None)"

lemma rows_inv_keyed: "rows_inv st \<Longrightarrow> rows_keyed st"
  by (simp add: rows_inv_def rows_keyed_def)

text \<open>What the other operations do to the store: they add no id.\<close>

definition fewer_systems :: "hub_state \<Rightarrow> hub_state \<Rightarrow> bool" where
  "fewer_systems st st' \<longleftrightarrow> hs_rows st' = hs_rows st \<and>
     (\<forall>i. map_of (hs_systems st') i \<noteq> None \<longrightarrow> map_of (hs_systems st) i \<noteq> None)"

lemma rows_inv_fewer: "rows_inv st \<Longrightarrow> fewer_systems st st' \<Longrightarrow> rows_inv st'"
  by (auto simp: rows_inv_def fewer_systems_def)

lemma fewer_refl [simp]: "fewer_systems st st"
  by (simp add: fewer_systems_def)

lemma fewer_remove: "fewer_systems st (snd (remove_system i st))"
  by (simp add: fewer_systems_def remove_system_def store_laws split: option.split)

lemma fewer_object [simp]: "fewer_systems st (set_object k f st') = fewer_systems st st'"
  "fewer_systems st (update_alerts g st') = fewer_systems st st'"
  "fewer_systems st (st'\<lparr>hs_updating := u\<rparr>) = fewer_systems st st'"
  "fewer_systems st (st'\<lparr>hs_alerts := am\<rparr>) = fewer_systems st st'"
  by (simp_all add: fewer_systems_def)

lemma added_systems:
  "map_of (hs_systems (snd (add_record row s st))) i \<noteq> None \<Longrightarrow>
   (\<forall>x. s = Some x \<longrightarrow> sy_id x = row_id row) \<Longrightarrow> map_of (hs_systems st) i \<noteq> None \<or> i = row_id row"
  by (cases s)
     (auto simp: add_record_def add_system_def Let_def new_system_def remove_system_def store_laws
       split: if_splits option.splits)


lemma add_record_rows:
  assumes "rows_inv st" and "hs_rows st (row_id row) \<noteq> None" and "\<forall>x. s = Some x \<longrightarrow> sy_id x = row_id row"
  shows "rows_inv (snd (add_record row s st))"
proof -
  have "hs_rows st i \<noteq> None" if "map_of (hs_systems (snd (add_record row s st))) i \<noteq> None" for i
    using added_systems [OF that assms(3)] assms(1,2) by (auto simp: rows_inv_def)
  then show ?thesis using assms(1) by (simp add: rows_inv_def)
qed

lemma rows_if: "rows_inv a \<Longrightarrow> rows_inv b \<Longrightarrow> rows_inv (if c then a else b)"
  by simp

lemma rows_inv_alerts [simp]: "rows_inv (update_alerts f st) = rows_inv st" "rows_inv (set_object k g st) = rows_inv st"
  "rows_inv (st\<lparr>hs_updating := u\<rparr>) = rows_inv st" "rows_inv (st\<lparr>hs_updaters := us\<rparr>) = rows_inv st" "rows_inv (st\<lparr>hs_alerts := am\<rparr>) = rows_inv st"
  by (simp_all add: rows_inv_def)

lemma after_update_rows_inv:
  assumes "rows_inv st" and "hs_rows st (row_id row) \<noteq> None"
  shows "rows_inv (on_record_after_update_success env row st)"
proof (cases "map_of (hs_systems st) (row_id row)")
  case None
  then show ?thesis using assms by (simp add: on_record_after_update_success_def Let_def add_record_rows)
next
  case (Some k)
  define t where "t = set_object k (\<lambda>s. s\<lparr>sy_status := row_status row\<rparr>) st"
  have "rows_inv t" "hs_rows t (row_id row) \<noteq> None" using assms by (simp_all add: t_def)
  then show ?thesis
    unfolding on_record_after_update_success_def Let_def Some option.case t_def [symmetric]
    by (intro rows_if) (simp_all add: add_record_rows)
qed

lemma save_row_rows:
  assumes "rows_inv st"
  shows "rows_inv (snd (save_row env row st))"
proof -
  let ?row = "on_record_update row\<lparr>row_updated := am_now (hs_alerts st)\<rparr>"
  have "rows_inv (st\<lparr>hs_rows := (hs_rows st)(row_id ?row \<mapsto> ?row)\<rparr>)"
    using assms by (auto simp: rows_inv_def on_record_update_def)
  then have "rows_inv (on_record_after_update_success env ?row (st\<lparr>hs_rows := (hs_rows st)(row_id ?row \<mapsto> ?row)\<rparr>))"
    by (rule after_update_rows_inv) simp
  then show ?thesis using assms by (simp add: save_row_def Let_def)
qed

lemma get_record_rows: "rows_inv st \<Longrightarrow> get_record env k st = (r, st') \<Longrightarrow> rows_inv st'"
  by (auto simp: get_record_def Let_def split: option.splits if_splits
      intro: rows_inv_fewer [OF _ fewer_remove])

lemma set_down_rows: "rows_inv st \<Longrightarrow> rows_inv (snd (set_down env k st))"
  using get_record_rows [of st env k]
  by (auto simp: set_down_def Let_def intro: save_row_rows split: prod.split option.split)

lemma create_records_rows: "rows_inv st \<Longrightarrow> rows_inv (snd (create_records env tx_ok data k st))"
  using get_record_rows [of st env k]
  by (auto simp: create_records_def intro: save_row_rows split: prod.split option.split)

lemma begin_update_rows: "rows_inv st \<Longrightarrow> rows_inv (begin_update ping_ok k st)"
  by (simp add: begin_update_def handle_paused_def Let_def rows_inv_fewer [OF _ fewer_remove] split: option.split)

lemma fetch_data_rows: "rows_inv st \<Longrightarrow> rows_inv (snd (fetch_data answer k st))"
  by (simp add: fetch_data_def Let_def split: option.split)

lemma finish_update_rows: "rows_inv st \<Longrightarrow> finish_update env o64 answer tx_ok k st = (c, st') \<Longrightarrow> rows_inv st'"
proof (cases "fetch_data answer k st")
  case (Pair d st1)
  assume "rows_inv st" and f: "finish_update env o64 answer tx_ok k st = (c, st')"
  then have st1: "rows_inv st1" using fetch_data_rows [of st answer k] Pair by simp
  then have "rows_inv x" if "create_records env tx_ok data k (set_object k (\<lambda>s. s\<lparr>sy_data := data\<rparr>) st1) = (b, x)" for data b x
    using create_records_rows [of "set_object k (\<lambda>s. s\<lparr>sy_data := data\<rparr>) st1" env tx_ok data k] that by simp
  then show ?thesis using f Pair st1
    by (cases d) (auto simp: finish_update_def Let_def split: prod.splits if_splits)
qed


lemma updater_finish_rows: "rows_inv st \<Longrightarrow> rows_inv (updater_finish env down_env o64 answer tx_ok k waits st)"
  using finish_update_rows [of "st\<lparr>hs_updating := remove1 (k, waits) (hs_updating st)\<rparr>" env o64 answer tx_ok k]
  by (auto simp: updater_finish_def intro: set_down_rows split: prod.split)

lemma add_websocket_rows: "rows_inv st \<Longrightarrow> rows_inv (snd (add_websocket_system env i w st))"
proof (cases "if he_find_ok env then hs_rows st i else None")
  case (Some row)
  assume inv: "rows_inv st"
  then have "row_id row = i" "hs_rows st (row_id row) \<noteq> None"
    using Some by (auto simp: rows_inv_def split: if_splits)
  then have "rows_inv (snd (add_record row (Some ((new_system i)\<lparr>sy_ws := Some w\<rparr>)) st))"
    using inv by (intro add_record_rows) (simp_all add: new_system_def)
  then show ?thesis using Some by (auto simp: add_websocket_system_def split: prod.split)
qed (simp add: add_websocket_system_def)

lemma create_row_rows: "rows_inv st \<Longrightarrow> rows_inv (create_row env row st)"
proof (cases "he_save_ok env")
  case True
  assume "rows_inv st"
  then have "rows_inv (st\<lparr>hs_rows := (hs_rows st)(row_id row \<mapsto> on_record_create row)\<rparr>)"
    by (auto simp: rows_inv_def on_record_create_def)
  then have "rows_inv (snd (add_record (on_record_create row) None
      (st\<lparr>hs_rows := (hs_rows st)(row_id row \<mapsto> on_record_create row)\<rparr>)))"
    by (rule add_record_rows) (simp_all add: on_record_create_def)
  then show ?thesis using True by (simp add: create_row_def Let_def on_record_create_def)
qed (simp add: create_row_def)

lemma delete_row_rows: "rows_inv st \<Longrightarrow> rows_inv (delete_row i st)"
  by (auto simp: delete_row_def rows_inv_def remove_system_def store_laws split: option.splits)

lemma hub_step_rows: "rows_inv st \<Longrightarrow> rows_inv (hub_step st e)"
proof (cases e)
  case (AlertEvent x)
  then show "rows_inv st \<Longrightarrow> ?thesis" by (cases x) simp_all
qed (simp_all add: updater_start_def updater_tick_def updater_down_def updater_stop_def begin_update_rows set_down_rows
    updater_finish_rows save_row_rows create_row_rows delete_row_rows add_websocket_rows)


lemma hub_env_ok_ws [simp]: "hub_env_ok i env (set_object k f st) = hub_env_ok i env st"
  by (rule hub_env_ok_alerts) simp

definition hub_inv :: "hub_state \<Rightarrow> bool" where
  "hub_inv st \<longleftrightarrow> store_inv st \<and> rows_inv st \<and> status_inv (hs_alerts st)"

lemma begin_update_alerts [simp]: "hs_alerts (begin_update ping_ok k st) = hs_alerts st"
  by (simp add: begin_update_def handle_paused_def Let_def split: option.split)

lemma hub_step_alerts:
  assumes "status_inv (hs_alerts st)" and "rows_inv st"
  shows "status_inv (hs_alerts (hub_step st e))"
proof (cases e)
  case (UpdaterDown env k)
  have "sy_id (hs_objects (set_object k (\<lambda>s. s\<lparr>sy_ws := None\<rparr>) st) ! k) = sy_id (hs_objects st ! k)"
    by (simp add: set_object_nth)
  then show ?thesis
    using set_down_inv [of "set_object k (\<lambda>s. s\<lparr>sy_ws := None\<rparr>) st" k env] assms UpdaterDown
    by (simp add: updater_down_def rows_inv_keyed)
next
  case (AlertEvent x)
  then show ?thesis using assms status.inv_step [of "hs_alerts st" x] by (cases x) simp_all
next
  case (AgentConnect env i w)
  then show ?thesis using assms by (auto simp: add_websocket_system_def split: option.split prod.split)
      (metis add_record_fields(1) snd_conv)
qed (use assms in \<open>simp_all add: updater_start_def updater_tick_def updater_stop_def updater_finish_inv rows_inv_keyed save_row_inv
       create_row_def delete_row_def Let_def\<close>)

definition fresh_hub :: "hub_state \<Rightarrow> bool" where
  "fresh_hub st \<longleftrightarrow> (\<exists>am. fresh_start am \<and> st = hub_start am)"

interpretation hub: machine fresh_hub hub_step hub_inv
proof
  show "hub_inv st" if "fresh_hub st" for st
    using that status.inv_start
    by (auto simp: fresh_hub_def hub_start_def hub_inv_def store_inv_def rows_inv_def)
  show "hub_inv (hub_step st e)" if "hub_inv st" for st e
    using that by (simp add: hub_inv_def hub_step_store hub_step_rows hub_step_alerts)
qed

section \<open>Properties\<close>



text \<open>In every reachable state of the hub, the record of a paused system shows no stale information.\<close>

lemma paused_record_is_cleared:
  assumes "fresh_hub st" and "hs_rows (foldl hub_step st es) i = Some row" and "row_status row = paused"
  shows "row_id row = i \<and> row_info row = zero_info"
  using hub.inv_reachable [OF assms(1), of es] assms(2,3) by (auto simp: hub_inv_def rows_inv_def)


section \<open>A pause that is lost\<close>

lemma save_row_status:
  assumes "he_save_ok env"
  shows "map_option row_status (hs_rows (snd (save_row env row st)) (row_id row)) = Some (row_status row)"
  using assms by (simp add: save_row_def Let_def)

lemma pause_keeps_object:
  assumes "map_of (hs_systems st) i = Some k" and "row_id row = i" and "row_status row = paused"
  shows "let st' = snd (save_row env row st)
         in hs_updating st' = hs_updating st \<and> sy_ws (hs_objects st' ! k) = sy_ws (hs_objects st ! k)
            \<and> sy_id (hs_objects st' ! k) = sy_id (hs_objects st ! k)
            \<and> sy_details_fetched (hs_objects st' ! k) = sy_details_fetched (hs_objects st ! k)"
  using assms by (simp add: save_row_def Let_def on_record_after_update_success_def set_object_nth)

lemma create_records_up:
  assumes "hs_rows st (sy_id (hs_objects st ! k)) = Some row" and "row_id row = sy_id (hs_objects st ! k)"
    and "he_find_ok env" and "he_save_ok env"
  shows "fst (create_records env True data k st) \<and>
    map_option row_status (hs_rows (snd (create_records env True data k st)) (row_id row)) = Some up"
proof -
  have "get_record env k st = (Some row, st)" using assms by (simp add: get_record_def)
  then have c: "create_records env True data k st = save_row env (row\<lparr>row_status := up, row_info := cd_info data\<rparr>) st"
    by (simp add: create_records_def)
  then show ?thesis
    using assms save_row_status [of env "row\<lparr>row_status := up, row_info := cd_info data\<rparr>" st]
    by (simp add: save_row_def Let_def)
qed

text \<open>
  C27: a pause that the user makes while an update of the system is in flight is lost: when the
  answer of the agent arrives, its records are written and the status goes back to "up".
\<close>

theorem pause_during_update_is_lost:
  assumes known: "map_of (hs_systems st) i = Some k" "sy_id (hs_objects st ! k) = i"
    and running: "(k, True) \<in> set (hs_updating st)"
    and connected: "sy_ws (hs_objects st ! k) = Some w" "ws_connected w"
    and stored: "hs_rows st i = Some row" "row_id row = i"
    and db: "he_save_ok env" "he_find_ok env'" "he_save_ok env'"
  shows "let st1 = snd (save_row env (row\<lparr>row_status := paused\<rparr>) st);
             st2 = updater_finish env' down_env o64 (Some decode) True k True st1
         in map_option row_status (hs_rows st1 i) = Some paused \<and> map_option row_status (hs_rows st2 i) = Some up"
proof -
  define st1 where "st1 = snd (save_row env (row\<lparr>row_status := paused\<rparr>) st)"
  have p: "map_option row_status (hs_rows st1 i) = Some paused"
    unfolding st1_def using save_row_status [OF db(1), of "row\<lparr>row_status := paused\<rparr>" st] stored(2) by simp
  then obtain row1 where row1: "hs_rows st1 i = Some row1" by auto
  have id1: "row_id row1 = i"
    using row1 stored(2) db(1) unfolding st1_def save_row_def Let_def by auto
  define st3 where "st3 = st1\<lparr>hs_updating := remove1 (k, True) (hs_updating st1)\<rparr>"
  have o: "sy_id (hs_objects st3 ! k) = i" "sy_ws (hs_objects st3 ! k) = Some w" "(k, True) \<in> set (hs_updating st1)"
    using pause_keeps_object [OF known(1), of "row\<lparr>row_status := paused\<rparr>" env] known running connected stored(2)
    by (simp_all add: st1_def st3_def Let_def)
  define d where "d = decode (sy_data (hs_objects st3 ! k))"
  define st4 where "st4 = set_object k (\<lambda>s. s\<lparr>sy_data := d\<rparr>) st3"
  have fd: "fetch_data (Some decode) k st3 = (Some d, st4)"
    using o connected(2) by (simp add: fetch_data_def d_def st4_def Let_def)
  define data where "data = migrate_deprecated_fields o64 (\<not> sy_details_fetched (hs_objects st4 ! k)) d"
  define st5 where "st5 = set_object k (\<lambda>s. s\<lparr>sy_data := data\<rparr>) st4"
  have o5: "sy_id (hs_objects st5 ! k) = i" using o(1) by (simp add: st5_def st4_def set_object_nth)
  have r5: "hs_rows st5 i = Some row1" using row1 by (simp add: st5_def st4_def st3_def)
  obtain c st6 where c: "create_records env' True data k st5 = (c, st6)" by (rule prod.exhaust)
  have "c \<and> map_option row_status (hs_rows st6 i) = Some up"
    using create_records_up [of st5 k row1 env' data] c o5 r5 id1 db(2,3) by simp
  moreover have "finish_update env' o64 (Some decode) True k st3 =
      (c, if c \<and> cd_details data \<noteq> None then set_object k (\<lambda>s. s\<lparr>sy_details_fetched := True\<rparr>) st6 else st6)"
    by (simp add: finish_update_def fd Let_def data_def [symmetric] st5_def [symmetric] c)
  ultimately have "map_option row_status (hs_rows (updater_finish env' down_env o64 (Some decode) True k True st1) i) = Some up"
    using o(3) unfolding updater_finish_def st3_def [symmetric] by auto
  with p show ?thesis unfolding st1_def [symmetric] Let_def by simp
qed


lemma demo_fresh_hub: "fresh_hub (hub_start demo_start)"
  using demo_fresh by (auto simp: fresh_hub_def)

definition demo_system :: system_row where
  "demo_system = \<lparr>row_id = ''s1'', row_name = ''web'', row_host = ''h'', row_port = ''45876'',
     row_status = pending, row_info = zero_info, row_updated = 0\<rparr>"

definition demo_hub_env :: hub_env where
  "demo_hub_env = \<lparr>he_env = demo_env, he_status_env = demo_env, he_triggered = Some [],
     he_query = (\<lambda>_. Some []), he_find_ok = True, he_save_ok = True\<rparr>"



definition paused_demo :: "hub_event list" where
  "paused_demo = [CreateRow demo_hub_env demo_system, SaveRow demo_hub_env (demo_system\<lparr>row_status := paused\<rparr>)]"

lemma demo_env_ok: "hub_env_ok ''s1'' demo_hub_env (hub_start demo_start)"
  using demo_answer by (simp add: hub_env_ok_def demo_hub_env_def hub_start_def demo_start_state)

lemma paused_demo_row:
  "\<exists>row. hs_rows (foldl hub_step (hub_start demo_start) paused_demo) ''s1'' = Some row \<and> row_status row = paused"
proof -
  define st where "st = hub_step (hub_start demo_start) (CreateRow demo_hub_env demo_system)"
  have "hs_rows st ''s1'' \<noteq> None" and a: "hs_alerts st = demo_start"
    by (simp_all add: st_def create_row_def demo_hub_env_def demo_system_def hub_start_def Let_def on_record_create_def)
  moreover have "hub_env_ok ''s1'' demo_hub_env st"
    using demo_env_ok hub_env_ok_alerts [of st "hub_start demo_start"] a by (simp add: hub_start_def)
  ultimately have "hub_step st (SaveRow demo_hub_env (demo_system\<lparr>row_status := paused\<rparr>)) =
      snd (save_row demo_hub_env (demo_system\<lparr>row_status := paused\<rparr>) st)"
    by (simp add: demo_system_def)
  then have e: "foldl hub_step (hub_start demo_start) paused_demo =
      snd (save_row demo_hub_env (demo_system\<lparr>row_status := paused\<rparr>) st)"
    by (simp only: paused_demo_def foldl.simps st_def)
  have "he_save_ok demo_hub_env" "row_id demo_system = ''s1''" by (simp_all add: demo_hub_env_def demo_system_def)
  then show ?thesis
    using save_row_status [of demo_hub_env "demo_system\<lparr>row_status := paused\<rparr>" st] unfolding e by auto
qed

lemma paused_record_is_cleared_demo:
  "\<exists>row. hs_rows (foldl hub_step (hub_start demo_start) paused_demo) ''s1'' = Some row \<and> row_status row = paused \<and>
     row_id row = ''s1'' \<and> row_info row = zero_info"
  using paused_demo_row paused_record_is_cleared [OF demo_fresh_hub] by blast

definition busy_hub :: hub_state where
  "busy_hub = \<lparr>hs_systems = [(''s1'', 0)],
     hs_objects = [(new_system ''s1'')\<lparr>sy_host := ''h'', sy_status := up, sy_ws := Some \<lparr>ws_connected = True, ws_closed = False\<rparr>\<rparr>],
     hs_rows = (\<lambda>_. None)(''s1'' := Some (demo_system\<lparr>row_status := up\<rparr>)),
     hs_alerts = demo_start, hs_updaters = [0], hs_updating = [(0, True)]\<rparr>"

lemma pause_during_update_is_lost_witness:
  "let st1 = snd (save_row demo_hub_env (demo_system\<lparr>row_status := up, row_status := paused\<rparr>) busy_hub);
       st2 = updater_finish demo_hub_env demo_hub_env (\<lambda>_. 0) (Some (\<lambda>d. d)) True 0 True st1
   in map_option row_status (hs_rows st1 ''s1'') = Some paused \<and> map_option row_status (hs_rows st2 ''s1'') = Some up"
  by (rule pause_during_update_is_lost [where w = "\<lparr>ws_connected = True, ws_closed = False\<rparr>" and row = "demo_system\<lparr>row_status := up\<rparr>"])
     (simp_all add: busy_hub_def new_system_def demo_system_def demo_hub_env_def)

end
