(* ===== verification/Realtime.thy ===== *)
theory Realtime
  imports GoStr
begin

text \<open>
  \<^verbatim>\<open>internal/hub/systems/system_realtime.go\<close>: the realtime subscriptions of the browsers and the worker that
  asks the agents once a second. The package variables are the state; each handler is a sequence of
  events on it, one for each key that a client adds or drops. A worker either fetches (\<open>None\<close>) or
  waits in its \<open>select\<close> on the channel the variable \<open>tickerStopChan\<close> held when it began to wait.
\<close>

section \<open>State\<close>

record subscription_info =
  si_subscription :: string
  si_connected_clients :: u8

record rt_state =
  rt_subs :: "((nat \<times> string) \<times> string) list"
  rt_active :: "(string, subscription_info) gomap"
  rt_running :: bool
  rt_stop_chan :: "nat option"
  rt_next_chan :: nat
  rt_workers :: "nat option list"

definition rt_start :: rt_state where
  "rt_start = \<lparr>rt_subs = [], rt_active = [], rt_running = False, rt_stop_chan = None, rt_next_chan = 0,
               rt_workers = []\<rparr>"

definition is_rt :: "string \<Rightarrow> bool" where
  "is_rt k \<longleftrightarrow> prefix ''rt_metrics'' k"

section \<open>Operations\<close>

definition on_realtime_subscription_added :: "rt_state \<Rightarrow> rt_state" where
  "on_realtime_subscription_added st =
     (if rt_running st then st
      else st\<lparr>rt_running := True, rt_stop_chan := Some (rt_next_chan st), rt_next_chan := rt_next_chan st + 1,
              rt_workers := rt_workers st @ [None]\<rparr>)"

definition count_client :: "string \<Rightarrow> string \<Rightarrow> rt_state \<Rightarrow> rt_state" where
  "count_client k sys st =
     (let info = (case map_of (rt_active st) sys of
                    Some info \<Rightarrow> info
                  | None \<Rightarrow> \<lparr>si_subscription = k, si_connected_clients = 0\<rparr>)
      in st\<lparr>rt_active := AList.update sys
             (info\<lparr>si_connected_clients := si_connected_clients info + 1\<rparr>) (rt_active st)\<rparr>)"

text \<open>A send on the stop channel that does not block: one of the workers that wait on it takes it
  (the \<open>r\<close>-th), or none.\<close>

definition waiting_on :: "nat \<Rightarrow> rt_state \<Rightarrow> nat list" where
  "waiting_on c st = filter (\<lambda>i. rt_workers st ! i = Some c) [0..<length (rt_workers st)]"

definition remove_worker :: "nat \<Rightarrow> rt_state \<Rightarrow> rt_state" where
  "remove_worker i st = st\<lparr>rt_workers := take i (rt_workers st) @ drop (Suc i) (rt_workers st)\<rparr>"

definition try_stop :: "nat \<Rightarrow> rt_state \<Rightarrow> rt_state" where
  "try_stop r st =
     (case rt_stop_chan st of
        None \<Rightarrow> st
      | Some c \<Rightarrow>
          let ws = waiting_on c st
          in if ws = [] then st else remove_worker (ws ! (r mod length ws)) st)"

definition check_subscriptions :: "nat \<Rightarrow> rt_state \<Rightarrow> rt_state" where
  "check_subscriptions r st =
     (if \<not> rt_running st \<or> rt_active st \<noteq> [] then st else (try_stop r st)\<lparr>rt_running := False\<rparr>)"

definition remove_realtime_subscription :: "nat \<Rightarrow> string \<Rightarrow> string \<Rightarrow> rt_state \<Rightarrow> rt_state" where
  "remove_realtime_subscription r k sys st =
     (if is_rt k then
        check_subscriptions r
          (case map_of (rt_active st) sys of
             None \<Rightarrow> st
           | Some info \<Rightarrow>
               let n = si_connected_clients info - 1
               in st\<lparr>rt_active := (if n \<le> 0 then AList.delete sys (rt_active st)
                                  else AList.update sys (info\<lparr>si_connected_clients := n\<rparr>) (rt_active st))\<rparr>)
      else st)"

text \<open>The events: a client gains or loses a key, a worker begins to wait, its ticker fires.\<close>

datatype rt_event =
    SubAdd nat string string
  | SubRemove nat nat string
  | WorkerWaits nat
  | WorkerTicks nat

definition worker_waits :: "nat \<Rightarrow> rt_state \<Rightarrow> rt_state" where
  "worker_waits i st =
     (if i < length (rt_workers st) \<and> rt_workers st ! i = None
      then st\<lparr>rt_workers := (rt_workers st)[i := rt_stop_chan st]\<rparr> else st)"

definition worker_ticks :: "nat \<Rightarrow> rt_state \<Rightarrow> rt_state" where
  "worker_ticks i st =
     (if i < length (rt_workers st) \<and> rt_workers st ! i \<noteq> None
      then (if rt_active st = [] then remove_worker i st else st\<lparr>rt_workers := (rt_workers st)[i := None]\<rparr>)
      else st)"

fun rt_step :: "rt_state \<Rightarrow> rt_event \<Rightarrow> rt_state" where
  "rt_step st (SubAdd c k sys) =
     (if map_of (rt_subs st) (c, k) \<noteq> None then st
      else let st1 = st\<lparr>rt_subs := ((c, k), sys) # rt_subs st\<rparr>
           in if is_rt k then on_realtime_subscription_added (count_client k sys st1) else st1)"
| "rt_step st (SubRemove r c k) =
     (case map_of (rt_subs st) (c, k) of
        None \<Rightarrow> st
      | Some sys \<Rightarrow> remove_realtime_subscription r k sys (st\<lparr>rt_subs := AList.delete (c, k) (rt_subs st)\<rparr>))"
| "rt_step st (WorkerWaits i) = worker_waits i st"
| "rt_step st (WorkerTicks i) = worker_ticks i st"

text \<open>The handlers of PocketBase's events, as the events they make.\<close>

definition subs_of :: "nat \<Rightarrow> rt_state \<Rightarrow> (string, string) gomap" where
  "subs_of c st = map (\<lambda>((c, k), sys). (k, sys)) (filter (\<lambda>((c', k), sys). c' = c) (rt_subs st))"

definition on_realtime_connect_request :: "nat \<Rightarrow> nat \<Rightarrow> rt_state \<Rightarrow> rt_state" where
  "on_realtime_connect_request r c st = foldl rt_step st (map (\<lambda>(k, sys). SubRemove r c k) (subs_of c st))"

definition on_realtime_subscribe_request :: "nat \<Rightarrow> nat \<Rightarrow> (string, string) gomap \<Rightarrow> rt_state \<Rightarrow> rt_state" where
  "on_realtime_subscribe_request r c newSubs st =
     (let oldSubs = subs_of c st
      in foldl rt_step st
           (map (\<lambda>(k, sys). SubAdd c k sys) (filter (\<lambda>(k, sys). map_of oldSubs k = None) newSubs) @
            map (\<lambda>(k, sys). SubRemove r c k) (filter (\<lambda>(k, sys). map_of newSubs k = None) oldSubs)))"

text \<open>What a fetch asks for, and the clients an answer is sent to.\<close>

definition fetch_realtime :: "(string \<Rightarrow> 's option) \<Rightarrow> rt_state \<Rightarrow> ('s \<times> string) list" where
  "fetch_realtime get_system st =
     List.map_filter (\<lambda>(sys, info). map_option (\<lambda>s. (s, si_subscription info)) (get_system sys)) (rt_active st)"

definition notify :: "string \<Rightarrow> rt_state \<Rightarrow> nat list" where
  "notify subscription st = remdups (map (\<lambda>((c, k), sys). c) (filter (\<lambda>((c, k), sys). k = subscription) (rt_subs st)))"

section \<open>The worker\<close>

definition worker_inv :: "rt_state \<Rightarrow> bool" where
  "worker_inv st \<longleftrightarrow> (rt_running st \<longleftrightarrow> rt_active st \<noteq> []) \<and> (rt_running st \<longrightarrow> rt_workers st \<noteq> [])
     \<and> (rt_running st \<longrightarrow> rt_stop_chan st \<noteq> None)"

lemma update_nonempty [simp]: "AList.update k v m \<noteq> []"
  by (cases m) (auto split: if_splits)

lemma worker_inv_check: "(rt_running st \<longrightarrow> rt_workers st \<noteq> [] \<and> rt_stop_chan st \<noteq> None) \<Longrightarrow>
    (rt_active st \<noteq> [] \<longrightarrow> rt_running st) \<Longrightarrow> worker_inv (check_subscriptions r st)"
  by (auto simp: check_subscriptions_def worker_inv_def try_stop_def remove_worker_def Let_def split: option.splits)

lemma worker_inv_step: "worker_inv st \<Longrightarrow> worker_inv (rt_step st e)"
proof (cases e)
  case (SubAdd c k sys)
  assume "worker_inv st"
  then show ?thesis using SubAdd
    by (auto simp: worker_inv_def on_realtime_subscription_added_def count_client_def Let_def)
next
  case (SubRemove r c k)
  assume inv: "worker_inv st"
  show ?thesis
  proof (cases "map_of (rt_subs st) (c, k)")
    case (Some sys)
    have "worker_inv (remove_realtime_subscription r k sys (st\<lparr>rt_subs := s\<rparr>))" for s
    proof (cases "is_rt k")
      case True
      have "rt_running st \<longrightarrow> rt_workers st \<noteq> [] \<and> rt_stop_chan st \<noteq> None" "rt_active st \<noteq> [] \<longrightarrow> rt_running st"
        "rt_active st = [] \<longrightarrow> \<not> rt_running st"
        using inv by (auto simp: worker_inv_def)
      then show ?thesis
        unfolding remove_realtime_subscription_def if_P [OF True] Let_def
        by (intro worker_inv_check) (auto split: option.splits)
    qed (use inv in \<open>simp add: remove_realtime_subscription_def worker_inv_def\<close>)
    then show ?thesis using SubRemove Some by simp
  qed (use SubRemove inv in simp)
next
  case (WorkerWaits i)
  then show "worker_inv st \<Longrightarrow> ?thesis" by (auto simp: worker_inv_def worker_waits_def)
next
  case (WorkerTicks i)
  then show "worker_inv st \<Longrightarrow> ?thesis" by (auto simp: worker_inv_def worker_ticks_def remove_worker_def)
qed

interpretation realtime: machine "\<lambda>st. st = rt_start" rt_step worker_inv
  by unfold_locales (simp_all add: worker_inv_step, simp add: worker_inv_def rt_start_def)


section \<open>The counters\<close>

definition subscribers :: "rt_state \<Rightarrow> string \<Rightarrow> nat" where
  "subscribers st sys = length (filter (\<lambda>((c, k), s). is_rt k \<and> s = sys) (rt_subs st))"

definition counts_ok :: "rt_state \<Rightarrow> bool" where
  "counts_ok st \<longleftrightarrow> keys_distinct (rt_subs st) \<and> keys_distinct (rt_active st) \<and>
     (\<forall>sys. (map_of (rt_active st) sys = None \<longrightarrow> subscribers st sys = 0) \<and>
            (\<forall>info. map_of (rt_active st) sys = Some info \<longrightarrow>
               0 < subscribers st sys \<and> unat (si_connected_clients info) = subscribers st sys))"

lemma kept_fields [simp]:
  "rt_subs (on_realtime_subscription_added st) = rt_subs st" "rt_active (on_realtime_subscription_added st) = rt_active st"
  "rt_subs (check_subscriptions r st) = rt_subs st" "rt_active (check_subscriptions r st) = rt_active st"
  "rt_subs (worker_waits i st) = rt_subs st" "rt_active (worker_waits i st) = rt_active st"
  "rt_subs (worker_ticks i st) = rt_subs st" "rt_active (worker_ticks i st) = rt_active st"
  by (simp_all add: on_realtime_subscription_added_def check_subscriptions_def try_stop_def remove_worker_def
      worker_waits_def worker_ticks_def Let_def split: option.split)

lemma subscribers_kept:
  "subscribers (worker_waits i st) sys = subscribers st sys" "subscribers (worker_ticks i st) sys = subscribers st sys"
  "subscribers (check_subscriptions r st) sys = subscribers st sys"
  "subscribers (on_realtime_subscription_added st) sys = subscribers st sys"
  by (simp_all add: subscribers_def)

lemma length_filter_delete:
  assumes "keys_distinct m" and "map_of m k = Some v"
  shows "length (filter P m) = length (filter P (AList.delete k m)) + (if P (k, v) then 1 else 0)"
  using assms
proof (induction m)
  case (Cons x m)
  show ?case
  proof (cases "fst x = k")
    case True
    then have "AList.delete k m = m"
      using Cons.prems(1) by (auto simp: keys_distinct_def AList.delete_eq filter_id_conv image_iff)
    then show ?thesis using True Cons.prems by (cases x) auto
  next
    case False
    then show ?thesis using Cons by (cases x) (auto simp: keys_distinct_def)
  qed
qed simp

lemma subscribers_add:
  "subscribers (st\<lparr>rt_subs := ((c, k), sys) # rt_subs st\<rparr>) s =
     subscribers st s + (if is_rt k \<and> sys = s then 1 else 0)"
  by (simp add: subscribers_def)

lemma subscribers_delete:
  assumes "keys_distinct (rt_subs st)" and "map_of (rt_subs st) (c, k) = Some sys"
  shows "subscribers st s =
     subscribers (st\<lparr>rt_subs := AList.delete (c, k) (rt_subs st)\<rparr>) s + (if is_rt k \<and> sys = s then 1 else 0)"
  using length_filter_delete [OF assms, of "\<lambda>((c, k), x). is_rt k \<and> x = s"] by (simp add: subscribers_def)

lemma unat_u8_inc: "unat (w :: 8 word) < 255 \<Longrightarrow> unat (w + 1) = unat w + 1"
  by (simp add: unat_plus_if')

lemma unat_u8_dec: "0 < unat (w :: 8 word) \<Longrightarrow> unat (w - 1) = unat w - 1"
  by (metis One_nat_def Suc_leI unat_1 unat_sub word_le_nat_alt)

lemma counts_add:
  assumes ok: "counts_ok st" and new: "map_of (rt_subs st) (c, k) = None"
    and bound: "subscribers (rt_step st (SubAdd c k sys)) sys \<le> 255"
  shows "counts_ok (rt_step st (SubAdd c k sys))"
proof -
  let ?st = "st\<lparr>rt_subs := ((c, k), sys) # rt_subs st\<rparr>"
  have kd: "keys_distinct (rt_subs ?st)"
    using ok new by (auto simp: counts_ok_def keys_distinct_def map_of_eq_None_iff)
  have n: "subscribers (rt_step st (SubAdd c k sys)) s = subscribers st s + (if is_rt k \<and> sys = s then 1 else 0)" for s
    using new
    by (simp add: Let_def count_client_def subscribers_def)
  show ?thesis
  proof (cases "is_rt k")
    case False
    then show ?thesis using ok new kd n by (simp add: counts_ok_def)
  next
    case True
    define info where "info = (case map_of (rt_active st) sys of
        Some info \<Rightarrow> info | None \<Rightarrow> \<lparr>si_subscription = k, si_connected_clients = 0\<rparr>)"
    have inc: "unat (si_connected_clients info) = subscribers st sys"
      using ok by (auto simp: info_def counts_ok_def split: option.splits dest: spec [of _ sys])
    have "unat (si_connected_clients info + 1) = subscribers st sys + 1"
      using bound True n [of sys] unat_u8_inc [of "si_connected_clients info"] inc by simp
    moreover have "rt_active (rt_step st (SubAdd c k sys)) =
        AList.update sys (info\<lparr>si_connected_clients := si_connected_clients info + 1\<rparr>) (rt_active st)"
      using True new by (simp add: count_client_def info_def Let_def)
    moreover have "rt_subs (rt_step st (SubAdd c k sys)) = rt_subs ?st"
      using True new by (simp add: count_client_def Let_def)
    ultimately show ?thesis
      using ok kd n True by (auto simp: counts_ok_def store_laws keys_distinct_def distinct_update)
  qed
qed

lemma counts_remove:
  assumes ok: "counts_ok st"
  shows "counts_ok (rt_step st (SubRemove r c k))"
proof (cases "map_of (rt_subs st) (c, k)")
  case (Some sys)
  define st1 where "st1 = st\<lparr>rt_subs := AList.delete (c, k) (rt_subs st)\<rparr>"
  have kd: "keys_distinct (rt_subs st1)" using ok by (simp add: st1_def counts_ok_def keys_distinct_def distinct_delete)
  have n: "subscribers st s = subscribers st1 s + (if is_rt k \<and> sys = s then 1 else 0)" for s
    using ok Some subscribers_delete [of st c k sys s] by (simp add: counts_ok_def st1_def)
  show ?thesis
  proof (cases "is_rt k")
    case False
    then have "rt_step st (SubRemove r c k) = st1" using Some by (simp add: remove_realtime_subscription_def st1_def)
    moreover have "subscribers st1 s = subscribers st s" for s using n [of s] False by simp
    ultimately show ?thesis using ok kd by (simp add: counts_ok_def) (simp add: st1_def)
  next
    case True
    then obtain info where info: "map_of (rt_active st) sys = Some info" "unat (si_connected_clients info) = subscribers st sys"
      using ok n [of sys] by (auto simp: counts_ok_def split: option.splits dest: spec [of _ sys])
    define m where "m = si_connected_clients info - 1"
    have m: "unat m = subscribers st1 sys" using info n [of sys] True unat_u8_dec [of "si_connected_clients info"] by (simp add: m_def)
    then have z: "m \<le> 0 \<longleftrightarrow> subscribers st1 sys = 0" by (metis unat_0 word_le_0_iff unat_eq_0)
    define st2 where "st2 = st1\<lparr>rt_active := (if m \<le> 0 then AList.delete sys (rt_active st)
          else AList.update sys (info\<lparr>si_connected_clients := m\<rparr>) (rt_active st))\<rparr>"
    define t where "t = check_subscriptions r st2"
    have step: "rt_step st (SubRemove r c k) = t"
      using True Some info by (simp add: t_def remove_realtime_subscription_def st2_def st1_def m_def Let_def)
    have subs: "rt_subs t = rt_subs st1" "subscribers t s = subscribers st1 s" for s
      by (simp_all add: t_def subscribers_def st2_def)
    have look: "map_of (rt_active t) s = (if s = sys then (if m \<le> 0 then None else Some (info\<lparr>si_connected_clients := m\<rparr>))
        else map_of (rt_active st) s)" for s
      by (simp add: t_def st2_def store_laws)
    have kd': "keys_distinct (rt_active t)"
      using ok by (simp add: t_def st2_def counts_ok_def keys_distinct_def distinct_update distinct_delete)
    have other: "subscribers st1 s = subscribers st s" if "s \<noteq> sys" for s using n [of s] that by simp
    have rest: "(map_of (rt_active st) s = None \<longrightarrow> subscribers st s = 0) \<and>
        (\<forall>x. map_of (rt_active st) s = Some x \<longrightarrow> 0 < subscribers st s \<and> unat (si_connected_clients x) = subscribers st s)" for s
      using ok unfolding counts_ok_def by blast
    have "(map_of (rt_active t) s = None \<longrightarrow> subscribers t s = 0) \<and>
        (\<forall>x. map_of (rt_active t) s = Some x \<longrightarrow> 0 < subscribers t s \<and> unat (si_connected_clients x) = subscribers t s)" for s
    proof (cases "s = sys")
      case False
      then show ?thesis using rest [of s] other [OF False] by (simp add: look subs(2))
    qed (use m z in \<open>auto simp: look subs(2)\<close>)
    then show ?thesis unfolding step counts_ok_def subs(1) using kd kd' by blast
  qed
qed (use ok in simp)

lemma counts_step:
  assumes "counts_ok st" and "\<forall>sys. subscribers (rt_step st e) sys \<le> 255"
  shows "counts_ok (rt_step st e)"
proof (cases e)
  case (SubAdd c k sys)
  then show ?thesis using assms counts_add [of st c k sys] by (cases "map_of (rt_subs st) (c, k)") auto
next
  case (SubRemove r c k)
  then show ?thesis using assms(1) by (simp only: counts_remove)
qed (use assms(1) in \<open>simp_all add: counts_ok_def subscribers_kept\<close>)


lemma counts_run:
  "counts_ok st \<Longrightarrow> \<forall>n sys. subscribers (foldl rt_step st (take n es)) sys \<le> 255 \<Longrightarrow> counts_ok (foldl rt_step st es)"
proof (induction es rule: rev_induct)
  case (snoc e es)
  have "\<forall>n sys. subscribers (foldl rt_step st (take n es)) sys \<le> 255"
  proof (intro allI)
    fix n sys
    show "subscribers (foldl rt_step st (take n es)) sys \<le> 255"
      using snoc.prems(2) [rule_format, of "min n (length es)" sys] by (simp add: min_def split: if_splits)
  qed
  moreover have "subscribers (rt_step (foldl rt_step st es) e) sys \<le> 255" for sys
    using snoc.prems(2) [rule_format, of "Suc (length es)" sys] by simp
  ultimately show ?case using snoc.IH [OF snoc.prems(1)] counts_step by simp
qed simp

lemma counts_start: "counts_ok rt_start"
  by (simp add: counts_ok_def rt_start_def subscribers_def)

section \<open>Properties\<close>


definition add_clients :: "nat \<Rightarrow> rt_event list" where
  "add_clients n = map (\<lambda>c. SubAdd c ''rt_metrics'' ''s1'') [0..<n]"

lemma no_client: "map_of (map (\<lambda>c. ((c, ''rt_metrics''), ''s1'')) (rev [0..<n])) (n, k) = None"
  by (auto simp: map_of_eq_None_iff)

lemma add_clients_state:
  "let st = foldl rt_step rt_start (add_clients n)
   in rt_subs st = map (\<lambda>c. ((c, ''rt_metrics''), ''s1'')) (rev [0..<n]) \<and>
      (n \<noteq> 0 \<longrightarrow> rt_active st = [(''s1'', \<lparr>si_subscription = ''rt_metrics'', si_connected_clients = of_nat n\<rparr>)]) \<and>
      (n = 0 \<longrightarrow> rt_active st = [])"
proof (induction n)
  case 0
  show ?case by (simp add: add_clients_def rt_start_def)
next
  case (Suc n)
  define st where "st = foldl rt_step rt_start (add_clients n)"
  have ih: "rt_subs st = map (\<lambda>c. ((c, ''rt_metrics''), ''s1'')) (rev [0..<n])"
    "n \<noteq> 0 \<longrightarrow> rt_active st = [(''s1'', \<lparr>si_subscription = ''rt_metrics'', si_connected_clients = of_nat n\<rparr>)]"
    "n = 0 \<longrightarrow> rt_active st = []"
    using Suc by (simp_all add: st_def Let_def)
  have "foldl rt_step rt_start (add_clients (Suc n)) = rt_step st (SubAdd n ''rt_metrics'' ''s1'')"
    by (simp add: add_clients_def st_def)
  then show ?case
    using ih no_client [of n "''rt_metrics''"] by (cases "n = 0") (simp_all add: Let_def is_rt_def count_client_def)
qed

text \<open>
  The counter of a system has eight bits: with 257 subscriptions it is 1, and when one browser
  leaves the system is no longer fetched although 256 still wait for its data.
\<close>

lemma realtime_counter_wraps:
  "let st = foldl rt_step rt_start (add_clients 257 @ [SubRemove r 0 ''rt_metrics''])
   in subscribers st ''s1'' = 256 \<and> map_of (rt_active st) ''s1'' = None"
proof -
  define st where "st = foldl rt_step rt_start (add_clients 257)"
  have s: "rt_subs st = map (\<lambda>c. ((c, ''rt_metrics''), ''s1'')) (rev [0..<257])"
    "rt_active st = [(''s1'', \<lparr>si_subscription = ''rt_metrics'', si_connected_clients = of_nat 257\<rparr>)]"
    using add_clients_state [of 257] by (simp_all add: st_def Let_def del: upt_rec_numeral)
  have k: "keys_distinct (rt_subs st)" unfolding s(1) keys_distinct_def by (simp add: distinct_map inj_on_def o_def del: upt_rec_numeral)
  have m: "map_of (rt_subs st) (0, ''rt_metrics'') = Some ''s1''"
    using k unfolding s(1) keys_distinct_def by (subst map_of_eq_Some_iff) (auto simp del: upt_rec_numeral)
  have "subscribers st ''s1'' = 257" by (simp add: subscribers_def s(1) is_rt_def del: upt_rec_numeral)
  then have "subscribers (st\<lparr>rt_subs := AList.delete (0, ''rt_metrics'') (rt_subs st)\<rparr>) ''s1'' = 256"
    using subscribers_delete [OF k m, of "''s1''"] by (simp add: is_rt_def)
  then show ?thesis
    using m s(2) by (simp add: Let_def st_def [symmetric] remove_realtime_subscription_def is_rt_def subscribers_kept
        subscribers_def)
qed

text \<open>Two workers can run at once, although the comment of \<open>onRealtimeSubscriptionAdded\<close> excludes it:
  the stop signal is dropped while the worker fetches.\<close>

lemma two_workers_run:
  "length (rt_workers (foldl rt_step rt_start
     [SubAdd 0 ''rt_metrics'' ''s1'', SubRemove 0 0 ''rt_metrics'', SubAdd 1 ''rt_metrics'' ''s1''])) = 2"
  by (simp add: rt_start_def is_rt_def on_realtime_subscription_added_def count_client_def remove_realtime_subscription_def
      check_subscriptions_def try_stop_def waiting_on_def Let_def)


end
