(* ===== verification/Protocol.thy ===== *)
theory Protocol
  imports CborTags
begin

text \<open>
  The messages between hub and agent and both their ends: \<^verbatim>\<open>internal/common/common-ws.go\<close>,
  \<^verbatim>\<open>agent/response.go\<close>, \<^verbatim>\<open>internal/hub/ws/handlers.go\<close>, \<^verbatim>\<open>internal/hub/ws/ws.go\<close> and
  \<^verbatim>\<open>internal/hub/transport/\<close>. The CBOR library is an argument: a \<open>codec\<close> holds the encoder of each
  type the program encodes and what the decoder makes of the bytes. The hub decodes the data of a system into the data of
  its previous answer, so that decoder has a destination.
\<close>

section \<open>Messages\<close>

definition get_data :: u8 where "get_data = 0"
definition check_fingerprint :: u8 where "check_fingerprint = 1"
definition container_action_id :: u8 where "container_action_id = 6"

lemmas action_defs = get_data_def check_fingerprint_def container_action_id_def

record fingerprint_response =
  fp_fingerprint :: string
  fp_hostname :: string
  fp_port :: string
  fp_name :: string

record agent_response =
  ar_id :: "u32 option"
  ar_system_data :: "combined_data option"
  ar_fingerprint :: "fingerprint_response option"
  ar_error :: string
  ar_string :: "string option"
  ar_data :: string

definition empty_response :: agent_response where
  "empty_response = \<lparr>ar_id = None, ar_system_data = None, ar_fingerprint = None, ar_error = '''',
     ar_string = None, ar_data = ''''\<rparr>"

text \<open>What a handler of the agent hands to \<open>SendResponse\<close>. The SMART and systemd payloads of the
  original agent have no handler here.\<close>

datatype payload =
    SystemData combined_data
  | Fingerprint fingerprint_response
  | Text string
  | Response agent_response

record codec =
  encode_response :: "agent_response \<Rightarrow> string"
  decode_response :: "string \<Rightarrow> agent_response option"
  encode_payload :: "payload \<Rightarrow> string"
  decode_data :: "string \<Rightarrow> combined_data \<Rightarrow> combined_data option"
  decode_fingerprint :: "string \<Rightarrow> fingerprint_response option"

definition new_agent_response :: "codec \<Rightarrow> payload \<Rightarrow> u32 option \<Rightarrow> agent_response" where
  "new_agent_response cbor data requestID =
     (let response = empty_response\<lparr>ar_id := requestID\<rparr> in
      case data of
        SystemData d \<Rightarrow> response\<lparr>ar_system_data := Some d\<rparr>
      | Fingerprint f \<Rightarrow> response\<lparr>ar_fingerprint := Some f\<rparr>
      | Text s \<Rightarrow> response\<lparr>ar_string := Some s\<rparr>
      | Response r \<Rightarrow> response\<lparr>ar_data := encode_payload cbor (Response r)\<rparr>)"

text \<open>\<open>sendResponse\<close> of the agent: a request without an id gets the bare payload.\<close>

definition send_response :: "codec \<Rightarrow> payload \<Rightarrow> u32 option \<Rightarrow> string" where
  "send_response cbor data requestID =
     (case requestID of
        Some i \<Rightarrow> encode_response cbor (new_agent_response cbor data requestID)
      | None \<Rightarrow> encode_payload cbor data)"

section \<open>Versions\<close>

record version =
  v_major :: nat
  v_minor :: nat
  v_patch :: nat
  v_pre :: "string list"

text \<open>\<open>LT\<close> against a version without a pre-release part.\<close>

definition version_lt :: "version \<Rightarrow> version \<Rightarrow> bool" where
  "version_lt v w \<longleftrightarrow>
     v_major v < v_major w \<or> v_major v = v_major w \<and>
     (v_minor v < v_minor w \<or> v_minor v = v_minor w \<and>
       (v_patch v < v_patch w \<or> v_patch v = v_patch w \<and> v_pre v \<noteq> []))"

definition release :: "nat \<Rightarrow> nat \<Rightarrow> nat \<Rightarrow> version" where
  "release a b c = \<lparr>v_major = a, v_minor = b, v_patch = c, v_pre = []\<rparr>"

definition min_version_agent_response :: version where "min_version_agent_response = release 0 13 0"
definition own_version :: version where "own_version = release 0 1 0"

definition is_legacy :: "version \<Rightarrow> bool" where
  "is_legacy v \<longleftrightarrow> version_lt v min_version_agent_response"

section \<open>The hub's end\<close>

datatype hub_error =
    NotConnected
  | SendFailed
  | TimedOut
  | DecodeFailed
  | AgentError string
  | NoData
  | NoFingerprint
  | UnexpectedDest
  | UnsupportedAction
  | LegacyNotSupported

text \<open>The destination of a request is a pointer of one of two types, and is written only when the
  decoding succeeds.\<close>

datatype dest = DataDest combined_data | FingerprintDest fingerprint_response

definition cbor_unmarshal :: "codec \<Rightarrow> string \<Rightarrow> dest \<Rightarrow> hub_error + dest" where
  "cbor_unmarshal cbor bytes d =
     (case d of
        DataDest old \<Rightarrow> (case decode_data cbor bytes old of Some x \<Rightarrow> Inr (DataDest x) | None \<Rightarrow> Inl DecodeFailed)
      | FingerprintDest _ \<Rightarrow>
          (case decode_fingerprint cbor bytes of Some x \<Rightarrow> Inr (FingerprintDest x) | None \<Rightarrow> Inl DecodeFailed))"

definition unmarshal_legacy_response :: "agent_response \<Rightarrow> u8 \<Rightarrow> dest \<Rightarrow> hub_error + dest" where
  "unmarshal_legacy_response resp action d =
     (if action = get_data then
        (case d of
           DataDest _ \<Rightarrow> (case ar_system_data resp of Some x \<Rightarrow> Inr (DataDest x) | None \<Rightarrow> Inl NoData)
         | _ \<Rightarrow> Inl UnexpectedDest)
      else if action = check_fingerprint then
        (case d of
           FingerprintDest _ \<Rightarrow> (case ar_fingerprint resp of Some x \<Rightarrow> Inr (FingerprintDest x) | None \<Rightarrow> Inl NoFingerprint)
         | _ \<Rightarrow> Inl UnexpectedDest)
      else Inl UnsupportedAction)"

definition unmarshal_response :: "codec \<Rightarrow> agent_response \<Rightarrow> u8 \<Rightarrow> dest \<Rightarrow> hub_error + dest" where
  "unmarshal_response cbor resp action d =
     (if 0 < length (ar_data resp) then cbor_unmarshal cbor (ar_data resp) d
      else unmarshal_legacy_response resp action d)"

text \<open>The wait for an answer: \<open>Some bytes\<close> when it arrives before the deadline.\<close>

definition transport_request ::
  "codec \<Rightarrow> bool \<Rightarrow> bool \<Rightarrow> version \<Rightarrow> string option \<Rightarrow> u8 \<Rightarrow> dest \<Rightarrow> hub_error + dest" where
  "transport_request cbor online sent v answer action d =
     (if \<not> online then Inl NotConnected
      else if \<not> sent then Inl SendFailed
      else case answer of
             None \<Rightarrow> Inl TimedOut
           | Some bytes \<Rightarrow>
               if is_legacy v then cbor_unmarshal cbor bytes d
               else (case decode_response cbor bytes of
                       None \<Rightarrow> Inl DecodeFailed
                     | Some resp \<Rightarrow>
                         if ar_error resp \<noteq> '''' then Inl (AgentError (ar_error resp))
                         else unmarshal_response cbor resp action d))"

text \<open>\<open>handleAgentRequest\<close> with the two handlers, each given by what it does with a legacy answer and
  with a wrapped one.\<close>

definition handle_agent_request ::
  "codec \<Rightarrow> version \<Rightarrow> (string \<Rightarrow> hub_error + 'r) \<Rightarrow> (agent_response \<Rightarrow> hub_error + 'r) \<Rightarrow> string option \<Rightarrow> hub_error + 'r" where
  "handle_agent_request cbor v handle_legacy handle answer =
     (case answer of
        None \<Rightarrow> Inl TimedOut
      | Some bytes \<Rightarrow>
          if is_legacy v then handle_legacy bytes
          else (case decode_response cbor bytes of
                  None \<Rightarrow> Inl DecodeFailed
                | Some resp \<Rightarrow> if ar_error resp \<noteq> '''' then Inl (AgentError (ar_error resp)) else handle resp))"

definition fingerprint_handle_legacy :: "codec \<Rightarrow> string \<Rightarrow> hub_error + fingerprint_response" where
  "fingerprint_handle_legacy cbor bytes =
     (case decode_fingerprint cbor bytes of Some x \<Rightarrow> Inr x | None \<Rightarrow> Inl DecodeFailed)"

definition fingerprint_handle :: "agent_response \<Rightarrow> hub_error + fingerprint_response" where
  "fingerprint_handle resp = (case ar_fingerprint resp of Some x \<Rightarrow> Inr x | None \<Rightarrow> Inl NoFingerprint)"

definition get_fingerprint ::
  "codec \<Rightarrow> bool \<Rightarrow> bool \<Rightarrow> version \<Rightarrow> string option \<Rightarrow> hub_error + fingerprint_response" where
  "get_fingerprint cbor online sent v answer =
     (if \<not> online then Inl NotConnected else if \<not> sent then Inl SendFailed
      else handle_agent_request cbor v (fingerprint_handle_legacy cbor) fingerprint_handle answer)"

definition container_handle_legacy :: "string \<Rightarrow> hub_error + agent_response" where
  "container_handle_legacy bytes = Inl LegacyNotSupported"

definition container_handle :: "agent_response \<Rightarrow> hub_error + agent_response" where
  "container_handle resp = Inr resp"

text \<open>\<open>ContainerAction\<close>: the error message in the answer, or the error of the request.\<close>

definition container_action :: "codec \<Rightarrow> bool \<Rightarrow> bool \<Rightarrow> version \<Rightarrow> string option \<Rightarrow> hub_error + string" where
  "container_action cbor online sent v answer =
     (if \<not> online then Inl NotConnected else if \<not> sent then Inl SendFailed
      else map_sum id ar_error (handle_agent_request cbor v container_handle_legacy container_handle answer))"

section \<open>Properties\<close>

text \<open>
  What the program relies on: what was encoded is decoded again, as far as the struct tags let it through, into a new
  structure or over the fields of an old one.
\<close>

definition sent_response :: "agent_response \<Rightarrow> agent_response" where
  "sent_response r = r\<lparr>ar_system_data := map_option on_wire (ar_system_data r)\<rparr>"

definition decodes :: "codec \<Rightarrow> agent_response \<Rightarrow> bool" where
  "decodes cbor r \<longleftrightarrow> decode_response cbor (encode_response cbor r) = Some (sent_response r)"

definition decodes_data :: "codec \<Rightarrow> combined_data \<Rightarrow> bool" where
  "decodes_data cbor d \<longleftrightarrow> (\<forall>old. decode_data cbor (encode_payload cbor (SystemData d)) old = Some (cbor_into d old))"

lemma own_version_is_legacy: "is_legacy own_version"
  by (simp add: is_legacy_def version_lt_def own_version_def min_version_agent_response_def release_def)

lemma sent_answer:
  "decodes cbor (new_agent_response cbor data (Some i)) \<Longrightarrow>
   decode_response cbor (send_response cbor data (Some i)) = Some (sent_response (new_agent_response cbor data (Some i)))"
  by (simp add: decodes_def send_response_def)

text \<open>
  C30: the statistics that the agent answers with are the statistics the hub gets, as far as the struct tags send them,
  and so is the fingerprint, for every agent from version 0.13.0 on: the wrapper, its id and the routing by action and
  destination fit together, and nothing of the answer before is left in the data.
\<close>

theorem answers_round_trip:
  assumes "\<not> is_legacy v"
    and "decodes cbor (new_agent_response cbor (SystemData d) (Some i))"
    and "decodes cbor (new_agent_response cbor (Fingerprint f) (Some i))"
  shows "transport_request cbor True True v (Some (send_response cbor (SystemData d) (Some i))) get_data (DataDest d0)
       = Inr (DataDest (on_wire d)) \<and>
     get_fingerprint cbor True True v (Some (send_response cbor (Fingerprint f) (Some i))) = Inr f"
  using assms(1) sent_answer [OF assms(2)] sent_answer [OF assms(3)]
  by (simp add: transport_request_def get_fingerprint_def handle_agent_request_def fingerprint_handle_def
      new_agent_response_def empty_response_def unmarshal_response_def unmarshal_legacy_response_def sent_response_def Let_def)


definition demo_codec :: "agent_response \<Rightarrow> codec" where
  "demo_codec r = \<lparr>encode_response = (\<lambda>_. ''wrapped''), decode_response = (\<lambda>_. Some r), encode_payload = (\<lambda>_. ''bare''),
     decode_data = (\<lambda>_ _. None), decode_fingerprint = (\<lambda>_. None)\<rparr>"


definition tagged_codec :: codec where
  "tagged_codec =
     \<lparr>encode_response = (\<lambda>r. if ar_system_data r = None then ''f'' else ''d''),
      decode_response = (\<lambda>b. Some (if b = ''d'' then empty_response\<lparr>ar_id := Some 1, ar_system_data := Some zero_data\<rparr>
        else empty_response\<lparr>ar_id := Some 1,
               ar_fingerprint := Some \<lparr>fp_fingerprint = ''ab'', fp_hostname = '''', fp_port = '''', fp_name = ''''\<rparr>\<rparr>)),
      encode_payload = (\<lambda>_. ''''), decode_data = (\<lambda>_ _. None), decode_fingerprint = (\<lambda>_. None)\<rparr>"

lemma answers_round_trip_witness:
  "transport_request tagged_codec True True (release 0 18 0)
       (Some (send_response tagged_codec (SystemData zero_data) (Some 1))) get_data (DataDest zero_data)
     = Inr (DataDest (on_wire zero_data)) \<and>
   get_fingerprint tagged_codec True True (release 0 18 0)
       (Some (send_response tagged_codec (Fingerprint \<lparr>fp_fingerprint = ''ab'', fp_hostname = '''', fp_port = '''', fp_name = ''''\<rparr>) (Some 1)))
     = Inr \<lparr>fp_fingerprint = ''ab'', fp_hostname = '''', fp_port = '''', fp_name = ''''\<rparr>"
  by (rule answers_round_trip)
     (simp_all add: is_legacy_def version_lt_def min_version_agent_response_def release_def decodes_def
       new_agent_response_def tagged_codec_def empty_response_def sent_response_def on_wire_zero Let_def)

end
