(* ===== verification/AgentFiles.thy ===== *)
theory AgentFiles
  imports Utils
begin

text \<open>
  What the agent keeps on disk: its fingerprint (\<^verbatim>\<open>agent/fingerprint.go\<close>), the choice of the data directory
  (\<^verbatim>\<open>agent/data_dir.go\<close>) and the health file (\<^verbatim>\<open>agent/health/health.go\<close>). The file system is a value
  that the operations pass on; which of them the operating system lets succeed is in the arguments.
\<close>

section \<open>Fingerprint\<close>

definition known_bad_uuid :: string where "known_bad_uuid = ''03000200-0400-0500-0006-000700080009''"

definition fingerprint_path :: "string \<Rightarrow> string" where
  "fingerprint_path dataDir = path_join [dataDir, ''fingerprint'']"

definition hex_digits :: string where "hex_digits = ''0123456789abcdef''"

text \<open>\<open>hex.EncodeToString\<close>\<close>

definition hex_encode :: "string \<Rightarrow> string" where
  "hex_encode bytes = concat (map (\<lambda>b. [hex_digits ! (of_char b div 16), hex_digits ! (of_char b mod 16)]) bytes)"

text \<open>What gopsutil and the system say of the host; \<open>hi_sha256\<close> is SHA-256 on bytes.\<close>

record host_identity =
  hi_host_id :: "string option"
  hi_hostname :: string
  hi_cpu_models :: "string list option"
  hi_sha256 :: "string \<Rightarrow> string"

definition generate_fingerprint :: "host_identity \<Rightarrow> string \<Rightarrow> string \<Rightarrow> string" where
  "generate_fingerprint hi hostname cpuModel =
     (let hostId = (case hi_host_id hi of Some h \<Rightarrow> h | None \<Rightarrow> '''');
          material = (if hi_host_id hi = None \<or> hostId = '''' \<or> hostId = known_bad_uuid
            then (if hostname = '''' then hi_hostname hi else hostname) @
                 (if cpuModel = '''' then (case hi_cpu_models hi of Some (m # ms) \<Rightarrow> m | _ \<Rightarrow> '''') else cpuModel)
            else hostId)
      in hex_encode (take 24 (hi_sha256 hi material)))"

definition read_fingerprint :: "file_system \<Rightarrow> string \<Rightarrow> string option" where
  "read_fingerprint fs dataDir =
     (case fs (fingerprint_path dataDir) of
        None \<Rightarrow> None
      | Some fp \<Rightarrow> let s = trim_space fp in if s = '''' then None else Some s)"

text \<open>\<open>writable\<close> tells whether the operating system lets the file be written; a failure leaves it alone.\<close>

definition save_fingerprint :: "bool \<Rightarrow> string \<Rightarrow> string \<Rightarrow> file_system \<Rightarrow> bool \<times> file_system" where
  "save_fingerprint writable dataDir fingerprint fs =
     (if writable then (True, fs(fingerprint_path dataDir \<mapsto> fingerprint)) else (False, fs))"

definition get_fingerprint :: "host_identity \<Rightarrow> bool \<Rightarrow> string \<Rightarrow> string \<Rightarrow> string \<Rightarrow> file_system \<Rightarrow> string \<times> file_system" where
  "get_fingerprint hi writable dataDir hostname cpuModel fs =
     (case (if dataDir = '''' then None else read_fingerprint fs dataDir) of
        Some fp \<Rightarrow> (fp, fs)
      | None \<Rightarrow>
          let fp = generate_fingerprint hi hostname cpuModel in
          (fp, if dataDir = '''' then fs else snd (save_fingerprint writable dataDir fp fs)))"

text \<open>\<open>removable\<close> is false when the removal fails for another reason than a missing file. The result is success.\<close>

definition delete_fingerprint :: "bool \<Rightarrow> string \<Rightarrow> file_system \<Rightarrow> bool \<times> file_system" where
  "delete_fingerprint removable dataDir fs =
     (if fs (fingerprint_path dataDir) = None then (True, fs)
      else if removable then (True, fs(fingerprint_path dataDir := None)) else (False, fs))"

section \<open>Data directory\<close>

text \<open>
  A path is missing, a directory that can be written, a directory that cannot, something else, or it cannot be
  looked at. Making a directory succeeds or not, and gives one that can be written or not.
\<close>

datatype path_state = Missing | Directory (dir_writable: bool) | NotADirectory | Unreadable

type_synonym dirs = "string \<Rightarrow> path_state"

definition directory_exists :: "dirs \<Rightarrow> string \<Rightarrow> bool option" where
  "directory_exists ds path =
     (case ds path of Missing \<Rightarrow> Some False | Directory _ \<Rightarrow> Some True | NotADirectory \<Rightarrow> None | Unreadable \<Rightarrow> None)"

definition directory_is_writable :: "dirs \<Rightarrow> string \<Rightarrow> bool" where
  "directory_is_writable ds path \<longleftrightarrow> (case ds path of Directory w \<Rightarrow> w | _ \<Rightarrow> False)"

text \<open>\<open>mk\<close> is what \<open>MkdirAll\<close> makes of a missing path: nothing, or a directory.\<close>

definition mkdir_all :: "(string \<Rightarrow> bool option) \<Rightarrow> string \<Rightarrow> dirs \<Rightarrow> dirs option" where
  "mkdir_all mk path ds =
     (case ds path of
        Directory _ \<Rightarrow> Some ds
      | Missing \<Rightarrow> (case mk path of Some w \<Rightarrow> Some (ds(path := Directory w)) | None \<Rightarrow> None)
      | _ \<Rightarrow> None)"

definition is_valid_data_dir :: "(string \<Rightarrow> bool option) \<Rightarrow> string \<Rightarrow> bool \<Rightarrow> dirs \<Rightarrow> bool \<times> dirs" where
  "is_valid_data_dir mk path createIfNotExists ds =
     (case directory_exists ds path of
        None \<Rightarrow> (False, ds)
      | Some True \<Rightarrow> (directory_is_writable ds path, ds)
      | Some False \<Rightarrow>
          if \<not> createIfNotExists then (False, ds)
          else (case mkdir_all mk path ds of
                  None \<Rightarrow> (False, ds)
                | Some ds \<Rightarrow> (directory_is_writable ds path, ds)))"

text \<open>The second loop: a path that is not known to exist is made. An error of the test counts as not existing.\<close>

fun create_data_dir :: "(string \<Rightarrow> bool option) \<Rightarrow> string list \<Rightarrow> dirs \<Rightarrow> string option \<times> dirs" where
  "create_data_dir mk [] ds = (None, ds)"
| "create_data_dir mk (path # paths) ds =
     (if directory_exists ds path = Some True then create_data_dir mk paths ds
      else case mkdir_all mk path ds of
             None \<Rightarrow> create_data_dir mk paths ds
           | Some ds \<Rightarrow> if directory_is_writable ds path then (Some path, ds) else create_data_dir mk paths ds)"

definition test_data_dirs :: "(string \<Rightarrow> bool option) \<Rightarrow> string list \<Rightarrow> dirs \<Rightarrow> string option \<times> dirs" where
  "test_data_dirs mk paths ds =
     (case find (\<lambda>path. fst (is_valid_data_dir mk path False ds)) paths of
        Some path \<Rightarrow> (Some path, ds)
      | None \<Rightarrow> create_data_dir mk paths ds)"

definition get_data_dir ::
  "(string \<Rightarrow> bool option) \<Rightarrow> environment \<Rightarrow> string option \<Rightarrow> string list \<Rightarrow> dirs \<Rightarrow> string option \<times> dirs" where
  "get_data_dir mk env homeDir dataDirs ds =
     (if dataDirs \<noteq> [] then test_data_dirs mk dataDirs ds
      else
        let dataDir = (case get_env env ''DATA_DIR'' of Some d \<Rightarrow> d | None \<Rightarrow> '''');
            configured = (if dataDir \<noteq> '''' then [dataDir] else []);
            home = (case homeDir of Some h \<Rightarrow> [path_join [h, ''.config'', ''beszel'']] | None \<Rightarrow> [])
        in test_data_dirs mk (configured @ [''/var/lib/beszel-agent''] @ home) ds)"

section \<open>Health\<close>

text \<open>The health file: the time it was last written, if it is there.\<close>

definition health_check :: "instant \<Rightarrow> instant option \<Rightarrow> bool" where
  "health_check now healthFile =
     (case healthFile of None \<Rightarrow> False | Some written \<Rightarrow> \<not> 91 * second < time_sub now written)"

definition health_update :: "bool \<Rightarrow> instant \<Rightarrow> instant option \<Rightarrow> bool \<times> instant option" where
  "health_update creatable now healthFile = (if creatable then (True, Some now) else (False, healthFile))"

definition health_clean_up :: "instant option \<Rightarrow> bool \<times> instant option" where
  "health_clean_up healthFile = (healthFile \<noteq> None, None)"

definition get_health_file_path :: "bool \<Rightarrow> bool \<Rightarrow> string \<Rightarrow> string" where
  "get_health_file_path linux shm_writable tempDir =
     (if linux \<and> shm_writable then path_join [''/dev/shm'', ''beszel_health'']
      else path_join [tempDir, ''beszel_health''])"

section \<open>The fingerprint is kept\<close>

lemma hex_digit_graphic: "graphic (hex_digits ! (n mod 16))"
proof -
  have "list_all graphic hex_digits" by (simp add: hex_digits_def graphic_def)
  moreover have "n mod 16 < length hex_digits" by (simp add: hex_digits_def)
  ultimately show ?thesis using list_all_length by blast
qed

lemma hex_graphic: "list_all graphic (hex_encode bytes)"
proof -
  have "graphic (hex_digits ! (of_char b div 16)) \<and> graphic (hex_digits ! (of_char b mod 16))" for b :: char
  proof -
    have "(of_char b :: nat) < 256" by (rule nat_of_char_less_256)
    then have "(of_char b :: nat) div 16 < 16" by (simp add: less_mult_imp_div_less del: nat_of_char_less_256)
    then have "(of_char b :: nat) div 16 = of_char b div 16 mod 16" by simp
    then show ?thesis using hex_digit_graphic by metis
  qed
  then show ?thesis by (induction bytes) (simp_all add: hex_encode_def)
qed

lemma hex_nonempty: "bytes \<noteq> [] \<Longrightarrow> hex_encode bytes \<noteq> []"
  by (cases bytes) (simp_all add: hex_encode_def)

lemma hex_trim: "bytes \<noteq> [] \<Longrightarrow> trim_space (hex_encode bytes) = hex_encode bytes"
  using hex_graphic [of bytes] hex_nonempty [of bytes]
  by (intro trim_space_graphic) (auto simp: list_all_iff)


definition demo_host :: "string option \<Rightarrow> host_identity" where
  "demo_host h = \<lparr>hi_host_id = h, hi_hostname = ''box'', hi_cpu_models = None, hi_sha256 = (\<lambda>_. replicate 32 (CHR ''a''))\<rparr>"

definition demo_fingerprint :: string where
  "demo_fingerprint = fst (get_fingerprint (demo_host (Some ''id'')) True ''/d'' ''h'' ''c'' (\<lambda>_. None))"


text \<open>Deleting it makes the next start generate one again; deleting a missing file succeeds.\<close>

lemma delete_is_idempotent:
  "fst (delete_fingerprint removable dataDir (snd (delete_fingerprint True dataDir fs)))"
  by (simp add: delete_fingerprint_def)

text \<open>The data directory that is chosen can be written.\<close>

lemma create_data_dir_writable: "create_data_dir mk paths ds = (Some p, ds') \<Longrightarrow> directory_is_writable ds' p"
  by (induction mk paths ds rule: create_data_dir.induct) (auto split: if_splits option.splits)

lemma data_dir_is_writable:
  assumes "test_data_dirs mk paths ds = (Some p, ds')"
  shows "directory_is_writable ds' p"
proof (cases "find (\<lambda>path. fst (is_valid_data_dir mk path False ds)) paths")
  case None
  then show ?thesis using assms create_data_dir_writable by (simp add: test_data_dirs_def)
next
  case (Some q)
  then have "fst (is_valid_data_dir mk q False ds)" using find_SomeD by fastforce
  then show ?thesis
    using assms Some by (auto simp: test_data_dirs_def is_valid_data_dir_def split: option.splits bool.splits)
qed

end
