(* ===== verification/AgentConn.thy ===== *)
theory AgentConn
  imports Protocol AgentFiles
begin

text \<open>
  The agent's side of the connection: \<^verbatim>\<open>agent/client.go\<close>, \<^verbatim>\<open>agent/handlers.go\<close> and
  \<^verbatim>\<open>agent/connection_manager.go\<close>. The WebSocket library is outside: whether a dial succeeds, and
  that an open connection is closed, are events. A connection has a number; the client points to
  the one it opened last. Events wait in the channel of the manager in the order they were sent
  (a sender that blocks on the full channel is a place in the same queue).
\<close>

section \<open>Client\<close>

datatype agent_error =
    UnknownAction u8
  | HubNotVerified
  | BadRequest
  | NoHubUrl
  | InvalidHubUrl
  | NoToken
  | AlreadyConnected
  | NoClient
  | AlreadyConnecting
  | DialFailed bool
  | SendFailed

text \<open>The flag of \<open>DialFailed\<close>: the error is a failed DNS lookup.\<close>

definition get_token :: "environment \<Rightarrow> file_system \<Rightarrow> agent_error + string" where
  "get_token env files =
     (let token = (case get_env env ''TOKEN'' of Some v \<Rightarrow> v | None \<Rightarrow> '''');
          tokenFile = (case get_env env ''TOKEN_FILE'' of Some v \<Rightarrow> v | None \<Rightarrow> '''')
      in if token \<noteq> '''' then Inr token
         else if tokenFile = '''' then Inl NoToken
         else case files tokenFile of None \<Rightarrow> Inl NoToken | Some bytes \<Rightarrow> Inr (trim_space bytes))"

record url =
  url_scheme :: string
  url_host :: string
  url_path :: string

text \<open>The options of the library: where to dial, the headers of the upgrade request, whether certificates are checked.\<close>

record client_options =
  co_addr :: url
  co_headers :: "(string \<times> string) list"
  co_insecure :: bool

record client =
  cl_url :: url
  cl_token :: string
  cl_fingerprint :: string
  cl_options :: "client_options option"
  cl_conn :: "nat option"
  cl_last_attempt :: instant
  cl_verified :: bool

definition new_web_socket_client ::
  "environment \<Rightarrow> file_system \<Rightarrow> (string \<Rightarrow> url option) \<Rightarrow> string \<Rightarrow> agent_error + client" where
  "new_web_socket_client env files parse fingerprint =
     (case get_env env ''HUB_URL'' of
        None \<Rightarrow> Inl NoHubUrl
      | Some s \<Rightarrow>
          (case parse s of
             None \<Rightarrow> Inl InvalidHubUrl
           | Some u \<Rightarrow>
               (case get_token env files of
                  Inl e \<Rightarrow> Inl e
                | Inr token \<Rightarrow>
                    Inr \<lparr>cl_url = u, cl_token = token, cl_fingerprint = fingerprint, cl_options = None,
                         cl_conn = None, cl_last_attempt = zero_time, cl_verified = False\<rparr>)))"

text \<open>\<open>getUserAgent\<close>: one of two browsers, by the parity of the clock.\<close>

definition get_user_agent :: "instant \<Rightarrow> string" where
  "get_user_agent now =
     ''Mozilla/5.0 ('' @ (if now mod 2 = 0 then ''Windows NT 11.0; Win64; x64'' else ''Macintosh; Intel Mac OS X 14_0_0'')
     @ '') AppleWebKit/537.36 (KHTML, like Gecko) Chrome/124.0.0.0 Safari/537.36''"

text \<open>\<open>beszel.Version\<close>.\<close>

definition agent_version :: string where "agent_version = ''0.1.0''"

text \<open>The options are built once; building them rewrites the scheme and the path of the URL.\<close>

definition get_options :: "instant \<Rightarrow> client \<Rightarrow> client_options \<times> client" where
  "get_options now cl =
     (case cl_options cl of
        Some opts \<Rightarrow> (opts, cl)
      | None \<Rightarrow>
          let u = (cl_url cl)
                \<lparr>url_scheme := (if url_scheme (cl_url cl) = ''https'' then ''wss'' else ''ws''),
                 url_path := path_join [url_path (cl_url cl), ''api/beszel/agent-connect'']\<rparr>;
              opts = \<lparr>co_addr = u, co_headers = [(''User-Agent'', get_user_agent now), (''X-Token'', cl_token cl),
                        (''X-Beszel'', agent_version)], co_insecure = True\<rparr>
          in (opts, cl\<lparr>cl_url := u, cl_options := Some opts\<rparr>))"

text \<open>The proxy of the dialer is read from \<open>ALL_PROXY\<close>, which the agent's own variable overrides when the options are built.\<close>

definition proxy_environment :: "client \<Rightarrow> environment \<Rightarrow> environment" where
  "proxy_environment cl env =
     (case (cl_options cl, env ''BESZEL_AGENT_ALL_PROXY'') of
        (None, Some val) \<Rightarrow> if val = '''' then env else env(''ALL_PROXY'' \<mapsto> val)
      | _ \<Rightarrow> env)"

lemma get_options_stable: "get_options now' (snd (get_options now cl)) = get_options now cl"
  by (simp add: get_options_def Let_def split: option.split)

section \<open>Connection manager\<close>

datatype conn_state = Disconnected | WebSocketConnected
datatype conn_event = WebSocketConnect | WebSocketDisconnect

definition connection_type_none :: u8 where "connection_type_none = 0"
definition connection_type_web_socket :: u8 where "connection_type_web_socket = 2"

text \<open>\<open>cm_open\<close>: the connections whose read loop runs; \<open>cm_connects\<close>, \<open>cm_running\<close>: the goroutines of
  \<open>connect\<close> that were made, and those that have begun; \<open>cm_answers\<close>: the answers sent, newest first; \<open>cm_ticker\<close>: whether the ticker runs
  (\<open>None\<close> before it was made); \<open>cm_health\<close>: when the health file was written.\<close>

record conn_manager =
  cm_state :: conn_state
  cm_client :: "client option"
  cm_ticker :: "bool option"
  cm_connecting :: bool
  cm_type :: u8
  cm_queue :: "conn_event list"
  cm_started :: bool
  cm_connects :: nat
  cm_running :: nat
  cm_open :: "nat list"
  cm_next_conn :: nat
  cm_now :: instant
  cm_answers :: "payload list"
  cm_exited :: bool
  cm_health :: "instant option"

definition new_connection_manager :: "instant \<Rightarrow> conn_manager" where
  "new_connection_manager now =
     \<lparr>cm_state = Disconnected, cm_client = None, cm_ticker = None, cm_connecting = False, cm_type = 0,
      cm_queue = [], cm_started = False, cm_connects = 0, cm_running = 0, cm_open = [], cm_next_conn = 0, cm_now = now,
      cm_answers = [], cm_exited = False, cm_health = None\<rparr>"

definition start_ws_ticker :: "conn_manager \<Rightarrow> conn_manager" where
  "start_ws_ticker cm = cm\<lparr>cm_ticker := Some True\<rparr>"

definition stop_ws_ticker :: "conn_manager \<Rightarrow> conn_manager" where
  "stop_ws_ticker cm = cm\<lparr>cm_ticker := map_option (\<lambda>_. False) (cm_ticker cm)\<rparr>"

text \<open>\<open>Connect\<close>: a close frame goes to the previous connection, whose read loop ends later (an event
  of its own); a failed dial leaves a nil connection.\<close>

definition client_connect :: "bool option \<Rightarrow> conn_manager \<Rightarrow> client \<Rightarrow> bool \<times> conn_manager" where
  "client_connect dial cm cl =
     (let cl = snd (get_options (cm_now cm) (cl\<lparr>cl_last_attempt := cm_now cm\<rparr>))
      in case dial of
           Some lookup \<Rightarrow> (False, cm\<lparr>cm_client := Some (cl\<lparr>cl_conn := None\<rparr>)\<rparr>)
         | None \<Rightarrow> (True, cm\<lparr>cm_client := Some (cl\<lparr>cl_conn := Some (cm_next_conn cm)\<rparr>),
                            cm_open := cm_next_conn cm # cm_open cm, cm_next_conn := cm_next_conn cm + 1\<rparr>))"

definition start_web_socket_connection ::
  "bool option \<Rightarrow> conn_manager \<Rightarrow> agent_error option \<times> conn_manager" where
  "start_web_socket_connection dial cm =
     (if cm_state cm \<noteq> Disconnected then (Some AlreadyConnected, cm)
      else case cm_client cm of
             None \<Rightarrow> (Some NoClient, cm)
           | Some cl \<Rightarrow>
               if time_sub (cm_now cm) (cl_last_attempt cl) < 5 * second then (Some AlreadyConnecting, cm)
               else (case client_connect dial cm cl of
                       (True, cm') \<Rightarrow> (None, cm')
                     | (False, cm') \<Rightarrow> (map_option DialFailed dial, cm')))"

definition should_exit_on_err :: "environment \<Rightarrow> agent_error \<Rightarrow> bool" where
  "should_exit_on_err env err \<longleftrightarrow>
     get_env env ''EXIT_ON_DNS_ERROR'' = Some ''true'' \<and> err = DialFailed True"

text \<open>\<open>connect\<close> after its sleep; the state may have changed meanwhile.\<close>

definition connect_body :: "environment \<Rightarrow> bool option \<Rightarrow> conn_manager \<Rightarrow> conn_manager" where
  "connect_body env dial cm =
     (let (err, cm) = start_web_socket_connection dial cm;
          cm = (case err of
                  None \<Rightarrow> cm
                | Some e \<Rightarrow>
                    if should_exit_on_err env e then cm\<lparr>cm_exited := True\<rparr>
                    else if cm_state cm = Disconnected then start_ws_ticker cm else cm)
      in cm\<lparr>cm_connecting := False\<rparr>)"

definition handle_state_change :: "conn_state \<Rightarrow> conn_manager \<Rightarrow> conn_manager" where
  "handle_state_change newState cm =
     (if cm_state cm = newState then cm
      else let cm = cm\<lparr>cm_state := newState\<rparr>
           in case newState of
                WebSocketConnected \<Rightarrow>
                  (stop_ws_ticker (cm\<lparr>cm_type := connection_type_web_socket\<rparr>))\<lparr>cm_connecting := False\<rparr>
              | Disconnected \<Rightarrow>
                  let cm = cm\<lparr>cm_type := connection_type_none\<rparr>
                  in if cm_connecting cm then cm
                     else cm\<lparr>cm_connecting := True, cm_connects := cm_connects cm + 1\<rparr>)"

definition handle_event :: "conn_event \<Rightarrow> conn_manager \<Rightarrow> conn_manager" where
  "handle_event e cm =
     (case e of
        WebSocketConnect \<Rightarrow> handle_state_change WebSocketConnected cm
      | WebSocketDisconnect \<Rightarrow>
          if cm_state cm = WebSocketConnected then handle_state_change Disconnected cm else cm)"

definition update_health :: "bool \<Rightarrow> conn_manager \<Rightarrow> conn_manager" where
  "update_health creatable cm = cm\<lparr>cm_health := snd (health_update creatable (cm_now cm) (cm_health cm))\<rparr>"

text \<open>\<open>stop\<close>, on a signal: a close frame for the connection, and the health file goes.\<close>

definition stop_manager :: "conn_manager \<Rightarrow> conn_manager" where
  "stop_manager cm = cm\<lparr>cm_health := snd (health_clean_up (cm_health cm)), cm_exited := True\<rparr>"

text \<open>\<open>Start\<close> up to the event loop; \<open>creatable\<close>: whether the health file can be written.\<close>

definition start_manager ::
  "environment \<Rightarrow> bool option \<Rightarrow> bool \<Rightarrow> agent_error + client \<Rightarrow> conn_manager \<Rightarrow> bool \<times> conn_manager" where
  "start_manager env dial creatable new_client cm =
     (if cm_started cm then (False, cm)
      else let cm = cm\<lparr>cm_client := (case new_client of Inr cl \<Rightarrow> Some cl | Inl e \<Rightarrow> None), cm_started := True\<rparr>;
               cm = connect_body env dial ((start_ws_ticker cm)\<lparr>cm_connecting := True\<rparr>)
           in (True, if cm_exited cm then cm else update_health creatable cm))"

section \<open>Requests of the hub\<close>

text \<open>The requests; a decoded message is an action and the bytes of its data, and the id is the one its answer carries.\<close>

type_synonym hub_request = "u8 \<times> string"

record fingerprint_request =
  fr_signature :: string
  fr_need_sys_info :: bool

record data_request_options =
  do_cache_time :: u16
  do_details :: bool

record container_action_request =
  cr_container :: string
  cr_action :: string

text \<open>A handler of the registry, given what it needs of the agent: how options are decoded, the
  statistics, the container action; \<open>ag_send\<close>: whether a payload encodes and the connection takes it.\<close>

record agent_api =
  ag_options :: "string \<Rightarrow> data_request_options"
  ag_gather :: "data_request_options \<Rightarrow> combined_data"
  ag_fingerprint_request :: "string \<Rightarrow> fingerprint_request option"
  ag_container_request :: "string \<Rightarrow> container_action_request"
  ag_container_action :: "container_action_request \<Rightarrow> string"
  ag_system_name :: string
  ag_hostname :: string
  ag_send :: "payload \<Rightarrow> bool"

datatype handler = GetDataHandler | CheckFingerprintHandler | ContainerActionHandler

definition new_handler_registry :: "(u8, handler) gomap" where
  "new_handler_registry =
     [(get_data, GetDataHandler), (check_fingerprint, CheckFingerprintHandler),
      (container_action_id, ContainerActionHandler)]"

text \<open>\<open>sendMessage\<close>: when the connection fails it gets a close frame too, and the error goes to the log.\<close>

definition send_message :: "agent_api \<Rightarrow> payload \<Rightarrow> conn_manager \<Rightarrow> agent_error option \<times> conn_manager" where
  "send_message ag p cm = (if ag_send ag p then (None, cm\<lparr>cm_answers := p # cm_answers cm\<rparr>) else (Some SendFailed, cm))"

definition handle_auth_challenge :: "agent_api \<Rightarrow> string \<Rightarrow> client \<Rightarrow> conn_manager \<Rightarrow> agent_error option \<times> conn_manager" where
  "handle_auth_challenge ag data cl cm =
     (case ag_fingerprint_request ag data of
        None \<Rightarrow> (Some BadRequest, cm)
      | Some req \<Rightarrow>
          let response = (if fr_need_sys_info req
                then \<lparr>fp_fingerprint = cl_fingerprint cl, fp_hostname = ag_hostname ag, fp_port = ''45876'',
                      fp_name = ag_system_name ag\<rparr>
                else \<lparr>fp_fingerprint = cl_fingerprint cl, fp_hostname = '''', fp_port = '''', fp_name = ''''\<rparr>)
          in send_message ag (Fingerprint response)
               (cm\<lparr>cm_client := Some (cl\<lparr>cl_verified := True\<rparr>), cm_queue := cm_queue cm @ [WebSocketConnect]\<rparr>))"

definition get_data_handle :: "agent_api \<Rightarrow> string \<Rightarrow> conn_manager \<Rightarrow> agent_error option \<times> conn_manager" where
  "get_data_handle ag data cm = send_message ag (SystemData (ag_gather ag (ag_options ag data))) cm"

definition container_action_handle :: "agent_api \<Rightarrow> string \<Rightarrow> conn_manager \<Rightarrow> agent_error option \<times> conn_manager" where
  "container_action_handle ag data cm =
     send_message ag (Response (empty_response\<lparr>ar_error := ag_container_action ag (ag_container_request ag data)\<rparr>)) cm"

lemmas handle_defs = get_data_handle_def container_action_handle_def send_message_def

definition handle_hub_request :: "agent_api \<Rightarrow> u8 \<Rightarrow> string \<Rightarrow> client \<Rightarrow> conn_manager \<Rightarrow> agent_error option \<times> conn_manager" where
  "handle_hub_request ag action data cl cm =
     (case map_of new_handler_registry action of
        None \<Rightarrow> (Some (UnknownAction action), cm)
      | Some h \<Rightarrow>
          if action \<noteq> check_fingerprint \<and> \<not> cl_verified cl then (Some HubNotVerified, cm)
          else (case h of
                  GetDataHandler \<Rightarrow> get_data_handle ag data cm
                | CheckFingerprintHandler \<Rightarrow> handle_auth_challenge ag data cl cm
                | ContainerActionHandler \<Rightarrow> container_action_handle ag data cm))"

text \<open>A message: only binary messages that decode to a request are handled.\<close>

definition on_message ::
  "agent_api \<Rightarrow> (string \<Rightarrow> hub_request option) \<Rightarrow> bool \<Rightarrow> string \<Rightarrow> conn_manager \<Rightarrow> conn_manager" where
  "on_message ag decode binary bytes cm =
     (case cm_client cm of
        None \<Rightarrow> cm
      | Some cl \<Rightarrow>
          if \<not> binary then cm
          else (case decode bytes of
                  None \<Rightarrow> cm
                | Some (action, data) \<Rightarrow> snd (handle_hub_request ag action data cl cm)))"

definition on_close :: "conn_manager \<Rightarrow> conn_manager" where
  "on_close cm = cm\<lparr>cm_queue := cm_queue cm @ [WebSocketDisconnect]\<rparr>"

section \<open>Runs\<close>

datatype agent_event =
    Clock duration
  | LoopEvent
  | TickerFires "bool option"
  | ConnectBegins
  | ConnectRuns "bool option"
  | Message nat bool string
  | ConnClosed nat
  | HealthTick bool
  | Signal

definition agent_step ::
  "environment \<Rightarrow> agent_api \<Rightarrow> (string \<Rightarrow> hub_request option) \<Rightarrow> conn_manager \<Rightarrow> agent_event \<Rightarrow> conn_manager" where
  "agent_step env ag decode cm e =
     (if cm_exited cm then cm else
      case e of
        Clock d \<Rightarrow> cm\<lparr>cm_now := cm_now cm + \<bar>d\<bar>\<rparr>
      | LoopEvent \<Rightarrow>
          (case cm_queue cm of [] \<Rightarrow> cm | ev # q \<Rightarrow> handle_event ev (cm\<lparr>cm_queue := q\<rparr>))
      | TickerFires dial \<Rightarrow>
          if cm_ticker cm = Some True then snd (start_web_socket_connection dial cm) else cm
      | ConnectBegins \<Rightarrow>
          if 0 < cm_connects cm
          then cm\<lparr>cm_connects := cm_connects cm - 1, cm_running := cm_running cm + 1, cm_connecting := True\<rparr> else cm
      | ConnectRuns dial \<Rightarrow>
          if 0 < cm_running cm
          then connect_body env dial (cm\<lparr>cm_running := cm_running cm - 1\<rparr>) else cm
      | Message i binary bytes \<Rightarrow> if i \<in> set (cm_open cm) then on_message ag decode binary bytes cm else cm
      | ConnClosed i \<Rightarrow>
          if i \<in> set (cm_open cm)
          then on_close (cm\<lparr>cm_open := removeAll i (cm_open cm)\<rparr>) else cm
      | HealthTick creatable \<Rightarrow> if cm_started cm then update_health creatable cm else cm
      | Signal \<Rightarrow> if cm_started cm then stop_manager cm else cm)"


section \<open>Invariants\<close>

definition verified :: "client option \<Rightarrow> bool" where
  "verified c \<longleftrightarrow> (case c of Some cl \<Rightarrow> cl_verified cl | None \<Rightarrow> False)"

lemma verified_simps [simp]: "verified (Some cl) = cl_verified cl" "\<not> verified None"
  by (simp_all add: verified_def)

definition conn_inv :: "conn_manager \<Rightarrow> bool" where
  "conn_inv cm \<longleftrightarrow>
     cm_type cm = (if cm_state cm = WebSocketConnected then connection_type_web_socket else connection_type_none) \<and>
     (cm_state cm = WebSocketConnected \<longrightarrow> cm_ticker cm \<noteq> Some True) \<and>
     (cm_state cm = WebSocketConnected \<or> WebSocketConnect \<in> set (cm_queue cm) \<or> cm_answers cm \<noteq> [] \<longrightarrow>
        verified (cm_client cm))"

lemma conn_inv_health [simp]: "conn_inv (update_health c cm) = conn_inv cm" "conn_inv (stop_manager cm) = conn_inv cm"
  by (simp_all add: update_health_def stop_manager_def conn_inv_def)

lemma conn_state_neq [simp]: "s \<noteq> Disconnected \<longleftrightarrow> s = WebSocketConnected" "s \<noteq> WebSocketConnected \<longleftrightarrow> s = Disconnected"
  by (cases s; simp)+

lemma get_options_verified [simp]: "cl_verified (snd (get_options now cl)) = cl_verified cl"
  by (simp add: get_options_def Let_def split: option.split)

lemma start_connection_keeps:
  assumes "start_web_socket_connection dial cm = (err, cm')"
  shows "cm_state cm' = cm_state cm \<and> cm_type cm' = cm_type cm \<and> cm_ticker cm' = cm_ticker cm \<and>
    cm_queue cm' = cm_queue cm \<and> cm_answers cm' = cm_answers cm \<and> cm_connects cm' = cm_connects cm \<and>
    cm_running cm' = cm_running cm \<and> cm_connecting cm' = cm_connecting cm \<and> cm_exited cm' = cm_exited cm \<and>
    verified (cm_client cm') = verified (cm_client cm)"
  using assms
  by (auto simp: start_web_socket_connection_def client_connect_def Let_def split: if_splits option.splits)

lemma conn_inv_start_connection: "conn_inv cm \<Longrightarrow> conn_inv (snd (start_web_socket_connection dial cm))"
  using start_connection_keeps [OF surjective_pairing, of dial cm] by (simp add: conn_inv_def)

lemma conn_inv_connect_body: "conn_inv cm \<Longrightarrow> conn_inv (connect_body env dial cm)"
proof (cases "start_web_socket_connection dial cm")
  case (Pair err cm')
  assume "conn_inv cm"
  then have "conn_inv cm'" using conn_inv_start_connection [of cm dial] Pair by simp
  then show ?thesis
    by (cases err) (auto simp: connect_body_def Pair conn_inv_def start_ws_ticker_def)
qed

lemma conn_inv_state_change:
  assumes "conn_inv cm" and "s = WebSocketConnected \<Longrightarrow> verified (cm_client cm)"
  shows "conn_inv (handle_state_change s cm)"
  using assms by (cases s) (auto simp: handle_state_change_def conn_inv_def stop_ws_ticker_def Let_def)

lemma conn_inv_answer: "conn_inv cm \<Longrightarrow> verified (cm_client cm) \<Longrightarrow> conn_inv (cm\<lparr>cm_answers := as\<rparr>)"
  by (simp add: conn_inv_def)

lemma conn_inv_send: "conn_inv cm \<Longrightarrow> verified (cm_client cm) \<Longrightarrow> conn_inv (snd (send_message ag p cm))"
  by (simp add: send_message_def conn_inv_answer)

lemma conn_inv_auth:
  "conn_inv cm \<Longrightarrow> cl_verified cl \<Longrightarrow> conn_inv (cm\<lparr>cm_client := Some cl, cm_queue := q\<rparr>)"
  by (simp add: conn_inv_def)

lemma registry_lookup:
  "map_of new_handler_registry a = Some h \<longleftrightarrow>
     a = get_data \<and> h = GetDataHandler \<or> a = check_fingerprint \<and> h = CheckFingerprintHandler \<or>
     a = container_action_id \<and> h = ContainerActionHandler"
  by (auto simp: new_handler_registry_def action_defs)

lemma conn_inv_request:
  assumes "conn_inv cm" and "cm_client cm = Some cl"
  shows "conn_inv (snd (handle_hub_request ag a d cl cm))"
proof (cases "map_of new_handler_registry a")
  case (Some h)
  have "conn_inv (snd (handle_auth_challenge ag d cl cm))"
    using assms by (simp add: handle_auth_challenge_def Let_def conn_inv_auth conn_inv_send split: option.split)
  then show ?thesis
    using Some assms registry_lookup [of a h]
    by (cases h) (simp_all add: handle_hub_request_def get_data_handle_def container_action_handle_def conn_inv_send action_defs)
qed (use assms in \<open>simp add: handle_hub_request_def\<close>)

lemma conn_inv_message: "conn_inv cm \<Longrightarrow> conn_inv (on_message ag decode binary bytes cm)"
  by (simp add: on_message_def conn_inv_request split: option.split prod.split)

lemma conn_inv_step: "conn_inv cm \<Longrightarrow> conn_inv (agent_step env ag decode cm e)"
proof (cases e)
  case LoopEvent
  assume inv: "conn_inv cm"
  show ?thesis
  proof (cases "cm_queue cm")
    case (Cons ev q)
    have "conn_inv (cm\<lparr>cm_queue := q\<rparr>)" using inv Cons by (auto simp: conn_inv_def)
    then have "conn_inv (handle_event ev (cm\<lparr>cm_queue := q\<rparr>))"
      using inv Cons by (cases ev) (auto simp: handle_event_def conn_inv_def [of cm] intro!: conn_inv_state_change)
    then show ?thesis using LoopEvent inv Cons by (simp add: agent_step_def on_close_def)
  qed (use LoopEvent inv in \<open>simp add: agent_step_def on_close_def\<close>)
next
  case (ConnectRuns dial)
  assume "conn_inv cm"
  then have "conn_inv (cm\<lparr>cm_running := n\<rparr>)" for n by (simp add: conn_inv_def)
  then show ?thesis using ConnectRuns \<open>conn_inv cm\<close> by (simp add: agent_step_def on_close_def conn_inv_connect_body)
qed (simp_all add: agent_step_def on_close_def conn_inv_start_connection conn_inv_message, simp_all add: conn_inv_def)

definition fresh_manager :: "conn_manager \<Rightarrow> bool" where
  "fresh_manager cm \<longleftrightarrow> (\<exists>env dial creatable new_client now. (\<forall>cl. new_client = Inr cl \<longrightarrow> \<not> cl_verified cl) \<and>
     cm = snd (start_manager env dial creatable new_client (new_connection_manager now)))"

lemma connect_body_keeps:
  "cm_answers (connect_body env dial cm) = cm_answers cm \<and> cm_queue (connect_body env dial cm) = cm_queue cm \<and>
   cm_state (connect_body env dial cm) = cm_state cm \<and>
   verified (cm_client (connect_body env dial cm)) = verified (cm_client cm)"
  using start_connection_keeps [OF surjective_pairing, of dial cm]
  by (cases "start_web_socket_connection dial cm") (simp add: connect_body_def start_ws_ticker_def split: option.split)

interpretation agent: machine fresh_manager "agent_step env ag decode" conn_inv for env ag decode
proof
  show "conn_inv cm" if "fresh_manager cm" for cm
  proof -
    obtain env dial creatable new_client now where cm: "cm = snd (start_manager env dial creatable new_client (new_connection_manager now))"
      using \<open>fresh_manager cm\<close> by (auto simp: fresh_manager_def)
    have "conn_inv ((start_ws_ticker ((new_connection_manager now)\<lparr>cm_client := c, cm_started := True\<rparr>))\<lparr>cm_connecting := True\<rparr>)" for c
      by (simp add: new_connection_manager_def start_ws_ticker_def conn_inv_def connection_type_none_def)
    from conn_inv_connect_body [OF this] show ?thesis
      by (simp add: cm start_manager_def new_connection_manager_def Let_def)
  qed
qed (rule conn_inv_step)


section \<open>A hub that never asks for the fingerprint\<close>

text \<open>Nothing has been answered and nothing tells the manager that it is connected.\<close>

definition silent :: "conn_manager \<Rightarrow> bool" where
  "silent cm \<longleftrightarrow> cm_answers cm = [] \<and> cm_state cm = Disconnected \<and> WebSocketConnect \<notin> set (cm_queue cm) \<and>
     \<not> verified (cm_client cm)"

lemma silent_health [simp]: "silent (update_health c cm) = silent cm" "silent (stop_manager cm) = silent cm"
  by (simp_all add: update_health_def stop_manager_def silent_def)

lemma silent_start_connection: "silent cm \<Longrightarrow> silent (snd (start_web_socket_connection dial cm))"
  using start_connection_keeps [OF surjective_pairing, of dial cm] by (simp add: silent_def)

lemma silent_connect_body: "silent cm \<Longrightarrow> silent (connect_body env dial cm)"
  using connect_body_keeps [of env dial cm] by (simp add: silent_def)

lemma silent_message:
  assumes "silent cm" and "\<And>a d. decode bytes = Some (a, d) \<Longrightarrow> a \<noteq> check_fingerprint"
  shows "silent (on_message ag decode binary bytes cm)"
  using assms by (auto simp: on_message_def handle_hub_request_def silent_def split: option.split)

lemma silent_step:
  assumes s: "silent cm" and never: "\<And>bytes a d. decode bytes = Some (a, d) \<Longrightarrow> a \<noteq> check_fingerprint"
  shows "silent (agent_step env ag decode cm e)"
proof (cases e)
  case LoopEvent
  then show ?thesis using s
    by (cases "cm_queue cm") (auto simp: agent_step_def on_close_def handle_event_def silent_def split: conn_event.split)
next
  case (ConnectRuns dial)
  have "silent (cm\<lparr>cm_running := n\<rparr>)" for n using s by (simp add: silent_def)
  then show ?thesis using ConnectRuns s by (simp add: agent_step_def on_close_def silent_connect_body)
next
  case (Message i binary bytes)
  then show ?thesis using s silent_message [of cm decode bytes ag binary, OF s never] by (simp add: agent_step_def on_close_def)
qed (use s in \<open>simp_all add: agent_step_def on_close_def silent_start_connection\<close>, simp_all add: silent_def)

lemma silent_run:
  "silent cm \<Longrightarrow> (\<And>bytes a d. decode bytes = Some (a, d) \<Longrightarrow> a \<noteq> check_fingerprint) \<Longrightarrow>
   silent (foldl (agent_step env ag decode) cm es)"
  by (rule foldl_inv [where P = silent]) (auto intro: silent_step)

lemma fresh_silent: "fresh_manager cm \<Longrightarrow> silent cm"
proof -
  assume "fresh_manager cm"
  then obtain env dial creatable new_client now where new: "\<forall>cl. new_client = Inr cl \<longrightarrow> \<not> cl_verified cl"
    and cm: "cm = snd (start_manager env dial creatable new_client (new_connection_manager now))"
    by (auto simp: fresh_manager_def)
  have "silent ((start_ws_ticker ((new_connection_manager now)
      \<lparr>cm_client := (case new_client of Inr cl \<Rightarrow> Some cl | Inl e \<Rightarrow> None), cm_started := True\<rparr>))\<lparr>cm_connecting := True\<rparr>)"
    using new by (auto simp: silent_def new_connection_manager_def start_ws_ticker_def split: sum.splits)
  from silent_connect_body [OF this] show "silent cm"
    by (simp add: cm start_manager_def new_connection_manager_def Let_def)
qed

section \<open>The health file\<close>

text \<open>The check passes for 91 seconds after an update, and not after a shutdown.\<close>

lemma health_after_tick:
  assumes "cm_started cm" and "\<not> cm_exited cm" and "0 \<le> d" and "d \<le> 91 * second"
  shows "health_check (cm_now cm + d) (cm_health (agent_step env ag decode cm (HealthTick True)))"
  using assms
  by (simp add: agent_step_def on_close_def update_health_def health_update_def health_check_def time_sub_def sat_i64_def max_i64_def min_i64_def time_units)

lemma no_health_after_signal:
  "cm_started cm \<Longrightarrow> \<not> cm_exited cm \<Longrightarrow> \<not> health_check now (cm_health (agent_step env ag decode cm Signal))"
  by (simp add: agent_step_def on_close_def stop_manager_def health_clean_up_def health_check_def)

section \<open>A manager that gives up\<close>

text \<open>No connection, no ticker, no attempt in progress and nothing in the queue.\<close>

definition stuck :: "conn_manager \<Rightarrow> bool" where
  "stuck cm \<longleftrightarrow> cm_state cm = Disconnected \<and> cm_ticker cm = Some False \<and> cm_open cm = [] \<and> cm_queue cm = [] \<and>
     cm_connects cm = 0 \<and> cm_running cm = 0"

lemma stuck_health [simp]: "stuck (update_health c cm) = stuck cm" "stuck (stop_manager cm) = stuck cm"
  by (simp_all add: update_health_def stop_manager_def stuck_def)

lemma stuck_step: "stuck cm \<Longrightarrow> stuck (agent_step env ag decode cm e)"
  by (cases e) (simp_all add: agent_step_def on_close_def, simp_all add: stuck_def)

lemma stuck_run: "stuck cm \<Longrightarrow> stuck (foldl (agent_step env ag decode) cm es)"
  by (rule foldl_inv [where P = stuck]) (auto intro: stuck_step)


section \<open>Properties\<close>

text \<open>
  An agent whose hub only sends the requests of this hub (system data and container actions,
  never a fingerprint check) answers none of them and never counts as connected, whatever the order
  of messages, dials, ticks and lost connections.
\<close>

lemma unverified_agent_is_silent:
  assumes "fresh_manager cm"
    and "\<And>bytes a d. decode bytes = Some (a, d) \<Longrightarrow> a = get_data \<or> a = container_action_id"
  shows "cm_answers (foldl (agent_step env ag decode) cm es) = [] \<and>
    cm_state (foldl (agent_step env ag decode) cm es) = Disconnected"
proof -
  have "a \<noteq> check_fingerprint" if "decode bytes = Some (a, d)" for bytes a d
    using assms(2) [OF that] by (auto simp: action_defs)
  from silent_run [OF fresh_silent [OF assms(1)] this, where ag = ag and env = env and es = es]
  show ?thesis by (simp add: silent_def)
qed

text \<open>
  C33: in every reachable state the manager's state, the reported connection type and the ticker
  agree: a connected agent has a verified hub, reports a WebSocket and makes no further attempts, and
  any answer was sent after the hub was verified.
\<close>

theorem connection_state_coherent:
  assumes "fresh_manager cm"
  shows "let cm' = foldl (agent_step env ag decode) cm es
         in (cm_state cm' = WebSocketConnected \<longrightarrow>
               cm_type cm' = connection_type_web_socket \<and> cm_ticker cm' \<noteq> Some True \<and> verified (cm_client cm')) \<and>
            (cm_state cm' = Disconnected \<longrightarrow> cm_type cm' = connection_type_none) \<and>
            (cm_answers cm' \<noteq> [] \<longrightarrow> verified (cm_client cm'))"
  using agent.inv_reachable [OF assms, of env ag decode es] by (simp add: conn_inv_def Let_def)

definition demo_client :: client where
  "demo_client = \<lparr>cl_url = \<lparr>url_scheme = ''https'', url_host = ''hub'', url_path = ''/''\<rparr>, cl_token = ''t'',
     cl_fingerprint = ''f'', cl_options = None, cl_conn = None, cl_last_attempt = zero_time, cl_verified = False\<rparr>"

definition demo_agent :: agent_api where
  "demo_agent = \<lparr>ag_options = (\<lambda>_. \<lparr>do_cache_time = 60000, do_details = True\<rparr>), ag_gather = (\<lambda>_. zero_data), ag_fingerprint_request = (\<lambda>_. Some \<lparr>fr_signature = [], fr_need_sys_info = False\<rparr>),
     ag_container_request = (\<lambda>_. \<lparr>cr_container = [], cr_action = []\<rparr>), ag_container_action = (\<lambda>_. ''''), ag_system_name = '''', ag_hostname = '''', ag_send = (\<lambda>_. True)\<rparr>"

definition check_request :: "string \<Rightarrow> hub_request option" where
  "check_request bytes = Some (check_fingerprint, '''')"

definition demo_manager :: conn_manager where
  "demo_manager = snd (start_manager (\<lambda>_. None) None True (Inr demo_client) (new_connection_manager (100 * second)))"

lemma demo_manager_fresh: "fresh_manager demo_manager"
  unfolding fresh_manager_def demo_manager_def
  by (intro exI conjI) (auto simp: demo_client_def)

text \<open>The hub is verified, the connection is lost, the next dial succeeds and that connection is lost
  before the fingerprint was asked for.\<close>

definition give_up_run :: "agent_event list" where
  "give_up_run = [Message 0 True '''', LoopEvent, ConnClosed 0, LoopEvent, ConnectBegins, Clock (10 * second),
     ConnectRuns None, ConnClosed 1, LoopEvent]"

lemma manager_gave_up: "stuck (foldl (agent_step (\<lambda>_. None) demo_agent check_request) demo_manager give_up_run)"
  by (simp add: give_up_run_def demo_manager_def start_manager_def new_connection_manager_def start_ws_ticker_def
      connect_body_def start_web_socket_connection_def client_connect_def demo_client_def get_options_def
      time_sub_def sat_i64_def max_i64_def min_i64_def time_units agent_step_def on_close_def on_message_def handle_hub_request_def
      new_handler_registry_def check_request_def action_defs handle_auth_challenge_def send_message_def demo_agent_def update_health_def
      handle_event_def handle_state_change_def stop_ws_ticker_def stuck_def Let_def)

text \<open>
  C34: an agent that loses a connection before the hub asked for its fingerprint can give up for
  good: after one such loss the ticker is stopped, no attempt is running, and nothing that happens
  later makes it dial again.
\<close>

theorem agent_can_give_up:
  "cm_state (foldl (agent_step (\<lambda>_. None) demo_agent check_request) demo_manager (give_up_run @ es)) = Disconnected \<and>
   cm_open (foldl (agent_step (\<lambda>_. None) demo_agent check_request) demo_manager (give_up_run @ es)) = []"
  using stuck_run [OF manager_gave_up, of "\<lambda>_. None" demo_agent check_request es] by (simp add: stuck_def)

definition data_request :: "string \<Rightarrow> hub_request option" where
  "data_request bytes = Some (get_data, bytes)"

lemma unverified_agent_is_silent_demo:
  "cm_answers (foldl (agent_step (\<lambda>_. None) demo_agent data_request) demo_manager [Message 0 True '''', LoopEvent]) = [] \<and>
   cm_state (foldl (agent_step (\<lambda>_. None) demo_agent data_request) demo_manager [Message 0 True '''', LoopEvent]) = Disconnected"
  by (rule unverified_agent_is_silent [OF demo_manager_fresh]) (simp add: data_request_def)

lemma connection_state_coherent_witness:
  "let cm' = foldl (agent_step (\<lambda>_. None) demo_agent check_request) demo_manager give_up_run
   in (cm_state cm' = WebSocketConnected \<longrightarrow>
         cm_type cm' = connection_type_web_socket \<and> cm_ticker cm' \<noteq> Some True \<and> verified (cm_client cm')) \<and>
      (cm_state cm' = Disconnected \<longrightarrow> cm_type cm' = connection_type_none) \<and>
      (cm_answers cm' \<noteq> [] \<longrightarrow> verified (cm_client cm'))"
  by (rule connection_state_coherent [OF demo_manager_fresh])

end
