(* ===== verification/Network.thy ===== *)
theory Network
  imports DeltaTracker GoStr Entities Utils
begin

text \<open>
  \<^verbatim>\<open>agent/network.go\<close>: which network interfaces are watched, and their rates. The counters that
  gopsutil reads are arguments. Rates are computed on \<open>uint64\<close>, so a counter that falls makes the
  subtraction wrap; the plausibility limit of \<open>applyNetworkTotals\<close> is what catches it.
\<close>

section \<open>The NICS configuration\<close>

record nic_config =
  nc_nics :: "string list"
  nc_blacklist :: bool
  nc_wildcards :: bool

definition new_nic_config :: "string \<Rightarrow> nic_config" where
  "new_nic_config nicsEnvVal =
     (let blacklist = prefix ''-'' nicsEnvVal;
          value = (if blacklist then drop 1 nicsEnvVal else nicsEnvVal);
          nics = filter (\<lambda>nic. nic \<noteq> '''') (map trim_space (split_byte (CHR '','') value))
      in \<lparr>nc_nics = remdups nics, nc_blacklist = blacklist, nc_wildcards = list_ex (\<lambda>nic. contains nic ''*'') nics\<rparr>)"

definition is_valid_nic :: "string \<Rightarrow> nic_config \<Rightarrow> bool" where
  "is_valid_nic nicName cfg =
     (if nc_nics cfg = [] then nc_blacklist cfg
      else if List.member (nc_nics cfg) nicName then \<not> nc_blacklist cfg
      else if \<not> nc_wildcards cfg then nc_blacklist cfg
      else if list_ex (\<lambda>pattern. contains pattern ''*'' \<and> path_match pattern nicName) (nc_nics cfg)
        then \<not> nc_blacklist cfg
      else nc_blacklist cfg)"

text \<open>The two modes are complements of each other: a list read as a blacklist selects exactly what it
  rejects as a whitelist.\<close>

lemma nic_modes_complement:
  "is_valid_nic name (cfg\<lparr>nc_blacklist := \<not> nc_blacklist cfg\<rparr>) \<longleftrightarrow> \<not> is_valid_nic name cfg"
  by (simp add: is_valid_nic_def)

record io_counters =
  io_name :: string
  io_sent :: u64
  io_recv :: u64

definition skip_network_interface :: "io_counters \<Rightarrow> nic_config option \<Rightarrow> bool" where
  "skip_network_interface v nicCfg =
     (let auto_filter = list_ex (\<lambda>p. prefix p (io_name v)) [''lo'', ''docker'', ''br-'', ''veth'', ''bond'', ''cali'']
            \<or> io_recv v = 0 \<or> io_sent v = 0
      in case nicCfg of
           Some cfg \<Rightarrow>
             if \<not> is_valid_nic (io_name v) cfg then True
             else if \<not> nc_blacklist cfg then False
             else auto_filter
         | None \<Rightarrow> auto_filter)"

section \<open>State\<close>

record net_io_stats =
  ni_recv :: u64
  ni_sent :: u64
  ni_time :: instant

record net_state =
  ns_interfaces :: "string list"
  ns_stats :: "(u16, net_io_stats) gomap"
  ns_trackers :: "(u16, (string, u64) delta_tracker) gomap"

text \<open>\<open>nics\<close>: the environment variable; \<open>counters\<close>: the answer of \<open>IOCounters\<close>.\<close>

definition initialize_net_io_stats :: "string option \<Rightarrow> io_counters list option \<Rightarrow> net_state" where
  "initialize_net_io_stats nics counters =
     (let nicCfg = map_option new_nic_config nics
      in \<lparr>ns_interfaces =
            (case counters of
               None \<Rightarrow> []
             | Some netIO \<Rightarrow> remdups (map io_name (filter (\<lambda>v. \<not> skip_network_interface v nicCfg) netIO))),
          ns_stats = [], ns_trackers = []\<rparr>)"

definition ensure_net_interfaces_initialized ::
  "string option \<Rightarrow> io_counters list option \<Rightarrow> net_state \<Rightarrow> net_state" where
  "ensure_net_interfaces_initialized nics counters st =
     (if ns_interfaces st = [] then initialize_net_io_stats nics counters else st)"

section \<open>Rates\<close>

text \<open>The clock is read twice: for the elapsed time and for the new baseline.\<close>

definition load_and_tick_net_baseline :: "instant \<Rightarrow> instant \<Rightarrow> u16 \<Rightarrow> net_state \<Rightarrow> net_io_stats \<times> u64" where
  "load_and_tick_net_baseline now now' cacheTimeMs st =
     (let nis = (case map_of (ns_stats st) cacheTimeMs of
                   Some nis \<Rightarrow> nis
                 | None \<Rightarrow> \<lparr>ni_recv = 0, ni_sent = 0, ni_time = zero_time\<rparr>)
      in if ni_time nis = zero_time then (nis\<lparr>ni_time := now\<rparr>, 0)
         else (nis\<lparr>ni_time := now'\<rparr>, ms_elapsed now (ni_time nis)))"

definition per_second :: "u64 \<Rightarrow> u64 \<Rightarrow> u64" where
  "per_second bytes msElapsed = bytes * 1000 div msElapsed"

definition nic_delta :: "u64 \<Rightarrow> u64 \<Rightarrow> u64 option \<Rightarrow> u64" where
  "nic_delta msElapsed v prevVal =
     (if 0 < msElapsed then
        (case prevVal of
           Some prev \<Rightarrow> per_second (if prev \<le> v then v - prev else v) msElapsed
         | None \<Rightarrow> 0)
      else 0)"

definition track_nic ::
  "u64 \<Rightarrow> io_counters \<Rightarrow> (string, u64) delta_tracker \<times> stats \<Rightarrow> (string, u64) delta_tracker \<times> stats" where
  "track_nic msElapsed v ts =
     (let (tracker, systemStats) = ts;
          upKey = io_name v @ ''up''; downKey = io_name v @ ''down'';
          tracker = dt_set downKey (io_recv v) (dt_set upKey (io_sent v) tracker);
          upDelta = nic_delta msElapsed (io_sent v) (dt_previous tracker upKey);
          downDelta = nic_delta msElapsed (io_recv v) (dt_previous tracker downKey);
          nics = (case s_network_interfaces systemStats of Some m \<Rightarrow> m | None \<Rightarrow> [])
      in (tracker, systemStats\<lparr>s_network_interfaces :=
            Some (AList.update (io_name v) (upDelta, downDelta, io_sent v, io_recv v) nics)\<rparr>))"

definition watched :: "net_state \<Rightarrow> io_counters list \<Rightarrow> io_counters list" where
  "watched st netIO = filter (\<lambda>v. List.member (ns_interfaces st) (io_name v)) netIO"

definition sum_and_track_per_nic_deltas ::
  "u16 \<Rightarrow> u64 \<Rightarrow> io_counters list \<Rightarrow> stats \<Rightarrow> net_state \<Rightarrow> (u64 \<times> u64) \<times> stats \<times> net_state" where
  "sum_and_track_per_nic_deltas cacheTimeMs msElapsed netIO systemStats st =
     (let tracker = (case map_of (ns_trackers st) cacheTimeMs of Some t \<Rightarrow> t | None \<Rightarrow> new_delta_tracker);
          (tracker, systemStats) = fold (track_nic msElapsed) (watched st netIO) (cycle tracker, systemStats)
      in ((sum_list (map io_sent (watched st netIO)), sum_list (map io_recv (watched st netIO))), systemStats,
          st\<lparr>ns_trackers := AList.update cacheTimeMs tracker (ns_trackers st)\<rparr>))"

definition compute_bytes_per_second :: "u64 \<Rightarrow> u64 \<Rightarrow> u64 \<Rightarrow> net_io_stats \<Rightarrow> u64 \<times> u64" where
  "compute_bytes_per_second msElapsed sent recv nis =
     (if 0 < msElapsed then (per_second (sent - ni_sent nis) msElapsed, per_second (recv - ni_recv nis) msElapsed)
      else (0, 0))"

definition limit :: u64 where "limit = 10000000000"

definition apply_network_totals ::
  "string option \<Rightarrow> io_counters list option \<Rightarrow> u16 \<Rightarrow> net_io_stats \<Rightarrow> u64 \<times> u64 \<Rightarrow> u64 \<times> u64 \<Rightarrow>
   stats \<times> net_state \<Rightarrow> stats \<times> net_state" where
  "apply_network_totals nics counters cacheTimeMs nis totals rates ss =
     (let (systemStats, st) = ss; (sent, recv) = totals; (sentRate, recvRate) = rates
      in if limit < sentRate \<or> limit < recvRate then
           let st = initialize_net_io_stats nics counters
           in (systemStats\<lparr>s_bandwidth := (0, 0)\<rparr>,
               st\<lparr>ns_stats := AList.delete cacheTimeMs (ns_stats st),
                  ns_trackers := AList.delete cacheTimeMs (ns_trackers st)\<rparr>)
         else (systemStats\<lparr>s_bandwidth := (sentRate, recvRate)\<rparr>,
               st\<lparr>ns_stats := AList.update cacheTimeMs (nis\<lparr>ni_sent := sent, ni_recv := recv\<rparr>) (ns_stats st)\<rparr>))"

text \<open>\<open>init1\<close> and \<open>init2\<close>: the counters a (re)initialisation reads, \<open>netIO\<close> those of the update itself.\<close>

definition update_network_stats ::
  "string option \<Rightarrow> io_counters list option \<Rightarrow> io_counters list option \<Rightarrow> io_counters list option \<Rightarrow>
   instant \<Rightarrow> instant \<Rightarrow> u16 \<Rightarrow> stats \<times> net_state \<Rightarrow> stats \<times> net_state" where
  "update_network_stats nics init1 netIO init2 now now' cacheTimeMs ss =
     (let (systemStats, st) = ss;
          st = ensure_net_interfaces_initialized nics init1 st;
          systemStats = systemStats\<lparr>s_network_interfaces :=
            (case s_network_interfaces systemStats of Some m \<Rightarrow> Some m | None \<Rightarrow> Some [])\<rparr>
      in case netIO of
           None \<Rightarrow> (systemStats, st)
         | Some netIO \<Rightarrow>
             let (nis, msElapsed) = load_and_tick_net_baseline now now' cacheTimeMs st;
                 (totals, systemStats, st) = sum_and_track_per_nic_deltas cacheTimeMs msElapsed netIO systemStats st;
                 rates = compute_bytes_per_second msElapsed (fst totals) (snd totals) nis
             in apply_network_totals nics init2 cacheTimeMs nis totals rates (systemStats, st))"


section \<open>Wrap-around\<close>

lemma uint_times_1000: "uint ((x :: u64) * 1000) = uint x * 1000 mod 2 ^ 64"
  by (simp add: uint_word_ariths)

lemma uint_diff_le: "uint (b :: u64) \<le> uint a \<Longrightarrow> uint (a - b) = uint a - uint b"
  by (simp add: uint_sub_if')

lemma uint_diff_gt: "uint (a :: u64) < uint b \<Longrightarrow> uint (a - b) = uint a - uint b + 2 ^ 64"
  by (simp add: uint_sub_if')

lemma rate_forward:
  assumes "uint b \<le> uint a" and "uint a - uint b < 2 ^ 53"
  shows "uint (per_second (a - b) ms) = (uint a - uint b) * 1000 div uint ms"
proof -
  define x where "x = a - b"
  have x: "uint x = uint a - uint b" using assms uint_diff_le by (simp add: x_def)
  have "uint x * 1000 mod 2 ^ 64 = uint x * 1000" using assms by (intro mod_pos_pos_trivial) (simp_all add: x)
  then have "uint (x * 1000) = (uint a - uint b) * 1000" by (simp only: uint_times_1000 x)
  then show ?thesis by (simp add: per_second_def uint_div flip: x_def)
qed

lemma rate_backward:
  assumes "uint a < uint b" and "uint b - uint a < 2 ^ 53" and "0 < uint ms" and "uint ms \<le> 10 ^ 8"
  shows "uint limit < uint (per_second (a - b) ms)"
proof -
  define d where "d = uint b - uint a"
  have d: "0 < d" "d * 1000 < 2 ^ 63" using assms by (simp_all add: d_def)
  define x where "x = a - b"
  have x: "uint x = 2 ^ 64 - d" using uint_diff_gt [OF assms(1)] by (simp add: d_def x_def)
  have "uint (x * 1000) = ((2 ^ 64 - d) * 1000) mod 2 ^ 64" by (simp only: uint_times_1000 x)
  also have "\<dots> = (- (d * 1000)) mod 2 ^ 64" by (simp add: mod_eq_dvd_iff algebra_simps)
  also have "\<dots> = 2 ^ 64 - d * 1000" using d by (simp add: zmod_zminus1_eq_if)
  finally have "2 ^ 63 \<le> uint (x * 1000)" using d by simp
  then have "2 ^ 63 div uint ms \<le> uint (x * 1000) div uint ms" using assms(3) by (rule zdiv_mono1)
  moreover have "(2::int) ^ 63 div 10 ^ 8 \<le> 2 ^ 63 div uint ms" using assms(3,4) by (intro zdiv_mono2) simp_all
  ultimately have "2 ^ 63 div 10 ^ 8 \<le> uint (per_second x ms)" by (simp add: per_second_def uint_div)
  then show ?thesis by (simp add: limit_def flip: x_def)
qed


lemma track_nic_bandwidth:
  "s_bandwidth (snd (fold (track_nic ms) vs ts)) = s_bandwidth (snd ts)"
  by (induction vs arbitrary: ts) (auto simp: track_nic_def Let_def split: prod.split)

lemma sum_and_track_parts:
  "fst (sum_and_track_per_nic_deltas c ms netIO systemStats st) =
     (sum_list (map io_sent (watched st netIO)), sum_list (map io_recv (watched st netIO)))"
  by (simp add: sum_and_track_per_nic_deltas_def Let_def split: prod.split)

text \<open>The rate that is reported for a counter that went from \<open>b\<close> to \<open>a\<close> in \<open>ms\<close> milliseconds.\<close>

definition true_rate :: "u64 \<Rightarrow> u64 \<Rightarrow> u64 \<Rightarrow> int" where
  "true_rate a b ms = (uint a - uint b) * 1000 div uint ms"

definition plausible :: "u64 \<Rightarrow> u64 \<Rightarrow> u64 \<Rightarrow> bool" where
  "plausible a b ms \<longleftrightarrow> uint b \<le> uint a \<and> true_rate a b ms \<le> 10000000000"

lemma plausible_iff:
  assumes "\<bar>uint a - uint b\<bar> < 2 ^ 53" and "0 < uint ms" and "uint ms \<le> 10 ^ 8"
  shows "limit < per_second (a - b) ms \<longleftrightarrow> \<not> plausible a b ms"
    and "plausible a b ms \<Longrightarrow> uint (per_second (a - b) ms) = true_rate a b ms"
proof -
  show r: "plausible a b ms \<Longrightarrow> uint (per_second (a - b) ms) = true_rate a b ms"
    using rate_forward [of b a ms] assms(1) by (simp add: plausible_def true_rate_def)
  show "limit < per_second (a - b) ms \<longleftrightarrow> \<not> plausible a b ms"
  proof (cases "uint b \<le> uint a")
    case True
    then show ?thesis using rate_forward [OF True, of ms] assms(1)
      by (auto simp: plausible_def true_rate_def word_less_def limit_def)
  next
    case False
    then show ?thesis using rate_backward [of a b ms] assms by (simp add: plausible_def word_less_def)
  qed
qed

section \<open>Properties\<close>


definition demo_counters :: "u64 \<Rightarrow> u64 \<Rightarrow> io_counters list" where
  "demo_counters a b = [\<lparr>io_name = ''lo'', io_sent = 5, io_recv = 5\<rparr>, \<lparr>io_name = ''eth0'', io_sent = a, io_recv = b\<rparr>]"

definition demo_base :: net_io_stats where
  "demo_base = \<lparr>ni_recv = 2000, ni_sent = 1000, ni_time = 100 * second\<rparr>"

definition demo_net :: net_state where
  "demo_net = \<lparr>ns_interfaces = [''eth0''], ns_stats = [(60000, demo_base)], ns_trackers = []\<rparr>"


lemma demo_elapsed: "ms_elapsed (102 * second) (100 * second) = 2000"
  by (simp add: ms_elapsed_def time_sub_def sat_i64_def max_i64_def min_i64_def time_units milliseconds_def go_quot_def
      u64_of_i64_def)


end
