(* ===== verification/DiskMatch.thy ===== *)
theory DiskMatch
  imports GoStr Entities Utils "HOL-Library.List_Lexorder" "HOL-Library.Char_ord"
begin

text \<open>
  The matching part of \<^verbatim>\<open>agent/disk.go\<close>: which I/O device a file system name stands for. A Go map of
  counters is the list of its entries in the order the \<open>range\<close> loop happens to take; the candidates
  are ranked by bytes, operations and name, which the model makes a linear order.
\<close>

section \<open>Counters and partitions\<close>

record io_disk =
  dk_name :: string
  dk_label :: string
  dk_read_bytes :: u64
  dk_write_bytes :: u64
  dk_read_count :: u64
  dk_write_count :: u64
  dk_read_time :: u64
  dk_write_time :: u64
  dk_io_time :: u64
  dk_weighted_io :: u64

type_synonym disk_counters = "(string, io_disk) gomap"

record partition =
  pt_device :: string
  pt_mountpoint :: string

record usage_stat =
  us_total :: u64
  us_used :: u64
  us_percent :: flt

section \<open>Names\<close>

definition normalize_device_name :: "string \<Rightarrow> string" where
  "normalize_device_name value = (let name = path_base (trim_space value) in if name = ''.'' then '''' else name)"

definition prefix_related :: "string \<Rightarrow> string \<Rightarrow> bool" where
  "prefix_related a b = (if a = '''' \<or> b = '''' \<or> a = b then False else prefix b a \<or> prefix a b)"

definition filesystem_matches_partition_setting :: "string \<Rightarrow> partition \<Rightarrow> bool" where
  "filesystem_matches_partition_setting filesystem p =
     (let filesystem = trim_space filesystem in
      if filesystem = '''' then False
      else if pt_mountpoint p = filesystem then True
      else let fsName = normalize_device_name filesystem; partName = normalize_device_name (pt_device p) in
           if fsName = '''' \<or> partName = '''' then False
           else if fsName = partName then True
           else prefix_related partName fsName)"

definition parse_filesystem_entry :: "string \<Rightarrow> string \<times> string" where
  "parse_filesystem_entry entry =
     (let entry = trim_space entry in
      case split2 entry ''__'' of
        Some (a, b) \<Rightarrow> (trim_space a, trim_space b)
      | None \<Rightarrow> (entry, ''''))"

definition extra_filesystem_partition_info :: "partition \<Rightarrow> string \<times> string" where
  "extra_filesystem_partition_info p =
     (let device = trim_space (pt_device p);
          (folderDevice, customName) = parse_filesystem_entry (path_base (pt_mountpoint p))
      in (if device = '''' then folderDevice else device, customName))"

definition is_docker_special_mountpoint :: "string \<Rightarrow> bool" where
  "is_docker_special_mountpoint mountpoint = List.member [''/etc/hosts'', ''/etc/resolv.conf'', ''/etc/hostname''] mountpoint"

section \<open>Candidates\<close>

datatype candidate = Candidate (cand_name: string) (cand_bytes: u64) (cand_ops: u64)

definition cand_key :: "candidate \<Rightarrow> nat \<times> nat \<times> string" where
  "cand_key c = (unat (cand_bytes c), unat (cand_ops c), cand_name c)"

text \<open>The order of the loop: more bytes, then more operations, then the smaller name.\<close>

instantiation candidate :: linorder
begin

definition less_candidate :: "candidate \<Rightarrow> candidate \<Rightarrow> bool" where
  "less_candidate b c \<longleftrightarrow> cand_bytes b < cand_bytes c \<or>
     cand_bytes c = cand_bytes b \<and> cand_ops b < cand_ops c \<or>
     cand_bytes c = cand_bytes b \<and> cand_ops c = cand_ops b \<and> cand_name c < cand_name b"

definition less_eq_candidate :: "candidate \<Rightarrow> candidate \<Rightarrow> bool" where
  "less_eq_candidate b c \<longleftrightarrow> b = c \<or> b < c"

instance
proof
  fix x y z :: candidate
  show "x < y \<longleftrightarrow> x \<le> y \<and> \<not> y \<le> x" by (cases x; cases y) (auto simp: less_candidate_def less_eq_candidate_def)
  show "x \<le> x" by (simp add: less_eq_candidate_def)
  show "x \<le> z" if "x \<le> y" "y \<le> z"
    using that by (cases x; cases y; cases z) (auto simp: less_candidate_def less_eq_candidate_def)
  show "x = y" if "x \<le> y" "y \<le> x"
    using that by (cases x; cases y) (auto simp: less_candidate_def less_eq_candidate_def)
  show "x \<le> y \<or> y \<le> x"
    by (cases x; cases y) (auto simp: less_candidate_def less_eq_candidate_def)
qed

end

definition candidate_of :: "io_disk \<Rightarrow> candidate" where
  "candidate_of d = Candidate (dk_name d) (dk_read_bytes d + dk_write_bytes d) (dk_read_count d + dk_write_count d)"

definition exact_match :: "string \<Rightarrow> io_disk \<Rightarrow> bool" where
  "exact_match filesystem d \<longleftrightarrow>
     normalize_device_name (dk_name d) = filesystem \<or>
     dk_label d \<noteq> '''' \<and> normalize_device_name (dk_label d) = filesystem"

definition prefix_match :: "string \<Rightarrow> io_disk \<Rightarrow> bool" where
  "prefix_match filesystem d \<longleftrightarrow>
     prefix_related (normalize_device_name (dk_name d)) filesystem \<or>
     dk_label d \<noteq> '''' \<and> prefix_related (normalize_device_name (dk_label d)) filesystem"

text \<open>The loop over the counters: an exact match returns at once (\<open>Inl\<close>), else the candidates.\<close>

fun find_loop :: "string \<Rightarrow> io_disk list \<Rightarrow> candidate list \<Rightarrow> string + candidate list" where
  "find_loop filesystem [] candidates = Inr candidates"
| "find_loop filesystem (d # ds) candidates =
     (if exact_match filesystem d then Inl (dk_name d)
      else find_loop filesystem ds (if prefix_match filesystem d then candidates @ [candidate_of d] else candidates))"

definition better :: "candidate \<Rightarrow> candidate \<Rightarrow> candidate" where
  "better best c =
     (if cand_bytes best < cand_bytes c \<or>
         cand_bytes c = cand_bytes best \<and> cand_ops best < cand_ops c \<or>
         cand_bytes c = cand_bytes best \<and> cand_ops c = cand_ops best \<and> cand_name c < cand_name best
      then c else best)"

definition find_io_device :: "string \<Rightarrow> disk_counters \<Rightarrow> string option" where
  "find_io_device filesystem diskIoCounters =
     (let filesystem = normalize_device_name filesystem in
      if filesystem = '''' then None
      else case find_loop filesystem (map snd diskIoCounters) [] of
             Inl name \<Rightarrow> Some name
           | Inr [] \<Rightarrow> None
           | Inr (best # candidates) \<Rightarrow> Some (cand_name (foldl better best candidates)))"

definition most_active_io_device :: "disk_counters \<Rightarrow> string" where
  "most_active_io_device diskIoCounters =
     cand_name (foldl (\<lambda>best d. let c = candidate_of d in if cand_name best = '''' then c else better best c)
       (Candidate '''' 0 0) (map snd diskIoCounters))"

section \<open>The order of the map does not matter\<close>

lemma better_max: "better b c = max b c"
  by (auto simp: better_def max_def less_eq_candidate_def less_candidate_def)

lemma foldl_better: "foldl better b cs = Max (insert b (set cs))"
proof (induction cs arbitrary: b)
  case (Cons c cs)
  have "foldl better b (c # cs) = foldl better (max b c) cs" by (simp only: foldl.simps better_max)
  also have "\<dots> = Max (insert (max b c) (set cs))" by (rule Cons)
  also have "\<dots> = Max (insert b (set (c # cs)))"
    by (cases "cs = []") (simp_all add: max.assoc)
  finally show ?case .
qed simp

text \<open>The busiest device, when every device has a name.\<close>

lemma most_active_max:
  assumes "cs \<noteq> []" and "\<forall>d \<in> snd ` set cs. dk_name d \<noteq> ''''"
  shows "most_active_io_device cs = cand_name (Max (candidate_of ` snd ` set cs))"
proof -
  define pick where "pick = (\<lambda>best d. let c = candidate_of d in if cand_name best = '''' then c else better best c)"
  have step: "foldl pick b ds = foldl better b (map candidate_of ds)"
    if "cand_name b \<noteq> ''''" "\<forall>d \<in> set ds. dk_name d \<noteq> ''''" for b ds
    using that
  proof (induction ds arbitrary: b)
    case (Cons d ds)
    have "cand_name (better b (candidate_of d)) \<noteq> ''''" using Cons.prems by (simp add: better_def candidate_of_def)
    then show ?case using Cons by (simp add: pick_def Let_def)
  qed simp
  obtain d ds where ds: "map snd cs = d # ds" using assms(1) by (cases cs) auto
  have names: "\<forall>d \<in> set (d # ds). dk_name d \<noteq> ''''" using assms(2) unfolding ds [symmetric] by simp
  have "foldl pick (Candidate '''' 0 0) (d # ds) = foldl better (candidate_of d) (map candidate_of ds)"
    using names step [of "candidate_of d" ds] by (simp add: pick_def candidate_of_def)
  moreover have "insert (candidate_of d) (set (map candidate_of ds)) = candidate_of ` snd ` set cs"
    using arg_cong [OF ds, of "\<lambda>xs. candidate_of ` set xs"] by (simp add: image_image)
  ultimately show ?thesis
    unfolding most_active_io_device_def pick_def [symmetric] ds by (simp add: foldl_better del: foldl_Cons)
qed

lemma find_loop_none:
  "\<not> list_ex (exact_match f) ds \<Longrightarrow> find_loop f ds cs = Inr (cs @ map candidate_of (filter (prefix_match f) ds))"
  by (induction ds arbitrary: cs) auto

lemma find_loop_exact:
  "list_ex (exact_match f) ds \<Longrightarrow> \<exists>d \<in> set ds. exact_match f d \<and> find_loop f ds cs = Inl (dk_name d)"
  by (induction ds arbitrary: cs) auto

text \<open>The reference: an exact match if there is one, else the greatest of the related devices.\<close>

definition best_device :: "string \<Rightarrow> io_disk set \<Rightarrow> string option" where
  "best_device f ds =
     (let exact = {d \<in> ds. exact_match f d}; related = {d \<in> ds. prefix_match f d}
      in if f = '''' then None
         else if exact \<noteq> {} then Some (dk_name (the_elem exact))
         else if related \<noteq> {} then Some (cand_name (Max (candidate_of ` related))) else None)"

text \<open>
  C36: the device that is chosen does not depend on the order in which Go iterates over the counters:
  it is the one the reference names, as long as at most one device matches the name exactly.
\<close>

theorem find_io_device_deterministic:
  assumes "\<And>d d'. d \<in> snd ` set cs \<Longrightarrow> d' \<in> snd ` set cs \<Longrightarrow> exact_match (normalize_device_name f) d \<Longrightarrow>
             exact_match (normalize_device_name f) d' \<Longrightarrow> d = d'"
  shows "find_io_device f cs = best_device (normalize_device_name f) (snd ` set cs)"
proof -
  define n where "n = normalize_device_name f"
  define ds where "ds = map snd cs"
  have ds: "snd ` set cs = set ds" by (simp add: ds_def)
  show ?thesis
  proof (cases "list_ex (exact_match n) ds")
    case True
    then obtain d where d: "d \<in> set ds" "exact_match n d" "find_loop n ds [] = Inl (dk_name d)"
      using find_loop_exact by blast
    have "{d \<in> set ds. exact_match n d} = {d}"
      using d assms unfolding ds n_def [symmetric] by blast
    then show ?thesis
      unfolding find_io_device_def best_device_def Let_def n_def [symmetric] ds_def [symmetric] ds
      using d by simp
  next
    case False
    then have none: "{d \<in> set ds. exact_match n d} = {}" by (auto simp: list_ex_iff)
    have loop: "find_loop n ds [] = Inr (map candidate_of (filter (prefix_match n) ds))"
      using find_loop_none [OF False, of "[]"] by simp
    show ?thesis
    proof (cases "map candidate_of (filter (prefix_match n) ds)")
      case Nil
      then have "{d \<in> set ds. prefix_match n d} = {}" by (auto simp: filter_empty_conv)
      then show ?thesis
        unfolding find_io_device_def best_device_def Let_def n_def [symmetric] ds_def [symmetric] ds loop none Nil by simp
    next
      case (Cons b bs)
      have "insert b (set bs) = candidate_of ` {d \<in> set ds. prefix_match n d}"
        using arg_cong [OF Cons, of set] by auto
      then show ?thesis
        unfolding find_io_device_def best_device_def Let_def n_def [symmetric] ds_def [symmetric] ds loop none Cons
        by (auto simp: foldl_better)
    qed
  qed
qed


definition demo_disk :: "string \<Rightarrow> u64 \<Rightarrow> io_disk" where
  "demo_disk name n = \<lparr>dk_name = name, dk_label = '''', dk_read_bytes = n, dk_write_bytes = n, dk_read_count = n,
     dk_write_count = n, dk_read_time = n, dk_write_time = n, dk_io_time = n, dk_weighted_io = n\<rparr>"

lemma demo_no_exact:
  "\<not> exact_match (normalize_device_name ''ada0'') (demo_disk ''ada0p2'' 5)"
  "\<not> exact_match (normalize_device_name ''ada0'') (demo_disk ''ada0p1'' 7)"
  by (simp_all add: exact_match_def demo_disk_def normalize_device_name_def trim_space_graphic graphic_def path_base_def
      slash_def)

lemma find_io_device_deterministic_witness:
  "find_io_device ''ada0'' [(''ada0p2'', demo_disk ''ada0p2'' 5), (''ada0p1'', demo_disk ''ada0p1'' 7)] =
   best_device (normalize_device_name ''ada0'')
     (snd ` set [(''ada0p2'', demo_disk ''ada0p2'' 5), (''ada0p1'', demo_disk ''ada0p1'' 7)])"
  by (rule find_io_device_deterministic) (auto simp: demo_no_exact)

end
