(* ===== verification/DiskDiscovery.thy ===== *)
theory DiskDiscovery
  imports DiskMatch
begin

text \<open>
  The discovery part of \<^verbatim>\<open>agent/disk.go\<close> on Unix: from partitions, I/O counters, environment and the
  folders under \<open>/extra-filesystems\<close> to the map of tracked file systems. What the operating system
  answers (partitions, counters, usage of a path, directory listing) is in the arguments.
\<close>

section \<open>Registration\<close>

record fs_context =
  cx_filesystem :: string
  cx_ef_path :: string
  cx_counters :: disk_counters

definition ef_path :: string where "ef_path = ''/extra-filesystems''"

type_synonym fs_map = "(string, fs_stats) gomap"

definition is_counter :: "fs_context \<Rightarrow> string \<Rightarrow> bool" where
  "is_counter ctx key \<longleftrightarrow> map_of (cx_counters ctx) key \<noteq> None"

definition match_or :: "string \<Rightarrow> string option \<Rightarrow> string" where
  "match_or key m = (case m of Some k \<Rightarrow> k | None \<Rightarrow> key)"

definition root_key :: "fs_context \<Rightarrow> string \<Rightarrow> string" where
  "root_key ctx key =
     (if is_counter ctx key then key
      else case find_io_device key (cx_counters ctx) of
             Some matchedKey \<Rightarrow> matchedKey
           | None \<Rightarrow>
               if cx_filesystem ctx \<noteq> '''' then match_or key (find_io_device (cx_filesystem ctx) (cx_counters ctx))
               else key)"

definition extra_key :: "fs_context \<Rightarrow> string \<Rightarrow> string \<Rightarrow> string" where
  "extra_key ctx mountpoint key =
     (if is_counter ctx key then key
      else let folderDevice = fst (parse_filesystem_entry (path_base mountpoint));
               key = (if prefix (cx_ef_path ctx) mountpoint \<and> folderDevice \<noteq> ''''
                      then match_or key (find_io_device folderDevice (cx_counters ctx)) else key)
           in if is_counter ctx key then key else match_or key (find_io_device key (cx_counters ctx)))"

definition register_filesystem_stats ::
  "fs_map \<Rightarrow> string \<Rightarrow> string \<Rightarrow> bool \<Rightarrow> string \<Rightarrow> fs_context \<Rightarrow> (string \<times> fs_stats) option" where
  "register_filesystem_stats existing device mountpoint isRoot customName ctx =
     (let key = path_base device;
          key = (if isRoot then root_key ctx key else extra_key ctx mountpoint key)
      in if map_of existing key \<noteq> None then None
         else Some (key, zero_fs_stats\<lparr>fs_root := isRoot, fs_mountpoint := mountpoint, fs_name := customName\<rparr>))"

definition add_fs_stat :: "fs_context \<Rightarrow> string \<Rightarrow> string \<Rightarrow> bool \<Rightarrow> string \<Rightarrow> fs_map \<Rightarrow> fs_map" where
  "add_fs_stat ctx device mountpoint isRoot customName fs =
     (case register_filesystem_stats fs device mountpoint isRoot customName ctx of
        None \<Rightarrow> fs
      | Some (key, s) \<Rightarrow> AList.update key s fs)"

section \<open>The root file system\<close>

definition root_stats :: "string \<Rightarrow> fs_stats" where
  "root_stats mountpoint = zero_fs_stats\<lparr>fs_root := True, fs_mountpoint := mountpoint\<rparr>"

definition add_configured_root_fs :: "fs_context \<Rightarrow> string \<Rightarrow> partition list \<Rightarrow> fs_map \<Rightarrow> bool \<times> fs_map" where
  "add_configured_root_fs ctx rootMountPoint partitions fs =
     (if cx_filesystem ctx = '''' then (False, fs)
      else case find (filesystem_matches_partition_setting (cx_filesystem ctx)) partitions of
             Some p \<Rightarrow> (True, add_fs_stat ctx (pt_device p) (pt_mountpoint p) True '''' fs)
           | None \<Rightarrow>
               (case find_io_device (cx_filesystem ctx) (cx_counters ctx) of
                  Some ioKey \<Rightarrow> (True, AList.update ioKey (root_stats rootMountPoint) fs)
                | None \<Rightarrow> (False, fs)))"

definition is_root_fallback_partition :: "partition \<Rightarrow> string \<Rightarrow> bool" where
  "is_root_fallback_partition p rootMountPoint \<longleftrightarrow>
     pt_mountpoint p = rootMountPoint \<or>
     is_docker_special_mountpoint (pt_mountpoint p) \<and> prefix ''/dev'' (pt_device p)"

definition add_partition_root_fs :: "fs_context \<Rightarrow> string \<Rightarrow> string \<Rightarrow> fs_map \<Rightarrow> bool \<times> fs_map" where
  "add_partition_root_fs ctx device mountpoint fs =
     (case find_io_device (path_base device) (cx_counters ctx) of
        None \<Rightarrow> (False, fs)
      | Some io \<Rightarrow> (True, add_fs_stat ctx io mountpoint True '''' fs))"

definition add_last_resort_root_fs :: "fs_context \<Rightarrow> string \<Rightarrow> fs_map \<Rightarrow> fs_map" where
  "add_last_resort_root_fs ctx rootMountPoint fs =
     (let rootKey = most_active_io_device (cx_counters ctx);
          rootKey = (if rootKey \<noteq> '''' then rootKey
                     else let k = path_base rootMountPoint in if map_of fs k \<noteq> None then ''root'' else k)
      in AList.update rootKey (root_stats rootMountPoint) fs)"

section \<open>Extra file systems\<close>

definition find_partition_by_filesystem_setting :: "string \<Rightarrow> partition list \<Rightarrow> partition option" where
  "find_partition_by_filesystem_setting filesystem partitions =
     find (\<lambda>p. suffix filesystem (pt_device p) \<or> pt_mountpoint p = filesystem) partitions"

definition add_configured_extra_fs_entry ::
  "fs_context \<Rightarrow> partition list \<Rightarrow> (string \<Rightarrow> usage_stat option) \<Rightarrow> string \<Rightarrow> string \<Rightarrow> fs_map \<Rightarrow> fs_map" where
  "add_configured_extra_fs_entry ctx partitions usage filesystem customName fs =
     (case find_partition_by_filesystem_setting filesystem partitions of
        Some p \<Rightarrow> add_fs_stat ctx (pt_device p) (pt_mountpoint p) False customName fs
      | None \<Rightarrow>
          if usage filesystem \<noteq> None
          then add_fs_stat ctx (path_base filesystem) filesystem False customName fs else fs)"

definition add_configured_extra_filesystems ::
  "fs_context \<Rightarrow> partition list \<Rightarrow> (string \<Rightarrow> usage_stat option) \<Rightarrow> string \<Rightarrow> fs_map \<Rightarrow> fs_map" where
  "add_configured_extra_filesystems ctx partitions usage extraFilesystems fs =
     fold (\<lambda>fsEntry. let (filesystem, customName) = parse_filesystem_entry fsEntry
             in add_configured_extra_fs_entry ctx partitions usage filesystem customName)
       (split_byte (CHR '','') extraFilesystems) fs"

definition add_partition_extra_fs :: "fs_context \<Rightarrow> partition \<Rightarrow> fs_map \<Rightarrow> fs_map" where
  "add_partition_extra_fs ctx p fs =
     (if path_dir (pt_mountpoint p) \<noteq> cx_ef_path ctx then fs
      else let (device, customName) = extra_filesystem_partition_info p
           in add_fs_stat ctx device (pt_mountpoint p) False customName fs)"

text \<open>The mountpoints that are known before the loop over the folders.\<close>

definition add_extra_filesystem_folders :: "fs_context \<Rightarrow> string list \<Rightarrow> fs_map \<Rightarrow> fs_map" where
  "add_extra_filesystem_folders ctx folderNames fs =
     (let existingMountpoints = map (fs_mountpoint \<circ> snd) fs
      in fold (\<lambda>folderName fs.
            let mountpoint = path_join [cx_ef_path ctx, folderName]
            in if List.member existingMountpoints mountpoint then fs
               else let (device, customName) = parse_filesystem_entry folderName
                    in add_fs_stat ctx device mountpoint False customName fs)
         folderNames fs)"

section \<open>Duplicates of the root\<close>

definition within_usage_tolerance :: "u64 \<Rightarrow> u64 \<Rightarrow> u64 \<Rightarrow> bool" where
  "within_usage_tolerance a b tolerance = (if b \<le> a then a - b \<le> tolerance else b - a \<le> tolerance)"

definition has_same_disk_usage :: "usage_stat \<Rightarrow> usage_stat \<Rightarrow> bool" where
  "has_same_disk_usage a b =
     (if us_total a = 0 \<or> us_total b = 0 then False
      else within_usage_tolerance (us_total a) (us_total b) (16 * 1024 * 1024) \<and>
           within_usage_tolerance (us_used a) (us_used b) (16 * 1024 * 1024))"

definition prune_duplicate_root_extra_filesystems :: "(string \<Rightarrow> usage_stat option) \<Rightarrow> fs_map \<Rightarrow> fs_map" where
  "prune_duplicate_root_extra_filesystems usage fs =
     (case find (\<lambda>(key, s). fs_root s) fs of
        None \<Rightarrow> fs
      | Some (key, rootStats) \<Rightarrow>
          if fs_mountpoint rootStats = '''' then fs
          else (case usage (fs_mountpoint rootStats) of
                  None \<Rightarrow> fs
                | Some rootUsage \<Rightarrow>
                    filter (\<lambda>(key, s). fs_root s \<or>
                      (case usage (fs_mountpoint s) of
                         None \<Rightarrow> True
                       | Some extraUsage \<Rightarrow> \<not> has_same_disk_usage rootUsage extraUsage)) fs))"

section \<open>The whole discovery\<close>

text \<open>The start values of the I/O counters, and the names that have some.\<close>

definition initialize_disk_io_stats :: "instant \<Rightarrow> disk_counters \<Rightarrow> fs_map \<Rightarrow> string list \<times> fs_map" where
  "initialize_disk_io_stats now counters fs =
     (map fst (filter (\<lambda>(device, s). map_of counters device \<noteq> None) fs),
      map (\<lambda>(device, s). (device,
        case map_of counters device of
          None \<Rightarrow> s
        | Some d \<Rightarrow> s\<lparr>fs_time := now, fs_total_read := dk_read_bytes d, fs_total_write := dk_write_bytes d\<rparr>)) fs)"

definition add_partition ::
  "fs_context \<Rightarrow> string \<Rightarrow> partition \<Rightarrow> bool \<times> fs_map \<Rightarrow> bool \<times> fs_map" where
  "add_partition ctx rootMountPoint p hf =
     (let (hasRoot, fs) = hf;
          (hasRoot, fs) = (if \<not> hasRoot \<and> is_root_fallback_partition p rootMountPoint
                           then add_partition_root_fs ctx (pt_device p) (pt_mountpoint p) fs else (hasRoot, fs))
      in (hasRoot, add_partition_extra_fs ctx p fs))"

definition initialize_disk_info ::
  "environment \<Rightarrow> string \<Rightarrow> partition list \<Rightarrow> disk_counters \<Rightarrow> (string \<Rightarrow> usage_stat option) \<Rightarrow> string list option \<Rightarrow>
   instant \<Rightarrow> fs_map \<Rightarrow> string list \<times> fs_map" where
  "initialize_disk_info env rootMountPoint partitions counters usage folders now fs =
     (let filesystem = (case get_env env ''FILESYSTEM'' of Some v \<Rightarrow> v | None \<Rightarrow> '''');
          ctx = \<lparr>cx_filesystem = filesystem, cx_ef_path = ef_path, cx_counters = counters\<rparr>;
          (hasRoot, fs) = add_configured_root_fs ctx rootMountPoint partitions fs;
          fs = (case get_env env ''EXTRA_FILESYSTEMS'' of
                  Some extra \<Rightarrow> add_configured_extra_filesystems ctx partitions usage extra fs
                | None \<Rightarrow> fs);
          (hasRoot, fs) = fold (add_partition ctx rootMountPoint) partitions (hasRoot, fs);
          fs = (case folders of Some names \<Rightarrow> add_extra_filesystem_folders ctx names fs | None \<Rightarrow> fs);
          fs = (if hasRoot then fs else add_last_resort_root_fs ctx rootMountPoint fs)
      in initialize_disk_io_stats now counters (prune_duplicate_root_extra_filesystems usage fs))"

definition get_root_mount_point :: "file_system \<Rightarrow> (string \<Rightarrow> bool) \<Rightarrow> string" where
  "get_root_mount_point files exists =
     (let immutable_release = (case files ''/etc/os-release'' of
            None \<Rightarrow> False
          | Some content \<Rightarrow>
              contains content ''fedora'' \<and> contains content ''silverblue'' \<or> contains content ''coreos'' \<or>
              contains content ''flatcar'' \<or> contains content ''rhel-atomic'' \<or> contains content ''centos-atomic'')
      in if immutable_release \<and> exists ''/sysroot'' then ''/sysroot''
         else if exists ''/run/ostree'' \<and> exists ''/sysroot'' then ''/sysroot''
         else ''/'')"

section \<open>How many roots are tracked\<close>

definition roots :: "fs_map \<Rightarrow> nat" where "roots fs = length (filter (fs_root \<circ> snd) fs)"

lemma update_fresh: "map_of m k = None \<Longrightarrow> AList.update k v m = m @ [(k, v)]"
  by (induction m) (auto split: if_splits)

lemma roots_update: "roots fs = 0 \<Longrightarrow> fs_root s \<Longrightarrow> roots (AList.update k s fs) = 1"
  by (induction fs) (auto simp: roots_def split: if_splits)

lemma add_fs_stat_cases:
  "add_fs_stat ctx device mountpoint isRoot name fs = fs \<and> fs \<noteq> [] \<or>
   (\<exists>k s. add_fs_stat ctx device mountpoint isRoot name fs = fs @ [(k, s)] \<and> map_of fs k = None \<and> fs_root s = isRoot)"
  by (cases fs) (auto simp: add_fs_stat_def register_filesystem_stats_def Let_def update_fresh zero_fs_stats_def)

lemma roots_add_extra [simp]: "roots (add_fs_stat ctx device mountpoint False name fs) = roots fs"
  using add_fs_stat_cases [of ctx device mountpoint False name fs] by (auto simp: roots_def)

lemma roots_add_root: "roots (add_fs_stat ctx device mountpoint True name fs) \<le> Suc (roots fs)"
  using add_fs_stat_cases [of ctx device mountpoint True name fs] by (auto simp: roots_def)

lemma roots_add_root_first: "roots (add_fs_stat ctx device mountpoint True name []) = 1"
  using add_fs_stat_cases [of ctx device mountpoint True name "[]"] by (auto simp: roots_def)

lemma roots_configured_entry [simp]: "roots (add_configured_extra_fs_entry ctx ps usage f name fs) = roots fs"
  by (simp add: add_configured_extra_fs_entry_def split: option.split)

lemma roots_configured_extra [simp]: "roots (add_configured_extra_filesystems ctx ps usage e fs) = roots fs"
  unfolding add_configured_extra_filesystems_def
  by (rule fold_keeps [where P = "\<lambda>m. roots m = roots fs"]) (auto simp: split_beta Let_def)

lemma roots_partition_extra [simp]: "roots (add_partition_extra_fs ctx p fs) = roots fs"
  by (simp add: add_partition_extra_fs_def split_beta Let_def)

lemma roots_folders [simp]: "roots (add_extra_filesystem_folders ctx names fs) = roots fs"
  unfolding add_extra_filesystem_folders_def Let_def
  by (rule fold_keeps [where P = "\<lambda>m. roots m = roots fs"]) (auto simp: split_beta)

lemma roots_prune [simp]: "roots (prune_duplicate_root_extra_filesystems usage fs) = roots fs"
proof -
  have "roots (filter (\<lambda>(key, s). fs_root s \<or> Q s) fs) = roots fs" for Q
    by (induction fs) (auto simp: roots_def)
  then show ?thesis by (auto simp: prune_duplicate_root_extra_filesystems_def split: option.split)
qed

lemma roots_io_stats [simp]: "roots (snd (initialize_disk_io_stats now counters fs)) = roots fs"
  by (induction fs) (auto simp: initialize_disk_io_stats_def roots_def split: option.splits)

text \<open>What the discovery keeps: no root before \<open>hasRoot\<close>, and never two.\<close>

definition root_inv :: "bool \<times> fs_map \<Rightarrow> bool" where
  "root_inv hf \<longleftrightarrow> roots (snd hf) \<le> (if fst hf then 1 else 0)"

text \<open>When nothing but the root has been registered so far, \<open>hasRoot\<close> is exact.\<close>

definition only_root :: "bool \<times> fs_map \<Rightarrow> bool" where
  "only_root hf \<longleftrightarrow> (if fst hf then roots (snd hf) = 1 else snd hf = [])"

lemma configured_root:
  "root_inv (add_configured_root_fs ctx rmp ps []) \<and> only_root (add_configured_root_fs ctx rmp ps [])"
  using roots_add_root_first
  by (auto simp: add_configured_root_fs_def root_inv_def only_root_def roots_def root_stats_def split: option.split)

lemma partition_root:
  "roots fs = 0 \<Longrightarrow> root_inv (add_partition_root_fs ctx d m fs)"
  "only_root (add_partition_root_fs ctx d m [])"
  using roots_add_root [of ctx _ m "''''" fs] roots_add_root_first
  by (auto simp: add_partition_root_fs_def root_inv_def only_root_def roots_def split: option.split)

lemma root_inv_partition:
  assumes "root_inv hf" shows "root_inv (add_partition ctx rmp p hf)"
  using assms partition_root(1) [of "snd hf" ctx "pt_device p" "pt_mountpoint p"]
  by (cases hf) (auto simp: root_inv_def add_partition_def split_beta split: if_splits)

lemma only_root_partition:
  assumes "only_root hf" and "path_dir (pt_mountpoint p) \<noteq> cx_ef_path ctx"
  shows "only_root (add_partition ctx rmp p hf)"
  using assms partition_root(2) [of ctx "pt_device p" "pt_mountpoint p"]
  by (cases hf) (auto simp: only_root_def add_partition_def add_partition_extra_fs_def split_beta split: if_splits)

lemma last_resort_one_root: "roots fs = 0 \<Longrightarrow> roots (add_last_resort_root_fs ctx rmp fs) = 1"
  by (simp add: add_last_resort_root_fs_def Let_def roots_update root_stats_def)

definition setting :: "environment \<Rightarrow> string \<Rightarrow> string" where
  "setting env key = (case get_env env key of Some v \<Rightarrow> v | None \<Rightarrow> '''')"

lemma at_most_one_root:
  "roots (snd (initialize_disk_info env rmp ps counters usage folders now [])) \<le> 1"
proof -
  define ctx where "ctx = \<lparr>cx_filesystem = setting env ''FILESYSTEM'', cx_ef_path = ef_path, cx_counters = counters\<rparr>"
  define start where "start = add_configured_root_fs ctx rmp ps []"
  define extra where "extra = (case get_env env ''EXTRA_FILESYSTEMS'' of
     Some e \<Rightarrow> add_configured_extra_filesystems ctx ps usage e (snd start) | None \<Rightarrow> snd start)"
  define hf where "hf = fold (add_partition ctx rmp) ps (fst start, extra)"
  have "root_inv (fst start, extra)"
    using configured_root [of ctx rmp ps]
    by (auto simp: root_inv_def extra_def start_def split: option.split)
  then have hf: "root_inv hf" unfolding hf_def by (rule fold_keeps [rotated]) (rule root_inv_partition)
  show ?thesis
    unfolding initialize_disk_info_def setting_def [symmetric] Let_def ctx_def [symmetric] start_def [symmetric]
      split_beta extra_def [symmetric] hf_def [symmetric]
    using hf last_resort_one_root by (auto simp: root_inv_def split: option.split)
qed

text \<open>
  C37: with nothing extra configured or mounted, the discovery tracks exactly one root, whatever the
  partitions, the counters and the \<open>FILESYSTEM\<close> setting are; the bare folders and the pruning do not change that.
\<close>

theorem discovery_tracks_one_root:
  assumes "get_env env ''EXTRA_FILESYSTEMS'' = None"
    and "\<And>p. p \<in> set ps \<Longrightarrow> path_dir (pt_mountpoint p) \<noteq> ef_path"
  shows "roots (snd (initialize_disk_info env rmp ps counters usage folders now [])) = 1"
proof -
  define ctx where "ctx = \<lparr>cx_filesystem = setting env ''FILESYSTEM'', cx_ef_path = ef_path, cx_counters = counters\<rparr>"
  define start where "start = add_configured_root_fs ctx rmp ps []"
  define hf where "hf = fold (add_partition ctx rmp) ps (fst start, snd start)"
  have "only_root hf" unfolding hf_def
    by (rule fold_keeps [rotated])
      (use configured_root [of ctx rmp ps] only_root_partition assms(2) in \<open>auto simp: start_def ctx_def\<close>)
  moreover have "roots [] = 0" by (simp add: roots_def)
  ultimately show ?thesis
    unfolding initialize_disk_info_def setting_def [symmetric] Let_def ctx_def [symmetric] start_def [symmetric]
      split_beta hf_def [symmetric]
    using last_resort_one_root assms(1) by (auto simp: only_root_def hf_def split: option.split if_splits)
qed

definition demo_partition :: partition where
  "demo_partition = \<lparr>pt_device = ''/dev/sda1'', pt_mountpoint = ''/''\<rparr>"

lemma demo_partition_dir: "path_dir (pt_mountpoint demo_partition) \<noteq> ef_path"
  by (simp add: demo_partition_def ef_path_def path_dir_def path_clean_def slash_def)

lemma discovery_tracks_one_root_witness:
  "roots (snd (initialize_disk_info (\<lambda>_. None) ''/'' [demo_partition] [(''sda'', demo_disk ''sda'' 5)]
     (\<lambda>_. None) None 1 [])) = 1"
  by (rule discovery_tracks_one_root) (auto simp: get_env_def demo_partition_dir)

text \<open>
  With extra file systems the root can be lost: an entry of \<open>EXTRA_FILESYSTEMS\<close> that names the root partition
  takes the key of the device, \<open>addFsStat\<close> then refuses the root, and \<open>addPartitionRootFs\<close>
  reports success all the same.
\<close>

lemma root_is_lost:
  "roots (snd (initialize_disk_info (\<lambda>v. if v = ''EXTRA_FILESYSTEMS'' then Some ''sda1'' else None) ''/''
     [demo_partition] [(''sda'', demo_disk ''sda'' 5)] (\<lambda>_. None) None 1 [])) = 0"
proof -
  define ctx where "ctx = \<lparr>cx_filesystem = '''', cx_ef_path = ef_path, cx_counters = [(''sda'', demo_disk ''sda'' 5)]\<rparr>"
  define env where "env = (\<lambda>v. if v = ''EXTRA_FILESYSTEMS'' then Some ''sda1'' else (None :: string option))"
  have base [simp]: "path_base ''sda1'' = ''sda1''" "path_base ''sda'' = ''sda''" "path_base ''/dev/sda1'' = ''sda1''"
    by (simp_all add: path_base_def slash_def)
  have trim [simp]: "trim_space ''sda1'' = ''sda1''" "trim_space ''sda'' = ''sda''"
    by (simp_all add: trim_space_graphic graphic_def)
  have norm [simp]: "normalize_device_name ''sda1'' = ''sda1''" "normalize_device_name ''sda'' = ''sda''"
    by (simp_all add: normalize_device_name_def)
  have io [simp]: "find_io_device ''sda1'' (cx_counters ctx) = Some ''sda''"
    by (simp add: ctx_def find_io_device_def exact_match_def prefix_match_def prefix_related_def demo_disk_def
        candidate_of_def)
  have entry: "parse_filesystem_entry ''sda1'' = (''sda1'', '''')"
    by (simp add: parse_filesystem_entry_def split2_def)
  have part [simp]: "pt_device demo_partition = ''/dev/sda1''" "pt_mountpoint demo_partition = ''/''"
    by (simp_all add: demo_partition_def)
  have ctx [simp]: "cx_filesystem ctx = ''''" "cx_ef_path ctx = ef_path" "is_counter ctx ''sda''"
    "\<not> is_counter ctx ''sda1''"
    by (simp_all add: ctx_def is_counter_def)
  have root0: "add_configured_root_fs ctx ''/'' [demo_partition] [] = (False, [])"
    by (simp add: add_configured_root_fs_def)
  define s where "s = zero_fs_stats\<lparr>fs_root := False, fs_mountpoint := ''/'', fs_name := ''''\<rparr>"
  have extra: "add_configured_extra_filesystems ctx [demo_partition] (\<lambda>_. None) ''sda1'' [] = [(''sda'', s)]"
    by (simp add: add_configured_extra_filesystems_def entry add_configured_extra_fs_entry_def s_def
        find_partition_by_filesystem_setting_def suffix_def add_fs_stat_def register_filesystem_stats_def
        extra_key_def ef_path_def match_or_def)
  have parts: "add_partition ctx ''/'' demo_partition (False, [(''sda'', s)]) = (True, [(''sda'', s)])"
    using demo_partition_dir
    by (simp add: add_partition_def is_root_fallback_partition_def add_partition_root_fs_def add_fs_stat_def
        register_filesystem_stats_def root_key_def add_partition_extra_fs_def)
  have env: "get_env env ''FILESYSTEM'' = None" "get_env env ''EXTRA_FILESYSTEMS'' = Some ''sda1''"
    by (simp_all add: env_def get_env_def)
  show ?thesis
    unfolding initialize_disk_info_def env_def [symmetric] env option.case Let_def ctx_def [symmetric] root0
      extra prod.case fold_simps fold.simps comp_id parts
    by (simp add: extra parts) (simp add: roots_def s_def zero_fs_stats_def)
qed

end
