(* ===== verification/DiskIo.thy ===== *)
theory DiskIo
  imports DiskDiscovery
begin

text \<open>
  The measuring part of \<^verbatim>\<open>agent/disk.go\<close>: disk usage, with the cache that keeps sleeping disks asleep,
  and I/O rates against one baseline per polling interval. The counters are \<open>uint64\<close>: a counter that
  falls makes the subtraction wrap, and the limit of 50,000 MB/s is what catches it.
\<close>

section \<open>State\<close>

record prev_disk =
  pd_read_bytes :: u64
  pd_write_bytes :: u64
  pd_read_time :: u64
  pd_write_time :: u64
  pd_io_time :: u64
  pd_weighted_io :: u64
  pd_read_count :: u64
  pd_write_count :: u64
  pd_at :: instant

definition prev_disk_from_counter :: "io_disk \<Rightarrow> instant \<Rightarrow> prev_disk" where
  "prev_disk_from_counter d t =
     \<lparr>pd_read_bytes = dk_read_bytes d, pd_write_bytes = dk_write_bytes d, pd_read_time = dk_read_time d,
      pd_write_time = dk_write_time d, pd_io_time = dk_io_time d, pd_weighted_io = dk_weighted_io d,
      pd_read_count = dk_read_count d, pd_write_count = dk_write_count d, pd_at = t\<rparr>"

record disk_state =
  ds_names :: "string list"
  ds_stats :: fs_map
  ds_prev :: "(u16, (string, prev_disk) gomap) gomap"
  ds_cache_duration :: duration
  ds_last_usage :: instant

section \<open>Usage\<close>

definition cache_extra_fs :: "instant \<Rightarrow> disk_state \<Rightarrow> bool" where
  "cache_extra_fs now st \<longleftrightarrow>
     0 < ds_cache_duration st \<and> ds_last_usage st \<noteq> zero_time \<and>
     time_sub now (ds_last_usage st) < ds_cache_duration st"

definition update_usage_entry ::
  "bool \<Rightarrow> (string \<Rightarrow> usage_stat option) \<Rightarrow> string \<times> fs_stats \<Rightarrow> stats \<times> fs_map \<Rightarrow> stats \<times> fs_map" where
  "update_usage_entry cached usage e acc =
     (let (name, s) = e; (systemStats, fs) = acc in
      if cached \<and> \<not> fs_root s then (systemStats, fs)
      else case usage (fs_mountpoint s) of
        Some d \<Rightarrow>
          let tot = bytes_to_gigabytes (us_total d); used = bytes_to_gigabytes (us_used d) in
          (if fs_root s
           then systemStats\<lparr>s_disk_total := tot, s_disk_used := used, s_disk_pct := two_decimals (us_percent d)\<rparr>
           else systemStats,
           AList.update name (s\<lparr>fs_disk_total := tot, fs_disk_used := used\<rparr>) fs)
      | None \<Rightarrow>
          (systemStats,
           AList.update name (s\<lparr>fs_disk_total := zero_flt, fs_disk_used := zero_flt,
             fs_total_read := 0, fs_total_write := 0\<rparr>) fs))"

text \<open>\<open>now\<close> is read before the loop, \<open>now'\<close> after it.\<close>

definition update_disk_usage ::
  "instant \<Rightarrow> instant \<Rightarrow> (string \<Rightarrow> usage_stat option) \<Rightarrow> stats \<times> disk_state \<Rightarrow> stats \<times> disk_state" where
  "update_disk_usage now now' usage ss =
     (let (systemStats, st) = ss;
          cacheExtraFs = cache_extra_fs now st;
          (systemStats, fs) = fold (update_usage_entry cacheExtraFs usage) (ds_stats st) (systemStats, ds_stats st);
          st = st\<lparr>ds_stats := fs\<rparr>
      in (systemStats, if cacheExtraFs then st else st\<lparr>ds_last_usage := now'\<rparr>))"

section \<open>I/O\<close>

definition seed_prev_disk :: "fs_stats \<Rightarrow> io_disk \<Rightarrow> instant \<Rightarrow> prev_disk" where
  "seed_prev_disk s d now =
     (if fs_time s = zero_time then prev_disk_from_counter d now
      else (prev_disk_from_counter d (fs_time s))
             \<lparr>pd_read_bytes := fs_total_read s, pd_write_bytes := fs_total_write s\<rparr>)"

definition interval_pct :: "u64 \<Rightarrow> u64 \<Rightarrow> u64 \<Rightarrow> flt" where
  "interval_pct a b msElapsed =
     two_decimals (mul64 (div64 (float64_of_u64 (a - b)) (float64_of_u64 msElapsed)) (Fin 100))"

definition await :: "u64 \<Rightarrow> u64 \<Rightarrow> u64 \<Rightarrow> u64 \<Rightarrow> flt" where
  "await t prevT count prevCount =
     (let deltaCount = count - prevCount in
      if 0 < deltaCount then two_decimals (div64 (float64_of_u64 (t - prevT)) (float64_of_u64 deltaCount))
      else zero_flt)"

definition io_rate :: "u64 \<Rightarrow> u64 \<Rightarrow> u64 \<Rightarrow> u64" where
  "io_rate a b msElapsed = (a - b) * 1000 div msElapsed"

definition disk_io_stats :: "io_disk \<Rightarrow> prev_disk \<Rightarrow> u64 \<Rightarrow> io_stats" where
  "disk_io_stats d prev ms =
     [interval_pct (dk_read_time d) (pd_read_time prev) ms,
      interval_pct (dk_write_time d) (pd_write_time prev) ms,
      interval_pct (dk_io_time d) (pd_io_time prev) ms,
      await (dk_read_time d) (pd_read_time prev) (dk_read_count d) (pd_read_count prev),
      await (dk_write_time d) (pd_write_time prev) (dk_write_count d) (pd_write_count prev),
      interval_pct (dk_weighted_io d) (pd_weighted_io prev) ms]"

definition invalid_rate :: "flt \<Rightarrow> bool" where "invalid_rate mb = fless (Fin 50000) mb"

definition publish_root :: "fs_stats \<Rightarrow> stats \<Rightarrow> stats" where
  "publish_root s systemStats =
     (if fs_root s
      then systemStats\<lparr>s_disk_read_ps := fs_read_ps s, s_disk_write_ps := fs_write_ps s,
             s_disk_io := (fs_read_bytes s, fs_write_bytes s), s_disk_io_stats := fs_io_stats s\<rparr>
      else systemStats)"

text \<open>One round of the loop; \<open>all\<close> are the counters of the round, from which an invalid rate resets the baselines.\<close>

definition update_device ::
  "u16 \<Rightarrow> instant \<Rightarrow> instant \<Rightarrow> disk_counters \<Rightarrow> string \<times> io_disk \<Rightarrow> stats \<times> disk_state \<Rightarrow> stats \<times> disk_state" where
  "update_device cacheTimeMs now now' all nd ss =
     (let (name, d) = nd; (systemStats, st) = ss in
      case map_of (ds_stats st) (dk_name d) of
        None \<Rightarrow> (systemStats, st)
      | Some s \<Rightarrow>
          let prevs = (case map_of (ds_prev st) cacheTimeMs of Some m \<Rightarrow> m | None \<Rightarrow> []);
              prev = (case map_of prevs name of Some p \<Rightarrow> p | None \<Rightarrow> seed_prev_disk s d now);
              msElapsed = ms_elapsed now (pd_at prev);
              st = st\<lparr>ds_prev := AList.update cacheTimeMs
                     (AList.update name (prev_disk_from_counter d now) prevs) (ds_prev st)\<rparr>
          in if msElapsed < 100 then (systemStats, st)
             else let diskIORead = io_rate (dk_read_bytes d) (pd_read_bytes prev) msElapsed;
                      diskIOWrite = io_rate (dk_write_bytes d) (pd_write_bytes prev) msElapsed;
                      readMb = bytes_to_megabytes (float64_of_u64 diskIORead);
                      writeMb = bytes_to_megabytes (float64_of_u64 diskIOWrite)
                  in if invalid_rate readMb \<or> invalid_rate writeMb
                     then let (names, fs) = initialize_disk_io_stats now' all (ds_stats st)
                          in (systemStats, st\<lparr>ds_names := names, ds_stats := fs\<rparr>)
                     else let s = s\<lparr>fs_time := now, fs_total_read := dk_read_bytes d, fs_total_write := dk_write_bytes d,
                                fs_read_ps := readMb, fs_write_ps := writeMb, fs_read_bytes := diskIORead,
                                fs_write_bytes := diskIOWrite, fs_io_stats := disk_io_stats d prev msElapsed\<rparr>
                          in (publish_root s systemStats, st\<lparr>ds_stats := AList.update (dk_name d) s (ds_stats st)\<rparr>))"

definition update_disk_io ::
  "u16 \<Rightarrow> instant \<Rightarrow> instant \<Rightarrow> disk_counters option \<Rightarrow> stats \<times> disk_state \<Rightarrow> stats \<times> disk_state" where
  "update_disk_io cacheTimeMs now now' ioCounters ss =
     (case ioCounters of
        None \<Rightarrow> ss
      | Some counters \<Rightarrow>
          let (systemStats, st) = ss;
              st = (if map_of (ds_prev st) cacheTimeMs = None
                    then st\<lparr>ds_prev := AList.update cacheTimeMs [] (ds_prev st)\<rparr> else st)
          in fold (update_device cacheTimeMs now now' counters) counters (systemStats, st))"

section \<open>The cache keeps disks asleep\<close>

lemma update_usage_entry_cached:
  assumes "\<not> fs_root (snd e) \<or> usage (fs_mountpoint (snd e)) = usage' (fs_mountpoint (snd e))"
  shows "update_usage_entry True usage e acc = update_usage_entry True usage' e acc"
  using assms by (cases e) (auto simp: update_usage_entry_def split_beta)

text \<open>
  While the cached usage is fresh, nothing but the root is looked at: whatever the mounts of the extra
  file systems would answer (a disk that would have to spin up, a mount that is gone), the update is the same.
\<close>

lemma cached_usage_leaves_disks_asleep:
  assumes "cache_extra_fs now st"
    and "\<And>name s. (name, s) \<in> set (ds_stats st) \<Longrightarrow> fs_root s \<Longrightarrow> usage (fs_mountpoint s) = usage' (fs_mountpoint s)"
  shows "update_disk_usage now now' usage (systemStats, st) = update_disk_usage now now' usage' (systemStats, st)"
proof -
  have "fold (update_usage_entry True usage) (ds_stats st) a = fold (update_usage_entry True usage') (ds_stats st) a" for a
    by (rule fold_cong [OF refl refl], rule ext, rule update_usage_entry_cached) (use assms(2) in force)
  then show ?thesis using assms(1) by (simp add: update_disk_usage_def)
qed

definition demo_disk_state :: disk_state where
  "demo_disk_state = \<lparr>ds_names = [''sda''], ds_stats = [(''sda'', root_stats ''/''),
     (''sdb'', zero_fs_stats\<lparr>fs_mountpoint := ''/mnt''\<rparr>)], ds_prev = [], ds_cache_duration = 15 * minute,
     ds_last_usage = 100 * second\<rparr>"

lemma cached_usage_leaves_disks_asleep_demo:
  "update_disk_usage (160 * second) (161 * second) (\<lambda>_. None) (zero_stats, demo_disk_state) =
   update_disk_usage (160 * second) (161 * second)
     (\<lambda>m. if m = ''/mnt'' then Some \<lparr>us_total = 5, us_used = 1, us_percent = Fin 20\<rparr> else None) (zero_stats, demo_disk_state)"
  by (rule cached_usage_leaves_disks_asleep)
    (auto simp: cache_extra_fs_def demo_disk_state_def root_stats_def zero_fs_stats_def time_units time_sub_def
      sat_i64_def min_i64_def max_i64_def)

text \<open>What the update publishes for the host is what it stored for the root.\<close>

lemma publish_root_mirrors:
  "fs_root s \<Longrightarrow> s_disk_io (publish_root s t) = (fs_read_bytes s, fs_write_bytes s) \<and>
     s_disk_io_stats (publish_root s t) = fs_io_stats s"
  by (simp add: publish_root_def)

lemma disk_io_stats_length [simp]: "length (disk_io_stats d prev ms) = 6"
  by (simp add: disk_io_stats_def)

lemma update_device_wf:
  "stats_wf (fst ss) \<Longrightarrow> (\<And>k s. map_of (ds_stats (snd ss)) k = Some s \<Longrightarrow> length (fs_io_stats s) = 6) \<Longrightarrow>
   stats_wf (fst (update_device c now now' all nd ss))"
  by (auto simp: update_device_def stats_wf_def publish_root_def split_beta Let_def split: option.split)

end
