(* ===== verification/Cpu.thy ===== *)
theory Cpu
  imports Entities Utils
begin

text \<open>
  \<^verbatim>\<open>agent/cpu.go\<close>: CPU percentages from two samples of the cumulative CPU times, one baseline per
  polling interval. The samples of gopsutil are arguments; the arithmetic is that of \<open>float64\<close>, infinities
  and NaN included. \<open>linux\<close> tells the platform.
\<close>

section \<open>Samples\<close>

record times_stat =
  tm_user :: flt
  tm_system :: flt
  tm_idle :: flt
  tm_nice :: flt
  tm_iowait :: flt
  tm_irq :: flt
  tm_softirq :: flt
  tm_steal :: flt
  tm_guest :: flt
  tm_guest_nice :: flt

definition zero_times :: times_stat where
  "zero_times = \<lparr>tm_user = zero_flt, tm_system = zero_flt, tm_idle = zero_flt, tm_nice = zero_flt,
     tm_iowait = zero_flt, tm_irq = zero_flt, tm_softirq = zero_flt, tm_steal = zero_flt,
     tm_guest = zero_flt, tm_guest_nice = zero_flt\<rparr>"

record cpu_metrics =
  cm_total :: flt
  cm_user :: flt
  cm_system :: flt
  cm_iowait :: flt
  cm_steal :: flt
  cm_idle :: flt

definition zero_metrics :: cpu_metrics where
  "zero_metrics = \<lparr>cm_total = zero_flt, cm_user = zero_flt, cm_system = zero_flt, cm_iowait = zero_flt,
     cm_steal = zero_flt, cm_idle = zero_flt\<rparr>"

record cpu_state =
  cpu_last :: "(u16, times_stat) gomap"
  cpu_last_cores :: "(u16, times_stat list) gomap"

section \<open>Percentages\<close>

definition clamp_percent :: "flt \<Rightarrow> flt" where
  "clamp_percent value = math_min (Fin 100) (math_max (Fin 0) value)"

text \<open>\<open>all_times\<close> stands for the method \<open>Total\<close> of the sample, which gopsutil defines.\<close>

definition get_all_busy :: "(times_stat \<Rightarrow> flt) \<Rightarrow> bool \<Rightarrow> times_stat \<Rightarrow> flt \<times> flt" where
  "get_all_busy all_times linux t =
     (let tot = all_times t;
          tot = (if linux then sub64 (sub64 tot (tm_guest t)) (tm_guest_nice t) else tot);
          busy = sub64 (sub64 tot (tm_idle t)) (tm_iowait t)
      in (tot, busy))"

definition calculate_busy :: "(times_stat \<Rightarrow> flt) \<Rightarrow> bool \<Rightarrow> times_stat \<Rightarrow> times_stat \<Rightarrow> flt" where
  "calculate_busy all_times linux t1 t2 =
     (let (t1All, t1Busy) = get_all_busy all_times linux t1; (t2All, t2Busy) = get_all_busy all_times linux t2
      in if fle t2All t1All \<or> fle t2Busy t1Busy then zero_flt
         else clamp_percent (mul64 (div64 (sub64 t2Busy t1Busy) (sub64 t2All t1All)) (Fin 100)))"

definition share :: "flt \<Rightarrow> flt \<Rightarrow> flt \<Rightarrow> flt" where
  "share a b totalDelta = clamp_percent (mul64 (div64 (sub64 b a) totalDelta) (Fin 100))"

section \<open>Operations\<close>

definition default_interval :: u16 where "default_interval = 60000"

text \<open>The baseline of an interval: an interval seen for the first time starts from that of 60 seconds.\<close>

definition ensure_baseline :: "'a \<Rightarrow> u16 \<Rightarrow> (u16, 'a) gomap \<Rightarrow> 'a \<times> (u16, 'a) gomap" where
  "ensure_baseline zero cacheTimeMs m =
     (case map_of m cacheTimeMs of
        Some t \<Rightarrow> (t, m)
      | None \<Rightarrow> let t = (case map_of m default_interval of Some t \<Rightarrow> t | None \<Rightarrow> zero)
                in (t, AList.update cacheTimeMs t m))"

definition init_cpu :: "times_stat list option \<Rightarrow> times_stat list option \<Rightarrow> cpu_state" where
  "init_cpu samples perCoreTimes =
     \<lparr>cpu_last = (case samples of Some (t # ts) \<Rightarrow> [(default_interval, t)] | _ \<Rightarrow> []),
      cpu_last_cores = (case perCoreTimes of Some (t # ts) \<Rightarrow> [(default_interval, t # ts)] | _ \<Rightarrow> [])\<rparr>"

text \<open>\<open>samples\<close> is the answer of \<open>cpu.Times\<close>: \<open>None\<close> is an error, and no sample is \<open>nil\<close> without one.\<close>

definition get_cpu_metrics ::
  "(times_stat \<Rightarrow> flt) \<Rightarrow> bool \<Rightarrow> times_stat list option \<Rightarrow> u16 \<Rightarrow> cpu_state \<Rightarrow> cpu_metrics option \<times> cpu_state" where
  "get_cpu_metrics all_times linux samples cacheTimeMs st =
     (case samples of
        None \<Rightarrow> (None, st)
      | Some [] \<Rightarrow> (Some zero_metrics, st)
      | Some (t2 # others) \<Rightarrow>
          let (t1, lastCpuTimes) = ensure_baseline zero_times cacheTimeMs (cpu_last st);
              totalDelta = sub64 (fst (get_all_busy all_times linux t2)) (fst (get_all_busy all_times linux t1))
          in if fle totalDelta (Fin 0) then (Some zero_metrics, st\<lparr>cpu_last := lastCpuTimes\<rparr>)
             else (Some \<lparr>cm_total = calculate_busy all_times linux t1 t2,
                         cm_user = share (tm_user t1) (tm_user t2) totalDelta,
                         cm_system = share (tm_system t1) (tm_system t2) totalDelta,
                         cm_iowait = share (tm_iowait t1) (tm_iowait t2) totalDelta,
                         cm_steal = share (tm_steal t1) (tm_steal t2) totalDelta,
                         cm_idle = share (tm_idle t1) (tm_idle t2) totalDelta\<rparr>,
                   st\<lparr>cpu_last := AList.update cacheTimeMs t2 lastCpuTimes\<rparr>))"

text \<open>\<open>conv\<close> is the conversion of a float out of the range of \<open>uint8\<close>, which Go leaves to the platform.\<close>

definition get_per_core_cpu_usage ::
  "(flt \<Rightarrow> u8) \<Rightarrow> (times_stat \<Rightarrow> flt) \<Rightarrow> bool \<Rightarrow> times_stat list option \<Rightarrow> u16 \<Rightarrow> cpu_state \<Rightarrow>
   u8 list option option \<times> cpu_state" where
  "get_per_core_cpu_usage conv all_times linux perCoreTimes cacheTimeMs st =
     (case perCoreTimes of
        None \<Rightarrow> (None, st)
      | Some [] \<Rightarrow> (Some None, st)
      | Some samples \<Rightarrow>
          let (lastTimes, lastCpuTimes) = ensure_baseline [] cacheTimeMs (cpu_last_cores st);
              usage = map (\<lambda>(t1, t2). word_of_float conv (math_round (calculate_busy all_times linux t1 t2)))
                        (zip lastTimes samples)
          in (Some (Some usage), st\<lparr>cpu_last_cores := AList.update cacheTimeMs samples lastCpuTimes\<rparr>))"

section \<open>Differences of floats\<close>

text \<open>A finite value of the format. Two different ones have a difference that does not round to zero.\<close>

definition is_float :: "flt \<Rightarrow> bool" where
  "is_float x \<longleftrightarrow> finite_flt x \<and> rnd binary64 (val_of x) = val_of x"

lemma rnd64_multiple: "\<exists>m. rnd binary64 q = of_int m * 2 powi (- 1074)"
proof (cases "q = 0")
  case False
  define e where "e = ulp_exp binary64 q"
  have "- 1074 \<le> e" by (simp add: e_def ulp_exp_def)
  then have "(2::rat) powi e = of_int (2 ^ nat (e + 1074)) * 2 powi (- 1074)"
    using powi_quotient [of "- 1074" e] by (simp add: field_simps)
  then have "rnd binary64 q = of_int (rne (q / 2 powi e) * 2 ^ nat (e + 1074)) * 2 powi (- 1074)"
    using False by (simp add: rnd_def flip: e_def)
  then show ?thesis by blast
qed (auto intro: exI [of _ 0])

lemma rnd64_diff_pos:
  assumes "rnd binary64 p = p" and "rnd binary64 q = q" and "p < q"
  shows "0 < rnd binary64 (q - p)"
proof -
  obtain m n where "p = of_int m * 2 powi (- 1074)" "q = of_int n * 2 powi (- 1074)"
    using rnd64_multiple [of p] rnd64_multiple [of q] assms(1,2) by metis
  then have d: "q - p = of_int (n - m) * 2 powi (- 1074)" by (simp add: left_diff_distrib)
  then have "0 < n - m" using assms(3) by (simp add: zero_less_mult_iff)
  then have "2 powi (- 1074) \<le> q - p" unfolding d by (simp flip: of_int_diff)
  moreover have "rnd binary64 (2 powi (- 1074)) = 2 powi (- 1074)"
    using rnd_exact [of 1 binary64 "- 1074"] by simp
  ultimately have "(2::rat) powi (- 1074) \<le> rnd binary64 (q - p)" by (rule r64.r_ge)
  then show ?thesis by (rule less_le_trans [rotated]) simp
qed

lemma sub64_finite: "finite_flt x \<Longrightarrow> finite_flt y \<Longrightarrow> sub64 x y \<noteq> NaN"
  by (cases x; cases y) (auto simp: fsub_def fadd_def Let_def)

lemma sub64_pos:
  assumes "is_float x" and "is_float y" and "\<not> fle y x"
  shows "fless (Fin 0) (sub64 y x)"
proof -
  have "val_of x < val_of y" using assms by (simp add: is_float_def fle_finite not_le)
  then show ?thesis
    using assms(1,2) rnd64_diff_pos [of "val_of x" "val_of y"]
    by (cases x; cases y) (auto simp: is_float_def fsub_def fadd_def Let_def pack_def fless_def)
qed

lemma sub64_bounded:
  assumes "fle (Fin 0) x" "fle x (Fin (of_int m))" "fle (Fin 0) y" "fle y (Fin (of_int m))" and "\<bar>m\<bar> \<le> 9007199254740992"
  shows "finite_flt (sub64 x y)"
proof -
  have v: "finite_flt x" "finite_flt y" "0 \<le> val_of x" "val_of x \<le> of_int m" "0 \<le> val_of y" "val_of y \<le> of_int m"
    using assms fle_between [of 0 x "of_int m"] fle_between [of 0 y "of_int m"] by auto
  define q where "q = val_of x - val_of y"
  have "q \<le> of_int m" "of_int (- m) \<le> q" using v by (auto simp: q_def)
  then have "finite_flt (pack binary64 b q)" for b
    using pack64_le_int [of q m b] pack64_ge_int [of "- m" q b] fle_between assms(5) by fastforce
  then show ?thesis using v unfolding q_def by (cases x; cases y) (auto simp: fsub_def fadd_def Let_def)
qed

lemma mul64_100: "x \<noteq> NaN \<Longrightarrow> mul64 x (Fin 100) \<noteq> NaN"
  by (cases x) (auto simp: fmul_def Let_def is_zero_def inf_of_def zero_of_def)

lemma div64_pos: "x \<noteq> NaN \<Longrightarrow> fless (Fin 0) y \<Longrightarrow> finite_flt y \<Longrightarrow> div64 x y \<noteq> NaN"
  by (cases x; cases y) (auto simp: fdiv_def Let_def is_zero_def inf_of_def zero_of_def fless_rank)

section \<open>Every percentage is one\<close>

definition in_percent :: "flt \<Rightarrow> bool" where "in_percent v \<longleftrightarrow> fle (Fin 0) v \<and> fle v (Fin 100)"

lemma clamp_in_percent: "v \<noteq> NaN \<Longrightarrow> in_percent (clamp_percent v)"
  using math_clamp_bounds [of v 0 100] by (simp add: in_percent_def clamp_percent_def)

lemma zero_in_percent [simp]: "in_percent (Fin 0)"
  by (simp add: in_percent_def)

definition metrics_in_percent :: "cpu_metrics \<Rightarrow> bool" where
  "metrics_in_percent m \<longleftrightarrow>
     list_all in_percent [cm_total m, cm_user m, cm_system m, cm_iowait m, cm_steal m, cm_idle m]"

text \<open>
  A sample: finite counters, and a busy and a whole time that are floats, the latter below \<open>2^52\<close> seconds.
\<close>

definition good_sample :: "(times_stat \<Rightarrow> flt) \<Rightarrow> bool \<Rightarrow> times_stat \<Rightarrow> bool" where
  "good_sample all_times linux t \<longleftrightarrow>
     list_all finite_flt [tm_user t, tm_system t, tm_iowait t, tm_steal t, tm_idle t] \<and>
     (let (tot, busy) = get_all_busy all_times linux t
      in is_float tot \<and> fle (Fin 0) tot \<and> fle tot (Fin (of_int 4503599627370496)) \<and> is_float busy)"

lemma delta_good:
  assumes "good_sample alt lx t1" and "good_sample alt lx t2"
  defines "d \<equiv> sub64 (fst (get_all_busy alt lx t2)) (fst (get_all_busy alt lx t1))"
  shows "finite_flt d" and "\<not> fle (fst (get_all_busy alt lx t2)) (fst (get_all_busy alt lx t1)) \<Longrightarrow> fless (Fin 0) d"
  using assms sub64_bounded [of _ 4503599627370496] sub64_pos by (auto simp: good_sample_def split_beta Let_def)

lemma share_in_percent:
  assumes "finite_flt a" and "finite_flt b" and "finite_flt d" and "fless (Fin 0) d"
  shows "in_percent (share a b d)"
  unfolding share_def using assms by (intro clamp_in_percent mul64_100 div64_pos sub64_finite) auto

lemma calculate_busy_in_percent:
  assumes "good_sample alt lx t1" and "good_sample alt lx t2"
  shows "in_percent (calculate_busy alt lx t1 t2)"
proof -
  have f: "finite_flt (snd (get_all_busy alt lx t1))" "finite_flt (snd (get_all_busy alt lx t2))"
    using assms by (auto simp: good_sample_def split_beta is_float_def Let_def)
  show ?thesis
    unfolding calculate_busy_def split_beta Let_def
    using delta_good [OF assms] clamp_in_percent [OF mul64_100 [OF div64_pos [OF sub64_finite [OF f(2,1)]]]] by auto
qed

definition cpu_wf :: "(times_stat \<Rightarrow> flt) \<Rightarrow> bool \<Rightarrow> cpu_state \<Rightarrow> bool" where
  "cpu_wf alt lx st \<longleftrightarrow> (\<forall>k t. map_of (cpu_last st) k = Some t \<longrightarrow> good_sample alt lx t)"

lemma ensure_baseline_good:
  assumes "\<And>k t. map_of m k = Some t \<Longrightarrow> P t" and "P zero"
  shows "P (fst (ensure_baseline zero c m))"
    and "map_of (snd (ensure_baseline zero c m)) k = Some t \<Longrightarrow> P t"
  using assms by (auto simp: ensure_baseline_def Let_def map_of_update split: option.splits if_splits)

lemma get_cpu_metrics_wf:
  assumes wf: "cpu_wf alt lx st" and zero: "good_sample alt lx zero_times"
    and good: "\<And>ts t. samples = Some ts \<Longrightarrow> t \<in> set ts \<Longrightarrow> good_sample alt lx t"
  shows "pred_option metrics_in_percent (fst (get_cpu_metrics alt lx samples c st)) \<and>
     cpu_wf alt lx (snd (get_cpu_metrics alt lx samples c st))"
proof (cases "\<exists>t2 others. samples = Some (t2 # others)")
  case False
  then show ?thesis
    using wf by (auto simp: get_cpu_metrics_def metrics_in_percent_def zero_metrics_def split: option.split list.split)
next
  case True
  then obtain t2 others where s: "samples = Some (t2 # others)" by blast
  obtain t1 prevs where b: "ensure_baseline zero_times c (cpu_last st) = (t1, prevs)" by (cases "ensure_baseline zero_times c (cpu_last st)")
  have t1: "good_sample alt lx t1" and prevs: "\<And>k t. map_of prevs k = Some t \<Longrightarrow> good_sample alt lx t"
    using ensure_baseline_good [of "cpu_last st" "good_sample alt lx" zero_times c] wf zero b by (auto simp: cpu_wf_def)
  have t2: "good_sample alt lx t2" using good s by simp
  define d where "d = sub64 (fst (get_all_busy alt lx t2)) (fst (get_all_busy alt lx t1))"
  have fin: "finite_flt d" using delta_good [OF t1 t2] by (simp add: d_def)
  then have pos: "\<not> fle d (Fin 0) \<Longrightarrow> fless (Fin 0) d" using not_fless [of "Fin 0" d] by (cases d) auto
  have parts: "list_all finite_flt [tm_user t, tm_system t, tm_iowait t, tm_steal t, tm_idle t]"
    if "good_sample alt lx t" for t
    using that by (simp add: good_sample_def)
  have wf': "cpu_wf alt lx (st\<lparr>cpu_last := prevs\<rparr>)" "cpu_wf alt lx (st\<lparr>cpu_last := AList.update c t2 prevs\<rparr>)"
    using prevs t2 by (auto simp: cpu_wf_def map_of_update)
  show ?thesis
    using pos fin parts [OF t1] parts [OF t2] wf' calculate_busy_in_percent [OF t1 t2]
    unfolding get_cpu_metrics_def s option.case list.case b prod.case Let_def d_def [symmetric]
    by (auto simp: metrics_in_percent_def zero_metrics_def intro: share_in_percent)
qed

text \<open>The metrics of successive polls: the answers of gopsutil and the interval of each.\<close>

fun poll_cpu ::
  "(times_stat \<Rightarrow> flt) \<Rightarrow> bool \<Rightarrow> cpu_state \<Rightarrow> (times_stat list option \<times> u16) list \<Rightarrow> cpu_metrics option list" where
  "poll_cpu all_times linux st [] = []"
| "poll_cpu all_times linux st ((samples, c) # polls) =
     (let (m, st) = get_cpu_metrics all_times linux samples c st in m # poll_cpu all_times linux st polls)"

lemma poll_cpu_in_percent:
  assumes "cpu_wf alt lx st" and "good_sample alt lx zero_times"
    and "\<And>ts c t. (Some ts, c) \<in> set polls \<Longrightarrow> t \<in> set ts \<Longrightarrow> good_sample alt lx t"
  shows "list_all (pred_option metrics_in_percent) (poll_cpu alt lx st polls)"
  using assms(1,3)
proof (induction polls arbitrary: st)
  case (Cons p polls)
  obtain samples c where p: "p = (samples, c)" by (cases p)
  have wf: "pred_option metrics_in_percent (fst (get_cpu_metrics alt lx samples c st))"
    "cpu_wf alt lx (snd (get_cpu_metrics alt lx samples c st))"
    using get_cpu_metrics_wf [OF Cons.prems(1) assms(2), of samples c] Cons.prems(2) p by auto
  have "list_all (pred_option metrics_in_percent) (poll_cpu alt lx (snd (get_cpu_metrics alt lx samples c st)) polls)"
    by (rule Cons.IH [OF wf(2)]) (use Cons.prems(2) in \<open>meson list.set_intros(2)\<close>)
  then show ?case using wf by (simp add: p split_beta Let_def)
qed simp


definition demo_all :: "times_stat \<Rightarrow> flt" where "demo_all t = add64 (tm_user t) (tm_idle t)"

definition demo_sample :: "int \<Rightarrow> int \<Rightarrow> times_stat" where
  "demo_sample u i = zero_times\<lparr>tm_user := Fin (of_int u), tm_idle := Fin (of_int i)\<rparr>"

lemma demo_good: "0 \<le> u \<Longrightarrow> u \<le> 1000 \<Longrightarrow> 0 \<le> i \<Longrightarrow> i \<le> 1000 \<Longrightarrow> good_sample demo_all False (demo_sample u i)"
proof -
  have add: "add64 (Fin (of_int a)) (Fin (of_int b)) = Fin (of_int (a + b))" if "\<bar>a + b\<bar> \<le> 2000" for a b
    using that pack64_int [of "a + b"] by (auto simp: fadd_def Let_def simp flip: of_int_add)
  have sub: "sub64 (Fin (of_int a)) (Fin (of_int b)) = Fin (of_int (a - b))" if "\<bar>a - b\<bar> \<le> 2000" for a b
    using that add [of a "- b"] by (cases "b = 0") (auto simp: fsub_def fadd_def Let_def)
  assume "0 \<le> u" "u \<le> 1000" "0 \<le> i" "i \<le> 1000"
  then have "get_all_busy demo_all False (demo_sample u i) = (Fin (of_int (u + i)), Fin (of_int u))"
    using add [of u i] sub [of "u + i" i] sub [of u 0]
    by (simp add: get_all_busy_def demo_all_def demo_sample_def zero_times_def Let_def del: of_int_add of_int_diff)
  then show ?thesis
    using \<open>0 \<le> u\<close> \<open>u \<le> 1000\<close> \<open>0 \<le> i\<close> \<open>i \<le> 1000\<close> rnd64_of_int [of "u + i"] rnd64_of_int [of u]
    by (simp add: good_sample_def is_float_def demo_sample_def zero_times_def)
qed


text \<open>The per-core percentages fit in a byte: the conversion is always in range, and they are at most 100.\<close>

lemma round_percent:
  assumes "in_percent v"
  shows "word_of_float conv (math_round v) \<le> (100 :: u8)"
proof -
  have "fle (Fin 0) (math_round v)" "fle (math_round v) (Fin 100)"
    using assms math_round_mono [of "Fin 0" v] math_round_mono [of v "Fin 100"] math_round_int [of 0] math_round_int [of 100]
    by (simp_all add: in_percent_def)
  then have r: "finite_flt (math_round v)" "0 \<le> val_of (math_round v)" "val_of (math_round v) \<le> 100"
    using fle_between by fastforce+
  have fin: "finite_flt v" using assms fle_between by (auto simp: in_percent_def)
  obtain m where m: "val_of (math_round v) = of_int m" using math_round_finite [OF fin] by blast
  then have "0 \<le> m" "m \<le> 100" using r by simp_all
  then show ?thesis
    using r(1) m by (simp add: word_of_float_def trunc_def word_le_def uint_word_of_int take_bit_int_eq_self)
qed

lemma per_core_bounded:
  assumes "\<And>k ts t. map_of (cpu_last_cores st) k = Some ts \<Longrightarrow> t \<in> set ts \<Longrightarrow> good_sample alt lx t"
    and "\<And>t. t \<in> set samples \<Longrightarrow> good_sample alt lx t"
    and "fst (get_per_core_cpu_usage conv alt lx (Some samples) c st) = Some (Some usage)"
  shows "list_all (\<lambda>u. u \<le> 100) usage"
proof (cases samples)
  case (Cons t ts)
  obtain prevs cores where b: "ensure_baseline [] c (cpu_last_cores st) = (prevs, cores)"
    by (cases "ensure_baseline [] c (cpu_last_cores st)")
  have "\<forall>t \<in> set prevs. good_sample alt lx t"
    using ensure_baseline_good(1) [of "cpu_last_cores st" "\<lambda>ts. \<forall>t \<in> set ts. good_sample alt lx t" "[]" c] assms(1) b by auto
  then have good: "good_sample alt lx t1 \<and> good_sample alt lx t2" if "(t1, t2) \<in> set (zip prevs samples)" for t1 t2
    using that assms(2) set_zip_leftD [OF that] set_zip_rightD [OF that] by blast
  have "usage = map (\<lambda>(t1, t2). word_of_float conv (math_round (calculate_busy alt lx t1 t2))) (zip prevs samples)"
    using assms(3) b Cons by (simp add: get_per_core_cpu_usage_def)
  then show ?thesis
    using good by (auto simp: list_all_iff intro!: round_percent calculate_busy_in_percent)
qed (use assms(3) in \<open>simp add: get_per_core_cpu_usage_def\<close>)

end
