(* ===== verification/DockerParse.thy ===== *)
theory DockerParse
  imports GoStr Entities Utils
begin

text \<open>
  The computations of \<^verbatim>\<open>agent/docker.go\<close> and \<^verbatim>\<open>internal/entities/container/container.go\<close> on one answer of the
  Docker API: status and health, ports, CPU and memory. Container counters are \<open>uint64\<close> and wrap.
\<close>

section \<open>Answers of the API\<close>

record port =
  po_public :: u16
  po_ip :: string

record api_info =
  ai_id :: string
  ai_short :: string
  ai_names :: "string list"
  ai_status :: string
  ai_state :: string
  ai_image :: string
  ai_health :: string
  ai_ports :: "port list"

record api_stats =
  as_read :: instant
  as_num_procs :: u32
  as_networks :: "(string, u64 \<times> u64) gomap"
  as_total_usage :: u64
  as_system_usage :: u64
  as_mem_usage :: u64
  as_mem_cache :: u64
  as_mem_inactive :: u64
  as_mem_private :: u64

definition zero_api_stats :: api_stats where
  "zero_api_stats = \<lparr>as_read = zero_time, as_num_procs = 0, as_networks = [], as_total_usage = 0, as_system_usage = 0,
     as_mem_usage = 0, as_mem_cache = 0, as_mem_inactive = 0, as_mem_private = 0\<rparr>"

section \<open>Health and status\<close>

definition health_none :: u8 where "health_none = 0"
definition health_starting :: u8 where "health_starting = 1"
definition health_healthy :: u8 where "health_healthy = 2"
definition health_unhealthy :: u8 where "health_unhealthy = 3"

definition docker_health_strings :: "(string, u8) gomap" where
  "docker_health_strings = [(''none'', health_none), (''starting'', health_starting), (''healthy'', health_healthy),
     (''unhealthy'', health_unhealthy)]"

definition parse_docker_health_status :: "string \<Rightarrow> u8 option" where
  "parse_docker_health_status status = map_of docker_health_strings (to_lower (trim_space status))"

text \<open>The text between the parentheses, without a leading \<open>health:\<close>.\<close>

definition health_text :: "string \<Rightarrow> string" where
  "health_text s =
     (let healthText = trim_space (trim_suffix s '')'') in
      case split2 healthText '':'' of
        Some (before, after) \<Rightarrow>
          if to_lower (trim_space before) = ''health'' \<or> to_lower (trim_space before) = ''health status''
          then trim_space after else healthText
      | None \<Rightarrow> healthText)"

definition parse_docker_status :: "string \<Rightarrow> string \<times> u8" where
  "parse_docker_status status =
     (let trimmed = trim_space status in
      if trimmed = '''' then ('''', health_none)
      else
        let trimmed = replace1 trimmed ''About '' '''' in
        (case last_index_of trimmed (CHR ''('') of
          None \<Rightarrow> (trimmed, health_none)
        | Some openIdx \<Rightarrow>
            if \<not> suffix '')'' trimmed then (trimmed, health_none)
            else
              let statusText = trim_space (take openIdx trimmed);
                  statusText = (if statusText = '''' then trimmed else statusText)
              in (case parse_docker_health_status (health_text (drop (Suc openIdx) trimmed)) of
                    Some health \<Rightarrow> (statusText, health)
                  | None \<Rightarrow> (trimmed, health_none))))"

section \<open>Ports\<close>

definition port_text :: "port \<Rightarrow> string" where
  "port_text p = (if po_ip p = ''0.0.0.0'' \<or> po_ip p = ''::'' then '''' else po_ip p @ '':'') @ itoa (unat (po_public p))"

text \<open>The loop over the sorted ports: zero and repeated ports are skipped.\<close>

fun port_texts :: "u16 list \<Rightarrow> port list \<Rightarrow> string list" where
  "port_texts seen [] = []"
| "port_texts seen (p # ps) =
     (if po_public p = 0 \<or> List.member seen (po_public p) then port_texts seen ps
      else port_text p # port_texts (po_public p # seen) ps)"

text \<open>\<open>sort.Slice\<close> is not stable: \<open>sortPorts\<close> is the permutation it makes. The result is the text and the cleared ports.\<close>

definition convert_container_ports_to_string ::
  "(port list \<Rightarrow> port list) \<Rightarrow> api_info \<Rightarrow> string \<times> api_info" where
  "convert_container_ports_to_string sortPorts ctr =
     (if ai_ports ctr = [] then ('''', ctr)
      else (join_with '', '' (port_texts [] (sortPorts (ai_ports ctr))), ctr\<lparr>ai_ports := []\<rparr>))"

section \<open>Processor and memory\<close>

definition calculate_cpu_percent_linux :: "api_stats \<Rightarrow> u64 \<Rightarrow> u64 \<Rightarrow> flt" where
  "calculate_cpu_percent_linux s prevCpuContainer prevCpuSystem =
     (let cpuDelta = as_total_usage s - prevCpuContainer; systemDelta = as_system_usage s - prevCpuSystem in
      if systemDelta = 0 \<or> prevCpuContainer = 0 then zero_flt
      else mul64 (div64 (float64_of_u64 cpuDelta) (float64_of_u64 systemDelta)) (Fin 100))"

definition calculate_cpu_percent_windows :: "api_stats \<Rightarrow> u64 \<Rightarrow> instant \<Rightarrow> flt" where
  "calculate_cpu_percent_windows s prevCpuUsage prevRead =
     (let possIntervals = u64_of_i64 (time_sub (as_read s) prevRead);
          possIntervals = possIntervals div 100 * ucast (as_num_procs s);
          intervalsUsed = as_total_usage s - prevCpuUsage
      in if 0 < possIntervals
         then mul64 (div64 (float64_of_u64 intervalsUsed) (float64_of_u64 possIntervals)) (Fin 100) else zero_flt)"

definition max_memory_usage :: u64 where "max_memory_usage = 100 * 1024 * 1024 * 1024 * 1024"

definition calculate_memory_usage :: "api_stats \<Rightarrow> bool \<Rightarrow> u64 option" where
  "calculate_memory_usage s isWindows =
     (if isWindows then Some (as_mem_private s)
      else
        let memCache = as_mem_inactive s; memCache = (if memCache = 0 then as_mem_cache s else memCache);
            usedDelta = as_mem_usage s - memCache
        in if usedDelta \<le> 0 \<or> max_memory_usage < usedDelta then None else Some usedDelta)"

definition validate_cpu_percentage :: "flt \<Rightarrow> bool" where
  "validate_cpu_percentage cpuPct \<longleftrightarrow> \<not> fless (Fin 100) cpuPct"

definition update_container_stats_values ::
  "flt \<Rightarrow> u64 \<Rightarrow> u64 \<Rightarrow> u64 \<Rightarrow> instant \<Rightarrow> container_stats \<Rightarrow> container_stats" where
  "update_container_stats_values cpuPct usedMemory sent_delta recv_delta readTime stats =
     stats\<lparr>ct_cpu := two_decimals cpuPct, ct_mem := bytes_to_megabytes (float64_of_u64 usedMemory),
       ct_bandwidth := (sent_delta, recv_delta),
       ct_network_sent := bytes_to_megabytes (float64_of_u64 sent_delta),
       ct_network_recv := bytes_to_megabytes (float64_of_u64 recv_delta), ct_prev_read := readTime\<rparr>"

section \<open>The engine\<close>

record version_info =
  vi_version :: string
  vi_components :: "string list"

definition detect_podman_from_header :: "string \<Rightarrow> bool" where
  "detect_podman_from_header server \<longleftrightarrow> prefix ''Libpod'' server"

definition detect_podman_from_version :: "version_info option \<Rightarrow> bool" where
  "detect_podman_from_version versionInfo =
     (case versionInfo of None \<Rightarrow> False | Some v \<Rightarrow> list_ex (prefix ''Podman'') (vi_components v))"

definition detect_podman_engine :: "string \<Rightarrow> version_info option \<Rightarrow> bool" where
  "detect_podman_engine serverHeader versionInfo \<longleftrightarrow>
     detect_podman_from_header serverHeader \<or> detect_podman_from_version versionInfo"

text \<open>The Docker host: the first socket that exists, else the first. \<open>uid\<close> is the user id as \<open>%v\<close> prints it.\<close>

definition get_docker_host :: "(string \<Rightarrow> bool) \<Rightarrow> string \<Rightarrow> string" where
  "get_docker_host exists uid =
     (let socks = [''/var/run/docker.sock'', ''/run/user/'' @ uid @ ''/podman/podman.sock'']
      in ''unix://'' @ (case find exists socks of Some sock \<Rightarrow> sock | None \<Rightarrow> hd socks))"

text \<open>\<open>post\<close> is the client: an error, or a status code and a body.\<close>

datatype action_error = InvalidAction | RequestError | ApiError int string

definition docker_container_action ::
  "(string \<Rightarrow> (int \<times> string) option) \<Rightarrow> string \<Rightarrow> string \<Rightarrow> action_error option" where
  "docker_container_action post containerID action =
     (if action \<noteq> ''start'' \<and> action \<noteq> ''stop'' \<and> action \<noteq> ''restart'' then Some InvalidAction
      else case post (''http://localhost/containers/'' @ containerID @ ''/'' @ action) of
             None \<Rightarrow> Some RequestError
           | Some (code, body) \<Rightarrow> if 400 \<le> code then Some (ApiError code body) else None)"

section \<open>Facts\<close>

text \<open>Memory is exact when it is plausible: a cache above the usage wraps, and the limit rejects it.\<close>

lemma memory_usage_exact:
  assumes "calculate_memory_usage s False = Some used"
  defines "cache \<equiv> if as_mem_inactive s = 0 then as_mem_cache s else as_mem_inactive s"
  assumes "uint cache < 2 ^ 63"
  shows "uint cache < uint (as_mem_usage s) \<and> uint used = uint (as_mem_usage s) - uint cache"
proof -
  have u: "used = as_mem_usage s - cache" "used \<noteq> 0" "\<not> max_memory_usage < used"
    using assms(1) by (auto simp: calculate_memory_usage_def cache_def Let_def split: if_splits)
  have lim: "uint used \<le> 109951162777600" "0 < uint used"
    using u(2,3) by (simp_all add: word_less_def max_memory_usage_def not_less word_neq_0_conv)
  have w: "uint used = (uint (as_mem_usage s) - uint cache) mod 18446744073709551616"
    by (simp add: u(1) uint_word_ariths)
  have c: "uint cache < 9223372036854775808" using assms(3) by simp
  have b: "0 \<le> uint cache" "0 \<le> uint (as_mem_usage s)" "uint (as_mem_usage s) < 18446744073709551616"
    using uint_lt2p [of "as_mem_usage s"] by auto
  show ?thesis
  proof (cases "uint cache < uint (as_mem_usage s)")
    case True
    then show ?thesis using w b by simp
  next
    case False
    define d where "d = uint (as_mem_usage s) - uint cache"
    have d: "d \<le> 0" "- 9223372036854775808 < d" using False b c unfolding d_def by linarith+
    show ?thesis
    proof (cases "d = 0")
      case True
      then show ?thesis using w lim by (simp flip: d_def)
    next
      case False
      have "d mod 18446744073709551616 = d + 18446744073709551616"
        using d False mod_pos_pos_trivial [of "d + 18446744073709551616" 18446744073709551616] by simp
      then show ?thesis using w lim d by (simp flip: d_def)
    qed
  qed
qed

text \<open>The printed ports are the distinct non-zero ones, in ascending order whatever the sort does with equal ports.\<close>

fun printed_ports :: "u16 list \<Rightarrow> port list \<Rightarrow> u16 list" where
  "printed_ports seen [] = []"
| "printed_ports seen (p # ps) =
     (if po_public p = 0 \<or> List.member seen (po_public p) then printed_ports seen ps
      else po_public p # printed_ports (po_public p # seen) ps)"

lemma port_texts_length: "length (port_texts seen ps) = length (printed_ports seen ps)"
  by (induction ps arbitrary: seen) auto

lemma set_printed: "set (printed_ports seen ps) = po_public ` set ps - {0} - set seen"
  by (induction ps arbitrary: seen) auto

lemma sorted_printed: "sorted (map po_public ps) \<Longrightarrow> sorted (printed_ports seen ps) \<and> distinct (printed_ports seen ps)"
  by (induction ps arbitrary: seen) (auto simp: set_printed)

end
