(* ===== verification/Docker.thy ===== *)
theory Docker
  imports DockerParse DeltaTracker
begin

text \<open>
  The Docker manager of \<^verbatim>\<open>agent/docker.go\<close>: its state, one poll of all containers, the start and the
  version check. The answers of the API, the clock and the order in which the goroutines of a poll get the
  mutex are arguments; a poll that the code panics in is a value of its own.
\<close>

section \<open>State\<close>

text \<open>What the manager changes of the agent: the details, and whether they must be sent again.\<close>

record agent_details =
  ad_details :: details
  ad_dirty :: bool

definition zero_details :: agent_details where
  "zero_details =
     \<lparr>ad_details = \<lparr>d_hostname = '''', d_kernel = '''', d_cores = 0, d_threads = 0, d_cpu_model = '''', d_os = 0,
        d_os_name = '''', d_arch = '''', d_podman = False, d_memory_total = 0, d_smart_interval = 0\<rparr>,
      ad_dirty = False\<rparr>"

definition update_system_details :: "(details \<Rightarrow> details) \<Rightarrow> agent_details \<Rightarrow> agent_details" where
  "update_system_details updateFunc ad = ad\<lparr>ad_details := updateFunc (ad_details ad), ad_dirty := True\<rparr>"

type_synonym 'a per_interval = "(u16, (string, 'a) gomap) gomap"

record docker_manager =
  dm_stats :: "(string, container_stats) gomap"
  dm_valid :: "string list"
  dm_good_version :: bool
  dm_version_checked :: bool
  dm_windows :: bool
  dm_api_stats :: api_stats
  dm_exclude :: "string list"
  dm_podman :: bool
  dm_cpu_container :: "u64 per_interval"
  dm_cpu_system :: "u64 per_interval"
  dm_cpu_read :: "instant per_interval"
  dm_net_sent :: "(u16, (string, u64) delta_tracker) gomap"
  dm_net_recv :: "(u16, (string, u64) delta_tracker) gomap"
  dm_net_read :: "instant per_interval"

definition empty_manager :: "string list \<Rightarrow> docker_manager" where
  "empty_manager excludeContainers =
     \<lparr>dm_stats = [], dm_valid = [], dm_good_version = False, dm_version_checked = False, dm_windows = False,
      dm_api_stats = zero_api_stats, dm_exclude = excludeContainers, dm_podman = False, dm_cpu_container = [],
      dm_cpu_system = [], dm_cpu_read = [], dm_net_sent = [], dm_net_recv = [], dm_net_read = []\<rparr>"

text \<open>A map of maps: lookup of a missing map or key is \<open>None\<close>, and the inner map is made when it is missing.\<close>

definition get2 :: "'a per_interval \<Rightarrow> u16 \<Rightarrow> string \<Rightarrow> 'a option" where
  "get2 m c cid = (case map_of m c of Some n \<Rightarrow> map_of n cid | None \<Rightarrow> None)"

definition put2 :: "u16 \<Rightarrow> string \<Rightarrow> 'a \<Rightarrow> 'a per_interval \<Rightarrow> 'a per_interval" where
  "put2 c cid v m = AList.update c (AList.update cid v (case map_of m c of Some n \<Rightarrow> n | None \<Rightarrow> [])) m"

definition ensure2 :: "u16 \<Rightarrow> 'a per_interval \<Rightarrow> 'a per_interval" where
  "ensure2 c m = (if map_of m c = None then AList.update c [] m else m)"

definition delete2 :: "string \<Rightarrow> 'a per_interval \<Rightarrow> 'a per_interval" where
  "delete2 cid m = map (\<lambda>(c, n). (c, AList.delete cid n)) m"

section \<open>Version and engine\<close>

definition set_is_podman :: "docker_manager \<times> agent_details \<Rightarrow> docker_manager \<times> agent_details" where
  "set_is_podman da =
     (let (dm, ad) = da in
      if dm_podman dm then (dm, ad)
      else (dm\<lparr>dm_podman := True, dm_good_version := True, dm_version_checked := True\<rparr>,
            update_system_details (\<lambda>d. d\<lparr>d_podman := True\<rparr>) ad))"

text \<open>\<open>semver_major\<close> is the major version that the semver library reads, if it can.\<close>

definition apply_docker_version_info ::
  "(string \<Rightarrow> nat option) \<Rightarrow> string \<Rightarrow> version_info \<Rightarrow> docker_manager \<times> agent_details \<Rightarrow>
   docker_manager \<times> agent_details" where
  "apply_docker_version_info semver_major serverHeader versionInfo da =
     (if detect_podman_engine serverHeader (Some versionInfo) then set_is_podman da
      else case semver_major (vi_version versionInfo) of
             Some major \<Rightarrow> if 24 < major then (fst da\<lparr>dm_good_version := True\<rparr>, snd da) else da
           | None \<Rightarrow> da)"

text \<open>The answer of \<open>/version\<close>: an error, or the status code, the server header and the decoded body.\<close>

type_synonym version_answer = "(int \<times> string \<times> version_info option) option"

definition check_docker_version ::
  "(string \<Rightarrow> nat option) \<Rightarrow> version_answer \<Rightarrow> docker_manager \<times> agent_details \<Rightarrow>
   bool \<times> docker_manager \<times> agent_details" where
  "check_docker_version semver_major resp da =
     (case resp of
        Some (code, serverHeader, Some versionInfo) \<Rightarrow>
          if code \<noteq> 200 then (False, da)
          else let (dm, ad) = apply_docker_version_info semver_major serverHeader versionInfo da
               in (True, dm\<lparr>dm_version_checked := True\<rparr>, ad)
      | _ \<Rightarrow> (False, da))"

definition ensure_docker_version_checked ::
  "(string \<Rightarrow> nat option) \<Rightarrow> version_answer \<Rightarrow> docker_manager \<times> agent_details \<Rightarrow> docker_manager \<times> agent_details" where
  "ensure_docker_version_checked semver_major resp da =
     (if dm_version_checked (fst da) then da else snd (check_docker_version semver_major resp da))"

section \<open>Start\<close>

datatype docker_start = NoManager | ExitProcess | Manager docker_manager agent_details

text \<open>\<open>scheme\<close> is the scheme that \<open>net/url\<close> reads from the host, \<open>parse_duration\<close> is \<open>time.ParseDuration\<close>.\<close>

definition exclude_patterns :: "environment \<Rightarrow> string list" where
  "exclude_patterns env =
     (case get_env env ''EXCLUDE_CONTAINERS'' of
        Some s \<Rightarrow> if s = '''' then [] else filter (\<lambda>t. t \<noteq> '''') (map trim_space (split_byte (CHR '','') s))
      | None \<Rightarrow> [])"

definition new_docker_manager ::
  "environment \<Rightarrow> (string \<Rightarrow> bool) \<Rightarrow> string \<Rightarrow> (string \<Rightarrow> string option) \<Rightarrow> (string \<Rightarrow> duration option) \<Rightarrow>
   (string \<Rightarrow> nat option) \<Rightarrow> version_answer \<Rightarrow> agent_details \<Rightarrow> docker_start" where
  "new_docker_manager env exists uid scheme parse_duration semver_major version ad =
     (let host = get_env env ''DOCKER_HOST'';
          dockerHost = (case host of Some h \<Rightarrow> h | None \<Rightarrow> get_docker_host exists uid)
      in if host = Some '''' then NoManager
         else case scheme dockerHost of
           None \<Rightarrow> ExitProcess
         | Some s \<Rightarrow>
             if \<not> List.member [''unix'', ''tcp'', ''http'', ''https''] s then ExitProcess
             else if (case get_env env ''DOCKER_TIMEOUT'' of Some t \<Rightarrow> parse_duration t = None | None \<Rightarrow> False) then ExitProcess
             else let (dm, ad) = snd (check_docker_version semver_major version (empty_manager (exclude_patterns env), ad))
                  in Manager dm ad)"

section \<open>One container\<close>

definition should_exclude_container :: "docker_manager \<Rightarrow> string \<Rightarrow> bool" where
  "should_exclude_container dm name = list_ex (\<lambda>pattern. path_match pattern name) (dm_exclude dm)"

definition delete_container_stats_sync :: "string \<Rightarrow> docker_manager \<Rightarrow> docker_manager" where
  "delete_container_stats_sync cid dm =
     dm\<lparr>dm_stats := AList.delete cid (dm_stats dm), dm_cpu_container := delete2 cid (dm_cpu_container dm),
        dm_cpu_system := delete2 cid (dm_cpu_system dm), dm_cpu_read := delete2 cid (dm_cpu_read dm),
        dm_net_read := delete2 cid (dm_net_read dm)\<rparr>"

definition get_network_tracker ::
  "u16 \<Rightarrow> (u16, (string, u64) delta_tracker) gomap \<Rightarrow> (string, u64) delta_tracker" where
  "get_network_tracker cacheTimeMs trackers =
     (case map_of trackers cacheTimeMs of Some t \<Rightarrow> t | None \<Rightarrow> new_delta_tracker)"

definition max_network_speed :: u64 where "max_network_speed = 5000000000"

definition checked_rate :: "u64 \<Rightarrow> u64 \<Rightarrow> u64" where
  "checked_rate raw ms =
     (if 0 < raw then let d = raw * 1000 div ms in if max_network_speed < d then 0 else d else 0)"

definition networks_sent :: "api_stats \<Rightarrow> u64" where "networks_sent s = sum_list (map (fst \<circ> snd) (as_networks s))"
definition networks_recv :: "api_stats \<Rightarrow> u64" where "networks_recv s = sum_list (map (snd \<circ> snd) (as_networks s))"

definition calculate_network_stats ::
  "instant \<Rightarrow> string \<Rightarrow> api_stats \<Rightarrow> u16 \<Rightarrow> docker_manager \<Rightarrow> (u64 \<times> u64) \<times> docker_manager" where
  "calculate_network_stats now cid apiStats cacheTimeMs dm =
     (let sentTracker = dt_set cid (networks_sent apiStats) (get_network_tracker cacheTimeMs (dm_net_sent dm));
          recvTracker = dt_set cid (networks_recv apiStats) (get_network_tracker cacheTimeMs (dm_net_recv dm));
          dm' = dm\<lparr>dm_net_sent := AList.update cacheTimeMs sentTracker (dm_net_sent dm),
                   dm_net_recv := AList.update cacheTimeMs recvTracker (dm_net_recv dm)\<rparr>
      in case get2 (dm_net_read dm) cacheTimeMs cid of
           None \<Rightarrow> ((0, 0), dm')
         | Some prevReadTime \<Rightarrow>
             let ms = ms_elapsed now prevReadTime in
             if 0 < ms then ((checked_rate (delta sentTracker cid) ms, checked_rate (delta recvTracker cid) ms), dm')
             else ((0, 0), dm'))"

definition initialize_cpu_tracking :: "u16 \<Rightarrow> docker_manager \<Rightarrow> docker_manager" where
  "initialize_cpu_tracking c dm =
     dm\<lparr>dm_cpu_container := ensure2 c (dm_cpu_container dm), dm_cpu_system := ensure2 c (dm_cpu_system dm),
        dm_cpu_read := ensure2 c (dm_cpu_read dm)\<rparr>"

text \<open>A missing key of a Go map reads as the zero value.\<close>

definition get_cpu_previous_values :: "u16 \<Rightarrow> string \<Rightarrow> docker_manager \<Rightarrow> u64 \<times> u64" where
  "get_cpu_previous_values c cid dm =
     (case get2 (dm_cpu_container dm) c cid of Some v \<Rightarrow> v | None \<Rightarrow> 0,
      case get2 (dm_cpu_system dm) c cid of Some v \<Rightarrow> v | None \<Rightarrow> 0)"

definition set_cpu_current_values :: "u16 \<Rightarrow> string \<Rightarrow> u64 \<Rightarrow> u64 \<Rightarrow> docker_manager \<Rightarrow> docker_manager" where
  "set_cpu_current_values c cid cpuContainer cpuSystem dm =
     dm\<lparr>dm_cpu_container := put2 c cid cpuContainer (dm_cpu_container dm),
        dm_cpu_system := put2 c cid cpuSystem (dm_cpu_system dm)\<rparr>"

text \<open>
  The answers for one attempt on one container: the decoding of \<open>stats\<close> fills the shared structure and may
  fail half way; the answer of the inspect endpoint is an error, or a status code and the decoded health;
  two clock readings.
\<close>

record container_answer =
  ca_stats :: "(api_stats \<Rightarrow> api_stats \<times> bool) option"
  ca_inspect :: "(int \<times> string option) option"
  ca_since :: instant
  ca_now :: instant

definition get_podman_container_health :: "(int \<times> string option) option \<Rightarrow> u8 option" where
  "get_podman_container_health resp =
     (case resp of
        Some (code, Some status) \<Rightarrow>
          if code \<noteq> 200 then None
          else (case parse_docker_health_status status of Some h \<Rightarrow> Some h | None \<Rightarrow> Some health_none)
      | _ \<Rightarrow> None)"

definition container_health :: "bool \<Rightarrow> container_answer \<Rightarrow> api_info \<Rightarrow> u8 \<Rightarrow> u8" where
  "container_health podman ans ctr health =
     (if ai_health ctr \<noteq> '''' then (case parse_docker_health_status (ai_health ctr) of Some h \<Rightarrow> h | None \<Rightarrow> health)
      else if podman then (case get_podman_container_health (ca_inspect ans) of Some h \<Rightarrow> h | None \<Rightarrow> health)
      else health)"

definition container_name :: "api_info \<Rightarrow> string" where "container_name ctr = drop 1 (hd (ai_names ctr))"

text \<open>The entry before the numbers are known: identity, status, health and ports, everything else reset.\<close>

definition refresh_entry ::
  "(port list \<Rightarrow> port list) \<Rightarrow> container_answer \<Rightarrow> api_info \<Rightarrow> docker_manager \<Rightarrow> container_stats \<times> api_info" where
  "refresh_entry sortPorts ans ctr dm =
     (let (statusText, health) = parse_docker_status (ai_status ctr);
          health = container_health (dm_podman dm) ans ctr health;
          stats = (case map_of (dm_stats dm) (ai_short ctr) of
                     Some s \<Rightarrow> s
                   | None \<Rightarrow> named_container (container_name ctr)\<lparr>ct_id := ai_short ctr, ct_image := ai_image ctr\<rparr>);
          stats = stats\<lparr>ct_id := ai_short ctr, ct_status := statusText, ct_health := health\<rparr>;
          (stats, ctr) = (if ai_ports ctr \<noteq> []
             then let (text, ctr) = convert_container_ports_to_string sortPorts ctr in (stats\<lparr>ct_ports := text\<rparr>, ctr)
             else (stats, ctr))
      in (stats\<lparr>ct_cpu := zero_flt, ct_mem := zero_flt, ct_bandwidth := (0, 0), ct_network_sent := zero_flt,
                ct_network_recv := zero_flt\<rparr>, ctr))"

definition store_entry :: "string \<Rightarrow> container_stats \<Rightarrow> docker_manager \<Rightarrow> docker_manager" where
  "store_entry cid stats dm = dm\<lparr>dm_stats := AList.update cid stats (dm_stats dm)\<rparr>"

definition cpu_percent :: "u16 \<Rightarrow> string \<Rightarrow> api_stats \<Rightarrow> docker_manager \<Rightarrow> flt" where
  "cpu_percent c cid res dm =
     (let (prevCpuContainer, prevCpuSystem) = get_cpu_previous_values c cid dm in
      if dm_windows dm
      then calculate_cpu_percent_windows res prevCpuContainer
             (case get2 (dm_cpu_read dm) c cid of Some t \<Rightarrow> t | None \<Rightarrow> zero_time)
      else calculate_cpu_percent_linux res prevCpuContainer prevCpuSystem)"

text \<open>The part after a successful decoding: whether it succeeds, and the new state.\<close>

definition measure_container ::
  "container_answer \<Rightarrow> u16 \<Rightarrow> string \<Rightarrow> container_stats \<Rightarrow> api_stats \<Rightarrow> docker_manager \<Rightarrow> bool \<times> docker_manager" where
  "measure_container ans c cid stats res dm =
     (let dm = initialize_cpu_tracking c dm;
          cpuPct = cpu_percent c cid res dm
      in case calculate_memory_usage res (dm_windows dm) of
           None \<Rightarrow> (False, dm)
         | Some usedMemory \<Rightarrow>
             let dm = set_cpu_current_values c cid (as_total_usage res) (as_system_usage res) dm in
             if \<not> validate_cpu_percentage cpuPct then (False, dm)
             else let ((sent_delta, recv_delta), dm) = calculate_network_stats (ca_since ans) cid res c dm;
                      stats = stats\<lparr>ct_prev_net := (networks_sent res, networks_recv res)\<rparr>;
                      stats = update_container_stats_values cpuPct usedMemory sent_delta recv_delta (as_read res) stats
                  in (True, store_entry cid stats
                        (dm\<lparr>dm_net_read := put2 c cid (ca_now ans) (dm_net_read dm),
                            dm_cpu_read := put2 c cid (as_read res) (dm_cpu_read dm)\<rparr>)))"

definition update_container_stats ::
  "(port list \<Rightarrow> port list) \<Rightarrow> container_answer \<Rightarrow> u16 \<Rightarrow> api_info \<Rightarrow> docker_manager \<Rightarrow> bool \<times> api_info \<times> docker_manager" where
  "update_container_stats sortPorts ans c ctr dm =
     (case ca_stats ans of
        None \<Rightarrow> (False, ctr, dm)
      | Some decode \<Rightarrow>
          let (stats, ctr) = refresh_entry sortPorts ans ctr dm;
              dm = store_entry (ai_short ctr) stats dm;
              (res, decoded) = decode (dm_api_stats dm\<lparr>as_networks := []\<rparr>);
              dm = dm\<lparr>dm_api_stats := res\<rparr>
          in if \<not> decoded then (False, ctr, dm)
             else let (success, dm) = measure_container ans c (ai_short ctr) stats res dm in (success, ctr, dm))"

section \<open>One poll\<close>

datatype 'a poll = PollPanic | PollError | PollOk 'a

text \<open>The loop of the poll without the goroutines: which containers are looked at. \<open>None\<close> is a panic.\<close>

fun prepare :: "api_info list \<Rightarrow> docker_manager \<Rightarrow> (api_info list \<times> docker_manager) option" where
  "prepare [] dm = Some ([], dm)"
| "prepare (ctr # ctrs) dm =
     (if length (ai_id ctr) < 12 \<or> ai_names ctr = [] \<or> hd (ai_names ctr) = '''' then None
      else
        let ctr = ctr\<lparr>ai_short := take 12 (ai_id ctr)\<rparr> in
        if should_exclude_container dm (container_name ctr) then prepare ctrs dm
        else
          let dm = dm\<lparr>dm_valid := ai_short ctr # dm_valid dm\<rparr>;
              dm = (if contains (ai_status ctr) ''second'' then delete_container_stats_sync (ai_short ctr) dm else dm)
          in map_option (\<lambda>(cs, dm). (ctr # cs, dm)) (prepare ctrs dm))"

definition first_attempt ::
  "(port list \<Rightarrow> port list) \<Rightarrow> (string \<Rightarrow> container_answer) \<Rightarrow> u16 \<Rightarrow> api_info \<Rightarrow>
   api_info list \<times> docker_manager \<Rightarrow> api_info list \<times> docker_manager" where
  "first_attempt sortPorts ans c ctr fd =
     (let (failed, dm) = fd; (success, ctr, dm) = update_container_stats sortPorts (ans (ai_short ctr)) c ctr dm in
      if success then (failed, dm)
      else (failed @ [ctr], dm\<lparr>dm_stats := AList.delete (ai_short ctr) (dm_stats dm)\<rparr>))"

definition second_attempt ::
  "(port list \<Rightarrow> port list) \<Rightarrow> (string \<Rightarrow> container_answer) \<Rightarrow> u16 \<Rightarrow> api_info \<Rightarrow> docker_manager \<Rightarrow> docker_manager" where
  "second_attempt sortPorts ans c ctr dm = snd (snd (update_container_stats sortPorts (ans (ai_short ctr)) c ctr dm))"

definition cycle_network_deltas_for_cache_time :: "u16 \<Rightarrow> docker_manager \<Rightarrow> docker_manager" where
  "cycle_network_deltas_for_cache_time c dm =
     (let cycled = (\<lambda>m. case map_of m c of Some t \<Rightarrow> AList.update c (cycle t) m | None \<Rightarrow> m)
      in dm\<lparr>dm_net_sent := cycled (dm_net_sent dm), dm_net_recv := cycled (dm_net_recv dm)\<rparr>)"

text \<open>What a poll gets from outside. The schedules are the orders in which the goroutines get the mutex.\<close>

record poll_input =
  pi_list :: "(string \<times> api_info list option) option"
  pi_version :: version_answer
  pi_sort :: "port list \<Rightarrow> port list"
  pi_first :: "string \<Rightarrow> container_answer"
  pi_second :: "string \<Rightarrow> container_answer"
  pi_schedule :: "api_info list \<Rightarrow> api_info list"

definition poll_containers ::
  "poll_input \<Rightarrow> u16 \<Rightarrow> api_info list \<Rightarrow> docker_manager \<Rightarrow> (container_stats list \<times> docker_manager) poll" where
  "poll_containers inp c containers dm =
     (case prepare containers (dm\<lparr>dm_valid := []\<rparr>) of
        None \<Rightarrow> PollPanic
      | Some (ctrs, dm) \<Rightarrow>
          let (failed, dm) = fold (first_attempt (pi_sort inp) (pi_first inp) c) (pi_schedule inp ctrs) ([], dm);
              dm = fold (second_attempt (pi_sort inp) (pi_second inp) c) (pi_schedule inp failed) dm;
              valid = filter (\<lambda>(cid, v). List.member (dm_valid dm) cid) (dm_stats dm)
          in PollOk (map snd valid, cycle_network_deltas_for_cache_time c (dm\<lparr>dm_stats := valid\<rparr>)))"

text \<open>What a successful list request tells of the engine.\<close>

definition detect_engine ::
  "(string \<Rightarrow> nat option) \<Rightarrow> version_answer \<Rightarrow> string \<Rightarrow> docker_manager \<times> agent_details \<Rightarrow> docker_manager \<times> agent_details" where
  "detect_engine semver_major version serverHeader da =
     (let da = (if \<not> dm_podman (fst da) \<and> detect_podman_from_header serverHeader then set_is_podman da else da)
      in ensure_docker_version_checked semver_major version
           (fst da\<lparr>dm_windows := contains serverHeader ''windows''\<rparr>, snd da))"

definition get_docker_stats ::
  "(string \<Rightarrow> nat option) \<Rightarrow> poll_input \<Rightarrow> u16 \<Rightarrow> docker_manager \<times> agent_details \<Rightarrow>
   container_stats list poll \<times> docker_manager \<times> agent_details" where
  "get_docker_stats semver_major inp c da =
     (case pi_list inp of
        Some (serverHeader, Some containers) \<Rightarrow>
          let (dm, ad) = detect_engine semver_major (pi_version inp) serverHeader da
          in (case poll_containers inp c containers dm of
                PollOk (stats, dm) \<Rightarrow> (PollOk stats, dm, ad)
              | PollError \<Rightarrow> (PollError, dm, ad)
              | PollPanic \<Rightarrow> (PollPanic, dm, ad))
      | _ \<Rightarrow> (PollError, da))"

section \<open>The reported containers\<close>

text \<open>What of the manager decides the report: patterns, entries and valid ids. Most operations leave it alone.\<close>

definition core :: "docker_manager \<Rightarrow> string list \<times> (string, container_stats) gomap \<times> string list" where
  "core dm = (dm_exclude dm, dm_stats dm, dm_valid dm)"

named_theorems same_core \<open>operations that keep the core of the manager\<close>

lemma core_initialize [same_core]: "core (initialize_cpu_tracking c dm) = core dm"
  by (simp add: core_def initialize_cpu_tracking_def)

lemma core_set_cpu [same_core]: "core (set_cpu_current_values c cid x y dm) = core dm"
  by (simp add: core_def set_cpu_current_values_def)

lemma core_network [same_core]: "core (snd (calculate_network_stats now cid res c dm)) = core dm"
  by (simp add: core_def calculate_network_stats_def Let_def split: option.split)

lemma core_cycle [same_core]: "core (cycle_network_deltas_for_cache_time c dm) = core dm"
  by (simp add: core_def cycle_network_deltas_for_cache_time_def Let_def)

lemma core_windows [same_core]: "core (dm\<lparr>dm_windows := x\<rparr>) = core dm"
  by (simp add: core_def)

lemma core_podman [same_core]: "core (fst (set_is_podman da)) = core (fst da)"
  by (simp add: core_def set_is_podman_def split_beta)

lemma core_apply [same_core]: "core (fst (apply_docker_version_info sm h v da)) = core (fst da)"
  by (simp add: apply_docker_version_info_def same_core split: option.split) (simp add: core_def)

lemma core_check [same_core]: "core (fst (snd (check_docker_version sm resp da))) = core (fst da)"
proof -
  have "core (fst (apply_docker_version_info sm h v da)\<lparr>dm_version_checked := True\<rparr>) = core (fst da)" for h v
    using core_apply [of sm h v da] by (simp add: core_def)
  then show ?thesis by (auto simp: check_docker_version_def split_beta split: option.split prod.split)
qed

lemma core_ensure [same_core]: "core (fst (ensure_docker_version_checked sm resp da)) = core (fst da)"
  by (simp add: ensure_docker_version_checked_def same_core)

text \<open>Every entry is stored under its own id, once; the patterns are those of the start.\<close>

definition docker_inv :: "string list \<Rightarrow> docker_manager \<Rightarrow> bool" where
  "docker_inv patterns dm \<longleftrightarrow>
     dm_exclude dm = patterns \<and> distinct (map fst (dm_stats dm)) \<and> (\<forall>(cid, v) \<in> set (dm_stats dm). ct_id v = cid)"

lemma docker_inv_core: "core dm = core dm' \<Longrightarrow> docker_inv patterns dm = docker_inv patterns dm'"
  by (simp add: docker_inv_def core_def)

lemma docker_inv_store:
  assumes "docker_inv patterns dm" and "ct_id stats = cid"
  shows "docker_inv patterns (store_entry cid stats dm)"
proof -
  have "set (AList.update cid stats m) \<subseteq> insert (cid, stats) (set m)" for m :: "(string, container_stats) gomap"
    by (induction m) auto
  then show ?thesis using assms by (fastforce simp: docker_inv_def store_entry_def distinct_update)
qed

lemma docker_inv_delete:
  "docker_inv patterns dm \<Longrightarrow> docker_inv patterns (dm\<lparr>dm_stats := AList.delete cid (dm_stats dm)\<rparr>)"
  by (auto simp: docker_inv_def AList.delete_eq distinct_map_filter)

text \<open>An attempt keeps the invariant, the valid ids and the id of the container.\<close>

definition kept :: "string list \<Rightarrow> string list \<Rightarrow> docker_manager \<Rightarrow> bool" where
  "kept patterns valid dm \<longleftrightarrow> docker_inv patterns dm \<and> dm_valid dm = valid"

lemma kept_core: "core dm = core dm' \<Longrightarrow> kept patterns valid dm = kept patterns valid dm'"
  using docker_inv_core [of dm dm'] by (auto simp: kept_def core_def)

lemma kept_store: "kept patterns valid dm \<Longrightarrow> ct_id stats = cid \<Longrightarrow> kept patterns valid (store_entry cid stats dm)"
  using docker_inv_store by (auto simp: kept_def store_entry_def)

lemma refresh_entry_id: "ct_id (fst (refresh_entry s a ctr dm)) = ai_short ctr \<and> ai_short (snd (refresh_entry s a ctr dm)) = ai_short ctr"
  by (simp add: refresh_entry_def convert_container_ports_to_string_def split_beta Let_def)

lemma kept_measure:
  assumes "kept patterns valid dm" and "ct_id stats = cid"
  shows "kept patterns valid (snd (measure_container ans c cid stats res dm))"
proof -
  define dm1 where "dm1 = initialize_cpu_tracking c dm"
  define dm2 where "dm2 = set_cpu_current_values c cid (as_total_usage res) (as_system_usage res) dm1"
  obtain rates dm3 where net: "calculate_network_stats (ca_since ans) cid res c dm2 = (rates, dm3)"
    by (cases "calculate_network_stats (ca_since ans) cid res c dm2")
  have cores: "core dm1 = core dm" "core dm2 = core dm" by (simp_all add: dm1_def dm2_def same_core)
  have cores3: "core dm3 = core dm" using core_network [of "ca_since ans" cid res c dm2] net cores by simp
  have "core (dm3\<lparr>dm_net_read := x, dm_cpu_read := y\<rparr>) = core dm" for x y
    using cores3 by (simp add: core_def)
  then have "kept patterns valid (dm3\<lparr>dm_net_read := x, dm_cpu_read := y\<rparr>)" for x y
    using assms(1) kept_core by blast
  then have "kept patterns valid (store_entry cid s (dm3\<lparr>dm_net_read := x, dm_cpu_read := y\<rparr>))" if "ct_id s = cid" for s x y
    using kept_store that by blast
  moreover have "kept patterns valid dm1" "kept patterns valid dm2" using assms(1) kept_core cores by blast+
  ultimately show ?thesis
    using assms(2) unfolding measure_container_def Let_def dm1_def [symmetric] dm2_def [symmetric] net split_beta
    by (simp add: update_container_stats_values_def split: option.split)
qed

lemma kept_update:
  assumes "kept patterns valid dm"
  shows "kept patterns valid (snd (snd (update_container_stats s ans c ctr dm)))"
    and "ai_short (fst (snd (update_container_stats s ans c ctr dm))) = ai_short ctr"
proof -
  have stored: "kept patterns valid (store_entry (ai_short ctr) (fst (refresh_entry s ans ctr dm)) dm\<lparr>dm_api_stats := res\<rparr>)" for res
  proof -
    have "kept patterns valid (store_entry (ai_short ctr) (fst (refresh_entry s ans ctr dm)) dm)"
      using assms kept_store refresh_entry_id by blast
    then show ?thesis by (subst kept_core [of _ "store_entry (ai_short ctr) (fst (refresh_entry s ans ctr dm)) dm"]) (simp_all add: core_def)
  qed
  show "kept patterns valid (snd (snd (update_container_stats s ans c ctr dm)))"
    using assms stored kept_measure [OF stored] refresh_entry_id [of s ans ctr dm]
    by (simp add: update_container_stats_def split_beta Let_def split: option.split)
  show "ai_short (fst (snd (update_container_stats s ans c ctr dm))) = ai_short ctr"
    using refresh_entry_id [of s ans ctr dm]
    by (simp add: update_container_stats_def split_beta Let_def split: option.split)
qed

lemma kept_delete:
  "kept patterns valid dm \<Longrightarrow> kept patterns valid (dm\<lparr>dm_stats := AList.delete cid (dm_stats dm)\<rparr>)"
  by (simp add: kept_def docker_inv_delete)

lemma kept_first:
  "kept patterns valid (snd fd) \<Longrightarrow> kept patterns valid (snd (first_attempt s ans c ctr fd))"
  by (simp add: first_attempt_def split_beta kept_update kept_delete)

lemma kept_attempts:
  assumes "kept patterns valid dm"
  shows "kept patterns valid (snd (fold (first_attempt s ans c) ctrs (failed, dm)))"
    and "kept patterns valid (fold (second_attempt s ans c) ctrs dm)"
proof -
  show "kept patterns valid (snd (fold (first_attempt s ans c) ctrs (failed, dm)))"
    by (rule fold_keeps [where P = "\<lambda>fd. kept patterns valid (snd fd)"]) (simp_all add: assms kept_first)
  show "kept patterns valid (fold (second_attempt s ans c) ctrs dm)"
    by (rule fold_keeps [where P = "kept patterns valid"]) (simp_all add: assms second_attempt_def kept_update)
qed

text \<open>The containers that a poll may report: those listed that no pattern excludes, by their short ids.\<close>

definition wanted :: "string list \<Rightarrow> api_info list \<Rightarrow> string set" where
  "wanted patterns ctrs =
     (\<lambda>ctr. take 12 (ai_id ctr)) ` {ctr \<in> set ctrs. \<not> list_ex (\<lambda>p. path_match p (container_name ctr)) patterns}"

lemma delete_sync_inv: "docker_inv patterns dm \<Longrightarrow> docker_inv patterns (delete_container_stats_sync cid dm)"
  using docker_inv_delete [of patterns dm cid] by (simp add: delete_container_stats_sync_def docker_inv_def)

lemma delete_sync_valid [simp]: "dm_valid (delete_container_stats_sync cid dm) = dm_valid dm"
  by (simp add: delete_container_stats_sync_def)

lemma prepare_inv:
  assumes "prepare ctrs dm = Some (cs, dm')" and "docker_inv patterns dm"
  shows "docker_inv patterns dm' \<and> set (dm_valid dm') \<subseteq> set (dm_valid dm) \<union> wanted patterns ctrs"
  using assms
proof (induction ctrs arbitrary: dm cs)
  case (Cons ctr ctrs)
  define ctr' where "ctr' = ctr\<lparr>ai_short := take 12 (ai_id ctr)\<rparr>"
  have more: "wanted patterns ctrs \<subseteq> wanted patterns (ctr # ctrs)" by (auto simp: wanted_def)
  have pats: "dm_exclude dm = patterns" using Cons.prems(2) by (simp add: docker_inv_def)
  have name: "container_name ctr' = container_name ctr" by (simp add: ctr'_def container_name_def)
  have bound: "\<not> (length (ai_id ctr) < 12 \<or> ai_names ctr = [] \<or> hd (ai_names ctr) = '''')"
    using Cons.prems(1) by (auto split: if_splits)
  show ?case
  proof (cases "should_exclude_container dm (container_name ctr)")
    case True
    then have "prepare ctrs dm = Some (cs, dm')"
      using Cons.prems(1) bound by (simp add: name flip: ctr'_def)
    then show ?thesis using Cons.IH [OF _ Cons.prems(2)] more by auto
  next
    case False
    define dm1 where "dm1 = dm\<lparr>dm_valid := ai_short ctr' # dm_valid dm\<rparr>"
    define dm2 where "dm2 = (if contains (ai_status ctr') ''second'' then delete_container_stats_sync (ai_short ctr') dm1 else dm1)"
    have inv1: "docker_inv patterns dm1" using Cons.prems(2) by (simp add: dm1_def docker_inv_def)
    then have inv2: "docker_inv patterns dm2" using delete_sync_inv by (simp add: dm2_def)
    have "prepare (ctr # ctrs) dm = map_option (\<lambda>(cs, dm). (ctr' # cs, dm)) (prepare ctrs dm2)"
      using bound False by (simp add: name dm1_def dm2_def Let_def flip: ctr'_def)
    then obtain cs' where rest: "prepare ctrs dm2 = Some (cs', dm')"
      using Cons.prems(1) by (cases "prepare ctrs dm2") auto
    have "set (dm_valid dm2) = insert (take 12 (ai_id ctr)) (set (dm_valid dm))"
      by (simp add: dm2_def dm1_def ctr'_def)
    moreover have "take 12 (ai_id ctr) \<in> wanted patterns (ctr # ctrs)"
      using False pats by (auto simp: wanted_def should_exclude_container_def)
    ultimately show ?thesis using conjunct1 [OF Cons.IH [OF rest inv2]] conjunct2 [OF Cons.IH [OF rest inv2]] more by auto
  qed
qed simp

lemma poll_containers_inv:
  assumes "poll_containers inp c ctrs dm = PollOk (stats, dm')" and "docker_inv patterns dm"
  shows "docker_inv patterns dm'" and "distinct (map ct_id stats)" and "ct_id ` set stats \<subseteq> wanted patterns ctrs"
proof -
  have "prepare ctrs (dm\<lparr>dm_valid := []\<rparr>) \<noteq> None"
    using assms(1) by (intro notI) (simp add: poll_containers_def)
  then obtain cs dm1 where prep: "prepare ctrs (dm\<lparr>dm_valid := []\<rparr>) = Some (cs, dm1)" by fast
  have "docker_inv patterns (dm\<lparr>dm_valid := []\<rparr>)" using assms(2) by (simp add: docker_inv_def)
  note start = prepare_inv [OF prep this]
  obtain failed dm2 where first: "fold (first_attempt (pi_sort inp) (pi_first inp) c) (pi_schedule inp cs) ([], dm1) = (failed, dm2)"
    by (meson surj_pair)
  define dm3 where "dm3 = fold (second_attempt (pi_sort inp) (pi_second inp) c) (pi_schedule inp failed) dm2"
  define valid where "valid = filter (\<lambda>(cid, v). List.member (dm_valid dm3) cid) (dm_stats dm3)"
  have res: "stats = map snd valid" "dm' = cycle_network_deltas_for_cache_time c (dm3\<lparr>dm_stats := valid\<rparr>)"
    using assms(1) unfolding poll_containers_def prep option.case prod.case first Let_def dm3_def [symmetric] valid_def [symmetric]
    by simp_all
  have "kept patterns (dm_valid dm1) dm1" using start by (simp add: kept_def)
  then have "kept patterns (dm_valid dm1) dm2"
    using kept_attempts(1) [of patterns "dm_valid dm1" dm1 "pi_sort inp" "pi_first inp" c "pi_schedule inp cs" "[]"] first by simp
  then have k: "kept patterns (dm_valid dm1) dm3" unfolding dm3_def by (rule kept_attempts(2))
  have named: "distinct (map fst valid)" "\<forall>(cid, v) \<in> set valid. ct_id v = cid" "fst ` set valid \<subseteq> set (dm_valid dm1)"
    using k by (auto simp: kept_def docker_inv_def valid_def distinct_map_filter)
  then have "docker_inv patterns (dm3\<lparr>dm_stats := valid\<rparr>)" using k by (simp add: kept_def docker_inv_def)
  then show "docker_inv patterns dm'" using docker_inv_core [OF core_cycle] by (simp add: res)
  have ids: "map ct_id stats = map fst valid" using named(2) by (auto simp: res)
  then show "distinct (map ct_id stats)" using named(1) by simp
  have "ct_id ` set stats = fst ` set valid" using ids by (metis list.set_map)
  then show "ct_id ` set stats \<subseteq> wanted patterns ctrs" using named(3) start by auto
qed

lemma core_detect [same_core]: "core (fst (detect_engine sm v h da)) = core (fst da)"
  by (simp add: detect_engine_def same_core Let_def)

lemma get_docker_stats_inv:
  assumes "docker_inv patterns (fst da)"
  shows "docker_inv patterns (fst (snd (get_docker_stats sm inp c da)))"
    and "fst (get_docker_stats sm inp c da) = PollOk stats \<Longrightarrow> pi_list inp = Some (h, Some ctrs) \<Longrightarrow>
      distinct (map ct_id stats) \<and> ct_id ` set stats \<subseteq> wanted patterns ctrs"
proof -
  define ready where "ready = (\<lambda>header. detect_engine sm (pi_version inp) header da)"
  have "core (fst (ready header)) = core (fst da)" for header
    by (simp add: ready_def same_core)
  then have inv: "docker_inv patterns (fst (ready header))" for header using assms docker_inv_core by blast
  have run: "get_docker_stats sm inp c da = (case poll_containers inp c ctrs (fst (ready header)) of
       PollOk (stats, dm) \<Rightarrow> (PollOk stats, dm, snd (ready header))
     | PollError \<Rightarrow> (PollError, fst (ready header), snd (ready header))
     | PollPanic \<Rightarrow> (PollPanic, fst (ready header), snd (ready header)))"
    if "pi_list inp = Some (header, Some ctrs)" for header ctrs
    using that by (cases "detect_engine sm (pi_version inp) header da") (simp add: get_docker_stats_def ready_def split: poll.split)
  show "docker_inv patterns (fst (snd (get_docker_stats sm inp c da)))"
  proof (cases "\<exists>header ctrs. pi_list inp = Some (header, Some ctrs)")
    case True
    then obtain header ctrs where l: "pi_list inp = Some (header, Some ctrs)" by blast
    show ?thesis
      unfolding run [OF l] using inv poll_containers_inv(1) [OF _ inv] by (auto split: poll.split)
  qed (use assms in \<open>auto simp: get_docker_stats_def split: option.split\<close>)
  show "distinct (map ct_id stats) \<and> ct_id ` set stats \<subseteq> wanted patterns ctrs"
    if success: "fst (get_docker_stats sm inp c da) = PollOk stats" and listed: "pi_list inp = Some (h, Some ctrs)"
  proof -
    obtain dm' where "poll_containers inp c ctrs (fst (ready h)) = PollOk (stats, dm')"
      using success unfolding run [OF listed] by (auto split: poll.splits)
    then show ?thesis using poll_containers_inv(2,3) inv by blast
  qed
qed

text \<open>A run of polls from the start of the agent.\<close>

definition docker_run ::
  "(string \<Rightarrow> nat option) \<Rightarrow> (poll_input \<times> u16) list \<Rightarrow> docker_manager \<times> agent_details \<Rightarrow> docker_manager \<times> agent_details" where
  "docker_run semver_major history da = foldl (\<lambda>da (inp, c). snd (get_docker_stats semver_major inp c da)) da history"

lemma start_inv:
  assumes "new_docker_manager env exists uid scheme pd sm version ad = Manager dm ad'"
  shows "docker_inv (exclude_patterns env) dm"
proof -
  define checked where "checked = check_docker_version sm version (empty_manager (exclude_patterns env), ad)"
  have "dm = fst (snd checked)"
    using assms by (auto simp: new_docker_manager_def Let_def split_beta simp flip: checked_def split: if_splits option.splits)
  then have "core dm = core (empty_manager (exclude_patterns env))" by (simp add: checked_def same_core)
  then have "docker_inv (exclude_patterns env) dm = docker_inv (exclude_patterns env) (empty_manager (exclude_patterns env))"
    by (rule docker_inv_core)
  then show ?thesis by (simp add: docker_inv_def empty_manager_def)
qed

lemma docker_run_inv:
  "docker_inv patterns (fst da) \<Longrightarrow> docker_inv patterns (fst (docker_run sm history da))"
  unfolding docker_run_def
  by (rule foldl_inv [where P = "\<lambda>da. docker_inv patterns (fst da)"]) (auto simp: get_docker_stats_inv(1))

text \<open>
  C40: whatever polls, failures, retries and schedules went before, a poll reports each container at most once,
  under its own id, and only containers that the engine just listed and that no exclusion pattern matches.
\<close>

theorem reported_containers_are_listed:
  assumes "new_docker_manager env exists uid scheme parse_duration sm version ad = Manager dm ad'"
    and "fst (get_docker_stats sm inp c (docker_run sm history (dm, ad'))) = PollOk stats"
    and "pi_list inp = Some (header, Some ctrs)"
  shows "distinct (map ct_id stats) \<and> ct_id ` set stats \<subseteq> wanted (exclude_patterns env) ctrs"
proof -
  have "docker_inv (exclude_patterns env) (fst (docker_run sm history (dm, ad')))"
    using start_inv [OF assms(1)] by (simp add: docker_run_inv)
  then show ?thesis by (rule get_docker_stats_inv(2)) (rule assms(2,3))+
qed

definition demo_container :: api_info where
  "demo_container = \<lparr>ai_id = ''aaaaaaaaaaaa1'', ai_short = '''', ai_names = [''/w''], ai_status = ''Up'', ai_state = '''',
     ai_image = ''i'', ai_health = '''', ai_ports = []\<rparr>"

definition demo_excluded :: api_info where
  "demo_excluded = demo_container\<lparr>ai_id := ''bbbbbbbbbbbb1'', ai_names := [''/x'']\<rparr>"

definition demo_answer :: container_answer where
  "demo_answer = \<lparr>ca_stats = Some (\<lambda>s. (s\<lparr>as_mem_usage := 5\<rparr>, True)), ca_inspect = None, ca_since = 1, ca_now = 2\<rparr>"

definition demo_poll :: poll_input where
  "demo_poll = \<lparr>pi_list = Some ('''', Some [demo_container, demo_excluded]), pi_version = None, pi_sort = (\<lambda>ps. ps),
     pi_first = (\<lambda>_. demo_answer), pi_second = (\<lambda>_. demo_answer), pi_schedule = (\<lambda>cs. cs)\<rparr>"

definition demo_env :: environment where
  "demo_env = (\<lambda>v. if v = ''EXCLUDE_CONTAINERS'' then Some ''x'' else None)"

lemma demo_patterns: "exclude_patterns demo_env = [''x'']"
  by (simp add: exclude_patterns_def demo_env_def get_env_def trim_space_graphic graphic_def)

lemma demo_match: "path_match ''x'' ''x''" "\<not> path_match ''x'' ''w''"
  by code_simp+

lemma demo_names: "container_name demo_container = ''w''" "container_name demo_excluded = ''x''"
  by (simp_all add: container_name_def demo_container_def demo_excluded_def)


lemma demo_status: "parse_docker_status ''Up'' = (''Up'', health_none)"
  by (simp add: parse_docker_status_def trim_space_graphic graphic_def replace1_def split2_def)

lemma demo_reports: "\<exists>s. fst (get_docker_stats (\<lambda>_. None) demo_poll 1000 (empty_manager [''x''], ad)) = PollOk [s]"
  by (simp add: get_docker_stats_def demo_poll_def detect_engine_def detect_podman_from_header_def
     ensure_docker_version_checked_def check_docker_version_def empty_manager_def poll_containers_def demo_names
     should_exclude_container_def demo_match contains_def Let_def first_attempt_def second_attempt_def
     update_container_stats_def demo_answer_def refresh_entry_def demo_status store_entry_def measure_container_def
     demo_container_def demo_excluded_def container_name_def calculate_memory_usage_def zero_api_stats_def
     initialize_cpu_tracking_def ensure2_def cpu_percent_def get_cpu_previous_values_def get2_def
     calculate_cpu_percent_linux_def max_memory_usage_def set_cpu_current_values_def put2_def
     validate_cpu_percentage_def calculate_network_stats_def get_network_tracker_def)

lemma demo_start:
  "new_docker_manager demo_env (\<lambda>_. True) ''0'' (\<lambda>_. Some ''unix'') (\<lambda>_. None) (\<lambda>_. None) None ad =
   Manager (empty_manager [''x'']) ad"
  by (simp add: new_docker_manager_def demo_patterns check_docker_version_def Let_def)
    (simp add: demo_env_def get_env_def)

lemma reported_containers_are_listed_witness:
  "\<exists>s. fst (get_docker_stats (\<lambda>_. None) demo_poll 1000 (docker_run (\<lambda>_. None) [] (empty_manager [''x''], zero_details))) = PollOk [s] \<and>
     ct_id ` set [s] \<subseteq> wanted (exclude_patterns demo_env) [demo_container, demo_excluded]"
proof -
  obtain s where s: "fst (get_docker_stats (\<lambda>_. None) demo_poll 1000 (docker_run (\<lambda>_. None) [] (empty_manager [''x''], zero_details))) = PollOk [s]"
    using demo_reports [of zero_details] by (auto simp: docker_run_def)
  have "pi_list demo_poll = Some ('''', Some [demo_container, demo_excluded])" by (simp add: demo_poll_def)
  from reported_containers_are_listed [OF demo_start s this] s show ?thesis by blast
qed

section \<open>Two failures the retry and the shared structure allow\<close>

text \<open>
  The ports of a container are cleared once they are printed. When the first attempt fails after that, the entry
  is deleted and the second attempt makes a new one, which has no ports any more.
\<close>

lemma retry_loses_ports:
  "ai_ports (fst (snd (update_container_stats s (ans\<lparr>ca_stats := Some d\<rparr>) c ctr dm))) = []"
  by (simp add: update_container_stats_def refresh_entry_def convert_container_ports_to_string_def split_beta Let_def)

text \<open>
  The status code of the stats request is not looked at and the structure is shared: an error body, which sets
  none of its fields, leaves the numbers of the container decoded before, and they are reported.
\<close>

lemma windows_initialize [simp]: "dm_windows (initialize_cpu_tracking c dm) = dm_windows dm"
  by (simp add: initialize_cpu_tracking_def)

lemma measure_reports:
  assumes "calculate_memory_usage res (dm_windows dm) = Some used"
    and "validate_cpu_percentage (cpu_percent c cid res (initialize_cpu_tracking c dm))"
  shows "\<exists>v. map_of (dm_stats (snd (measure_container ans c cid stats res dm))) cid = Some v \<and>
     ct_mem v = bytes_to_megabytes (float64_of_u64 used)"
  using assms
  by (simp add: measure_container_def Let_def split: prod.split)
    (simp add: store_entry_def map_of_update update_container_stats_values_def)

lemma error_body_reports_previous_container:
  assumes used: "calculate_memory_usage (dm_api_stats dm) False = Some used" and "\<not> dm_windows dm"
    and "get2 (dm_cpu_container dm) c (ai_short ctr) = None"
    and decode: "ca_stats body = Some (\<lambda>r. (r, True))"
  shows "\<exists>v. map_of (dm_stats (snd (snd (update_container_stats s body c ctr dm)))) (ai_short ctr) = Some v \<and>
     ct_mem v = bytes_to_megabytes (float64_of_u64 used)"
proof -
  define stats where "stats = fst (refresh_entry s body ctr dm)"
  define res where "res = dm_api_stats dm\<lparr>as_networks := []\<rparr>"
  define dm1 where "dm1 = store_entry (ai_short ctr) stats dm\<lparr>dm_api_stats := res\<rparr>"
  have keep: "dm_windows dm1 = dm_windows dm" "dm_cpu_container dm1 = dm_cpu_container dm"
    by (simp_all add: dm1_def store_entry_def)
  have "calculate_memory_usage res False = calculate_memory_usage (dm_api_stats dm) False"
    by (simp add: calculate_memory_usage_def res_def Let_def)
  then have mem: "calculate_memory_usage res (dm_windows dm1) = Some used" using used keep assms(2) by simp
  have "get2 (ensure2 c m) c k = get2 m c k" for m :: "u64 per_interval" and k
    by (simp add: get2_def ensure2_def map_of_update)
  then have "cpu_percent c (ai_short ctr) res (initialize_cpu_tracking c dm1) = Fin 0"
    using assms(2,3) keep
    by (simp add: cpu_percent_def get_cpu_previous_values_def calculate_cpu_percent_linux_def initialize_cpu_tracking_def)
  then have "validate_cpu_percentage (cpu_percent c (ai_short ctr) res (initialize_cpu_tracking c dm1))"
    by (simp add: validate_cpu_percentage_def)
  note measured = measure_reports [OF mem this, of body stats]
  have id: "ai_short (snd (refresh_entry s body ctr dm)) = ai_short ctr" using refresh_entry_id by blast

  have "snd (snd (update_container_stats s body c ctr dm)) = snd (measure_container body c (ai_short ctr) stats res dm1)"
    by (simp add: update_container_stats_def decode split_beta Let_def id dm1_def res_def store_entry_def flip: stats_def)
  then show ?thesis using measured by simp
qed

end
