(* ===== verification/Sensors.thy ===== *)
theory Sensors
  imports GoStr Entities Utils
begin

text \<open>
  \<^verbatim>\<open>agent/sensors.go\<close>: which temperature sensors are reported, and how. What gopsutil reads, and how long it
  takes, is an argument; on Linux its error is ignored, so an answer is a list or a panic.
\<close>

section \<open>Configuration\<close>

record sensor_config =
  sc_sensors :: "string list"
  sc_primary :: string
  sc_timeout :: duration
  sc_blacklist :: bool
  sc_wildcards :: bool
  sc_skip :: bool
  sc_first_run :: bool

definition new_sensor_config_with_env ::
  "(string \<Rightarrow> duration option) \<Rightarrow> string \<Rightarrow> string \<Rightarrow> string \<Rightarrow> bool \<Rightarrow> sensor_config" where
  "new_sensor_config_with_env parse_duration primarySensor sensorsEnvVal sensorsTimeout skipCollection =
     (let timeout = (if sensorsTimeout \<noteq> '''' then
              (case parse_duration sensorsTimeout of Some d \<Rightarrow> d | None \<Rightarrow> 2 * second) else 2 * second);
          blacklist = prefix ''-'' sensorsEnvVal;
          names = (if blacklist then drop 1 sensorsEnvVal else sensorsEnvVal);
          sensors = filter (\<lambda>s. s \<noteq> '''') (map trim_space (split_byte (CHR '','') names))
      in \<lparr>sc_sensors = remdups sensors, sc_primary = primarySensor, sc_timeout = timeout, sc_blacklist = blacklist,
          sc_wildcards = list_ex (\<lambda>s. contains s ''*'') sensors, sc_skip = skipCollection, sc_first_run = True\<rparr>)"

definition new_sensor_config :: "(string \<Rightarrow> duration option) \<Rightarrow> environment \<Rightarrow> sensor_config" where
  "new_sensor_config parse_duration env =
     (let value = (\<lambda>key. case get_env env key of Some v \<Rightarrow> v | None \<Rightarrow> '''')
      in new_sensor_config_with_env parse_duration (value ''PRIMARY_SENSOR'') (value ''SENSORS'')
           (value ''SENSORS_TIMEOUT'') (get_env env ''SENSORS'' = Some ''''))"

definition is_valid_sensor :: "string \<Rightarrow> sensor_config \<Rightarrow> bool" where
  "is_valid_sensor sensorName config =
     (if sc_sensors config = [] then True
      else if List.member (sc_sensors config) sensorName then \<not> sc_blacklist config
      else if \<not> sc_wildcards config then sc_blacklist config
      else if list_ex (\<lambda>pattern. contains pattern ''*'' \<and> path_match pattern sensorName) (sc_sensors config)
        then \<not> sc_blacklist config
      else sc_blacklist config)"

section \<open>Reading\<close>

datatype temps_error = TempsTimeout | TempsPanic

text \<open>One call of gopsutil: how long it takes, and the list it returns unless it panics.\<close>

type_synonym temps_call = "duration \<times> (string \<times> flt) list option"

definition get_temps_with_panic_recovery :: "(string \<times> flt) list option \<Rightarrow> temps_error + (string \<times> flt) list" where
  "get_temps_with_panic_recovery r = (case r of Some temps \<Rightarrow> Inr temps | None \<Rightarrow> Inl TempsPanic)"

definition get_temps_with_timeout ::
  "temps_call \<Rightarrow> sensor_config \<Rightarrow> (temps_error + (string \<times> flt) list) \<times> sensor_config" where
  "get_temps_with_timeout call config =
     (let timeout = (if sc_first_run config then 10 * second else sc_timeout config);
          (taken, r) = call
      in (if taken < timeout then get_temps_with_panic_recovery r else Inl TempsTimeout,
          config\<lparr>sc_first_run := False\<rparr>))"

definition scale_temperature :: "flt \<Rightarrow> flt" where
  "scale_temperature temp =
     (if fless (Fin 1) temp then temp
      else
        let scaled100 = mul64 temp (Fin 100); scaled1000 = mul64 temp (Fin 1000) in
        if fle (Fin 15) scaled100 \<and> fle scaled100 (Fin 95) then scaled100
        else if fle (Fin 15) scaled1000 \<and> fle scaled1000 (Fin 95) then scaled1000
        else scaled100)"

section \<open>Updating\<close>

text \<open>One sensor: its index, key and temperature; the state is the reported map and the dashboard temperature.\<close>

definition add_sensor ::
  "sensor_config \<Rightarrow> nat \<Rightarrow> string \<times> flt \<Rightarrow> (string, flt) gomap \<times> flt \<Rightarrow> (string, flt) gomap \<times> flt" where
  "add_sensor config i sensor acc =
     (let (sensorKey, t) = sensor; (temperatures, dashboard) = acc;
          t = (if \<not> feq t (Fin 0) \<and> fless t (Fin 1) then scale_temperature t else t)
      in if fle t (Fin 0) \<or> fle (Fin 200) t then acc
         else
           let sensorName = (if map_of temperatures sensorKey \<noteq> None then sensorKey @ ''_'' @ itoa i else sensorKey) in
           if \<not> is_valid_sensor sensorName config then acc
           else (AList.update sensorName (two_decimals t) temperatures,
                 if sc_primary config = '''' then fmax dashboard t
                 else if sc_primary config = sensorName then t else dashboard))"

fun add_sensors ::
  "sensor_config \<Rightarrow> nat \<Rightarrow> (string \<times> flt) list \<Rightarrow> (string, flt) gomap \<times> flt \<Rightarrow> (string, flt) gomap \<times> flt" where
  "add_sensors config i [] acc = acc"
| "add_sensors config i (s # ss) acc = add_sensors config (Suc i) ss (add_sensor config i s acc)"

definition fetch_temps ::
  "temps_call \<Rightarrow> temps_call \<Rightarrow> sensor_config \<Rightarrow> (temps_error + (string \<times> flt) list) \<times> sensor_config" where
  "fetch_temps call1 call2 config =
     (case get_temps_with_timeout call1 config of
        (Inl TempsPanic, config) \<Rightarrow> get_temps_with_timeout call2 config
      | r \<Rightarrow> r)"

definition update_temperatures ::
  "temps_call \<Rightarrow> temps_call \<Rightarrow> stats \<Rightarrow> info \<Rightarrow> sensor_config \<Rightarrow> stats \<times> info \<times> sensor_config" where
  "update_temperatures call1 call2 systemStats systemInfo config =
     (if sc_skip config then (systemStats, systemInfo, config)
      else
        let systemInfo = systemInfo\<lparr>i_dashboard_temp := zero_flt\<rparr> in
        case fetch_temps call1 call2 config of
          (Inl e, config) \<Rightarrow>
            ((case s_temperatures systemStats of
                Some (t # ts) \<Rightarrow> systemStats\<lparr>s_temperatures := Some []\<rparr> | _ \<Rightarrow> systemStats), systemInfo, config)
        | (Inr [], config) \<Rightarrow> (systemStats, systemInfo, config)
        | (Inr temps, config) \<Rightarrow>
            let (temperatures, dashboard) = add_sensors config 0 temps ([], zero_flt) in
            (systemStats\<lparr>s_temperatures := Some temperatures\<rparr>, systemInfo\<lparr>i_dashboard_temp := dashboard\<rparr>, config))"

section \<open>What is reported\<close>

text \<open>Every reported temperature belongs to a sensor the configuration lets through, and is plausible.\<close>

definition reported_ok :: "sensor_config \<Rightarrow> (string, flt) gomap \<Rightarrow> bool" where
  "reported_ok config m \<longleftrightarrow>
     (\<forall>(name, t) \<in> set m. is_valid_sensor name config \<and> (\<exists>v. \<not> fle v (Fin 0) \<and> \<not> fle (Fin 200) v \<and> t = two_decimals v))"

lemma reported_update:
  assumes "reported_ok config m" and "is_valid_sensor name config" and "\<not> fle v (Fin 0)" and "\<not> fle (Fin 200) v"
  shows "reported_ok config (AList.update name (two_decimals v) m)"
proof -
  have "set (AList.update name (two_decimals v) m) \<subseteq> insert (name, two_decimals v) (set m)"
    by (induction m) auto
  then show ?thesis using assms unfolding reported_ok_def by blast
qed

lemma add_sensor_ok: "reported_ok config (fst acc) \<Longrightarrow> reported_ok config (fst (add_sensor config i s acc))"
  using reported_update by (auto simp: add_sensor_def split_beta Let_def)

lemma reported_sensors_valid:
  "reported_ok config (fst (add_sensors config i ss acc))" if "reported_ok config (fst acc)"
  using that by (induction config i ss acc rule: add_sensors.induct) (simp_all add: add_sensor_ok)

end
