(* ===== verification/SensorsWindows.thy ===== *)
theory SensorsWindows
  imports GoStr Float64
begin

text \<open>
  \<^verbatim>\<open>agent/sensors_windows.go\<close>: on Windows the temperatures come from a helper process that is unpacked next to the
  agent's temporary files and asked over a pipe. What the file system, the process and gopsutil answer are arguments.
\<close>

section \<open>Unpacking the helper\<close>

datatype embedded = EFile string string | EDir string "embedded list"

text \<open>\<open>copyEmbeddedDir\<close>, for the entries of a directory that exists: the files written so far, and whether all were.\<close>

fun copy_embedded_dir ::
  "(string \<Rightarrow> bool) \<Rightarrow> (string \<Rightarrow> bool) \<Rightarrow> embedded list \<Rightarrow> string \<Rightarrow> (string \<rightharpoonup> string) \<Rightarrow> bool \<times> (string \<rightharpoonup> string)" where
  "copy_embedded_dir mkdir_ok write_ok [] destPath files = (True, files)"
| "copy_embedded_dir mkdir_ok write_ok (EDir name es # entries) destPath files =
     (let destEntryPath = path_join [destPath, name] in
      if \<not> mkdir_ok destEntryPath then (False, files)
      else (case copy_embedded_dir mkdir_ok write_ok es destEntryPath files of
              (False, files') \<Rightarrow> (False, files')
            | (True, files') \<Rightarrow> copy_embedded_dir mkdir_ok write_ok entries destPath files'))"
| "copy_embedded_dir mkdir_ok write_ok (EFile name data # entries) destPath files =
     (let destEntryPath = path_join [destPath, name] in
      if \<not> write_ok destEntryPath then (False, files)
      else copy_embedded_dir mkdir_ok write_ok entries destPath (files(destEntryPath \<mapsto> data)))"

section \<open>The process\<close>

text \<open>\<open>lp_pipes\<close>: the standard input and the scanner are not \<open>nil\<close>; \<open>lp_files\<close>: the executable is on the disk.\<close>

record lhm_process =
  lp_running :: bool
  lp_pipes :: bool
  lp_stopped_no_sensors :: bool
  lp_consecutive_no_sensors :: u8
  lp_files :: bool

definition cleanup_process :: "lhm_process \<Rightarrow> lhm_process" where
  "cleanup_process lhm =
     lhm\<lparr>lp_running := False, lp_pipes := False, lp_stopped_no_sensors := False, lp_consecutive_no_sensors := 0\<rparr>"

text \<open>An executable that is gone cannot be started.\<close>

definition start_process :: "bool \<Rightarrow> lhm_process \<Rightarrow> bool \<times> lhm_process" where
  "start_process start_ok lhm =
     (let lhm = cleanup_process lhm in
      if lp_files lhm \<and> start_ok then (True, lhm\<lparr>lp_running := True, lp_pipes := True\<rparr>) else (False, lhm))"

text \<open>\<open>cleanup\<close> also removes the directory of the executable, which may fail.\<close>

definition cleanup :: "bool \<Rightarrow> lhm_process \<Rightarrow> lhm_process" where
  "cleanup remove_ok lhm = (cleanup_process lhm)\<lparr>lp_files := lp_files lhm \<and> \<not> remove_ok\<rparr>"

definition new_lhm_process :: "bool \<Rightarrow> bool \<Rightarrow> bool \<Rightarrow> bool \<Rightarrow> lhm_process option" where
  "new_lhm_process mkdir_ok exists copied start_ok =
     (if \<not> mkdir_ok then None
      else if \<not> exists \<and> \<not> copied then None
      else (case start_process start_ok \<lparr>lp_running = False, lp_pipes = False, lp_stopped_no_sensors = False,
                lp_consecutive_no_sensors = 0, lp_files = True\<rparr> of
              (False, _) \<Rightarrow> None
            | (True, lhm) \<Rightarrow> Some lhm))"

section \<open>Reading\<close>

datatype lhm_error = StartFailed | SendFailed | ScanFailed | InitFailed | NotAvailable | LibraryFailed

type_synonym temps = "(string \<times> flt) list"

text \<open>One line \<open>name|value\<close>; a NaN passes both comparisons.\<close>

definition parse_line :: "(string \<Rightarrow> flt option) \<Rightarrow> string \<Rightarrow> (string \<times> flt) option" where
  "parse_line parse_float line =
     (case split_byte (CHR ''|'') line of
        [a, b] \<Rightarrow>
          (case parse_float (trim_space b) of
             None \<Rightarrow> None
           | Some v \<Rightarrow>
               if trim_space a = '''' \<or> fle v (Fin 0) \<or> fless (Fin 150) v then None else Some (trim_space a, v))
      | _ \<Rightarrow> None)"

fun read_lines :: "(string \<Rightarrow> flt option) \<Rightarrow> string list \<Rightarrow> temps" where
  "read_lines parse_float [] = []"
| "read_lines parse_float (text # rest) =
     (let line = trim_space text in
      if line = '''' then []
      else (case parse_line parse_float line of Some t \<Rightarrow> [t] | None \<Rightarrow> []) @ read_lines parse_float rest)"

text \<open>What one poll meets: whether the process starts and takes the command, its lines, whether reading them fails,
  whether its files can be removed, and what gopsutil answers if it is asked.\<close>

record lhm_call =
  lc_start_ok :: bool
  lc_write_ok :: bool
  lc_lines :: "string list"
  lc_scan_ok :: bool
  lc_remove_ok :: bool
  lc_library :: "temps \<times> lhm_error option"

definition ask_process ::
  "(string \<Rightarrow> flt option) \<Rightarrow> lhm_call \<Rightarrow> lhm_process \<Rightarrow> (temps \<times> lhm_error option) \<times> lhm_process" where
  "ask_process parse_float c lhm =
     (if \<not> lc_write_ok c then (([], Some SendFailed), lhm\<lparr>lp_running := False\<rparr>)
      else
        let temps = read_lines parse_float (lc_lines c) in
        if \<not> lc_scan_ok c then ((temps, Some ScanFailed), lhm\<lparr>lp_running := False\<rparr>)
        else if temps = [] then
          (let lhm = lhm\<lparr>lp_consecutive_no_sensors := lp_consecutive_no_sensors lhm + 1\<rparr> in
           (lc_library c,
            if 3 \<le> lp_consecutive_no_sensors lhm then cleanup (lc_remove_ok c) (lhm\<lparr>lp_stopped_no_sensors := True\<rparr>) else lhm))
        else ((temps, None), lhm\<lparr>lp_consecutive_no_sensors := 0\<rparr>))"

definition get_temps ::
  "(string \<Rightarrow> flt option) \<Rightarrow> bool \<Rightarrow> lhm_call \<Rightarrow> lhm_process \<Rightarrow> (temps \<times> lhm_error option) \<times> lhm_process" where
  "get_temps parse_float useLHM c lhm =
     (if \<not> useLHM \<or> lp_stopped_no_sensors lhm then (lc_library c, lhm)
      else if \<not> lp_running lhm \<or> \<not> lp_pipes lhm then
        (case start_process (lc_start_ok c) lhm of
           (False, lhm) \<Rightarrow> (([], Some StartFailed), lhm)
         | (True, lhm) \<Rightarrow> ask_process parse_float c lhm)
      else ask_process parse_float c lhm)"

text \<open>The process is made once; \<open>None\<close> when that has not been tried, \<open>Some None\<close> when it failed.\<close>

definition get_sensor_temps ::
  "(string \<Rightarrow> flt option) \<Rightarrow> bool \<Rightarrow> lhm_process option \<Rightarrow> lhm_call \<Rightarrow> lhm_process option option \<Rightarrow>
     (temps \<times> lhm_error option) \<times> lhm_process option option" where
  "get_sensor_temps parse_float useLHM made c p =
     (if \<not> useLHM then (lc_library c, p)
      else (case p of
        None \<Rightarrow>
          (case made of
             None \<Rightarrow> (([], Some InitFailed), Some None)
           | Some lhm \<Rightarrow> (let (r, lhm') = get_temps parse_float useLHM c lhm in (r, Some (Some lhm'))))
      | Some None \<Rightarrow> (([], Some NotAvailable), p)
      | Some (Some lhm) \<Rightarrow> (let (r, lhm') = get_temps parse_float useLHM c lhm in (r, Some (Some lhm')))))"

section \<open>Plausible temperatures\<close>

lemma parse_line_plausible:
  "parse_line parse_float line = Some (name, v) \<Longrightarrow> name \<noteq> '''' \<and> \<not> fle v (Fin 0) \<and> \<not> fless (Fin 150) v"
  by (auto simp: parse_line_def split: list.splits option.splits if_splits)

lemma read_lines_plausible:
  "(name, v) \<in> set (read_lines parse_float ls) \<Longrightarrow> name \<noteq> '''' \<and> \<not> fle v (Fin 0) \<and> \<not> fless (Fin 150) v"
  by (induction ls) (auto simp: Let_def parse_line_plausible split: if_splits option.splits dest: parse_line_plausible [OF sym])

section \<open>Giving up\<close>

text \<open>The flag that stops the helper is never left set.\<close>

lemma never_stopped:
  "\<not> lp_stopped_no_sensors lhm \<Longrightarrow> \<not> lp_stopped_no_sensors (snd (get_temps parse_float useLHM c lhm))"
  by (simp add: get_temps_def ask_process_def start_process_def cleanup_def cleanup_process_def Let_def)

text \<open>
  \<open>stoppedNoSensors\<close> is meant to send every later poll to gopsutil, but \<open>cleanup\<close> calls \<open>cleanupProcess\<close>, which
  resets it, and removes the executable: every later poll tries to start it, fails, and reports nothing.
\<close>

definition lost :: "lhm_process \<Rightarrow> bool" where
  "lost lhm \<longleftrightarrow> \<not> lp_running lhm \<and> \<not> lp_stopped_no_sensors lhm \<and> \<not> lp_files lhm"

lemma third_empty_poll_loses:
  assumes "lp_running lhm" and "lp_pipes lhm" and "\<not> lp_stopped_no_sensors lhm" and "lp_consecutive_no_sensors lhm = 2"
    and "lc_write_ok c" and "lc_scan_ok c" and "lc_remove_ok c" and "read_lines parse_float (lc_lines c) = []"
  shows "lost (snd (get_temps parse_float True c lhm))"
  using assms by (simp add: get_temps_def ask_process_def cleanup_def cleanup_process_def lost_def Let_def)

lemma lost_poll:
  "lost lhm \<Longrightarrow> fst (get_temps parse_float True c lhm) = ([], Some StartFailed) \<and> lost (snd (get_temps parse_float True c lhm))"
  by (simp add: get_temps_def start_process_def cleanup_process_def lost_def Let_def)

lemma sensors_lost_for_good:
  "lost lhm \<Longrightarrow> lost (fold (\<lambda>c p. snd (get_temps parse_float True c p)) cs lhm) \<and>
     fst (get_temps parse_float True c (fold (\<lambda>c p. snd (get_temps parse_float True c p)) cs lhm)) = ([], Some StartFailed)"
  by (induction cs arbitrary: lhm) (simp_all add: lost_poll)

end
