(* ===== verification/Battery.thy ===== *)
theory Battery
  imports GoStr Entities Utils Systemd
begin

text \<open>
  \<^verbatim>\<open>agent/battery/battery.go\<close> and \<^verbatim>\<open>battery_linux.go\<close>: the charge read from sysfs. The paths and whether
  a battery is readable are computed once, at the first call, and kept.
\<close>

definition state_unknown :: u8 where "state_unknown = 0"
definition state_empty :: u8 where "state_empty = 1"
definition state_full :: u8 where "state_full = 2"
definition state_charging :: u8 where "state_charging = 3"
definition state_discharging :: u8 where "state_discharging = 4"
definition state_idle :: u8 where "state_idle = 5"

lemmas battery_states = state_unknown_def state_empty_def state_full_def state_charging_def state_discharging_def state_idle_def

definition parse_sysfs_state :: "string \<Rightarrow> u8" where
  "parse_sysfs_state status =
     (if status = ''Empty'' then state_empty
      else if status = ''Full'' then state_full
      else if status = ''Charging'' then state_charging
      else if status = ''Discharging'' then state_discharging
      else if status = ''Not charging'' then state_idle
      else state_unknown)"

text \<open>\<open>strconv.Atoi\<close>: an optional sign and decimal digits, in the range of \<open>int64\<close>.\<close>

definition atoi :: "string \<Rightarrow> int option" where
  "atoi s =
     (let neg = prefix ''-'' s; digits = (if prefix ''-'' s \<or> prefix ''+'' s then drop 1 s else s) in
      if digits = [] \<or> \<not> list_all is_digit digits then None
      else
        let n = int (decimal_value digits); v = (if neg then - n else n) in
        if min_i64 \<le> v \<and> v \<le> max_i64 then Some v else None)"

text \<open>The batteries under \<open>/sys/class/power_supply\<close>: \<open>entries\<close> are the names in the directory, if it can be read.\<close>

definition get_battery_paths :: "file_system \<Rightarrow> string \<Rightarrow> string list option \<Rightarrow> string list option" where
  "get_battery_paths fs sysfsPowerSupplyPath entries =
     map_option (\<lambda>es. filter (\<lambda>path. read_string_file fs (path_join [path, ''type'']) = ''Battery'')
       (map (\<lambda>e. path_join [sysfsPowerSupplyPath, e]) es)) entries"

definition has_readable_battery :: "file_system \<Rightarrow> string list option \<Rightarrow> bool" where
  "has_readable_battery fs paths =
     list_ex (\<lambda>path. read_string_file_ok fs (path_join [path, ''capacity'']) \<noteq> None) (case paths of Some ps \<Rightarrow> ps | None \<Rightarrow> [])"

definition add_battery :: "file_system \<Rightarrow> string \<Rightarrow> u8 \<times> int \<times> int \<Rightarrow> u8 \<times> int \<times> int" where
  "add_battery fs path acc =
     (let (batteryState, totalPercent, count) = acc in
      case read_string_file_ok fs (path_join [path, ''capacity'']) of
        None \<Rightarrow> acc
      | Some capStr \<Rightarrow>
          (case atoi capStr of
             None \<Rightarrow> acc
           | Some cap \<Rightarrow>
               let state = parse_sysfs_state (read_string_file fs (path_join [path, ''status''])) in
               (if state \<noteq> state_unknown then state else batteryState, wrap_i64 (totalPercent + cap), count + 1)))"

text \<open>\<open>readable\<close> and \<open>paths\<close> are the values kept from the first call. \<open>None\<close> is an error.\<close>

definition get_battery_stats :: "file_system \<Rightarrow> bool \<Rightarrow> string list option \<Rightarrow> (u8 \<times> u8) option" where
  "get_battery_stats fs readable paths =
     (if \<not> readable then None
      else case paths of
        None \<Rightarrow> None
      | Some [] \<Rightarrow> None
      | Some ps \<Rightarrow>
          let (batteryState, totalPercent, count) = fold (add_battery fs) ps (255, 0, 0) in
          if count = 0 \<or> batteryState = 255 then None
          else Some (word_of_int (go_quot totalPercent count), batteryState))"

section \<open>The percentage is the mean\<close>

definition capacity :: "file_system \<Rightarrow> string \<Rightarrow> int option" where
  "capacity fs path =
     (case read_string_file_ok fs (path_join [path, ''capacity'']) of None \<Rightarrow> None | Some s \<Rightarrow> atoi s)"

definition capacities :: "file_system \<Rightarrow> string list \<Rightarrow> int list" where
  "capacities fs ps = List.map_filter (capacity fs) ps"

lemma wrap_small: "0 \<le> x \<Longrightarrow> x \<le> max_i64 \<Longrightarrow> wrap_i64 x = x"
  by (simp add: wrap_i64_def max_i64_def sint_sbintrunc' signed_take_bit_int_eq_self)

lemma battery_fold:
  assumes "\<And>c. c \<in> set (capacities fs ps) \<Longrightarrow> 0 \<le> c \<and> c \<le> 100"
    and "0 \<le> t" and "t + 100 * int (length ps) \<le> max_i64"
  shows "\<exists>st. fold (add_battery fs) ps (st0, t, n) =
     (st, t + sum_list (capacities fs ps), n + int (length (capacities fs ps)))"
  using assms
proof (induction ps arbitrary: st0 t n)
  case (Cons p ps)
  show ?case
  proof (cases "capacity fs p")
    case None
    then have "add_battery fs p (st0, t, n) = (st0, t, n)"
      by (auto simp: add_battery_def capacity_def split: option.splits)
    moreover have "capacities fs (p # ps) = capacities fs ps" using None by (simp add: capacities_def)
    ultimately show ?thesis using Cons.IH [of t st0 n] Cons.prems by simp
  next
    case (Some c)
    have cs: "capacities fs (p # ps) = c # capacities fs ps" using Some by (simp add: capacities_def)
    then have c: "0 \<le> c" "c \<le> 100" using Cons.prems(1) by auto
    then have "wrap_i64 (t + c) = t + c" using Cons.prems by (intro wrap_small) auto
    then obtain st1 where "add_battery fs p (st0, t, n) = (st1, t + c, n + 1)"
      using Some by (auto simp: add_battery_def capacity_def Let_def split: option.splits)
    moreover have "\<exists>st. fold (add_battery fs) ps (st1, t + c, n + 1) =
       (st, t + c + sum_list (capacities fs ps), n + 1 + int (length (capacities fs ps)))"
    proof (rule Cons.IH)
      show "t + c + 100 * int (length ps) \<le> max_i64" using Cons.prems(3) c(2) by simp
    qed (use Cons.prems(1,2) c(1) cs in auto)
    ultimately show ?thesis by (simp add: cs algebra_simps)
  qed
qed (simp add: capacities_def)

lemma battery_percent_is_mean:
  assumes "get_battery_stats fs True (Some ps) = Some (pct, st)"
    and "\<And>c. c \<in> set (capacities fs ps) \<Longrightarrow> 0 \<le> c \<and> c \<le> 100" and "length ps \<le> 1000"
  shows "uint pct = sum_list (capacities fs ps) div int (length (capacities fs ps)) \<and> uint pct \<le> 100"
proof -
  define cs where "cs = capacities fs ps"
  obtain st' where f: "fold (add_battery fs) ps (255, 0, 0) = (st', sum_list cs, int (length cs))"
    using battery_fold [of fs ps 0 255 0] assms(2,3) by (auto simp: cs_def max_i64_def)
  have res: "pct = word_of_int (go_quot (sum_list cs) (int (length cs)))" "cs \<noteq> []"
    using assms(1) f by (auto simp: get_battery_stats_def Let_def split: list.splits if_splits)
  have s0: "0 \<le> sum_list cs" using assms(2) by (intro sum_list_nonneg) (auto simp: cs_def)
  have s1: "sum_list cs \<le> 100 * int (length cs)"
    using assms(2) sum_list_mono [of cs "\<lambda>c. c" "\<lambda>_. 100"] by (auto simp: cs_def sum_list_triv)
  define q where "q = sum_list cs div int (length cs)"
  have "sum_list cs div int (length cs) \<le> 100 * int (length cs) div int (length cs)" using s1 by (rule zdiv_mono1) (use res in auto)
  then have q: "0 \<le> q" "q \<le> 100" using s0 res by (auto simp: q_def pos_imp_zdiv_nonneg_iff)
  have "pct = word_of_int q" using res s0 by (simp add: go_quot_nonneg q_def)
  then have "uint pct = q" using q by (simp add: uint_word_of_int take_bit_int_eq_self)
  then show ?thesis using q by (simp add: q_def cs_def)
qed

end
