(* ===== verification/BatteryOther.thy ===== *)
theory BatteryOther
  imports Battery "HOL-Library.Monad_Syntax"
begin

text \<open>
  \<^verbatim>\<open>agent/battery/battery_darwin.go\<close> and \<^verbatim>\<open>agent/battery/battery_windows.go\<close>: the charge on the other two
  systems. What \<^verbatim>\<open>ioreg\<close> and the plist library answer, and what each Windows call answers, are arguments; whether
  a battery is readable is computed once and kept, as in \<open>Battery\<close>.
\<close>

section \<open>The percentage\<close>

text \<open>\<open>uint8(float64(charge) / float64(capacity) * 100)\<close>; \<open>o8\<close> is the conversion out of range.\<close>

definition charge_percent :: "(flt \<Rightarrow> u8) \<Rightarrow> int \<Rightarrow> int \<Rightarrow> u8" where
  "charge_percent o8 charge cap =
     word_of_float o8 (mul64 (div64 (float64_of_int charge) (float64_of_int cap)) (Fin 100))"

lemma charge_percent_bounded:
  assumes "0 \<le> charge" and "charge \<le> cap" and "0 < cap" and "cap \<le> 9007199254740992"
  shows "uint (charge_percent o8 charge cap) \<le> 100"
proof -
  define q where "q = div64 (float64_of_int charge) (float64_of_int cap)"
  have c: "float64_of_int charge = Fin (of_int charge)" "float64_of_int cap = Fin (of_int cap)"
    using assms by (simp_all add: float64_of_int_small)
  have "fle (Fin 0) q" "fle q (Fin 1)"
    unfolding q_def c using assms by (auto intro!: div64_nonneg div64_le_1)
  then have "fle (mul64 (Fin 0) (Fin 100)) (mul64 q (Fin 100))" "fle (mul64 q (Fin 100)) (mul64 (Fin 1) (Fin 100))"
    by (auto intro: mul64_mono)
  moreover have "fle (Fin 0) (mul64 (Fin 0) (Fin 100))" by (simp add: fmul_def Let_def zero_of_def)
  moreover have "mul64 (Fin 1) (Fin 100) = Fin 100" using mul64_int [of 1 100] by simp
  ultimately have b: "fle (Fin 0) (mul64 q (Fin 100))" "fle (mul64 q (Fin 100)) (Fin 100)"
    using fle_trans by fastforce+
  define x where "x = mul64 q (Fin 100)"
  have x: "finite_flt x" "0 \<le> val_of x" "val_of x \<le> 100" using fle_between [OF b] by (auto simp: x_def)
  have t: "0 \<le> trunc (val_of x)" "trunc (val_of x) \<le> 100" using x by (auto simp: trunc_def floor_le_iff)
  have "uint (word_of_float o8 x) = trunc (val_of x)"
    using x t by (simp add: word_of_float_def uint_word_of_int take_bit_int_eq_self)
  then show ?thesis using t by (simp add: charge_percent_def q_def x_def)
qed

section \<open>macOS\<close>

record mac_battery =
  mb_current :: int
  mb_max :: int
  mb_fully_charged :: bool
  mb_charging :: bool
  mb_external :: bool

text \<open>\<open>out\<close> is the output of \<^verbatim>\<open>ioreg\<close> unless it fails, \<open>unmarshal\<close> the plist decoder.\<close>

definition read_mac_batteries :: "(string \<Rightarrow> mac_battery list option) \<Rightarrow> string option \<Rightarrow> mac_battery list option" where
  "read_mac_batteries unmarshal out =
     (case out of None \<Rightarrow> None | Some bytes \<Rightarrow> if bytes = '''' then Some [] else unmarshal bytes)"

definition mac_has_readable_battery :: "mac_battery list option \<Rightarrow> bool" where
  "mac_has_readable_battery batteries = list_ex (\<lambda>bat. 0 < mb_max bat) (case batteries of Some bs \<Rightarrow> bs | None \<Rightarrow> [])"

definition mac_state :: "mac_battery \<Rightarrow> u8" where
  "mac_state bat =
     (if \<not> mb_external bat then state_discharging
      else if mb_charging bat then state_charging
      else if mb_current bat = 0 then state_empty
      else if \<not> mb_fully_charged bat then state_idle
      else state_full)"

definition add_mac_battery :: "mac_battery \<Rightarrow> int \<times> int \<times> u8 \<Rightarrow> int \<times> int \<times> u8" where
  "add_mac_battery bat acc =
     (let (totalCapacity, totalCharge, batteryState) = acc in
      if mb_max bat = 0 then acc
      else (wrap_i64 (totalCapacity + mb_max bat), wrap_i64 (totalCharge + min (mb_current bat) (mb_max bat)), mac_state bat))"

text \<open>\<open>None\<close> is an error.\<close>

definition mac_get_battery_stats :: "(flt \<Rightarrow> u8) \<Rightarrow> bool \<Rightarrow> mac_battery list option \<Rightarrow> (u8 \<times> u8) option" where
  "mac_get_battery_stats o8 readable batteries =
     (if \<not> readable then None
      else case batteries of
        None \<Rightarrow> None
      | Some [] \<Rightarrow> None
      | Some bs \<Rightarrow>
          let (totalCapacity, totalCharge, batteryState) = fold add_mac_battery bs (0, 0, 255) in
          if totalCapacity = 0 \<or> batteryState = 255 then None
          else Some (charge_percent o8 totalCharge totalCapacity, batteryState))"

text \<open>A battery as macOS reports it: no capacity is negative or absurd.\<close>

definition mac_sane :: "mac_battery \<Rightarrow> bool" where
  "mac_sane bat \<longleftrightarrow> 0 \<le> mb_current bat \<and> 0 \<le> mb_max bat \<and> mb_max bat \<le> 1000000000"

lemma mac_fold:
  assumes "list_all mac_sane bs" and "0 \<le> ch" and "ch \<le> cap" and "cap + 1000000000 * int (length bs) \<le> 9007199254740992"
  shows "\<exists>cap' ch' st'. fold add_mac_battery bs (cap, ch, st) = (cap', ch', st') \<and> 0 \<le> ch' \<and> ch' \<le> cap' \<and> cap' \<le> 9007199254740992"
  using assms
proof (induction bs arbitrary: cap ch st)
  case (Cons b bs)
  define c where "c = min (mb_current b) (mb_max b)"
  have b: "0 \<le> c" "c \<le> mb_max b" "mb_max b \<le> 1000000000" using Cons.prems(1) by (auto simp: mac_sane_def c_def)
  have w: "wrap_i64 (cap + mb_max b) = cap + mb_max b" "wrap_i64 (ch + c) = ch + c"
    using Cons.prems b by (auto intro!: wrap_small simp: max_i64_def)
  have "add_mac_battery b (cap, ch, st) = (if mb_max b = 0 then (cap, ch, st) else (cap + mb_max b, ch + c, mac_state b))"
    using w by (simp add: add_mac_battery_def c_def)
  moreover have "\<exists>cap' ch' st'. fold add_mac_battery bs (cap, ch, st) = (cap', ch', st') \<and> 0 \<le> ch' \<and> ch' \<le> cap' \<and> cap' \<le> 9007199254740992"
    using Cons.IH [of ch cap st] Cons.prems by simp
  moreover have "\<exists>cap' ch' st'. fold add_mac_battery bs (cap + mb_max b, ch + c, mac_state b) = (cap', ch', st') \<and> 0 \<le> ch' \<and> ch' \<le> cap' \<and> cap' \<le> 9007199254740992"
    using Cons.IH [of "ch + c" "cap + mb_max b" "mac_state b"] Cons.prems b by simp
  ultimately show ?case by simp
qed simp

lemma mac_percentage_bounded:
  assumes "mac_get_battery_stats o8 readable batteries = Some (pct, st)"
    and "\<And>bs. batteries = Some bs \<Longrightarrow> list_all mac_sane bs \<and> length bs \<le> 1000000"
  shows "uint pct \<le> 100"
proof -
  obtain bs where bs: "batteries = Some bs" "bs \<noteq> []"
    using assms(1) by (auto simp: mac_get_battery_stats_def split: option.splits list.splits if_splits)
  obtain cap ch st' where f: "fold add_mac_battery bs (0, 0, 255) = (cap, ch, st')" and r: "0 \<le> ch" "ch \<le> cap" "cap \<le> 9007199254740992"
    using mac_fold [of bs 0 0 255] assms(2) [OF bs(1)] by auto
  have "pct = charge_percent o8 ch cap" "cap \<noteq> 0"
    using assms(1) bs f by (auto simp: mac_get_battery_stats_def Let_def split: list.splits if_splits)
  then show ?thesis using charge_percent_bounded [of ch cap o8] r by simp
qed

section \<open>Windows\<close>

definition read_win_battery_state :: "u32 \<Rightarrow> u8" where
  "read_win_battery_state powerState =
     (if and powerState 0x00000004 \<noteq> 0 then state_charging
      else if and powerState 0x00000008 \<noteq> 0 then state_empty
      else if and powerState 0x00000002 \<noteq> 0 then state_discharging
      else if and powerState 0x00000001 \<noteq> 0 then state_full
      else state_unknown)"

text \<open>The blocks the calls take and fill; the reserved and unused members of \<^verbatim>\<open>batteryInformation\<close> are read by nobody.\<close>

record battery_query_information =
  bq_tag :: u32
  bq_level :: int
  bq_at_rate :: int

record battery_information =
  bi_capabilities :: u32
  bi_technology :: u8
  bi_designed :: u32
  bi_full_charged :: u32
  bi_cycle_count :: u32

record battery_wait_status =
  bw_tag :: u32
  bw_timeout :: u32
  bw_power_state :: u32
  bw_low :: u32
  bw_high :: u32

record battery_status =
  bs_power_state :: u32
  bs_capacity :: u32
  bs_voltage :: u32
  bs_rate :: int

text \<open>A system call answers with a value and an error number. \<open>syscall.EINVAL\<close> is one of the numbers above \<open>2^29\<close>.\<close>

type_synonym sys_answer = "u64 \<times> nat"

definition einval :: nat where "einval = 2 ^ 29"
definition invalid_handle :: u64 where "invalid_handle = - 1"

definition setup_di_setup :: "sys_answer \<Rightarrow> nat + u64" where
  "setup_di_setup a =
     (if fst a = invalid_handle then Inl (if snd a \<noteq> 0 then snd a else einval) else Inr (fst a))"

definition setup_di_call :: "sys_answer \<Rightarrow> nat" where
  "setup_di_call a = (if fst a = 0 then (if snd a \<noteq> 0 then snd a else einval) else 0)"

text \<open>What the system answers about one index; the last three are \<open>DeviceIoControl\<close> on the opened battery.\<close>

record win_answers =
  wa_devices :: sys_answer
  wa_enum :: sys_answer
  wa_detail_size :: sys_answer
  wa_required :: u32
  wa_detail :: sys_answer
  wa_opened :: bool
  wa_tag :: "u32 option"
  wa_info :: "battery_query_information \<Rightarrow> battery_information option"
  wa_status :: "battery_wait_status \<Rightarrow> battery_status option"

datatype win_error = NoMoreBatteries | CallFailed | NoTag | UnknownCapacity
datatype win_result = WinPanic | WinError win_error | WinBattery u32 u32 u8

text \<open>\<open>winBatteryGet\<close>: the buffer for the device path has \<open>cbRequired / 2\<close> elements; its first and third are used
  without a check.\<close>

definition query_battery :: "win_answers \<Rightarrow> win_result" where
  "query_battery a =
     (case wa_tag a of
        None \<Rightarrow> WinError NoTag
      | Some tag \<Rightarrow>
          if tag = 0 then WinError NoTag
          else (case wa_info a \<lparr>bq_tag = tag, bq_level = 0, bq_at_rate = 0\<rparr> of
            None \<Rightarrow> WinError CallFailed
          | Some bi \<Rightarrow>
              (case wa_status a \<lparr>bw_tag = tag, bw_timeout = 0, bw_power_state = 0, bw_low = 0, bw_high = 0\<rparr> of
                 None \<Rightarrow> WinError CallFailed
               | Some bs \<Rightarrow>
                   if bs_capacity bs = 0xffffffff then WinError UnknownCapacity
                   else WinBattery (bi_full_charged bi) (bs_capacity bs) (read_win_battery_state (bs_power_state bs)))))"

definition win_battery_get :: "win_answers \<Rightarrow> win_result" where
  "win_battery_get a =
     (case setup_di_setup (wa_devices a) of
        Inl _ \<Rightarrow> WinError CallFailed
      | Inr hdev \<Rightarrow>
          let enum = setup_di_call (wa_enum a); size_call = setup_di_call (wa_detail_size a) in
          if enum = 259 then WinError NoMoreBatteries
          else if enum \<noteq> 0 then WinError CallFailed
          else if size_call \<noteq> 0 \<and> size_call \<noteq> 122 then WinError CallFailed
          else if wa_required a div 2 < 1 then WinPanic
          else if setup_di_call (wa_detail a) \<noteq> 0 then WinError CallFailed
          else if wa_required a div 2 < 3 then WinPanic
          else if \<not> wa_opened a then WinError CallFailed
          else query_battery a)"

definition win_has_readable_battery :: "win_answers \<Rightarrow> bool" where
  "win_has_readable_battery a = (case win_battery_get a of WinBattery full _ _ \<Rightarrow> 0 < full | _ \<Rightarrow> False)"

text \<open>
  The loop over the indices has no bound of its own: it ends at the index for which Windows answers that there are no
  more. The result is \<open>Some None\<close> for a panic, and \<open>None\<close> when the loop never ends.
\<close>

partial_function (option) win_loop :: "(nat \<Rightarrow> win_answers) \<Rightarrow> nat \<Rightarrow> u32 \<times> u32 \<times> u8 \<Rightarrow> (u32 \<times> u32 \<times> u8) option option" where
  "win_loop answers i acc =
     (case win_battery_get (answers i) of
        WinPanic \<Rightarrow> Some None
      | WinError e \<Rightarrow> if e = NoMoreBatteries then Some (Some acc) else win_loop answers (Suc i) acc
      | WinBattery full current state \<Rightarrow>
          if full = 0 then win_loop answers (Suc i) acc
          else win_loop answers (Suc i) (fst acc + full, fst (snd acc) + min current full, state))"

definition win_get_battery_stats :: "(flt \<Rightarrow> u8) \<Rightarrow> bool \<Rightarrow> (nat \<Rightarrow> win_answers) \<Rightarrow> (u8 \<times> u8) option option option" where
  "win_get_battery_stats o8 readable answers =
     (if \<not> readable then Some (Some None)
      else map_option (map_option (\<lambda>(totalFull, totalCurrent, batteryState).
        if totalFull = 0 \<or> batteryState = 255 then None
        else Some (charge_percent o8 (uint totalCurrent) (uint totalFull), batteryState))) (win_loop answers 0 (0, 0, 255)))"

definition no_more :: "win_answers \<Rightarrow> bool" where
  "no_more a \<longleftrightarrow> win_battery_get a = WinError NoMoreBatteries"

text \<open>When the loop ends it has met an end of the list or a panic, and it ends there.\<close>

lemma win_loop_ends:
  assumes "win_loop answers i acc = Some r"
  shows "\<exists>j \<ge> i. no_more (answers j) \<or> win_battery_get (answers j) = WinPanic"
  using assms
proof (rule win_loop.raw_induct [where P = "\<lambda>answers i acc r. \<exists>j \<ge> i. no_more (answers j) \<or> win_battery_get (answers j) = WinPanic", rotated])
  fix loop answers i and acc :: "u32 \<times> u32 \<times> u8" and r
  assume IH: "\<And>answers i acc r. loop answers i acc = Some r \<Longrightarrow>
      \<exists>j \<ge> i. no_more (answers j) \<or> win_battery_get (answers j) = WinPanic"
    and body: "(case win_battery_get (answers i) of
        WinPanic \<Rightarrow> Some None
      | WinError e \<Rightarrow> if e = NoMoreBatteries then Some (Some acc) else loop answers (Suc i) acc
      | WinBattery full current state \<Rightarrow>
          if full = 0 then loop answers (Suc i) acc
          else loop answers (Suc i) (fst acc + full, fst (snd acc) + min current full, state)) = Some r"
  show "\<exists>j \<ge> i. no_more (answers j) \<or> win_battery_get (answers j) = WinPanic"
  proof (cases "no_more (answers i) \<or> win_battery_get (answers i) = WinPanic")
    case True
    then show ?thesis by blast
  next
    case False
    then obtain acc' where "loop answers (Suc i) acc' = Some r"
      using body by (auto simp: no_more_def split: win_result.splits if_splits)
    then show ?thesis using IH Suc_leD by blast
  qed
qed

lemma win_loop_returns:
  "no_more (answers (i + n)) \<Longrightarrow> \<exists>r. win_loop answers i acc = Some r"
proof (induction n arbitrary: i acc)
  case 0
  then show ?case by (simp add: no_more_def win_loop.simps)
next
  case (Suc n)
  then have "\<exists>r. win_loop answers (Suc i) acc' = Some r" for acc' by simp
  then show ?case by (auto simp: win_loop.simps [of answers i] split: win_result.split)
qed

text \<open>
  C14: on Windows the poll of the batteries returns exactly when Windows answers at some index that there are no more
  batteries, provided that no call makes it panic. The loop has no bound of its own: any other failure, at every index,
  keeps the agent in it for ever.
\<close>

theorem win_stats_return:
  assumes "\<And>j. win_battery_get (answers j) \<noteq> WinPanic"
  shows "win_get_battery_stats o8 True answers \<noteq> None \<longleftrightarrow> (\<exists>j. no_more (answers j))"
proof
  assume "win_get_battery_stats o8 True answers \<noteq> None"
  then obtain r where "win_loop answers 0 (0, 0, 255) = Some r" by (auto simp: win_get_battery_stats_def)
  then show "\<exists>j. no_more (answers j)" using win_loop_ends assms by blast
next
  assume "\<exists>j. no_more (answers j)"
  then obtain j where "no_more (answers (0 + j))" by auto
  then show "win_get_battery_stats o8 True answers \<noteq> None"
    using win_loop_returns [of answers 0 j "(0, 0, 255)"] by (auto simp: win_get_battery_stats_def)
qed

text \<open>Calls that keep failing, for a service that is being stopped say, keep the agent in the loop for ever.\<close>

lemma failing_calls_hang:
  assumes "\<And>i. win_battery_get (answers i) = WinError CallFailed"
  shows "win_get_battery_stats o8 True answers = None"
  using assms win_loop_ends [of answers 0 "(0, 0, 255)"]
  by (cases "win_loop answers 0 (0, 0, 255)") (auto simp: win_get_battery_stats_def no_more_def)


text \<open>A battery of 40000 of 50000 mWh that discharges, at two indexes; then there are no more.\<close>

definition listed :: win_answers where
  "listed = \<lparr>wa_devices = (7, 0), wa_enum = (1, 0), wa_detail_size = (0, 122), wa_required = 20, wa_detail = (1, 0), wa_opened = True,
     wa_tag = Some 3, wa_info = (\<lambda>_. Some \<lparr>bi_capabilities = 0, bi_technology = 1, bi_designed = 60000, bi_full_charged = 50000, bi_cycle_count = 9\<rparr>),
     wa_status = (\<lambda>_. Some \<lparr>bs_power_state = 2, bs_capacity = 40000, bs_voltage = 12000, bs_rate = -900\<rparr>)\<rparr>"

lemma listed_battery: "win_battery_get listed = WinBattery 50000 40000 state_discharging"
  by (simp add: win_battery_get_def query_battery_def listed_def setup_di_setup_def setup_di_call_def invalid_handle_def
      read_win_battery_state_def)

lemma no_more_listed: "win_battery_get (listed\<lparr>wa_enum := (0, 259)\<rparr>) = WinError NoMoreBatteries"
  by (simp add: win_battery_get_def listed_def setup_di_setup_def setup_di_call_def invalid_handle_def)

lemma win_stats_return_witness:
  "win_get_battery_stats (\<lambda>_. 0) True (\<lambda>j. if j < 2 then listed else listed\<lparr>wa_enum := (0, 259)\<rparr>) \<noteq> None"
proof (rule win_stats_return [THEN iffD2])
  show "\<exists>j. no_more (if j < (2::nat) then listed else listed\<lparr>wa_enum := (0, 259)\<rparr>)"
    by (rule exI [of _ 2]) (simp add: no_more_def no_more_listed)
qed (simp add: listed_battery no_more_listed)

end
