(* ===== verification/AgentData.thy ===== *)
theory AgentData
  imports Docker DiskIo Network Cpu Sensors Battery
begin

text \<open>
  The agent's own state and its answer to a data request: \<^verbatim>\<open>agent/agent.go\<close>, \<^verbatim>\<open>agent/agent_cache.go\<close> and
  \<^verbatim>\<open>agent/system.go\<close>. The components of the other theories are composed here: one poll updates disk, network,
  CPU, sensors and Docker, and the result is kept for the interval it was asked for. All readings are arguments.
\<close>

section \<open>The cache\<close>

record cache_node =
  cn_data :: combined_data
  cn_last_update :: instant

type_synonym data_cache = "(u16, cache_node) gomap"

definition new_system_data_cache :: data_cache where "new_system_data_cache = []"

text \<open>The node's data, and whether it is fresh: at most half the interval old.\<close>

definition cache_get :: "instant \<Rightarrow> u16 \<Rightarrow> data_cache \<Rightarrow> combined_data \<times> bool" where
  "cache_get now cacheTimeMs c =
     (case map_of c cacheTimeMs of
        None \<Rightarrow> (zero_data, False)
      | Some node \<Rightarrow>
          (cn_data node, time_sub now (cn_last_update node) < int (unat (cacheTimeMs div 2)) * millisecond))"

definition cache_set :: "instant \<Rightarrow> combined_data \<Rightarrow> u16 \<Rightarrow> data_cache \<Rightarrow> data_cache" where
  "cache_set now data cacheTimeMs c = AList.update cacheTimeMs \<lparr>cn_data = data, cn_last_update = now\<rparr> c"

section \<open>State\<close>

record agent_state =
  ag_mem_calc :: string
  ag_disk :: disk_state
  ag_net :: net_state
  ag_cpu :: cpu_state
  ag_sensors :: sensor_config
  ag_docker :: "docker_manager option"
  ag_info :: info
  ag_details :: agent_details
  ag_cache :: data_cache
  ag_connection_type :: u8

section \<open>Details\<close>

text \<open>The prefix, value and quotes of \<open>/etc/os-release\<close>; \<open>bufio.Scanner\<close> splits at line ends and drops one \<open>\<backslash>r\<close>.\<close>

definition drop_cr :: "string \<Rightarrow> string" where
  "drop_cr line = (if line \<noteq> [] \<and> last line = char_of (13::nat) then butlast line else line)"

definition trim_quotes :: "string \<Rightarrow> string" where
  "trim_quotes s = rev (dropWhile (\<lambda>c. c = CHR 0x22) (rev (dropWhile (\<lambda>c. c = CHR 0x22) s)))"

definition get_os_pretty_name :: "file_system \<Rightarrow> string option" where
  "get_os_pretty_name fs =
     (case fs ''/etc/os-release'' of
        None \<Rightarrow> None
      | Some content \<Rightarrow>
          (case find (prefix ''PRETTY_NAME='') (map drop_cr (split_byte (CHR 0x0A) content)) of
             Some line \<Rightarrow> Some (trim_quotes (drop (length ''PRETTY_NAME='') line))
           | None \<Rightarrow> None))"

record host_info =
  ho_operating_system :: string
  ho_kernel_version :: string
  ho_ncpu :: int
  ho_mem_total :: u64

definition zero_host_info :: host_info where
  "zero_host_info = \<lparr>ho_operating_system = '''', ho_kernel_version = '''', ho_ncpu = 0, ho_mem_total = 0\<rparr>"

text \<open>What the system and gopsutil answer about the host. Failing calls that give a zero value are that value.\<close>

record host_answers =
  ha_docker_info :: "host_info option"
  ha_hostname :: string
  ha_kernel_arch :: "string option"
  ha_goarch :: string
  ha_platform :: string
  ha_version :: string
  ha_kernel_version :: string
  ha_cpu_models :: "string list option"
  ha_cores :: int
  ha_threads :: int
  ha_memory :: "u64 option"

definition os_linux :: u8 where "os_linux = 0"
definition os_darwin :: u8 where "os_darwin = 1"
definition os_windows :: u8 where "os_windows = 2"
definition os_freebsd :: u8 where "os_freebsd = 3"

definition pretty_name_or :: "file_system \<Rightarrow> string \<Rightarrow> string" where
  "pretty_name_or fs other = (case get_os_pretty_name fs of Some n \<Rightarrow> n | None \<Rightarrow> other)"

definition platform_details :: "file_system \<Rightarrow> host_answers \<Rightarrow> host_info \<Rightarrow> details \<Rightarrow> details" where
  "platform_details fs ha hostInfo d =
     (if ha_platform ha = ''darwin'' then d\<lparr>d_os := os_darwin, d_os_name := ''macOS '' @ ha_version ha\<rparr>
      else if contains (ha_platform ha) ''indows'' then
        d\<lparr>d_os := os_windows, d_os_name := replace1 (ha_platform ha) ''Microsoft '' '''', d_kernel := ha_version ha\<rparr>
      else if ha_platform ha = ''freebsd'' then
        d\<lparr>d_os := os_freebsd, d_kernel := ha_kernel_version ha, d_os_name := pretty_name_or fs ''FreeBSD''\<rparr>
      else
        d\<lparr>d_os := os_linux,
          d_os_name := (if ho_operating_system hostInfo \<noteq> '''' then ho_operating_system hostInfo
                        else pretty_name_or fs (ha_platform ha)),
          d_kernel := (if ho_kernel_version hostInfo \<noteq> '''' then ho_kernel_version hostInfo
                       else ha_kernel_version ha)\<rparr>)"

definition refresh_system_details :: "file_system \<Rightarrow> string \<Rightarrow> host_answers \<Rightarrow> agent_state \<Rightarrow> agent_state" where
  "refresh_system_details fs version ha a =
     (let d = ad_details (ag_details a);
          d = (case ag_docker a of Some dm \<Rightarrow> d\<lparr>d_podman := dm_podman dm\<rparr> | None \<Rightarrow> d);
          hostInfo = (if ag_docker a = None then zero_host_info
                      else case ha_docker_info ha of Some h \<Rightarrow> h | None \<Rightarrow> zero_host_info);
          d = d\<lparr>d_hostname := ha_hostname ha,
                d_arch := (case ha_kernel_arch ha of Some s \<Rightarrow> s | None \<Rightarrow> ha_goarch ha)\<rparr>;
          d = platform_details fs ha hostInfo d;
          d = (case ha_cpu_models ha of Some (m # ms) \<Rightarrow> d\<lparr>d_cpu_model := m\<rparr> | _ \<Rightarrow> d);
          threads = (if ho_ncpu hostInfo = 0 then ha_threads ha else ho_ncpu hostInfo);
          cores = (if 0 < threads \<and> threads < ha_cores ha then threads else ha_cores ha);
          memory = (if ho_mem_total hostInfo \<noteq> 0 then ho_mem_total hostInfo
                    else case ha_memory ha of Some m \<Rightarrow> m | None \<Rightarrow> 0);
          d = d\<lparr>d_cores := cores, d_threads := threads, d_memory_total := memory\<rparr>
      in a\<lparr>ag_info := ag_info a\<lparr>i_agent_version := version\<rparr>,
           ag_details := (ag_details a)\<lparr>ad_details := d\<rparr>\<rparr>)"

definition default_data_cache_time_ms :: u16 where "default_data_cache_time_ms = 60000"

definition attach_system_details ::
  "combined_data \<Rightarrow> u16 \<Rightarrow> bool \<Rightarrow> agent_details \<Rightarrow> combined_data \<times> agent_details" where
  "attach_system_details data cacheTimeMs includeRequested ad =
     (if cacheTimeMs \<noteq> default_data_cache_time_ms \<or> \<not> includeRequested \<and> \<not> ad_dirty ad then (data, ad)
      else (data\<lparr>cd_details := Some (ad_details ad)\<rparr>, ad\<lparr>ad_dirty := False\<rparr>))"

section \<open>Memory\<close>

record memory_reading =
  me_total :: u64
  me_free :: u64
  me_used :: u64
  me_used_percent :: flt
  me_cached :: u64
  me_buffers :: u64
  me_shared :: u64
  me_swap_total :: u64
  me_swap_free :: u64
  me_swap_cached :: u64

text \<open>All \<open>uint64\<close>: the test for \<open>\<le> 0\<close> is one for \<open>= 0\<close>, and \<open>max(x, 0)\<close> is \<open>x\<close>.\<close>

definition cache_buff :: "memory_reading \<Rightarrow> u64" where
  "cache_buff v =
     (let c = me_cached v + me_buffers v - me_shared v
      in if c \<le> 0 then max (me_total v - me_free v - me_used v) 0 else c)"

definition memory_stats :: "string \<Rightarrow> memory_reading \<Rightarrow> stats \<Rightarrow> stats" where
  "memory_stats memCalc v s =
     (let cacheBuff = cache_buff v;
          used = (if memCalc = ''htop'' then me_total v - (me_free v + cacheBuff) else me_used v);
          pct = (if memCalc = ''htop''
                 then mul64 (div64 (float64_of_u64 used) (float64_of_u64 (me_total v))) (Fin 100) else me_used_percent v)
      in s\<lparr>s_swap := bytes_to_gigabytes (me_swap_total v),
           s_swap_used := bytes_to_gigabytes (me_swap_total v - me_swap_free v - me_swap_cached v),
           s_mem := bytes_to_gigabytes (me_total v), s_mem_buff_cache := bytes_to_gigabytes cacheBuff,
           s_mem_used := bytes_to_gigabytes used, s_mem_pct := two_decimals pct\<rparr>)"

section \<open>One reading of the host\<close>

text \<open>Everything a poll reads. The clock readings are in the order in which the code takes them.\<close>

record readings =
  rd_battery_fs :: file_system
  rd_battery_readable :: bool
  rd_battery_paths :: "string list option"
  rd_cpu_all :: "times_stat \<Rightarrow> flt"
  rd_linux :: bool
  rd_cpu :: "times_stat list option"
  rd_cores :: "times_stat list option"
  rd_byte_of_float :: "flt \<Rightarrow> u8"
  rd_load :: "(flt \<times> flt \<times> flt) option"
  rd_memory :: "memory_reading option"
  rd_usage :: "string \<Rightarrow> usage_stat option"
  rd_usage_times :: "instant \<times> instant"
  rd_disk :: "disk_counters option"
  rd_disk_times :: "instant \<times> instant"
  rd_nics :: "string option"
  rd_net_init :: "io_counters list option"
  rd_net :: "io_counters list option"
  rd_net_reset :: "io_counters list option"
  rd_net_times :: "instant \<times> instant"
  rd_temps :: "temps_call \<times> temps_call"
  rd_uptime :: u64
  rd_docker :: poll_input
  rd_semver :: "string \<Rightarrow> nat option"
  rd_stored_at :: instant

definition battery_stats :: "readings \<Rightarrow> stats \<Rightarrow> stats" where
  "battery_stats r s =
     (case get_battery_stats (rd_battery_fs r) (rd_battery_readable r) (rd_battery_paths r) of
        Some b \<Rightarrow> s\<lparr>s_battery := b\<rparr> | None \<Rightarrow> s)"

definition cpu_stats :: "readings \<Rightarrow> u16 \<Rightarrow> stats \<times> cpu_state \<Rightarrow> stats \<times> cpu_state" where
  "cpu_stats r c sc =
     (let (s, st) = sc;
          (m, st) = get_cpu_metrics (rd_cpu_all r) (rd_linux r) (rd_cpu r) c st;
          s = (case m of
                 Some m \<Rightarrow> s\<lparr>s_cpu := two_decimals (cm_total m),
                   s_cpu_breakdown := Some (map two_decimals [cm_user m, cm_system m, cm_iowait m, cm_steal m, cm_idle m])\<rparr>
               | None \<Rightarrow> s);
          (usage, st) = get_per_core_cpu_usage (rd_byte_of_float r) (rd_cpu_all r) (rd_linux r) (rd_cores r) c st;
          s = (case usage of Some u \<Rightarrow> s\<lparr>s_cpu_cores := u\<rparr> | None \<Rightarrow> s)
      in (s, st))"

definition publish_info :: "u8 \<Rightarrow> u64 \<Rightarrow> int \<Rightarrow> stats \<Rightarrow> info \<Rightarrow> info" where
  "publish_info connectionType uptime threads s i =
     i\<lparr>i_connection_type := connectionType, i_cpu := s_cpu s, i_load_avg := s_load_avg s, i_mem_pct := s_mem_pct s,
       i_disk_pct := s_disk_pct s, i_battery := s_battery s, i_uptime := uptime,
       i_bandwidth_bytes := fst (s_bandwidth s) + snd (s_bandwidth s), i_threads := threads\<rparr>"

definition get_system_stats :: "readings \<Rightarrow> u16 \<Rightarrow> agent_state \<Rightarrow> stats \<times> agent_state" where
  "get_system_stats r c a =
     (let s = battery_stats r zero_stats;
          (s, cpu) = cpu_stats r c (s, ag_cpu a);
          s = (case rd_load r of Some l \<Rightarrow> s\<lparr>s_load_avg := l\<rparr> | None \<Rightarrow> s);
          s = (case rd_memory r of Some v \<Rightarrow> memory_stats (ag_mem_calc a) v s | None \<Rightarrow> s);
          (s, disk) = update_disk_usage (fst (rd_usage_times r)) (snd (rd_usage_times r)) (rd_usage r) (s, ag_disk a);
          (s, disk) = update_disk_io c (fst (rd_disk_times r)) (snd (rd_disk_times r)) (rd_disk r) (s, disk);
          (s, net) = update_network_stats (rd_nics r) (rd_net_init r) (rd_net r) (rd_net_reset r)
                       (fst (rd_net_times r)) (snd (rd_net_times r)) c (s, ag_net a);
          (s, i, sensors) = update_temperatures (fst (rd_temps r)) (snd (rd_temps r)) s (ag_info a) (ag_sensors a);
          i = publish_info (ag_connection_type a) (rd_uptime r) (d_threads (ad_details (ag_details a))) s i
      in (s, a\<lparr>ag_cpu := cpu, ag_disk := disk, ag_net := net, ag_info := i, ag_sensors := sensors\<rparr>))"

section \<open>The answer to a data request\<close>

definition extra_fs_key :: "string \<Rightarrow> fs_stats \<Rightarrow> string" where
  "extra_fs_key name s = (if fs_name s \<noteq> '''' then fs_name s else name)"

definition add_extra_fs :: "string \<times> fs_stats \<Rightarrow> combined_data \<Rightarrow> combined_data" where
  "add_extra_fs ns data =
     (let (name, s) = ns; key = extra_fs_key name s;
          extra = (case s_extra_fs (cd_stats data) of Some m \<Rightarrow> m | None \<Rightarrow> []);
          pcts = (case i_extra_fs_pct (cd_info data) of Some m \<Rightarrow> m | None \<Rightarrow> [])
      in if \<not> fs_root s \<and> fless (Fin 0) (fs_disk_total s)
         then data\<lparr>cd_stats := (cd_stats data)\<lparr>s_extra_fs := Some (AList.update key s extra)\<rparr>,
                   cd_info := (cd_info data)\<lparr>i_extra_fs_pct := Some (AList.update key
                     (two_decimals (mul64 (div64 (fs_disk_used s) (fs_disk_total s)) (Fin 100))) pcts)\<rparr>\<rparr>
         else data)"

definition collect_extra_fs :: "fs_map \<Rightarrow> combined_data \<Rightarrow> combined_data" where
  "collect_extra_fs fs data =
     fold add_extra_fs fs
       (data\<lparr>cd_stats := (cd_stats data)\<lparr>s_extra_fs := Some []\<rparr>,
             cd_info := (cd_info data)\<lparr>i_extra_fs_pct := Some []\<rparr>\<rparr>)"

text \<open>The containers of the answer and the new Docker state; \<open>None\<close> is a panic of the poll.\<close>

definition collect_containers :: "readings \<Rightarrow> u16 \<Rightarrow> agent_state \<Rightarrow> (container_stats list \<times> agent_state) option" where
  "collect_containers r c a =
     (case ag_docker a of
        None \<Rightarrow> Some ([], a)
      | Some dm \<Rightarrow>
          let (res, dm, ad) = get_docker_stats (rd_semver r) (rd_docker r) c (dm, ag_details a);
              a = a\<lparr>ag_docker := Some dm, ag_details := ad\<rparr>
          in (case res of PollOk containers \<Rightarrow> Some (containers, a) | PollError \<Rightarrow> Some ([], a) | PollPanic \<Rightarrow> None))"

definition gather_stats ::
  "instant \<Rightarrow> readings \<Rightarrow> u16 \<Rightarrow> bool \<Rightarrow> agent_state \<Rightarrow> (combined_data \<times> agent_state) option" where
  "gather_stats now r cacheTimeMs includeDetails a =
     (let (data, isCached) = cache_get now cacheTimeMs (ag_cache a) in
      if isCached then Some (data, a)
      else
        let (s, a) = get_system_stats r cacheTimeMs a;
            data = zero_data\<lparr>cd_stats := s, cd_info := ag_info a\<rparr>
        in (case collect_containers r cacheTimeMs a of
              None \<Rightarrow> None
            | Some (containers, a) \<Rightarrow>
                let data = collect_extra_fs (ds_stats (ag_disk a)) (data\<lparr>cd_containers := containers\<rparr>);
                    a = a\<lparr>ag_cache := cache_set (rd_stored_at r) data cacheTimeMs (ag_cache a)\<rparr>;
                    (response, ad) = attach_system_details data cacheTimeMs includeDetails (ag_details a)
                in Some (response, a\<lparr>ag_details := ad\<rparr>)))"

section \<open>Start\<close>

definition disk_usage_cache_duration :: "(string \<Rightarrow> duration option) \<Rightarrow> environment \<Rightarrow> duration" where
  "disk_usage_cache_duration parse_duration env =
     (case get_env env ''DISK_USAGE_CACHE'' of
        Some v \<Rightarrow> (case parse_duration v of Some d \<Rightarrow> d | None \<Rightarrow> 0)
      | None \<Rightarrow> 0)"

text \<open>What the start reads besides the environment.\<close>

record start_readings =
  sr_files :: file_system
  sr_path_exists :: "string \<Rightarrow> bool"
  sr_uid :: string
  sr_scheme :: "string \<Rightarrow> string option"
  sr_semver :: "string \<Rightarrow> nat option"
  sr_docker_version :: version_answer
  sr_version :: string
  sr_host :: host_answers
  sr_partitions :: "partition list"
  sr_counters :: disk_counters
  sr_usage :: "string \<Rightarrow> usage_stat option"
  sr_folders :: "string list option"
  sr_now :: instant
  sr_net :: "io_counters list option"
  sr_cpu :: "times_stat list option"
  sr_cores :: "times_stat list option"

text \<open>\<open>None\<close> when the Docker configuration ends the process.\<close>

definition start_docker ::
  "environment \<Rightarrow> (string \<Rightarrow> duration option) \<Rightarrow> start_readings \<Rightarrow> (docker_manager option \<times> agent_details) option" where
  "start_docker env parse_duration r =
     (case new_docker_manager env (sr_path_exists r) (sr_uid r) (sr_scheme r) parse_duration (sr_semver r)
             (sr_docker_version r) zero_details of
        NoManager \<Rightarrow> Some (None, zero_details)
      | ExitProcess \<Rightarrow> None
      | Manager dm ad \<Rightarrow> Some (Some dm, ad))"

definition new_agent :: "environment \<Rightarrow> (string \<Rightarrow> duration option) \<Rightarrow> start_readings \<Rightarrow> agent_state option" where
  "new_agent env parse_duration r =
     (case start_docker env parse_duration r of
        None \<Rightarrow> None
      | Some (docker, ad) \<Rightarrow>
          let disk0 = \<lparr>ds_names = [], ds_stats = [], ds_prev = [],
                ds_cache_duration = disk_usage_cache_duration parse_duration env, ds_last_usage = zero_time\<rparr>;
              a = \<lparr>ag_mem_calc = (case get_env env ''MEM_CALC'' of Some v \<Rightarrow> v | None \<Rightarrow> ''''), ag_disk = disk0,
                ag_net = \<lparr>ns_interfaces = [], ns_stats = [], ns_trackers = []\<rparr>,
                ag_cpu = init_cpu (sr_cpu r) (sr_cores r), ag_sensors = new_sensor_config parse_duration env,
                ag_docker = docker, ag_info = zero_info, ag_details = ad, ag_cache = new_system_data_cache,
                ag_connection_type = 0\<rparr>;
              a = refresh_system_details (sr_files r) (sr_version r) (sr_host r) a;
              (names, fs) = initialize_disk_info env (get_root_mount_point (sr_files r) (sr_path_exists r))
                 (sr_partitions r) (sr_counters r) (sr_usage r) (sr_folders r) (sr_now r) []
          in Some (a\<lparr>ag_disk := disk0\<lparr>ds_names := names, ds_stats := fs\<rparr>,
                     ag_net := initialize_net_io_stats (get_env env ''NICS'') (sr_net r)\<rparr>))"

section \<open>Details travel with fresh answers of the default interval only\<close>

definition cache_plain :: "data_cache \<Rightarrow> bool" where
  "cache_plain c \<longleftrightarrow> (\<forall>i n. map_of c i = Some n \<longrightarrow> cd_details (cn_data n) = None)"

lemma cache_plain_set: "cache_plain c \<Longrightarrow> cd_details data = None \<Longrightarrow> cache_plain (cache_set now data i c)"
  by (simp add: cache_plain_def cache_set_def map_of_update)

lemma get_system_stats_cache: "ag_cache (snd (get_system_stats r c a)) = ag_cache a"
  by (simp add: get_system_stats_def split_beta Let_def)

lemma collect_containers_cache: "collect_containers r c a = Some (cs, a') \<Longrightarrow> ag_cache a' = ag_cache a"
  by (auto simp: collect_containers_def split_beta Let_def split: option.splits poll.splits)

lemma collect_extra_fs_details: "cd_details (collect_extra_fs fs data) = cd_details data"
  unfolding collect_extra_fs_def
  by (rule fold_keeps [where P = "\<lambda>d. cd_details d = cd_details data"]) (auto simp: add_extra_fs_def split_beta Let_def)

lemma details_only_in_default_answers:
  assumes "gather_stats now r c inc a = Some (data, a')" and "cache_plain (ag_cache a)"
  shows "cache_plain (ag_cache a')" and "c \<noteq> default_data_cache_time_ms \<Longrightarrow> cd_details data = None"
proof -
  obtain cached isCached where get: "cache_get now c (ag_cache a) = (cached, isCached)" by (meson surj_pair)
  have cached: "cd_details cached = None"
    using get assms(2) by (auto simp: cache_get_def cache_plain_def zero_data_def split: option.splits)
  obtain s a1 where sys: "get_system_stats r c a = (s, a1)" by (meson surj_pair)
  define data0 where "data0 = zero_data\<lparr>cd_stats := s, cd_info := ag_info a1\<rparr>"
  have plain: "cd_details (collect_extra_fs fs (data0\<lparr>cd_containers := cs\<rparr>)) = None" for fs cs
    by (simp add: collect_extra_fs_details data0_def zero_data_def)
  have cache1: "cache_plain (ag_cache a1)" using get_system_stats_cache [of r c a] sys assms(2) by simp
  note unfolded = assms(1) [unfolded gather_stats_def get prod.case sys Let_def, folded data0_def]
  show "cache_plain (ag_cache a')"
    using unfolded assms(2) cache1 collect_containers_cache plain
    by (auto simp: attach_system_details_def cache_plain_set split: if_splits option.splits)
  show "cd_details data = None" if "c \<noteq> default_data_cache_time_ms"
    using unfolded that cached plain
    by (auto simp: attach_system_details_def split: if_splits option.splits)
qed

text \<open>A cached answer is less than half its interval old.\<close>

lemma cached_answer_fresh:
  assumes "cache_get now c (cache_set stored data c m) = (d, True)" and "stored \<le> now" and "now - stored \<le> max_i64"
  shows "d = data \<and> 2 * (now - stored) < int (unat c) * millisecond"
proof -
  have sub: "time_sub now stored = now - stored"
    using assms(2,3) by (simp add: time_sub_def sat_i64_id min_i64_def)
  have "unat (c div 2) = unat c div 2" by (simp add: unat_div)
  then have "now - stored < int (unat c div 2) * millisecond"
    using assms(1) sub by (simp add: cache_get_def cache_set_def map_of_update)
  moreover have "2 * int (unat c div 2) \<le> int (unat c)" by linarith
  ultimately show ?thesis using assms(1) by (simp add: cache_get_def cache_set_def map_of_update millisecond_def)
qed

text \<open>
  The guard of the cache and buffer value tests an unsigned number for \<open>\<le> 0\<close>: when the shared memory is the
  larger, the difference wraps and is reported as it is.
\<close>

lemma cache_buff_wraps:
  assumes "me_shared v = me_cached v + me_buffers v + 1"
  shows "cache_buff v = - 1"
  using assms by (simp add: cache_buff_def Let_def)

end
