(* ===== verification/DockerIo.thy ===== *)
theory DockerIo
  imports Prelude
begin

text \<open>
  Two helpers of the poll in \<^verbatim>\<open>agent/docker.go\<close>: the slots that bound how many containers are asked at once, and the
  decoder that is kept between answers.
\<close>

section \<open>Slots\<close>

text \<open>
  \<open>sl_waiting\<close> is the wait group, \<open>sl_sem\<close> the number of values in the channel of capacity five, \<open>sl_good\<close> the
  field \<open>goodDockerVersion\<close>. A goroutine of the poll is running until \<open>wg.Done\<close>, and leaving from there until it
  has given its slot back.
\<close>

record slots =
  sl_waiting :: nat
  sl_sem :: nat
  sl_good :: bool
  sl_running :: nat
  sl_leaving :: nat

definition no_slots :: "bool \<Rightarrow> slots" where
  "no_slots good = \<lparr>sl_waiting = 0, sl_sem = 0, sl_good = good, sl_running = 0, sl_leaving = 0\<rparr>"

definition sem_capacity :: nat where "sem_capacity = 5"

text \<open>\<open>None\<close> is a goroutine that blocks.\<close>

definition queue :: "slots \<Rightarrow> slots option" where
  "queue s =
     (let s = s\<lparr>sl_waiting := sl_waiting s + 1\<rparr> in
      if \<not> sl_good s then Some (s\<lparr>sl_running := sl_running s + 1\<rparr>)
      else if sl_sem s < sem_capacity then Some (s\<lparr>sl_sem := sl_sem s + 1, sl_running := sl_running s + 1\<rparr>)
      else None)"

definition wg_done :: "slots \<Rightarrow> slots" where
  "wg_done s = s\<lparr>sl_waiting := sl_waiting s - 1, sl_running := sl_running s - 1, sl_leaving := sl_leaving s + 1\<rparr>"

definition give_back :: "slots \<Rightarrow> slots option" where
  "give_back s =
     (if \<not> sl_good s then Some (s\<lparr>sl_leaving := sl_leaving s - 1\<rparr>)
      else if 0 < sl_sem s then Some (s\<lparr>sl_sem := sl_sem s - 1, sl_leaving := sl_leaving s - 1\<rparr>)
      else None)"

text \<open>The version is looked up before the goroutines of a poll start, when the wait group is at zero.\<close>

datatype slot_event = Queued | Finished | GivenBack | VersionFound

definition or_blocked :: "slots option \<Rightarrow> slots \<Rightarrow> slots" where
  "or_blocked r s = (case r of Some s' \<Rightarrow> s' | None \<Rightarrow> s)"

fun slot_step :: "slots \<Rightarrow> slot_event \<Rightarrow> slots" where
  "slot_step s Queued = or_blocked (queue s) s"
| "slot_step s Finished = (if 0 < sl_running s then wg_done s else s)"
| "slot_step s GivenBack = (if 0 < sl_leaving s then or_blocked (give_back s) s else s)"
| "slot_step s VersionFound = (if sl_waiting s = 0 then s\<lparr>sl_good := True\<rparr> else s)"

definition slots_inv :: "slots \<Rightarrow> bool" where
  "slots_inv s \<longleftrightarrow> sl_good s \<and> sl_waiting s = sl_running s \<and> sl_sem s = sl_running s + sl_leaving s \<and> sl_sem s \<le> sem_capacity"

lemmas slot_defs = queue_def wg_done_def give_back_def or_blocked_def slots_inv_def no_slots_def

interpretation slots: machine "\<lambda>s. s = no_slots True" slot_step slots_inv
proof
  show "slots_inv s" if "s = no_slots True" for s
    using that by (simp add: slot_defs sem_capacity_def)
  show "slots_inv (slot_step s e)" if "slots_inv s" for s e
    using that by (cases e) (auto simp: slot_defs Let_def)
qed

text \<open>
  With a version that is known from the start, at most five containers are asked at once, a goroutine that leaves never
  waits, and one that wants to start waits only while five others are at work.
\<close>

lemma five_at_once:
  fixes es :: "slot_event list"
  defines "s \<equiv> foldl slot_step (no_slots True) es"
  shows "sl_running s \<le> 5" and "0 < sl_leaving s \<Longrightarrow> give_back s \<noteq> None"
    and "queue s = None \<Longrightarrow> sl_running s + sl_leaving s = 5"
proof -
  have "slots_inv s" unfolding s_def by (rule slots.inv_reachable) simp
  then show "sl_running s \<le> 5" and "0 < sl_leaving s \<Longrightarrow> give_back s \<noteq> None"
    and "queue s = None \<Longrightarrow> sl_running s + sl_leaving s = 5"
    by (auto simp: slot_defs sem_capacity_def Let_def split: if_splits)
qed

text \<open>
  A version that is found by a later poll can catch a goroutine of the poll before between \<open>wg.Done\<close> and the test of the
  field: it then takes a slot it never had, from an empty channel, and never ends.
\<close>

lemma late_version_leaves_goroutine:
  "give_back (foldl slot_step (no_slots False) [Queued, Finished, VersionFound]) = None"
  by (simp add: slot_defs Let_def)

section \<open>The decoder\<close>

text \<open>
  \<open>json.Decoder\<close> keeps what it has read behind the last value, and its first error that is not a mismatch of types;
  an end of input inside or before a value is such an error. \<open>scan\<close> splits a value off an input; \<open>fits\<close> stores it.
\<close>

record decoder =
  de_rest :: string
  de_failed :: bool

definition new_decoder :: decoder where
  "new_decoder = \<lparr>de_rest = '''', de_failed = False\<rparr>"

definition json_decode ::
  "(string \<Rightarrow> ('v \<times> string) option) \<Rightarrow> ('v \<Rightarrow> 'd option) \<Rightarrow> nat \<Rightarrow> string \<Rightarrow> decoder \<Rightarrow> 'd option \<times> decoder" where
  "json_decode scan fits ahead buffered d =
     (if de_failed d then (None, d)
      else (case scan (de_rest d @ buffered) of
        None \<Rightarrow> (None, d\<lparr>de_failed := True\<rparr>)
      | Some (v, rest) \<Rightarrow> (fits v, d\<lparr>de_rest := take ahead rest\<rparr>)))"

text \<open>
  \<open>decode\<close>: the body is read into the buffer, the decoder decodes from it, and the buffer is emptied. \<open>read_ok\<close> is whether
  the body could be read, \<open>ahead\<close> how far the decoder had read behind the value.
\<close>

definition decode_answer ::
  "(string \<Rightarrow> ('v \<times> string) option) \<Rightarrow> ('v \<Rightarrow> 'd option) \<Rightarrow> nat \<Rightarrow> bool \<Rightarrow> string \<Rightarrow> decoder option \<Rightarrow> 'd option \<times> decoder option" where
  "decode_answer scan fits ahead read_ok body dm =
     (let d = (case dm of Some d \<Rightarrow> d | None \<Rightarrow> new_decoder) in
      if \<not> read_ok then (None, Some d)
      else (let (r, d') = json_decode scan fits ahead body d in (r, Some d')))"

fun decode_all ::
  "(string \<Rightarrow> ('v \<times> string) option) \<Rightarrow> ('v \<Rightarrow> 'd option) \<Rightarrow> (nat \<times> bool \<times> string) list \<Rightarrow> decoder option \<Rightarrow> 'd option list" where
  "decode_all scan fits [] dm = []"
| "decode_all scan fits ((ahead, read_ok, body) # bs) dm =
     (let (r, dm') = decode_answer scan fits ahead read_ok body dm in r # decode_all scan fits bs dm')"

text \<open>Answers that are one value each, without an end that the decoder reads ahead, are decoded one by one.\<close>

lemma clean_answers_decoded:
  assumes "\<And>b. b \<in> set bodies \<Longrightarrow> scan b = Some (v b, '''')"
  shows "decode_all scan fits (map (\<lambda>b. (n, True, b)) bodies) (Some new_decoder) = map (\<lambda>b. fits (v b)) bodies"
  using assms
  by (induction bodies) (simp_all add: decode_answer_def json_decode_def new_decoder_def Let_def)

text \<open>
  After an answer that is no JSON value, an empty one for instance, nothing is decoded any more: not the answer that
  would be fine on its own, nor any after it.
\<close>

lemma failed_decoder_stays:
  "decode_all scan fits bodies (Some \<lparr>de_rest = r, de_failed = True\<rparr>) = map (\<lambda>_. None) bodies"
proof (induction bodies)
  case (Cons b bodies)
  obtain n ok body where "b = (n, ok, body)" by (cases b)
  then show ?case using Cons by (cases ok) (simp_all add: decode_answer_def json_decode_def Let_def)
qed simp

lemma bad_answer_ends_decoding:
  assumes "scan body = None"
  shows "decode_all scan fits ((n, True, body) # bodies) None = None # map (\<lambda>_. None) bodies"
  using assms failed_decoder_stays [of scan fits bodies "''''"] by (simp add: decode_answer_def json_decode_def new_decoder_def Let_def)

end
