(* ===== verification/Smart.thy ===== *)
theory Smart
  imports GoStr Float64
begin

text \<open>
  \<^verbatim>\<open>internal/entities/smart/smart.go\<close>: how the raw values of drive attributes are read, which smartctl writes
  as numbers, as strings of numbers or with annotations such as \<open>7344 (253d 8h)\<close>. \<open>strconv.ParseFloat\<close>,
  \<open>strconv.Unquote\<close> and the JSON decoding of the members are arguments.
\<close>

section \<open>\<open>strconv.ParseUint(s, 0, 64)\<close>\<close>

text \<open>\<open>c | 0x20\<close>, which lowers an ASCII letter.\<close>

definition lower :: "char \<Rightarrow> nat" where "lower c = or (of_char c) 32"

definition digit_in_base :: "char \<Rightarrow> nat option" where
  "digit_in_base c =
     (if is_digit c then Some (digit_value c)
      else if 97 \<le> lower c \<and> lower c \<le> 122 then Some (lower c - 97 + 10) else None)"

text \<open>The loop over the digits: an underscore is skipped, a bad digit or an overflow is an error.\<close>

fun parse_digits :: "nat \<Rightarrow> nat \<Rightarrow> string \<Rightarrow> nat option" where
  "parse_digits base n [] = Some n"
| "parse_digits base n (c # s) =
     (if c = CHR ''_'' then parse_digits base n s
      else case digit_in_base c of
             None \<Rightarrow> None
           | Some d \<Rightarrow> if base \<le> d \<or> 2 ^ 64 \<le> n * base + d then None else parse_digits base (n * base + d) s)"

text \<open>Underscores separate digits; the prefix of the base counts as one. The state is \<open>0\<close>, \<open>_\<close> or another.\<close>

fun underscores_ok :: "bool \<Rightarrow> char \<Rightarrow> string \<Rightarrow> bool" where
  "underscores_ok hex i [] = (i \<noteq> CHR ''_'')"
| "underscores_ok hex i (c # s) =
     (if is_digit c \<or> hex \<and> 97 \<le> lower c \<and> lower c \<le> 102 then underscores_ok hex (CHR ''0'') s
      else if c = CHR ''_'' then i = CHR ''0'' \<and> underscores_ok hex (CHR ''_'') s
      else i \<noteq> CHR ''_'' \<and> underscores_ok hex (CHR ''!'') s)"

definition base_prefix :: "string \<Rightarrow> nat option" where
  "base_prefix s =
     (if 2 \<le> length s \<and> hd s = CHR ''0'' then
        (if lower (s ! 1) = 98 then Some 2 else if lower (s ! 1) = 111 then Some 8
         else if lower (s ! 1) = 120 then Some 16 else None)
      else None)"

definition underscore_ok :: "string \<Rightarrow> bool" where
  "underscore_ok s =
     (let s = (if prefix ''-'' s \<or> prefix ''+'' s then drop 1 s else s) in
      case base_prefix s of
        Some b \<Rightarrow> underscores_ok (b = 16) (CHR ''0'') (drop 2 s)
      | None \<Rightarrow> underscores_ok False (CHR ''^'') s)"

definition parse_uint0 :: "string \<Rightarrow> nat option" where
  "parse_uint0 s =
     (if s = '''' then None
      else
        let (base, digits) =
              (if hd s = CHR ''0'' then
                 (case (if 3 \<le> length s then base_prefix s else None) of
                    Some b \<Rightarrow> (b, drop 2 s) | None \<Rightarrow> (8, drop 1 s))
               else (10, s))
        in if CHR ''_'' \<in> set digits \<and> \<not> underscore_ok s then None else parse_digits base 0 digits)"

section \<open>Raw values\<close>

function digits_end :: "string \<Rightarrow> nat \<Rightarrow> nat" where
  "digits_end value stop = (if stop < length value \<and> is_digit (value ! stop) then digits_end value (Suc stop) else stop)"
  by pat_completeness auto
termination by (relation "measure (\<lambda>(value, stop). length value - stop)") auto

declare digits_end.simps [simp del]

lemma digits_end_le: "stop \<le> digits_end value stop"
  by (induction "value" stop rule: digits_end.induct) (subst digits_end.simps, auto)

text \<open>The loop of the source with its index: it ends because the index grows past the run it has read.\<close>

function scan_digits :: "string \<Rightarrow> nat \<Rightarrow> nat option" where
  "scan_digits value i =
     (if length value \<le> i then None
      else if \<not> is_digit (value ! i) then scan_digits value (Suc i)
      else
        let e = digits_end value (Suc i) in
        case parse_uint10 (take (e - i) (drop i value)) of
          Some n \<Rightarrow> Some n
        | None \<Rightarrow> scan_digits value (Suc e))"
  by pat_completeness auto
termination
proof (relation "measure (\<lambda>(value, i). length value - i)", goal_cases)
  case (3 "value" i e)
  have "Suc i \<le> e" using digits_end_le 3(3) by simp
  then show ?case using 3(1) by simp
qed auto

declare scan_digits.simps [simp del]

text \<open>\<open>parse_float\<close> is \<open>strconv.ParseFloat(s, 64)\<close>, \<open>conv\<close> the conversion to \<open>uint64\<close> of a float out of range.\<close>

definition parse_smart_raw_value_string :: "(string \<Rightarrow> flt option) \<Rightarrow> (flt \<Rightarrow> u64) \<Rightarrow> string \<Rightarrow> u64 option" where
  "parse_smart_raw_value_string parse_float conv value =
     (let value = trim_space value;
          hours = (case index_of value ''h'' of
                     Some i \<Rightarrow> if 0 < i \<and> trim_space (take i value) \<noteq> '''' then parse_float (trim_space (take i value)) else None
                   | None \<Rightarrow> None)
      in if value = '''' then None
         else case parse_uint0 value of
                Some n \<Rightarrow> Some (of_nat n)
              | None \<Rightarrow>
                  (case hours of
                     Some x \<Rightarrow> Some (word_of_float conv x)
                   | None \<Rightarrow> map_option of_nat (scan_digits value 0)))"

text \<open>\<open>unquote\<close> is \<open>strconv.Unquote\<close>. The outer \<open>None\<close> is an error.\<close>

definition unmarshal_smart_raw_value ::
  "(string \<Rightarrow> flt option) \<Rightarrow> (flt \<Rightarrow> u64) \<Rightarrow> (string \<Rightarrow> string option) \<Rightarrow> string \<Rightarrow> u64 option" where
  "unmarshal_smart_raw_value parse_float conv unquote data =
     (let trimmed = trim_space data;
          or_zero = (\<lambda>r. case r of Some v \<Rightarrow> v | None \<Rightarrow> (0 :: u64))
      in if trimmed = '''' \<or> trimmed = ''null'' then Some 0
         else if hd trimmed = CHR 0x22 then
           map_option (\<lambda>s. or_zero (parse_smart_raw_value_string parse_float conv s)) (unquote trimmed)
         else case parse_uint0 trimmed of
                Some n \<Rightarrow> Some (of_nat n)
              | None \<Rightarrow> Some (or_zero (parse_smart_raw_value_string parse_float conv trimmed)))"

record raw_value =
  rv_value :: u64
  rv_string :: string

text \<open>The members as JSON gives them: the raw bytes of \<open>value\<close> (empty when it is missing) and the string.\<close>

definition unmarshal_raw_value ::
  "(string \<Rightarrow> flt option) \<Rightarrow> (flt \<Rightarrow> u64) \<Rightarrow> (string \<Rightarrow> string option) \<Rightarrow> (string \<times> string) option \<Rightarrow> raw_value option" where
  "unmarshal_raw_value parse_float conv unquote tmp =
     (case tmp of
        None \<Rightarrow> None
      | Some (value, str) \<Rightarrow>
          (case (if value = '''' then Some 0 else unmarshal_smart_raw_value parse_float conv unquote value) of
             None \<Rightarrow> None
           | Some v \<Rightarrow>
               (case parse_smart_raw_value_string parse_float conv str of
                  Some p \<Rightarrow> Some \<lparr>rv_value = p, rv_string = str\<rparr>
                | None \<Rightarrow> Some \<lparr>rv_value = v, rv_string = str\<rparr>)))"

section \<open>Facts\<close>

text \<open>The run of digits at the front of an annotated value is what the scan reads.\<close>

lemma digits_end_run:
  assumes "list_all is_digit ds" and "rest = [] \<or> \<not> is_digit (hd rest)" and "e \<le> length ds"
  shows "digits_end (ds @ rest) e = length ds"
  using assms(3)
proof (induction "length ds - e" arbitrary: e)
  case 0
  then have "e = length ds" by simp
  moreover have "\<not> (length ds < length (ds @ rest) \<and> is_digit ((ds @ rest) ! length ds))"
    using assms(2) by (cases rest) (auto simp: nth_append)
  ultimately show ?case unfolding digits_end.simps [of "ds @ rest" e] by (simp only: if_False)
next
  case (Suc k)
  then have "e < length ds" by simp
  then have "digits_end (ds @ rest) e = digits_end (ds @ rest) (Suc e)"
    using assms(1) by (subst digits_end.simps) (simp add: nth_append list_all_length)
  then show ?case using Suc by simp
qed

lemma scan_digits_annotated:
  assumes "ds \<noteq> []" and "list_all is_digit ds" and "rest = [] \<or> \<not> is_digit (hd rest)" and "decimal_value ds < 2 ^ 64"
  shows "scan_digits (ds @ rest) 0 = Some (decimal_value ds)"
proof -
  have "digits_end (ds @ rest) 1 = length ds"
    using assms(1-3) by (intro digits_end_run) (auto simp: Suc_le_eq)
  moreover have "is_digit ((ds @ rest) ! 0)" using assms(1,2) by (cases ds) auto
  ultimately show ?thesis
    using assms unfolding scan_digits.simps [of "ds @ rest" 0] by (simp add: parse_uint10_def)
qed

text \<open>A leading zero makes a value octal, as in Go: \<open>0123\<close> is 83, while \<open>09\<close> falls back to the scan.\<close>

lemma leading_zero_is_octal: "parse_uint0 ''0123'' = Some 83" "parse_uint0 ''09'' = None"
  by (simp_all add: parse_uint0_def base_prefix_def lower_def digit_in_base_def is_digit_def digit_value_def)

end
