(* ===== verification/SmartJson.thy ===== *)
theory SmartJson
  imports Smart StatsJson
begin

text \<open>
  The documents of smartctl: the structures of \<^verbatim>\<open>internal/entities/smart/smart.go\<close> and how \<^verbatim>\<open>encoding/json\<close> reads them,
  each with its zero value and the table of its tags, in the order in which they use each other; and the summary of a
  drive that the agent would send, as JSON. Members without a field are skipped.
\<close>

section \<open>Values\<close>

text \<open>The arguments of the raw values, and the text of a JSON value as it stands in the document.\<close>

record smart_env =
  se_parse_float :: "string \<Rightarrow> flt option"
  se_conv :: "flt \<Rightarrow> u64"
  se_unquote :: "string \<Rightarrow> string option"
  se_text :: "jval \<Rightarrow> string"

definition read_version :: "(int \<times> int) reader" where
  "read_version = read_tuple to2 of2 2 read_int 0"

definition read_pointer :: "'a reader \<Rightarrow> 'a \<Rightarrow> 'a option reader" where
  "read_pointer r zero v old =
     (if v = JvNull then Some None else map_option Some (r v (case old of Some x \<Rightarrow> x | None \<Rightarrow> zero)))"

text \<open>\<open>json.RawMessage\<close> keeps any value.\<close>

definition read_raw :: "jval option reader" where "read_raw v old = Some (Some v)"

definition zero_raw_value :: raw_value where "zero_raw_value = \<lparr>rv_value = 0, rv_string = ''''\<rparr>"

text \<open>\<open>RawValue.UnmarshalJSON\<close>, which also gets a \<open>null\<close>.\<close>

definition read_raw_value :: "smart_env \<Rightarrow> raw_value reader" where
  "read_raw_value e v old =
     unmarshal_raw_value (se_parse_float e) (se_conv e) (se_unquote e)
       (read_struct
          [(''value'', into apfst fst (\<lambda>v _. Some (se_text e v))), (''string'', into apsnd snd read_string)] v ('''', ''''))"

section \<open>Documents\<close>

record smartctl_info =
  sc_version :: "int \<times> int"
  sc_svn_revision :: string
  sc_platform_info :: string
  sc_build_info :: string
  sc_argv :: "string list option"
  sc_exit_status :: int

definition zero_smartctl_info :: smartctl_info where
  "zero_smartctl_info =
     \<lparr>sc_version = (0, 0), sc_svn_revision = '''', sc_platform_info = '''', sc_build_info = '''', sc_argv = None,
      sc_exit_status = 0\<rparr>"

definition read_smartctl_info :: "smartctl_info reader" where
  "read_smartctl_info = read_struct
     [(''version'', into sc_version_update sc_version read_version),
      (''svn_revision'', into sc_svn_revision_update sc_svn_revision read_string),
      (''platform_info'', into sc_platform_info_update sc_platform_info read_string),
      (''build_info'', into sc_build_info_update sc_build_info read_string),
      (''argv'', into sc_argv_update sc_argv (read_slice read_string '''')),
      (''exit_status'', into sc_exit_status_update sc_exit_status read_int)]"

record device_info =
  dv_name :: string
  dv_info_name :: string
  dv_type :: string
  dv_protocol :: string

definition zero_device_info :: device_info where
  "zero_device_info =
     \<lparr>dv_name = '''', dv_info_name = '''', dv_type = '''', dv_protocol = ''''\<rparr>"

definition read_device_info :: "device_info reader" where
  "read_device_info = read_struct
     [(''name'', into dv_name_update dv_name read_string),
      (''info_name'', into dv_info_name_update dv_info_name read_string),
      (''type'', into dv_type_update dv_type read_string),
      (''protocol'', into dv_protocol_update dv_protocol read_string)]"

record user_capacity =
  uc_blocks :: u64
  uc_bytes :: u64

definition zero_user_capacity :: user_capacity where
  "zero_user_capacity =
     \<lparr>uc_blocks = 0, uc_bytes = 0\<rparr>"

definition read_user_capacity :: "user_capacity reader" where
  "read_user_capacity = read_struct
     [(''blocks'', into uc_blocks_update uc_blocks read_word),
      (''bytes'', into uc_bytes_update uc_bytes read_word)]"

record smart_status_info =
  ssi_passed :: bool

definition zero_smart_status_info :: smart_status_info where
  "zero_smart_status_info =
     \<lparr>ssi_passed = False\<rparr>"

definition read_smart_status_info :: "smart_status_info reader" where
  "read_smart_status_info = read_struct
     [(''passed'', into ssi_passed_update ssi_passed read_bool)]"

record status_info =
  sti_value :: int
  sti_string :: string
  sti_passed :: bool

definition zero_status_info :: status_info where
  "zero_status_info =
     \<lparr>sti_value = 0, sti_string = '''', sti_passed = False\<rparr>"

definition read_status_info :: "status_info reader" where
  "read_status_info = read_struct
     [(''value'', into sti_value_update sti_value read_int),
      (''string'', into sti_string_update sti_string read_string),
      (''passed'', into sti_passed_update sti_passed read_bool)]"

record polling_minutes =
  pm_short :: int
  pm_extended :: int

definition zero_polling_minutes :: polling_minutes where
  "zero_polling_minutes =
     \<lparr>pm_short = 0, pm_extended = 0\<rparr>"

definition read_polling_minutes :: "polling_minutes reader" where
  "read_polling_minutes = read_struct
     [(''short'', into pm_short_update pm_short read_int),
      (''extended'', into pm_extended_update pm_extended read_int)]"

record capabilities_info =
  cap_values :: "int list option"
  cap_exec_offline_immediate_supported :: bool
  cap_offline_is_aborted_upon_new_cmd :: bool
  cap_offline_surface_scan_supported :: bool
  cap_self_tests_supported :: bool
  cap_conveyance_self_test_supported :: bool
  cap_selective_self_test_supported :: bool
  cap_attribute_autosave_enabled :: bool
  cap_error_logging_supported :: bool
  cap_gp_logging_supported :: bool

definition zero_capabilities_info :: capabilities_info where
  "zero_capabilities_info =
     \<lparr>cap_values = None, cap_exec_offline_immediate_supported = False, cap_offline_is_aborted_upon_new_cmd = False,
      cap_offline_surface_scan_supported = False, cap_self_tests_supported = False,
      cap_conveyance_self_test_supported = False, cap_selective_self_test_supported = False,
      cap_attribute_autosave_enabled = False, cap_error_logging_supported = False, cap_gp_logging_supported = False\<rparr>"

definition read_capabilities_info :: "capabilities_info reader" where
  "read_capabilities_info = read_struct
     [(''values'', into cap_values_update cap_values (read_slice read_int 0)),
      (''exec_offline_immediate_supported'', into cap_exec_offline_immediate_supported_update cap_exec_offline_immediate_supported read_bool),
      (''offline_is_aborted_upon_new_cmd'', into cap_offline_is_aborted_upon_new_cmd_update cap_offline_is_aborted_upon_new_cmd read_bool),
      (''offline_surface_scan_supported'', into cap_offline_surface_scan_supported_update cap_offline_surface_scan_supported read_bool),
      (''self_tests_supported'', into cap_self_tests_supported_update cap_self_tests_supported read_bool),
      (''conveyance_self_test_supported'', into cap_conveyance_self_test_supported_update cap_conveyance_self_test_supported read_bool),
      (''selective_self_test_supported'', into cap_selective_self_test_supported_update cap_selective_self_test_supported read_bool),
      (''attribute_autosave_enabled'', into cap_attribute_autosave_enabled_update cap_attribute_autosave_enabled read_bool),
      (''error_logging_supported'', into cap_error_logging_supported_update cap_error_logging_supported read_bool),
      (''gp_logging_supported'', into cap_gp_logging_supported_update cap_gp_logging_supported read_bool)]"

record summary_info =
  sum_revision :: int
  sum_count :: int

definition zero_summary_info :: summary_info where
  "zero_summary_info =
     \<lparr>sum_revision = 0, sum_count = 0\<rparr>"

definition read_summary_info :: "summary_info reader" where
  "read_summary_info = read_struct
     [(''revision'', into sum_revision_update sum_revision read_int),
      (''count'', into sum_count_update sum_count read_int)]"

record ata_smart_attribute =
  asa_id :: u16
  asa_name :: string
  asa_value :: u16
  asa_worst :: u16
  asa_thresh :: u16
  asa_when_failed :: string
  asa_raw :: raw_value

definition zero_ata_smart_attribute :: ata_smart_attribute where
  "zero_ata_smart_attribute =
     \<lparr>asa_id = 0, asa_name = '''', asa_value = 0, asa_worst = 0, asa_thresh = 0, asa_when_failed = '''',
      asa_raw = zero_raw_value\<rparr>"

definition read_ata_smart_attribute :: "smart_env \<Rightarrow> ata_smart_attribute reader" where
  "read_ata_smart_attribute e = read_struct
     [(''id'', into asa_id_update asa_id read_word),
      (''name'', into asa_name_update asa_name read_string),
      (''value'', into asa_value_update asa_value read_word),
      (''worst'', into asa_worst_update asa_worst read_word),
      (''thresh'', into asa_thresh_update asa_thresh read_word),
      (''when_failed'', into asa_when_failed_update asa_when_failed read_string),
      (''raw'', into asa_raw_update asa_raw (read_raw_value e))]"

record ata_smart_attributes =
  asas_table :: "ata_smart_attribute list option"

definition zero_ata_smart_attributes :: ata_smart_attributes where
  "zero_ata_smart_attributes =
     \<lparr>asas_table = None\<rparr>"

definition read_ata_smart_attributes :: "smart_env \<Rightarrow> ata_smart_attributes reader" where
  "read_ata_smart_attributes e = read_struct
     [(''table'', into asas_table_update asas_table (read_slice (read_ata_smart_attribute e) zero_ata_smart_attribute))]"

record ata_device_statistics_entry =
  ade_name :: string
  ade_value :: "int option"

definition zero_ata_device_statistics_entry :: ata_device_statistics_entry where
  "zero_ata_device_statistics_entry =
     \<lparr>ade_name = '''', ade_value = None\<rparr>"

definition read_ata_device_statistics_entry :: "ata_device_statistics_entry reader" where
  "read_ata_device_statistics_entry = read_struct
     [(''name'', into ade_name_update ade_name read_string),
      (''value'', into ade_value_update ade_value (read_pointer read_int 0))]"

record ata_device_statistics_page =
  adp_number :: u8
  adp_table :: "ata_device_statistics_entry list option"

definition zero_ata_device_statistics_page :: ata_device_statistics_page where
  "zero_ata_device_statistics_page =
     \<lparr>adp_number = 0, adp_table = None\<rparr>"

definition read_ata_device_statistics_page :: "ata_device_statistics_page reader" where
  "read_ata_device_statistics_page = read_struct
     [(''number'', into adp_number_update adp_number read_word),
      (''table'', into adp_table_update adp_table (read_slice read_ata_device_statistics_entry zero_ata_device_statistics_entry))]"

record ata_device_statistics =
  ads_pages :: "ata_device_statistics_page list option"

definition zero_ata_device_statistics :: ata_device_statistics where
  "zero_ata_device_statistics =
     \<lparr>ads_pages = None\<rparr>"

definition read_ata_device_statistics :: "ata_device_statistics reader" where
  "read_ata_device_statistics = read_struct
     [(''pages'', into ads_pages_update ads_pages (read_slice read_ata_device_statistics_page zero_ata_device_statistics_page))]"

record temperature_info =
  ti_current :: u8

definition zero_temperature_info :: temperature_info where
  "zero_temperature_info =
     \<lparr>ti_current = 0\<rparr>"

definition read_temperature_info :: "temperature_info reader" where
  "read_temperature_info = read_struct
     [(''current'', into ti_current_update ti_current read_word)]"

record temperature_info_scsi =
  tis_current :: u8
  tis_drive_trip :: u8

definition zero_temperature_info_scsi :: temperature_info_scsi where
  "zero_temperature_info_scsi =
     \<lparr>tis_current = 0, tis_drive_trip = 0\<rparr>"

definition read_temperature_info_scsi :: "temperature_info_scsi reader" where
  "read_temperature_info_scsi = read_struct
     [(''current'', into tis_current_update tis_current read_word),
      (''drive_trip'', into tis_drive_trip_update tis_drive_trip read_word)]"

record smartctl_info_legacy =
  scl_version :: "int \<times> int"
  scl_svn_revision :: string
  scl_platform_info :: string
  scl_build_info :: string
  scl_argv :: "string list option"
  scl_exit_status :: int

definition zero_smartctl_info_legacy :: smartctl_info_legacy where
  "zero_smartctl_info_legacy =
     \<lparr>scl_version = (0, 0), scl_svn_revision = '''', scl_platform_info = '''', scl_build_info = '''', scl_argv = None,
      scl_exit_status = 0\<rparr>"

definition read_smartctl_info_legacy :: "smartctl_info_legacy reader" where
  "read_smartctl_info_legacy = read_struct
     [(''version'', into scl_version_update scl_version read_version),
      (''svn_revision'', into scl_svn_revision_update scl_svn_revision read_string),
      (''platform_info'', into scl_platform_info_update scl_platform_info read_string),
      (''build_info'', into scl_build_info_update scl_build_info read_string),
      (''argv'', into scl_argv_update scl_argv (read_slice read_string '''')),
      (''exit_status'', into scl_exit_status_update scl_exit_status read_int)]"

record smart_info_for_sata =
  sata_smartctl :: smartctl_info_legacy
  sata_device :: device_info
  sata_model_name :: string
  sata_serial_number :: string
  sata_firmware_version :: string
  sata_user_capacity :: user_capacity
  sata_scsi_vendor :: string
  sata_scsi_product :: string
  sata_smart_status :: smart_status_info
  sata_ata_smart_attributes :: ata_smart_attributes
  sata_ata_device_statistics :: "jval option"
  sata_temperature :: temperature_info

definition zero_smart_info_for_sata :: smart_info_for_sata where
  "zero_smart_info_for_sata =
     \<lparr>sata_smartctl = zero_smartctl_info_legacy, sata_device = zero_device_info, sata_model_name = '''',
      sata_serial_number = '''', sata_firmware_version = '''', sata_user_capacity = zero_user_capacity,
      sata_scsi_vendor = '''', sata_scsi_product = '''', sata_smart_status = zero_smart_status_info,
      sata_ata_smart_attributes = zero_ata_smart_attributes, sata_ata_device_statistics = None,
      sata_temperature = zero_temperature_info\<rparr>"

definition read_smart_info_for_sata :: "smart_env \<Rightarrow> smart_info_for_sata reader" where
  "read_smart_info_for_sata e = read_struct
     [(''smartctl'', into sata_smartctl_update sata_smartctl read_smartctl_info_legacy),
      (''device'', into sata_device_update sata_device read_device_info),
      (''model_name'', into sata_model_name_update sata_model_name read_string),
      (''serial_number'', into sata_serial_number_update sata_serial_number read_string),
      (''firmware_version'', into sata_firmware_version_update sata_firmware_version read_string),
      (''user_capacity'', into sata_user_capacity_update sata_user_capacity read_user_capacity),
      (''scsi_vendor'', into sata_scsi_vendor_update sata_scsi_vendor read_string),
      (''scsi_product'', into sata_scsi_product_update sata_scsi_product read_string),
      (''smart_status'', into sata_smart_status_update sata_smart_status read_smart_status_info),
      (''ata_smart_attributes'', into sata_ata_smart_attributes_update sata_ata_smart_attributes (read_ata_smart_attributes e)),
      (''ata_device_statistics'', into sata_ata_device_statistics_update sata_ata_device_statistics read_raw),
      (''temperature'', into sata_temperature_update sata_temperature read_temperature_info)]"

record scsi_error_counter =
  sec_errors_corrected_by_ecc_fast :: u64
  sec_errors_corrected_by_ecc_delayed :: u64
  sec_errors_corrected_by_rereads_rewrites :: u64
  sec_total_errors_corrected :: u64
  sec_correction_algorithm_invocations :: u64
  sec_gigabytes_processed :: string
  sec_total_uncorrected_errors :: u64

definition zero_scsi_error_counter :: scsi_error_counter where
  "zero_scsi_error_counter =
     \<lparr>sec_errors_corrected_by_ecc_fast = 0, sec_errors_corrected_by_ecc_delayed = 0,
      sec_errors_corrected_by_rereads_rewrites = 0, sec_total_errors_corrected = 0,
      sec_correction_algorithm_invocations = 0, sec_gigabytes_processed = '''', sec_total_uncorrected_errors = 0\<rparr>"

definition read_scsi_error_counter :: "scsi_error_counter reader" where
  "read_scsi_error_counter = read_struct
     [(''errors_corrected_by_eccfast'', into sec_errors_corrected_by_ecc_fast_update sec_errors_corrected_by_ecc_fast read_word),
      (''errors_corrected_by_eccdelayed'', into sec_errors_corrected_by_ecc_delayed_update sec_errors_corrected_by_ecc_delayed read_word),
      (''errors_corrected_by_rereads_rewrites'', into sec_errors_corrected_by_rereads_rewrites_update sec_errors_corrected_by_rereads_rewrites read_word),
      (''total_errors_corrected'', into sec_total_errors_corrected_update sec_total_errors_corrected read_word),
      (''correction_algorithm_invocations'', into sec_correction_algorithm_invocations_update sec_correction_algorithm_invocations read_word),
      (''gigabytes_processed'', into sec_gigabytes_processed_update sec_gigabytes_processed read_string),
      (''total_uncorrected_errors'', into sec_total_uncorrected_errors_update sec_total_uncorrected_errors read_word)]"

record scsi_error_counter_log =
  sel_read :: scsi_error_counter
  sel_write :: scsi_error_counter
  sel_verify :: scsi_error_counter

definition zero_scsi_error_counter_log :: scsi_error_counter_log where
  "zero_scsi_error_counter_log =
     \<lparr>sel_read = zero_scsi_error_counter, sel_write = zero_scsi_error_counter, sel_verify = zero_scsi_error_counter\<rparr>"

definition read_scsi_error_counter_log :: "scsi_error_counter_log reader" where
  "read_scsi_error_counter_log = read_struct
     [(''read'', into sel_read_update sel_read read_scsi_error_counter),
      (''write'', into sel_write_update sel_write read_scsi_error_counter),
      (''verify'', into sel_verify_update sel_verify read_scsi_error_counter)]"

record scsi_start_stop_cycle_counter =
  sss_year_of_manufacture :: string
  sss_week_of_manufacture :: string
  sss_specified_cycle_count_over_device_lifetime :: u64
  sss_accumulated_start_stop_cycles :: u64
  sss_specified_load_unload_count_over_device_lifetime :: u64
  sss_accumulated_load_unload_cycles :: u64

definition zero_scsi_start_stop_cycle_counter :: scsi_start_stop_cycle_counter where
  "zero_scsi_start_stop_cycle_counter =
     \<lparr>sss_year_of_manufacture = '''', sss_week_of_manufacture = '''',
      sss_specified_cycle_count_over_device_lifetime = 0, sss_accumulated_start_stop_cycles = 0,
      sss_specified_load_unload_count_over_device_lifetime = 0, sss_accumulated_load_unload_cycles = 0\<rparr>"

definition read_scsi_start_stop_cycle_counter :: "scsi_start_stop_cycle_counter reader" where
  "read_scsi_start_stop_cycle_counter = read_struct
     [(''year_of_manufacture'', into sss_year_of_manufacture_update sss_year_of_manufacture read_string),
      (''week_of_manufacture'', into sss_week_of_manufacture_update sss_week_of_manufacture read_string),
      (''specified_cycle_count_over_device_lifetime'', into sss_specified_cycle_count_over_device_lifetime_update sss_specified_cycle_count_over_device_lifetime read_word),
      (''accumulated_start_stop_cycles'', into sss_accumulated_start_stop_cycles_update sss_accumulated_start_stop_cycles read_word),
      (''specified_load_unload_count_over_device_lifetime'', into sss_specified_load_unload_count_over_device_lifetime_update sss_specified_load_unload_count_over_device_lifetime read_word),
      (''accumulated_load_unload_cycles'', into sss_accumulated_load_unload_cycles_update sss_accumulated_load_unload_cycles read_word)]"

record power_on_time_scsi =
  pos_hours :: u64
  pos_minutes :: u64

definition zero_power_on_time_scsi :: power_on_time_scsi where
  "zero_power_on_time_scsi =
     \<lparr>pos_hours = 0, pos_minutes = 0\<rparr>"

definition read_power_on_time_scsi :: "power_on_time_scsi reader" where
  "read_power_on_time_scsi = read_struct
     [(''hours'', into pos_hours_update pos_hours read_word),
      (''minutes'', into pos_minutes_update pos_minutes read_word)]"

record smart_info_for_scsi =
  scsi_smartctl :: smartctl_info_legacy
  scsi_device :: device_info
  scsi_scsi_vendor :: string
  scsi_scsi_product :: string
  scsi_scsi_model_name :: string
  scsi_scsi_revision :: string
  scsi_scsi_version :: string
  scsi_serial_number :: string
  scsi_user_capacity :: user_capacity
  scsi_temperature :: temperature_info_scsi
  scsi_smart_status :: smart_status_info
  scsi_power_on_time :: power_on_time_scsi
  scsi_scsi_start_stop_cycle_counter :: scsi_start_stop_cycle_counter
  scsi_scsi_grown_defect_list :: u64
  scsi_scsi_error_counter_log :: scsi_error_counter_log

definition zero_smart_info_for_scsi :: smart_info_for_scsi where
  "zero_smart_info_for_scsi =
     \<lparr>scsi_smartctl = zero_smartctl_info_legacy, scsi_device = zero_device_info, scsi_scsi_vendor = '''',
      scsi_scsi_product = '''', scsi_scsi_model_name = '''', scsi_scsi_revision = '''', scsi_scsi_version = '''',
      scsi_serial_number = '''', scsi_user_capacity = zero_user_capacity,
      scsi_temperature = zero_temperature_info_scsi, scsi_smart_status = zero_smart_status_info,
      scsi_power_on_time = zero_power_on_time_scsi,
      scsi_scsi_start_stop_cycle_counter = zero_scsi_start_stop_cycle_counter, scsi_scsi_grown_defect_list = 0,
      scsi_scsi_error_counter_log = zero_scsi_error_counter_log\<rparr>"

definition read_smart_info_for_scsi :: "smart_info_for_scsi reader" where
  "read_smart_info_for_scsi = read_struct
     [(''smartctl'', into scsi_smartctl_update scsi_smartctl read_smartctl_info_legacy),
      (''device'', into scsi_device_update scsi_device read_device_info),
      (''scsi_vendor'', into scsi_scsi_vendor_update scsi_scsi_vendor read_string),
      (''scsi_product'', into scsi_scsi_product_update scsi_scsi_product read_string),
      (''scsi_model_name'', into scsi_scsi_model_name_update scsi_scsi_model_name read_string),
      (''scsi_revision'', into scsi_scsi_revision_update scsi_scsi_revision read_string),
      (''scsi_version'', into scsi_scsi_version_update scsi_scsi_version read_string),
      (''serial_number'', into scsi_serial_number_update scsi_serial_number read_string),
      (''user_capacity'', into scsi_user_capacity_update scsi_user_capacity read_user_capacity),
      (''temperature'', into scsi_temperature_update scsi_temperature read_temperature_info_scsi),
      (''smart_status'', into scsi_smart_status_update scsi_smart_status read_smart_status_info),
      (''power_on_time'', into scsi_power_on_time_update scsi_power_on_time read_power_on_time_scsi),
      (''scsi_start_stop_cycle_counter'', into scsi_scsi_start_stop_cycle_counter_update scsi_scsi_start_stop_cycle_counter read_scsi_start_stop_cycle_counter),
      (''scsi_grown_defect_list'', into scsi_scsi_grown_defect_list_update scsi_scsi_grown_defect_list read_word),
      (''scsi_error_counter_log'', into scsi_scsi_error_counter_log_update scsi_scsi_error_counter_log read_scsi_error_counter_log)]"

record smartctl_info_nvme =
  scn_version :: "int \<times> int"
  scn_svn_revision :: string
  scn_platform_info :: string
  scn_build_info :: string
  scn_argv :: "string list option"
  scn_exit_status :: int

definition zero_smartctl_info_nvme :: smartctl_info_nvme where
  "zero_smartctl_info_nvme =
     \<lparr>scn_version = (0, 0), scn_svn_revision = '''', scn_platform_info = '''', scn_build_info = '''', scn_argv = None,
      scn_exit_status = 0\<rparr>"

definition read_smartctl_info_nvme :: "smartctl_info_nvme reader" where
  "read_smartctl_info_nvme = read_struct
     [(''version'', into scn_version_update scn_version read_version),
      (''svn_revision'', into scn_svn_revision_update scn_svn_revision read_string),
      (''platform_info'', into scn_platform_info_update scn_platform_info read_string),
      (''build_info'', into scn_build_info_update scn_build_info read_string),
      (''argv'', into scn_argv_update scn_argv (read_slice read_string '''')),
      (''exit_status'', into scn_exit_status_update scn_exit_status read_int)]"

record smart_status_nvme =
  ssn_value :: int

definition zero_smart_status_nvme :: smart_status_nvme where
  "zero_smart_status_nvme =
     \<lparr>ssn_value = 0\<rparr>"

definition read_smart_status_nvme :: "smart_status_nvme reader" where
  "read_smart_status_nvme = read_struct
     [(''value'', into ssn_value_update ssn_value read_int)]"

record smart_status_info_nvme =
  ssin_passed :: bool
  ssin_nv_me :: smart_status_nvme

definition zero_smart_status_info_nvme :: smart_status_info_nvme where
  "zero_smart_status_info_nvme =
     \<lparr>ssin_passed = False, ssin_nv_me = zero_smart_status_nvme\<rparr>"

definition read_smart_status_info_nvme :: "smart_status_info_nvme reader" where
  "read_smart_status_info_nvme = read_struct
     [(''passed'', into ssin_passed_update ssin_passed read_bool),
      (''nvme'', into ssin_nv_me_update ssin_nv_me read_smart_status_nvme)]"

record nvme_smart_health_information_log =
  nvl_critical_warning :: u64
  nvl_temperature :: u8
  nvl_available_spare :: u64
  nvl_available_spare_threshold :: u64
  nvl_percentage_used :: u8
  nvl_data_units_read :: u64
  nvl_data_units_written :: u64
  nvl_host_reads :: u64
  nvl_host_writes :: u64
  nvl_controller_busy_time :: u64
  nvl_power_cycles :: u16
  nvl_power_on_hours :: u32
  nvl_unsafe_shutdowns :: u16
  nvl_media_errors :: u64
  nvl_num_err_log_entries :: u64
  nvl_warning_temp_time :: u64
  nvl_critical_comp_time :: u64
  nvl_temperature_sensors :: "u8 list option"

definition zero_nvme_smart_health_information_log :: nvme_smart_health_information_log where
  "zero_nvme_smart_health_information_log =
     \<lparr>nvl_critical_warning = 0, nvl_temperature = 0, nvl_available_spare = 0, nvl_available_spare_threshold = 0,
      nvl_percentage_used = 0, nvl_data_units_read = 0, nvl_data_units_written = 0, nvl_host_reads = 0,
      nvl_host_writes = 0, nvl_controller_busy_time = 0, nvl_power_cycles = 0, nvl_power_on_hours = 0,
      nvl_unsafe_shutdowns = 0, nvl_media_errors = 0, nvl_num_err_log_entries = 0, nvl_warning_temp_time = 0,
      nvl_critical_comp_time = 0, nvl_temperature_sensors = None\<rparr>"

definition read_nvme_smart_health_information_log :: "nvme_smart_health_information_log reader" where
  "read_nvme_smart_health_information_log = read_struct
     [(''critical_warning'', into nvl_critical_warning_update nvl_critical_warning read_word),
      (''temperature'', into nvl_temperature_update nvl_temperature read_word),
      (''available_spare'', into nvl_available_spare_update nvl_available_spare read_word),
      (''available_spare_threshold'', into nvl_available_spare_threshold_update nvl_available_spare_threshold read_word),
      (''percentage_used'', into nvl_percentage_used_update nvl_percentage_used read_word),
      (''data_units_read'', into nvl_data_units_read_update nvl_data_units_read read_word),
      (''data_units_written'', into nvl_data_units_written_update nvl_data_units_written read_word),
      (''host_reads'', into nvl_host_reads_update nvl_host_reads read_word),
      (''host_writes'', into nvl_host_writes_update nvl_host_writes read_word),
      (''controller_busy_time'', into nvl_controller_busy_time_update nvl_controller_busy_time read_word),
      (''power_cycles'', into nvl_power_cycles_update nvl_power_cycles read_word),
      (''power_on_hours'', into nvl_power_on_hours_update nvl_power_on_hours read_word),
      (''unsafe_shutdowns'', into nvl_unsafe_shutdowns_update nvl_unsafe_shutdowns read_word),
      (''media_errors'', into nvl_media_errors_update nvl_media_errors read_word),
      (''num_err_log_entries'', into nvl_num_err_log_entries_update nvl_num_err_log_entries read_word),
      (''warning_temp_time'', into nvl_warning_temp_time_update nvl_warning_temp_time read_word),
      (''critical_comp_time'', into nvl_critical_comp_time_update nvl_critical_comp_time read_word),
      (''temperature_sensors'', into nvl_temperature_sensors_update nvl_temperature_sensors read_bytes)]"

record temperature_info_nvme =
  tin_current :: int

definition zero_temperature_info_nvme :: temperature_info_nvme where
  "zero_temperature_info_nvme =
     \<lparr>tin_current = 0\<rparr>"

definition read_temperature_info_nvme :: "temperature_info_nvme reader" where
  "read_temperature_info_nvme = read_struct
     [(''current'', into tin_current_update tin_current read_int)]"

record power_on_time_info_nvme =
  pon_hours :: int

definition zero_power_on_time_info_nvme :: power_on_time_info_nvme where
  "zero_power_on_time_info_nvme =
     \<lparr>pon_hours = 0\<rparr>"

definition read_power_on_time_info_nvme :: "power_on_time_info_nvme reader" where
  "read_power_on_time_info_nvme = read_struct
     [(''hours'', into pon_hours_update pon_hours read_int)]"

record smart_info_for_nvme =
  nvme_smartctl :: smartctl_info_nvme
  nvme_device :: device_info
  nvme_model_name :: string
  nvme_serial_number :: string
  nvme_firmware_version :: string
  nvme_nv_me_total_capacity :: u64
  nvme_user_capacity :: user_capacity
  nvme_smart_status :: smart_status_info_nvme
  nvme_nv_me_smart_health_information_log :: nvme_smart_health_information_log
  nvme_temperature :: temperature_info_nvme
  nvme_power_cycle_count :: u16
  nvme_power_on_time :: power_on_time_info_nvme

definition zero_smart_info_for_nvme :: smart_info_for_nvme where
  "zero_smart_info_for_nvme =
     \<lparr>nvme_smartctl = zero_smartctl_info_nvme, nvme_device = zero_device_info, nvme_model_name = '''',
      nvme_serial_number = '''', nvme_firmware_version = '''', nvme_nv_me_total_capacity = 0,
      nvme_user_capacity = zero_user_capacity, nvme_smart_status = zero_smart_status_info_nvme,
      nvme_nv_me_smart_health_information_log = zero_nvme_smart_health_information_log,
      nvme_temperature = zero_temperature_info_nvme, nvme_power_cycle_count = 0,
      nvme_power_on_time = zero_power_on_time_info_nvme\<rparr>"

definition read_smart_info_for_nvme :: "smart_info_for_nvme reader" where
  "read_smart_info_for_nvme = read_struct
     [(''smartctl'', into nvme_smartctl_update nvme_smartctl read_smartctl_info_nvme),
      (''device'', into nvme_device_update nvme_device read_device_info),
      (''model_name'', into nvme_model_name_update nvme_model_name read_string),
      (''serial_number'', into nvme_serial_number_update nvme_serial_number read_string),
      (''firmware_version'', into nvme_firmware_version_update nvme_firmware_version read_string),
      (''nvme_total_capacity'', into nvme_nv_me_total_capacity_update nvme_nv_me_total_capacity read_word),
      (''user_capacity'', into nvme_user_capacity_update nvme_user_capacity read_user_capacity),
      (''smart_status'', into nvme_smart_status_update nvme_smart_status read_smart_status_info_nvme),
      (''nvme_smart_health_information_log'', into nvme_nv_me_smart_health_information_log_update nvme_nv_me_smart_health_information_log read_nvme_smart_health_information_log),
      (''temperature'', into nvme_temperature_update nvme_temperature read_temperature_info_nvme),
      (''power_cycle_count'', into nvme_power_cycle_count_update nvme_power_cycle_count read_word),
      (''power_on_time'', into nvme_power_on_time_update nvme_power_on_time read_power_on_time_info_nvme)]"

section \<open>The summary of a drive\<close>

record smart_attribute =
  at_id :: u16
  at_name :: string
  at_value :: u16
  at_worst :: u16
  at_threshold :: u16
  at_raw_value :: u64
  at_raw_string :: string
  at_when_failed :: string

definition zero_smart_attribute :: smart_attribute where
  "zero_smart_attribute =
     \<lparr>at_id = 0, at_name = '''', at_value = 0, at_worst = 0, at_threshold = 0, at_raw_value = 0, at_raw_string = '''',
      at_when_failed = ''''\<rparr>"

definition smart_attribute_fields :: "smart_attribute field list" where
  "smart_attribute_fields =
     [field ''id'' ((=) 0) write_word read_word at_id at_id_update,
      field ''n'' no_tag write_string read_string at_name at_name_update,
      field ''v'' ((=) 0) write_word read_word at_value at_value_update,
      field ''w'' ((=) 0) write_word read_word at_worst at_worst_update,
      field ''t'' ((=) 0) write_word read_word at_threshold at_threshold_update,
      field ''rv'' no_tag write_word read_word at_raw_value at_raw_value_update,
      field ''rs'' ((=) '''') write_string read_string at_raw_string at_raw_string_update,
      field ''wf'' ((=) '''') write_string read_string at_when_failed at_when_failed_update]"

definition smart_attribute_json :: "smart_attribute \<Rightarrow> jval option" where
  "smart_attribute_json = write_struct smart_attribute_fields"

definition read_smart_attribute :: "smart_attribute reader" where
  "read_smart_attribute = read_struct (table_of smart_attribute_fields)"

text \<open>No attribute of the list is a nil pointer.\<close>

record smart_data =
  smd_model_name :: string
  smd_serial_number :: string
  smd_firmware_version :: string
  smd_capacity :: u64
  smd_smart_status :: string
  smd_disk_name :: string
  smd_disk_type :: string
  smd_temperature :: u8
  smd_attributes :: "smart_attribute list option"

definition zero_smart_data :: smart_data where
  "zero_smart_data =
     \<lparr>smd_model_name = '''', smd_serial_number = '''', smd_firmware_version = '''', smd_capacity = 0, smd_smart_status = '''',
      smd_disk_name = '''', smd_disk_type = '''', smd_temperature = 0, smd_attributes = None\<rparr>"

definition smart_data_fields :: "smart_data field list" where
  "smart_data_fields =
     [field ''mn'' ((=) '''') write_string read_string smd_model_name smd_model_name_update,
      field ''sn'' ((=) '''') write_string read_string smd_serial_number smd_serial_number_update,
      field ''fv'' ((=) '''') write_string read_string smd_firmware_version smd_firmware_version_update,
      field ''c'' ((=) 0) write_word read_word smd_capacity smd_capacity_update,
      field ''s'' ((=) '''') write_string read_string smd_smart_status smd_smart_status_update,
      field ''dn'' ((=) '''') write_string read_string smd_disk_name smd_disk_name_update,
      field ''dt'' ((=) '''') write_string read_string smd_disk_type smd_disk_type_update,
      field ''t'' ((=) 0) write_word read_word smd_temperature smd_temperature_update,
      field ''a'' empty_slice (write_slice smart_attribute_json) (read_slice read_smart_attribute zero_smart_attribute)
        smd_attributes smd_attributes_update]"

definition smart_data_json :: "smart_data \<Rightarrow> jval option" where "smart_data_json = write_struct smart_data_fields"
definition read_smart_data :: "smart_data reader" where "read_smart_data = read_struct (table_of smart_data_fields)"

section \<open>Facts\<close>

text \<open>A member that cannot be read makes the document one that cannot.\<close>

lemma read_fields_error:
  "(k, v) \<in> set js \<Longrightarrow> map_of t k = Some f \<Longrightarrow> (\<And>r. f v r = None) \<Longrightarrow> read_fields t js r = None"
proof (induction js arbitrary: r)
  case (Cons x js)
  then show ?case by (cases x) (auto simp: find_field_def split: option.splits)
qed simp

text \<open>The counters of an NVMe drive have the width the code gives them: one that does not fit loses the whole document.\<close>

lemma nvme_counter_too_large:
  assumes "(''power_cycles'', JvInt i) \<in> set js" and "2 ^ 16 \<le> i"
  shows "read_nvme_smart_health_information_log (JvObj js) old = None"
proof -
  have "read_word (JvInt i) (r :: u16) = None" for r using assms(2) by (simp add: read_word_def integer_text_def)
  then show ?thesis
    unfolding read_nvme_smart_health_information_log_def read_struct_def jval.case
    by (intro read_fields_error [OF assms(1), where f = "into nvl_power_cycles_update nvl_power_cycles read_word"])
      (simp_all add: into_def)
qed

text \<open>An attribute is read back as it was written.\<close>

lemma smart_attribute_trip:
  assumes "smart_attribute_json s = Some j"
  shows "read_smart_attribute j zero_smart_attribute = Some s"
  unfolding read_smart_attribute_def
  apply (rule struct_trip [where ok = "\<lambda>_. True" and s = s])
      apply (unfold smart_attribute_fields_def)
      apply (rule field_trips | (simp; fail))+
     apply (simp add: field_def)
    apply simp
   apply (rule assms [unfolded smart_attribute_json_def smart_attribute_fields_def])
  apply (cases s, simp add: zero_smart_attribute_def no_tag_def)
  done

interpretation smart_attribute_codec: json_round smart_attribute_json read_smart_attribute zero_smart_attribute "\<lambda>x. x" "\<lambda>_. True"
  by unfold_locales (rule smart_attribute_trip)

lemma smart_attributes_trip:
  "write_list smart_attribute_json xs = Some j \<Longrightarrow> read_slice read_smart_attribute zero_smart_attribute j None = Some (Some xs)"
  using smart_attribute_codec.slice_trip [of xs j] by simp

end
