(* ===== verification/HubRecords.thy ===== *)
theory HubRecords
  imports Systems
begin

text \<open>
  The rows that one answer of an agent makes: \<open>createRecords\<close>, \<open>createContainerRecords\<close> and
  \<open>createSystemDetailsRecord\<close> of \<^verbatim>\<open>internal/hub/systems/system.go\<close>. The statements run in one transaction;
  which of them the database lets succeed is in the arguments, and a failed one leaves the tables as they were.
  The row of the system itself and its hooks are those of \<open>Systems\<close>.
\<close>

section \<open>Tables\<close>

record container_row =
  cr_system :: string
  cr_name :: string
  cr_image :: string
  cr_ports :: string
  cr_status :: string
  cr_health :: u8
  cr_cpu :: flt
  cr_memory :: flt
  cr_net :: u64
  cr_updated :: instant

record tables =
  tb_system_stats :: "(string \<times> stats \<times> string) list"
  tb_containers :: "(string, container_row) gomap"
  tb_container_stats :: "(string \<times> container_stats list \<times> string) list"
  tb_details :: "(string, details \<times> instant) gomap"

section \<open>Containers\<close>

definition net_bytes :: "(flt \<Rightarrow> u64) \<Rightarrow> container_stats \<Rightarrow> u64" where
  "net_bytes o64 c =
     (let n = fst (ct_bandwidth c) + snd (ct_bandwidth c) in
      if n = 0 then word_of_float o64 (mul64 (mul64 (add64 (ct_network_sent c) (ct_network_recv c)) (Fin 1024)) (Fin 1024))
      else n)"

definition container_row_of :: "(flt \<Rightarrow> u64) \<Rightarrow> instant \<Rightarrow> string \<Rightarrow> container_stats \<Rightarrow> container_row" where
  "container_row_of o64 now systemId c =
     \<lparr>cr_system = systemId, cr_name = ct_name c, cr_image = ct_image c, cr_ports = ct_ports c, cr_status = ct_status c,
      cr_health = ct_health c, cr_cpu = ct_cpu c, cr_memory = ct_mem c, cr_net = net_bytes o64 c, cr_updated = now\<rparr>"

text \<open>One statement that inserts every container, or updates the row that has its id already.\<close>

definition create_container_records ::
  "(flt \<Rightarrow> u64) \<Rightarrow> instant \<Rightarrow> container_stats list \<Rightarrow> string \<Rightarrow> tables \<Rightarrow> tables" where
  "create_container_records o64 now data systemId t =
     t\<lparr>tb_containers := fold (\<lambda>c. AList.update (ct_id c) (container_row_of o64 now systemId c)) data (tb_containers t)\<rparr>"

section \<open>Details\<close>

datatype 'a statement = Panicked | Failed | Done 'a

text \<open>
  The update is tried first; when it fails its result is \<open>nil\<close>, and asking that for the affected rows panics.
\<close>

definition create_system_details_record ::
  "bool \<Rightarrow> bool \<Rightarrow> instant \<Rightarrow> details \<Rightarrow> string \<Rightarrow> tables \<Rightarrow> tables statement" where
  "create_system_details_record update_ok insert_ok now data systemId t =
     (if \<not> update_ok then Panicked
      else if map_of (tb_details t) systemId \<noteq> None \<or> insert_ok
        then Done (t\<lparr>tb_details := AList.update systemId (data, now) (tb_details t)\<rparr>)
      else Failed)"

section \<open>The transaction\<close>

record db_faults =
  df_stats :: bool
  df_containers :: bool
  df_container_stats :: bool
  df_details_update :: bool
  df_details_insert :: bool
  df_system :: bool

definition bind_statement :: "'a statement \<Rightarrow> ('a \<Rightarrow> 'b statement) \<Rightarrow> 'b statement" where
  "bind_statement m f = (case m of Panicked \<Rightarrow> Panicked | Failed \<Rightarrow> Failed | Done x \<Rightarrow> f x)"

definition require :: "bool \<Rightarrow> 'a \<Rightarrow> 'a statement" where
  "require success x = (if success then Done x else Failed)"

definition store_system_stats :: "db_faults \<Rightarrow> combined_data \<Rightarrow> string \<Rightarrow> tables \<Rightarrow> tables statement" where
  "store_system_stats df data systemId t =
     require (df_stats df) (t\<lparr>tb_system_stats := (systemId, cd_stats data, ''1m'') # tb_system_stats t\<rparr>)"

definition store_containers ::
  "(flt \<Rightarrow> u64) \<Rightarrow> db_faults \<Rightarrow> instant \<Rightarrow> combined_data \<Rightarrow> string \<Rightarrow> tables \<Rightarrow> tables statement" where
  "store_containers o64 df now data systemId t =
     (if cd_containers data = [] then Done t
      else bind_statement
        (if ct_id (hd (cd_containers data)) \<noteq> ''''
         then require (df_containers df) (create_container_records o64 now (cd_containers data) systemId t) else Done t)
        (\<lambda>t. require (df_container_stats df)
               (t\<lparr>tb_container_stats := (systemId, cd_containers data, ''1m'') # tb_container_stats t\<rparr>)))"

definition store_details :: "db_faults \<Rightarrow> instant \<Rightarrow> combined_data \<Rightarrow> string \<Rightarrow> tables \<Rightarrow> tables statement" where
  "store_details df now data systemId t =
     (case cd_details data of
        Some d \<Rightarrow> create_system_details_record (df_details_update df) (df_details_insert df) now d systemId t
      | None \<Rightarrow> Done t)"

text \<open>The body of the transaction, and its effect: all of it or nothing. A panic rolls back as well.\<close>

definition record_statements ::
  "(flt \<Rightarrow> u64) \<Rightarrow> db_faults \<Rightarrow> instant \<Rightarrow> combined_data \<Rightarrow> string \<Rightarrow> tables \<Rightarrow> tables statement" where
  "record_statements o64 df now data systemId t =
     bind_statement (store_system_stats df data systemId t)
       (\<lambda>t. bind_statement (store_containers o64 df now data systemId t)
         (\<lambda>t. bind_statement (store_details df now data systemId t)
           (\<lambda>t. require (df_system df) t)))"

definition write_records ::
  "(flt \<Rightarrow> u64) \<Rightarrow> db_faults \<Rightarrow> instant \<Rightarrow> combined_data \<Rightarrow> string \<Rightarrow> tables \<Rightarrow> bool \<times> tables" where
  "write_records o64 df now data systemId t =
     (case record_statements o64 df now data systemId t of Done t' \<Rightarrow> (True, t') | _ \<Rightarrow> (False, t))"

section \<open>What is stored\<close>

lemma upsert_lookup:
  assumes "distinct (map ct_id data)"
  shows "map_of (fold (\<lambda>c. AList.update (ct_id c) (f c)) data m) cid =
     (case find (\<lambda>c. ct_id c = cid) data of Some c \<Rightarrow> Some (f c) | None \<Rightarrow> map_of m cid)"
  using assms
proof (induction data arbitrary: m)
  case (Cons c data)
  have "find (\<lambda>c. ct_id c = cid) data = None" if "ct_id c = cid"
    using Cons.prems that by (auto simp: find_None_iff intro: rev_image_eqI)
  then show ?case using Cons by (auto simp: map_of_update split: option.split)
qed simp

text \<open>Every reported container has its row, with the latest values, under the system that reported it last.\<close>

lemma reported_container_stored:
  assumes "distinct (map ct_id data)" and "c \<in> set data"
  shows "map_of (tb_containers (create_container_records o64 now data systemId t)) (ct_id c) =
     Some (container_row_of o64 now systemId c)"
proof -
  have "find (\<lambda>d. ct_id d = ct_id c) data = Some c"
  proof (cases "find (\<lambda>d. ct_id d = ct_id c) data")
    case None
    then show ?thesis using assms(2) by (auto simp: find_None_iff)
  next
    case (Some d)
    then have "d \<in> set data" "ct_id d = ct_id c" using find_SomeD by fastforce+
    moreover have "inj_on ct_id (set data)" using assms(1) by (simp add: distinct_map)
    ultimately have "d = c" using assms(2) by (auto dest: inj_onD)
    then show ?thesis using Some by simp
  qed
  then show ?thesis by (simp add: create_container_records_def upsert_lookup [OF assms(1)])
qed

text \<open>A transaction that is not committed leaves every table alone; one that is has stored one new sample.\<close>

lemma write_records_atomic:
  "write_records o64 df now data systemId t = (False, t') \<Longrightarrow> t' = t"
  by (auto simp: write_records_def split: statement.splits)

lemma bind_Done: "bind_statement m f = Done y \<longleftrightarrow> (\<exists>x. m = Done x \<and> f x = Done y)"
  by (cases m) (auto simp: bind_statement_def)

lemma require_Done: "require b x = Done y \<longleftrightarrow> b \<and> x = y"
  by (simp add: require_def)

lemma write_records_committed:
  assumes "write_records o64 df now data systemId t = (True, t')"
  shows "tb_system_stats t' = (systemId, cd_stats data, ''1m'') # tb_system_stats t"
  using assms
  by (auto simp: write_records_def record_statements_def bind_Done require_Done store_system_stats_def store_containers_def
      store_details_def create_system_details_record_def create_container_records_def
      split: statement.splits option.splits if_splits)

text \<open>The details of a system are lost with the hub: a failing update panics instead of reporting its error.\<close>

lemma failing_details_panic:
  assumes "cd_details data = Some d" and "df_stats df" and "cd_containers data = []" and "\<not> df_details_update df"
  shows "record_statements o64 df now data systemId t = Panicked"
  using assms
  by (simp add: record_statements_def store_system_stats_def store_containers_def store_details_def
      create_system_details_record_def bind_statement_def require_def)

end
