(* ===== verification/HubApi.thy ===== *)
theory HubApi
  imports Systems Protocol Utils
begin

text \<open>
  The hub's HTTP interface: \<^verbatim>\<open>internal/hub/agent_connect.go\<close>, \<^verbatim>\<open>internal/hub/api.go\<close> and
  \<^verbatim>\<open>internal/hub/utils/utils.go\<close>. Headers, request bodies, the version parser, the WebSocket upgrade and what
  the database answers are arguments; the systems behind the handlers are the state of \<open>Systems\<close>.
\<close>

definition hub_get_env :: "environment \<Rightarrow> string \<Rightarrow> string option" where
  "hub_get_env env key = (case env (''BESZEL_HUB_'' @ key) of Some v \<Rightarrow> Some v | None \<Rightarrow> env key)"

section \<open>The connection of an agent\<close>

definition validate_agent_headers :: "(string \<Rightarrow> string) \<Rightarrow> (string \<times> string) option" where
  "validate_agent_headers headers =
     (let token = headers ''X-Token''; agentVersion = headers ''X-Beszel'' in
      if agentVersion = '''' \<or> token = '''' \<or> 64 < length token then None else Some (token, agentVersion))"

datatype connect_answer = ConnectError nat string | Upgraded

definition open_connection :: ws_conn where
  "open_connection = \<lparr>ws_connected = True, ws_closed = False\<rparr>"

text \<open>\<open>verifyWsConn\<close> runs after the upgrade and only registers the connection.\<close>

definition verify_ws_conn :: "hub_env \<Rightarrow> system_row \<Rightarrow> hub_state \<Rightarrow> bool \<times> hub_state" where
  "verify_ws_conn env systemRecord st = add_websocket_system env (row_id systemRecord) open_connection st"

definition agent_connect ::
  "(string \<Rightarrow> version option) \<Rightarrow> (string \<Rightarrow> system_row option) \<Rightarrow> bool \<Rightarrow> hub_env \<Rightarrow> (string \<Rightarrow> string) \<Rightarrow> hub_state \<Rightarrow>
     connect_answer \<times> hub_state" where
  "agent_connect parse_version find_by_port upgrade_ok env headers st =
     (case validate_agent_headers headers of
        None \<Rightarrow> (ConnectError 400 '''', st)
      | Some (token, agentVersion) \<Rightarrow>
          (case parse_version agentVersion of
             None \<Rightarrow> (ConnectError 401 ''Invalid agent version'', st)
           | Some v \<Rightarrow>
               (case find_by_port token of
                  None \<Rightarrow> (ConnectError 401 ''Invalid token'', st)
                | Some systemRecord \<Rightarrow>
                    if \<not> upgrade_ok then (ConnectError 500 ''WebSocket upgrade failed'', st)
                    else (Upgraded, snd (verify_ws_conn env systemRecord st)))))"

section \<open>Middlewares\<close>

record 'u request =
  rq_auth :: "'u option"
  rq_path :: string
  rq_method :: string
  rq_headers :: "string \<Rightarrow> string"

text \<open>What is handed to the next handler. A token that cannot be made is the empty string.\<close>

definition authorize_request_with_email ::
  "(string \<Rightarrow> 'u option) \<Rightarrow> ('u \<Rightarrow> string option) \<Rightarrow> string \<Rightarrow> 'u request \<Rightarrow> 'u request" where
  "authorize_request_with_email find_user new_token email rq =
     (if rq_auth rq \<noteq> None \<or> email = '''' then rq
      else
        let isAuthRefresh = (rq_path rq = ''/api/collections/users/auth-refresh'' \<and> rq_method rq = ''POST'');
            rq = rq\<lparr>rq_auth := find_user email\<rparr>
        in (case rq_auth rq of
              None \<Rightarrow> rq
            | Some u \<Rightarrow>
                if \<not> isAuthRefresh then rq
                else rq\<lparr>rq_headers := (rq_headers rq)(''Authorization'' := (case new_token u of Some t \<Rightarrow> t | None \<Rightarrow> ''''))\<rparr>))"

definition or_empty :: "string option \<Rightarrow> string" where
  "or_empty v = (case v of Some s \<Rightarrow> s | None \<Rightarrow> '''')"

definition apply_middlewares ::
  "environment \<Rightarrow> (string \<Rightarrow> 'u option) \<Rightarrow> ('u \<Rightarrow> string option) \<Rightarrow> 'u request \<Rightarrow> 'u request" where
  "apply_middlewares env find_user new_token rq =
     (let autoLogin = or_empty (hub_get_env env ''AUTO_LOGIN'');
          trustedHeader = or_empty (hub_get_env env ''TRUSTED_AUTH_HEADER'');
          rq = (if autoLogin \<noteq> '''' then authorize_request_with_email find_user new_token autoLogin rq else rq)
      in if trustedHeader \<noteq> '''' then authorize_request_with_email find_user new_token (rq_headers rq trustedHeader) rq else rq)"

section \<open>Routes\<close>

datatype api_answer =
    Answer "(string \<times> string) list"
  | BadRequest string
  | Unauthorized
  | Forbidden string
  | NotFound string
  | InternalError string

definition status_ok :: api_answer where "status_ok = Answer [(''status'', ''ok'')]"

datatype api_handler = CreateUserRoute | FirstRunRoute | InfoRoute | AgentConnectRoute | ContainerActionRoute

text \<open>Method, path, handler and whether the route asks for an authenticated user.\<close>

definition api_routes :: "(string \<times> string \<times> api_handler \<times> bool) list" where
  "api_routes =
     [(''POST'', ''/api/beszel/create-user'', CreateUserRoute, False),
      (''GET'', ''/api/beszel/first-run'', FirstRunRoute, False),
      (''GET'', ''/api/beszel/info'', InfoRoute, True),
      (''GET'', ''/api/beszel/getkey'', InfoRoute, True),
      (''GET'', ''/api/beszel/agent-connect'', AgentConnectRoute, False),
      (''POST'', ''/api/beszel/containers/action'', ContainerActionRoute, True)]"

definition route_request :: "'u request \<Rightarrow> api_answer + api_handler" where
  "route_request rq =
     (case find (\<lambda>(m, p, _). m = rq_method rq \<and> p = rq_path rq) api_routes of
        None \<Rightarrow> Inl (NotFound '''')
      | Some (_, _, h, needs_auth) \<Rightarrow> if needs_auth \<and> rq_auth rq = None then Inl Unauthorized else Inr h)"

definition get_info :: "string \<Rightarrow> api_answer" where
  "get_info pubKey = Answer [(''key'', pubKey), (''v'', ''0.1.0''), (''cu'', ''false'')]"

definition first_run :: "nat option \<Rightarrow> bool" where
  "first_run count = (count = Some 0)"

section \<open>The first user\<close>

record user =
  us_id :: string
  us_email :: string
  us_password :: string
  us_verified :: bool
  us_role :: string

record user_tables =
  ut_users :: "user list"
  ut_settings :: "string list"

record first_user_faults =
  ff_collection :: bool
  ff_save :: bool
  ff_settings_collection :: bool
  ff_settings_save :: bool

text \<open>\<open>count\<close> is what the table answered when the handler asked; the body has an email, a password and its
  confirmation.\<close>

definition create_first_user ::
  "nat option \<Rightarrow> (string \<times> string \<times> string) option \<Rightarrow> first_user_faults \<Rightarrow> string \<Rightarrow> user_tables \<Rightarrow> api_answer \<times> user_tables" where
  "create_first_user count body ff newid db =
     (case count of
        None \<Rightarrow> (InternalError ''Failed to check user count'', db)
      | Some n \<Rightarrow>
          if 0 < n then (Forbidden ''Registration is already complete'', db)
          else (case body of
            None \<Rightarrow> (BadRequest ''Invalid request payload'', db)
          | Some (email, password, passwordConfirm) \<Rightarrow>
              if \<not> ff_collection ff then (InternalError ''Failed to find users collection'', db)
              else if \<not> ff_save ff then (BadRequest ''Failed to save user'', db)
              else
                let db = db\<lparr>ut_users := ut_users db @ [\<lparr>us_id = newid, us_email = email, us_password = password,
                       us_verified = True, us_role = ''admin''\<rparr>]\<rparr>
                in (status_ok,
                    if ff_settings_collection ff \<and> ff_settings_save ff then db\<lparr>ut_settings := ut_settings db @ [newid]\<rparr>
                    else db)))"

section \<open>Container actions\<close>

definition is_hex :: "char \<Rightarrow> bool" where
  "is_hex c \<longleftrightarrow> (CHR ''a'' \<le> c \<and> c \<le> CHR ''f'') \<or> (CHR ''A'' \<le> c \<and> c \<le> CHR ''F'') \<or> (CHR ''0'' \<le> c \<and> c \<le> CHR ''9'')"

definition container_id_pattern :: "string \<Rightarrow> bool" where
  "container_id_pattern s \<longleftrightarrow> 12 \<le> length s \<and> length s \<le> 64 \<and> list_all is_hex s"

text \<open>\<open>agent\<close> is the request to the agent: its message, or the error of the request, whose text is \<open>show_error\<close>'s.\<close>

definition handle_container_action ::
  "(hub_error \<Rightarrow> string) \<Rightarrow> (string \<Rightarrow> string \<Rightarrow> hub_error + string) \<Rightarrow> (string \<times> string \<times> string) option \<Rightarrow> hub_state \<Rightarrow> api_answer" where
  "handle_container_action show_error agent body st =
     (case body of
        None \<Rightarrow> BadRequest ''Invalid request payload''
      | Some (systemID, containerID, action) \<Rightarrow>
          if systemID = '''' \<or> containerID = '''' \<or> action = '''' then BadRequest ''Missing system, container, or action parameter''
          else if \<not> container_id_pattern containerID then BadRequest ''Invalid container ID format''
          else (case get_system systemID st of
            None \<Rightarrow> NotFound ''System not found''
          | Some s \<Rightarrow>
              (case sy_ws s of
                 None \<Rightarrow> BadRequest ''Agent disconnected''
               | Some w \<Rightarrow>
                   if \<not> ws_connected w then BadRequest ''Agent disconnected''
                   else (case agent containerID action of
                     Inl e \<Rightarrow> BadRequest (show_error e)
                   | Inr errMsg \<Rightarrow> if errMsg \<noteq> '''' then BadRequest errMsg else status_ok))))"

section \<open>Who becomes which system\<close>

lemma add_system_other:
  assumes "store_inv st" and "i \<noteq> sy_id s"
  shows "get_system i (snd (add_system s st)) = get_system i st"
  using assms(2) found_object [OF assms(1), of i]
  by (cases "map_of (hs_systems st) i") (auto simp: get_system_def add_system_def Let_def store_laws nth_append)

lemma remove_system_other:
  assumes "store_inv st" and "i \<noteq> j"
  shows "get_system i (snd (remove_system j st)) = get_system i st"
proof (cases "map_of (hs_systems st) j")
  case (Some k)
  have known: "sy_id (hs_objects st ! l) = m" if "map_of (hs_systems st) m = Some l" for l m
    using that assms(1) by (simp add: store_inv_def)
  have "k \<noteq> l" if "map_of (hs_systems st) i = Some l" for l
    using known [OF that] known [OF Some] assms(2) by auto
  then show ?thesis
    using Some assms(2)
    by (cases "map_of (hs_systems st) i") (auto simp: get_system_def remove_system_def set_object_def store_laws)
qed (simp add: remove_system_def)

lemma add_record_other:
  assumes "store_inv st" and "i \<noteq> row_id row" and "sy_id s = row_id row"
  shows "get_system i (snd (add_record row (Some s) st)) = get_system i st"
  using assms by (simp add: add_record_def Let_def add_system_other remove_system_other remove_store)

lemma remove_system_gone: "map_of (hs_systems (snd (remove_system i st))) i = None"
  by (simp add: remove_system_def set_object_def store_laws split: option.split)

lemma add_record_own:
  assumes "sy_id s = row_id row" and "get_system (row_id row) (snd (add_record row (Some s) st)) = Some s'"
  shows "sy_ws s' = sy_ws s \<and> sy_port s' = row_port row \<and> sy_id s' = row_id row"
proof -
  define st1 where "st1 = (if map_of (hs_systems st) (row_id row) \<noteq> None then snd (remove_system (row_id row) st) else st)"
  have none: "map_of (hs_systems st1) (row_id row) = None"
    using remove_system_gone [of "row_id row" st] by (simp add: st1_def)
  have "get_system (row_id row) (snd (add_system (s\<lparr>sy_status := row_status row, sy_host := row_host row, sy_port := row_port row\<rparr>) st1)) = Some s'"
    using assms(2) by (simp add: add_record_def Let_def st1_def)
  then show ?thesis
    using none assms(1) by (auto simp: add_system_def get_system_def Let_def store_laws split: if_splits)
qed

lemma agent_connect_cases:
  assumes "agent_connect parse_version find_by_port upgrade_ok env headers st = (answer, st')" and "st' \<noteq> st"
  obtains row where "find_by_port (headers ''X-Token'') = Some row" and "headers ''X-Token'' \<noteq> ''''" and "answer = Upgraded"
    and "st' = snd (verify_ws_conn env row st)"
proof (cases "validate_agent_headers headers")
  case None
  then show ?thesis using assms by (simp add: agent_connect_def)
next
  case (Some p)
  obtain token v where p: "p = (token, v)" by (cases p)
  then have t: "token = headers ''X-Token''" "token \<noteq> ''''"
    using Some by (simp_all add: validate_agent_headers_def Let_def split: if_splits)
  show ?thesis
  proof (cases "parse_version v")
    case None
    then show ?thesis using assms Some by (simp add: agent_connect_def p)
  next
    case (Some w)
    note parsed = this
    show ?thesis
    proof (cases "find_by_port token")
      case None
      then show ?thesis using assms parsed \<open>validate_agent_headers headers = Some p\<close> by (simp add: agent_connect_def p)
    next
      case (Some row)
      then have "upgrade_ok" "answer = Upgraded" "st' = snd (verify_ws_conn env row st)"
        using assms parsed \<open>validate_agent_headers headers = Some p\<close>
        by (simp_all add: agent_connect_def p split: if_splits)
      then show ?thesis using that Some t by simp
    qed
  qed
qed

text \<open>What the query answers: a row of the table whose port is the token.\<close>

definition finds_by_port :: "hub_state \<Rightarrow> (string \<Rightarrow> system_row option) \<Rightarrow> bool" where
  "finds_by_port st find_by_port \<longleftrightarrow>
     (\<forall>token row. find_by_port token = Some row \<longrightarrow> row_port row = token \<and> (\<exists>i. hs_rows st i = Some row))"

text \<open>
  C26: an agent acts only for the system whose token it knows. In every state the hub can reach, a connection that
  changes anything was upgraded, carried the non-empty port of a stored system as its token, and changed the object of
  that system alone; that object then holds the new connection.
\<close>

theorem token_decides_the_system:
  assumes "fresh_hub st0" and "finds_by_port (foldl hub_step st0 es) find_by_port"
    and "agent_connect parse_version find_by_port upgrade_ok env headers (foldl hub_step st0 es) = (answer, st')"
    and "st' \<noteq> foldl hub_step st0 es"
  shows "\<exists>row. hs_rows (foldl hub_step st0 es) (row_id row) = Some row \<and> row_port row = headers ''X-Token'' \<and>
      headers ''X-Token'' \<noteq> '''' \<and> answer = Upgraded \<and>
      (\<forall>i. i \<noteq> row_id row \<longrightarrow> get_system i st' = get_system i (foldl hub_step st0 es)) \<and>
      (\<forall>s. get_system (row_id row) st' = Some s \<longrightarrow> sy_id s = row_id row \<and> sy_ws s = Some open_connection)"
proof -
  define st where "st = foldl hub_step st0 es"
  have inv: "hub_inv st" using hub.inv_reachable [OF assms(1), of es] by (simp add: st_def)
  have store: "store_inv st" and keyed: "hs_rows st i = Some r \<Longrightarrow> row_id r = i" for i r
    using inv by (auto simp: hub_inv_def rows_inv_def)
  obtain row where row: "find_by_port (headers ''X-Token'') = Some row" "headers ''X-Token'' \<noteq> ''''" "answer = Upgraded"
      and st': "st' = snd (verify_ws_conn env row st)"
    by (rule agent_connect_cases [OF assms(3,4) [folded st_def]])
  have stored: "hs_rows st (row_id row) = Some row" "row_port row = headers ''X-Token''"
    using row(1) assms(2) keyed by (auto simp: finds_by_port_def st_def)
  define s0 where "s0 = (new_system (row_id row))\<lparr>sy_ws := Some open_connection\<rparr>"
  have s0: "sy_id s0 = row_id row" "sy_ws s0 = Some open_connection" by (simp_all add: s0_def new_system_def)
  have "he_find_ok env"
  proof (rule ccontr)
    assume "\<not> he_find_ok env"
    then have "st' = st" using st' by (simp add: verify_ws_conn_def add_websocket_system_def)
    then show False using assms(4) by (simp add: st_def)
  qed
  then have a: "st' = snd (add_record row (Some s0) st)"
    using st' stored(1) by (simp add: verify_ws_conn_def add_websocket_system_def split_beta Let_def s0_def)
  have "\<forall>i. i \<noteq> row_id row \<longrightarrow> get_system i st' = get_system i st"
    unfolding a using add_record_other [OF store _ s0(1)] by simp
  moreover have "\<forall>s. get_system (row_id row) st' = Some s \<longrightarrow> sy_id s = row_id row \<and> sy_ws s = Some open_connection"
    unfolding a using add_record_own [OF s0(1)] s0(2) by simp
  ultimately show ?thesis using stored row(2,3) by (auto simp: st_def)
qed

definition demo_headers :: "string \<Rightarrow> string" where
  "demo_headers = (\<lambda>_. '''')(''X-Token'' := ''45876'', ''X-Beszel'' := ''0.18.0'')"

definition demo_find :: "hub_state \<Rightarrow> string \<Rightarrow> system_row option" where
  "demo_find st token = (case hs_rows st ''s1'' of Some row \<Rightarrow> if row_port row = token then Some row else None | None \<Rightarrow> None)"

lemma token_decides_the_system_witness:
  "let st = foldl hub_step (hub_start demo_start) [CreateRow demo_hub_env demo_system];
       (answer, st') = agent_connect (\<lambda>_. Some (release 0 18 0)) (demo_find st) True demo_hub_env demo_headers st
   in \<exists>row. hs_rows st (row_id row) = Some row \<and> row_port row = demo_headers ''X-Token'' \<and>
      demo_headers ''X-Token'' \<noteq> '''' \<and> answer = Upgraded \<and>
      (\<forall>i. i \<noteq> row_id row \<longrightarrow> get_system i st' = get_system i st) \<and>
      (\<forall>s. get_system (row_id row) st' = Some s \<longrightarrow> sy_id s = row_id row \<and> sy_ws s = Some open_connection)"
proof -
  define st where "st = foldl hub_step (hub_start demo_start) [CreateRow demo_hub_env demo_system]"
  define r where "r = agent_connect (\<lambda>_. Some (release 0 18 0)) (demo_find st) True demo_hub_env demo_headers st"
  have st: "st = snd (add_record (on_record_create demo_system) None
      ((hub_start demo_start)\<lparr>hs_rows := [''s1'' \<mapsto> on_record_create demo_system]\<rparr>))"
    by (simp add: st_def hub_start_def create_row_def demo_hub_env_def demo_system_def on_record_create_def Let_def)
  have rows: "hs_rows st = [''s1'' \<mapsto> on_record_create demo_system]" unfolding st by simp
  have finds: "finds_by_port st (demo_find st)"
    by (auto simp: finds_by_port_def demo_find_def rows split: if_splits)
  have "demo_find st ''45876'' = Some (on_record_create demo_system)"
    by (simp add: demo_find_def rows on_record_create_def demo_system_def)
  then have "snd r = snd (add_record (on_record_create demo_system)
      (Some ((new_system ''s1'')\<lparr>sy_ws := Some open_connection\<rparr>)) st)"
    by (simp add: r_def agent_connect_def validate_agent_headers_def demo_headers_def verify_ws_conn_def
        add_websocket_system_def demo_hub_env_def rows on_record_create_def demo_system_def split_beta Let_def)
  then have "length (hs_objects (snd r)) = 2" "length (hs_objects st) = 1"
    unfolding st by (simp_all add: add_record_def add_system_def remove_system_def set_object_def hub_start_def
        on_record_create_def demo_system_def new_system_def store_laws Let_def)
  then have changed: "snd r \<noteq> st" by auto
  have "finds_by_port (foldl hub_step (hub_start demo_start) [CreateRow demo_hub_env demo_system]) (demo_find st)"
    using finds by (simp only: st_def)
  from token_decides_the_system [OF demo_fresh_hub this, of "\<lambda>_. Some (release 0 18 0)" True demo_hub_env demo_headers "fst r" "snd r"]
  show ?thesis
    using changed unfolding Let_def split_beta r_def [symmetric] st_def [symmetric] by simp
qed

section \<open>Middlewares and the first user\<close>

text \<open>A request that carries a user of its own is never touched; otherwise the user is one of the two configured.\<close>

lemma authenticated_untouched: "rq_auth rq \<noteq> None \<Longrightarrow> apply_middlewares env find_user new_token rq = rq"
  by (simp add: apply_middlewares_def authorize_request_with_email_def Let_def)

lemma authorized_by_configuration:
  assumes "rq_auth rq = None" and "rq_auth (apply_middlewares env find_user new_token rq) = Some u"
  shows "\<exists>key v. hub_get_env env key = Some v \<and> v \<noteq> '''' \<and>
    (key = ''AUTO_LOGIN'' \<and> find_user v = Some u \<or> key = ''TRUSTED_AUTH_HEADER'' \<and> find_user (rq_headers rq v) = Some u)"
proof -
  define a where "a = or_empty (hub_get_env env ''AUTO_LOGIN'')"
  define t where "t = or_empty (hub_get_env env ''TRUSTED_AUTH_HEADER'')"
  have v: "hub_get_env env key = Some (or_empty (hub_get_env env key))" if "or_empty (hub_get_env env key) \<noteq> ''''" for key
    using that by (cases "hub_get_env env key") (auto simp: or_empty_def)
  have by_email: "rq_auth (authorize_request_with_email find_user new_token e q) =
      (if rq_auth q \<noteq> None \<or> e = '''' then rq_auth q else find_user e)" for e and q :: "'a request"
    by (simp add: authorize_request_with_email_def Let_def split: option.split)
  have kept: "rq_auth (authorize_request_with_email find_user new_token e q) = None \<Longrightarrow>
      rq_headers (authorize_request_with_email find_user new_token e q) = rq_headers q" for e and q :: "'a request"
    by (auto simp: authorize_request_with_email_def Let_def split: option.splits if_splits)
  define q where "q = (if a \<noteq> '''' then authorize_request_with_email find_user new_token a rq else rq)"
  have final: "apply_middlewares env find_user new_token rq =
      (if t \<noteq> '''' then authorize_request_with_email find_user new_token (rq_headers q t) q else q)"
    by (simp add: apply_middlewares_def a_def t_def q_def Let_def)
  show ?thesis
  proof (cases "rq_auth q")
    case (Some u')
    then have "a \<noteq> ''''" "find_user a = Some u'" using assms(1) by (auto simp: q_def by_email split: if_splits)
    moreover have "u' = u" using assms(2) Some by (simp add: final by_email split: if_splits)
    ultimately show ?thesis using v [of "''AUTO_LOGIN''"] by (auto simp: a_def)
  next
    case None
    then have "rq_headers q = rq_headers rq" using kept by (auto simp: q_def split: if_splits)
    moreover have "t \<noteq> ''''" "find_user (rq_headers q t) = Some u"
      using assms(2) None by (auto simp: final by_email split: if_splits)
    ultimately show ?thesis using v [of "''TRUSTED_AUTH_HEADER''"] by (auto simp: t_def)
  qed
qed

lemma first_user_alone:
  "create_first_user (Some (length (ut_users db))) body ff newid db = (status_ok, db') \<Longrightarrow>
     ut_users db = [] \<and> (\<exists>u. ut_users db' = [u] \<and> us_role u = ''admin'' \<and> us_id u = newid)"
  by (auto simp: create_first_user_def status_ok_def Let_def split: option.splits if_splits)

text \<open>Two registrations that both count before either saves make two administrators.\<close>

lemma two_first_users:
  "fst (create_first_user (Some 0) (Some (e1, p1, c1)) ff i1 \<lparr>ut_users = [], ut_settings = []\<rparr>) = status_ok \<Longrightarrow>
   map us_role (ut_users (snd (create_first_user (Some 0) (Some (e2, p2, c2)) ff i2
     (snd (create_first_user (Some 0) (Some (e1, p1, c1)) ff i1 \<lparr>ut_users = [], ut_settings = []\<rparr>))))) = [''admin'', ''admin'']"
  by (auto simp: create_first_user_def status_ok_def Let_def split: if_splits)

text \<open>Only a connected agent is asked, about an id that is a container's.\<close>

lemma container_action_guarded:
  assumes "handle_container_action show_error agent body st = status_ok"
  shows "\<exists>i c a s w. body = Some (i, c, a) \<and> container_id_pattern c \<and> get_system i st = Some s \<and> sy_ws s = Some w \<and>
    ws_connected w \<and> agent c a = Inr ''''"
  using assms by (auto simp: handle_container_action_def status_ok_def split: option.splits sum.splits if_splits)

end
