(* ===== verification/HubSetup.thy ===== *)
theory HubSetup
  imports Hub HubApi
begin

text \<open>
  What the hub sets up and serves: \<^verbatim>\<open>internal/hub/collections.go\<close>, \<^verbatim>\<open>internal/hub/server.go\<close>,
  \<^verbatim>\<open>server_production.go\<close>, \<^verbatim>\<open>internal/migrations/initial-settings.go\<close>, and the two commands of
  \<^verbatim>\<open>internal/cmd\<close>. PocketBase's answers, JSON, URL and flag parsing are arguments.
\<close>

section \<open>Collection rules\<close>

text \<open>A rule that is \<open>nil\<close> lets only superusers through.\<close>

record collection_rules =
  rule_list :: "string option"
  rule_view :: "string option"
  rule_create :: "string option"
  rule_update :: "string option"
  rule_delete :: "string option"

record pb_collection =
  pc_rules :: collection_rules
  pc_password_auth :: bool
  pc_identity_fields :: "string list"

type_synonym collections = "string \<rightharpoonup> pb_collection"

definition save_collection :: "(string \<Rightarrow> bool) \<Rightarrow> string \<Rightarrow> pb_collection \<Rightarrow> collections \<Rightarrow> bool \<times> collections" where
  "save_collection saves name c cs = (if saves name then (True, cs(name \<mapsto> c)) else (False, cs))"

fun apply_collection_rules ::
  "(string \<Rightarrow> bool) \<Rightarrow> string list \<Rightarrow> collection_rules \<Rightarrow> collections \<Rightarrow> bool \<times> collections" where
  "apply_collection_rules saves [] rules cs = (True, cs)"
| "apply_collection_rules saves (name # names) rules cs =
     (case cs name of
        None \<Rightarrow> (False, cs)
      | Some c \<Rightarrow>
          (case save_collection saves name (c\<lparr>pc_rules := rules\<rparr>) cs of
             (False, cs') \<Rightarrow> (False, cs')
           | (True, cs') \<Rightarrow> apply_collection_rules saves names rules cs'))"

definition authenticated_rule :: string where "authenticated_rule = ''@request.auth.id != \"\"''"
definition systems_write_rule :: string where
  "systems_write_rule = authenticated_rule @ '' && @request.auth.role != \"readonly\"''"

definition no_rules :: collection_rules where
  "no_rules = \<lparr>rule_list = None, rule_view = None, rule_create = None, rule_update = None, rule_delete = None\<rparr>"

definition systems_rules :: collection_rules where
  "systems_rules = \<lparr>rule_list = Some authenticated_rule, rule_view = Some authenticated_rule,
     rule_create = Some systems_write_rule, rule_update = Some systems_write_rule, rule_delete = Some systems_write_rule\<rparr>"

definition users_settings :: "environment \<Rightarrow> pb_collection \<Rightarrow> pb_collection" where
  "users_settings env c =
     c\<lparr>pc_password_auth := (or_empty (hub_get_env env ''DISABLE_PASSWORD_AUTH'') \<noteq> ''true''),
       pc_identity_fields := [''email''], pc_rules := (pc_rules c)\<lparr>rule_create := None\<rparr>\<rparr>"

definition bind_ok :: "bool \<times> 's \<Rightarrow> ('s \<Rightarrow> bool \<times> 's) \<Rightarrow> bool \<times> 's" where
  "bind_ok r f = (if fst r then f (snd r) else (False, snd r))"

definition set_collection_auth_settings :: "environment \<Rightarrow> (string \<Rightarrow> bool) \<Rightarrow> collections \<Rightarrow> bool \<times> collections" where
  "set_collection_auth_settings env saves cs =
     (case cs ''users'' of
        None \<Rightarrow> (False, cs)
      | Some users \<Rightarrow>
          bind_ok (save_collection saves ''users'' (users_settings env users) cs) (\<lambda>cs.
          bind_ok (apply_collection_rules saves [''systems''] systems_rules cs) (\<lambda>cs.
          bind_ok (apply_collection_rules saves [''containers'', ''container_stats'', ''system_stats'']
              (no_rules\<lparr>rule_list := Some authenticated_rule\<rparr>) cs) (\<lambda>cs.
          apply_collection_rules saves [''system_details'']
              (no_rules\<lparr>rule_list := Some authenticated_rule, rule_view := Some authenticated_rule\<rparr>) cs))))"

lemma apply_rules_done:
  "apply_collection_rules saves names rules cs = (True, cs') \<Longrightarrow>
     (\<forall>n. map_option pc_rules (cs' n) = (if n \<in> set names then Some rules else map_option pc_rules (cs n)))"
proof (induction names arbitrary: cs)
  case (Cons n ns)
  obtain c where c: "cs n = Some c" and r: "apply_collection_rules saves ns rules (cs(n \<mapsto> c\<lparr>pc_rules := rules\<rparr>)) = (True, cs')"
    using Cons.prems by (simp add: save_collection_def split: option.splits if_splits)
  show ?case using Cons.IH [OF r] by simp
qed simp

lemma bind_ok_True: "bind_ok r f = (True, y) \<longleftrightarrow> (\<exists>x. r = (True, x) \<and> f x = (True, y))"
  by (cases r) (auto simp: bind_ok_def)

text \<open>After a start that reports no error nobody reads a collection without being authenticated, nobody creates
  users or writes measurements through the API, and a read-only user does not write systems.\<close>

lemma rules_in_force:
  assumes "set_collection_auth_settings env saves cs = (True, cs')"
  shows "map_option pc_rules (cs' ''systems'') = Some systems_rules"
    and "n \<in> {''containers'', ''container_stats'', ''system_stats''} \<Longrightarrow>
      map_option pc_rules (cs' n) = Some (no_rules\<lparr>rule_list := Some authenticated_rule\<rparr>)"
    and "map_option (rule_create \<circ> pc_rules) (cs' ''users'') = Some None"
proof -
  obtain users where u: "cs ''users'' = Some users"
    using assms by (auto simp: set_collection_auth_settings_def split: option.splits)
  define cs1 where "cs1 = cs(''users'' \<mapsto> users_settings env users)"
  obtain cs2 cs3 where
      a: "apply_collection_rules saves [''systems''] systems_rules cs1 = (True, cs2)" and
      b: "apply_collection_rules saves [''containers'', ''container_stats'', ''system_stats'']
              (no_rules\<lparr>rule_list := Some authenticated_rule\<rparr>) cs2 = (True, cs3)" and
      c: "apply_collection_rules saves [''system_details'']
              (no_rules\<lparr>rule_list := Some authenticated_rule, rule_view := Some authenticated_rule\<rparr>) cs3 = (True, cs')"
    using assms unfolding set_collection_auth_settings_def u option.case bind_ok_True save_collection_def cs1_def
    by (auto simp del: apply_collection_rules.simps split: if_splits)
  note rules = apply_rules_done [OF a] apply_rules_done [OF b] apply_rules_done [OF c]
  show "map_option pc_rules (cs' ''systems'') = Some systems_rules" using rules by simp
  show "map_option pc_rules (cs' n) = Some (no_rules\<lparr>rule_list := Some authenticated_rule\<rparr>)"
    if "n \<in> {''containers'', ''container_stats'', ''system_stats''}"
    using rules that by auto
  have "map_option pc_rules (cs' ''users'') = Some (pc_rules (users_settings env users))"
    using rules by (simp add: cs1_def)
  then show "map_option (rule_create \<circ> pc_rules) (cs' ''users'') = Some None"
    by (auto simp: users_settings_def)
qed

section \<open>The page\<close>

text \<open>\<open>strings.ReplaceAll\<close> for a non-empty \<open>old\<close>.\<close>

function replace_all :: "string \<Rightarrow> string \<Rightarrow> string \<Rightarrow> string" where
  "replace_all s old new =
     (if old = [] then s
      else (case split2 s old of None \<Rightarrow> s | Some (a, b) \<Rightarrow> a @ new @ replace_all b old new))"
  by auto
termination
proof (relation "measure (\<lambda>(s, _, _). length s)")
  fix s old new :: string and x a b
  assume "old \<noteq> []" "split2 s old = Some x" "(a, b) = x"
  then obtain i where "index_of s old = Some i" "b = drop (i + length old) s" by (auto simp: split2_def)
  moreover from this \<open>old \<noteq> []\<close> have "s \<noteq> []" by auto
  ultimately show "((b, old, new), (s, old, new)) \<in> measure (\<lambda>(s, _, _). length s)"
    using \<open>old \<noteq> []\<close> by (simp add: diff_less)
qed simp

record public_app_info =
  pi_base_path :: string
  pi_hub_version :: string
  pi_hub_url :: string
  pi_oauth_disable_popup :: bool

text \<open>\<open>url_path\<close> is the path of a URL, unless it does not parse; the handler then panics, which is \<open>None\<close>.\<close>

definition get_public_app_info :: "environment \<Rightarrow> (string \<Rightarrow> string option) \<Rightarrow> 'signer hub \<Rightarrow> public_app_info option" where
  "get_public_app_info env url_path h =
     map_option (\<lambda>path. \<lparr>pi_base_path = trim_suffix path ''/'' @ ''/'', pi_hub_version = ''0.1.0'', pi_hub_url = hub_app_url h,
        pi_oauth_disable_popup = (or_empty (hub_get_env env ''OAUTH_DISABLE_POPUP'') = ''true'')\<rparr>) (url_path (hub_app_url h))"

definition modify_index_html ::
  "environment \<Rightarrow> (string \<Rightarrow> string option) \<Rightarrow> (public_app_info \<Rightarrow> string option) \<Rightarrow> 'signer hub \<Rightarrow> string \<Rightarrow> string option" where
  "modify_index_html env url_path marshal h html =
     (case get_public_app_info env url_path h of
        None \<Rightarrow> None
      | Some info \<Rightarrow>
          (case marshal info of
             None \<Rightarrow> Some html
           | Some content \<Rightarrow> Some (replace1 (replace_all html ''./'' (pi_base_path info)) ''\"{info}\"'' content)))"

datatype served = StaticFile | Page "string option" string

text \<open>\<open>startServer\<close>: the page is made once; the result answers a path, with the security policy it sets.\<close>

definition start_server ::
  "environment \<Rightarrow> (string \<Rightarrow> string option) \<Rightarrow> (public_app_info \<Rightarrow> string option) \<Rightarrow> 'signer hub \<Rightarrow> string \<Rightarrow> (string \<Rightarrow> served) option" where
  "start_server env url_path marshal h indexFile =
     map_option (\<lambda>html path.
       if contains path ''/static/'' \<or> contains path ''/assets/'' then StaticFile
       else Page (hub_get_env env ''CSP'') html) (modify_index_html env url_path marshal h indexFile)"

text \<open>The base path always ends in a slash, so relative links keep working under a sub-path.\<close>

lemma base_path_slash: "get_public_app_info env url_path h = Some info \<Longrightarrow> suffix ''/'' (pi_base_path info)"
  by (auto simp: get_public_app_info_def suffix_def)

text \<open>An application URL that does not parse stops the hub at its start.\<close>

lemma bad_app_url_panics: "url_path (hub_app_url h) = None \<Longrightarrow> start_server env url_path marshal h indexFile = None"
  by (simp add: start_server_def modify_index_html_def get_public_app_info_def)

section \<open>The first migration\<close>

record install =
  in_app_name :: string
  in_hide_controls :: bool
  in_min_level :: int
  in_users :: "(string \<times> string) list"
  in_superusers :: "(string \<times> string option) list"

text \<open>A superuser without a password gets a random one, \<open>None\<close>. The flags say which saves succeed.\<close>

definition initial_settings :: "environment \<Rightarrow> bool \<Rightarrow> bool \<Rightarrow> bool \<Rightarrow> install \<Rightarrow> bool \<times> install" where
  "initial_settings env settings_ok user_ok superuser_ok st =
     (let st = st\<lparr>in_app_name := ''Beszel'', in_hide_controls := True, in_min_level := 4\<rparr> in
      if \<not> settings_ok then (False, st)
      else
        let email = or_empty (hub_get_env env ''USER_EMAIL''); password = or_empty (hub_get_env env ''USER_PASSWORD'');
            didProvideUserDetails = (email \<noteq> '''' \<and> password \<noteq> '''');
            email = (if email = '''' then ''_@b.b'' else email);
            superUser = (email, if password \<noteq> '''' then Some password else None)
        in if didProvideUserDetails \<and> \<not> user_ok then (False, st)
           else
             let st = (if didProvideUserDetails then st\<lparr>in_users := in_users st @ [(email, password)]\<rparr> else st)
             in if superuser_ok then (True, st\<lparr>in_superusers := in_superusers st @ [superUser]\<rparr>) else (False, st))"

lemma migration_superuser:
  assumes "initial_settings env a b c st = (True, st')" and "in_superusers st = []"
  shows "\<exists>e p. in_superusers st' = [(e, p)] \<and> (p = None \<or> p = hub_get_env env ''USER_PASSWORD'')"
  using assms
  by (auto simp: initial_settings_def Let_def or_empty_def split: if_splits option.splits)

section \<open>Commands\<close>

text \<open>\<^verbatim>\<open>internal/cmd/agent\<close>: old long flags with a single dash.\<close>

fun convert_flag :: "string list \<Rightarrow> string \<Rightarrow> string" where
  "convert_flag [] arg = arg"
| "convert_flag (flag # flags) arg =
     (if arg = ''-'' @ flag then ''--'' @ flag
      else if prefix (''-'' @ flag @ ''='') arg then ''--'' @ flag @ drop (Suc (length flag)) arg
      else convert_flag flags arg)"

definition convert_args :: "string list \<Rightarrow> string list" where
  "convert_args args = map (convert_flag [''url'', ''token'']) args"

record cmd_flags =
  cf_hub_url :: string
  cf_token :: string
  cf_version :: bool
  cf_help :: bool

datatype agent_command = HealthOk | HealthFailed | BadFlags | ShowVersion | ShowUsage | RunAgent environment

text \<open>\<open>parse\<close> is the flag library, which exits for flags it does not know.\<close>

definition agent_parse :: "bool \<Rightarrow> (string list \<Rightarrow> cmd_flags option) \<Rightarrow> string list \<Rightarrow> environment \<Rightarrow> agent_command" where
  "agent_parse health_ok parse args env =
     (let subcommand = (if 1 < length args then args ! 1 else '''') in
      if subcommand = ''health'' then (if health_ok then HealthOk else HealthFailed)
      else (case parse (convert_args args) of
              None \<Rightarrow> BadFlags
            | Some opts \<Rightarrow>
                if cf_version opts then ShowVersion
                else if cf_help opts \<or> subcommand = ''help'' then ShowUsage
                else
                  let env = (if cf_hub_url opts \<noteq> '''' then env(''HUB_URL'' \<mapsto> cf_hub_url opts) else env);
                      env = (if cf_token opts \<noteq> '''' then env(''TOKEN'' \<mapsto> cf_token opts) else env)
                  in RunAgent env))"

lemma converted_flags:
  "convert_flag [''url'', ''token''] ''-url'' = ''--url''"
  "convert_flag [''url'', ''token''] (''-token='' @ t) = ''--token='' @ t"
  "convert_flag [''url'', ''token''] (''--url='' @ t) = ''--url='' @ t"
  by simp_all

text \<open>The agent reads \<^verbatim>\<open>BESZEL_AGENT_HUB_URL\<close> before \<^verbatim>\<open>HUB_URL\<close>, so the flag loses to that variable.\<close>

lemma prefixed_variable_beats_flag:
  "agent_parse h parse args env = RunAgent env' \<Longrightarrow> env ''BESZEL_AGENT_HUB_URL'' = Some v \<Longrightarrow> get_env env' ''HUB_URL'' = Some v"
  by (auto simp: agent_parse_def get_env_def Let_def split: if_splits option.splits)

text \<open>\<^verbatim>\<open>internal/cmd/hub\<close>: the health check of the hub; \<open>get\<close> is the status of a request, unless it fails.\<close>

definition check_health :: "(string \<Rightarrow> nat option) \<Rightarrow> string \<Rightarrow> bool" where
  "check_health get baseURL = (get (baseURL @ ''/api/health'') = Some 200)"

datatype hub_command = HubHealth bool | StartHub

definition hub_main :: "(string \<Rightarrow> nat option) \<Rightarrow> string list \<Rightarrow> hub_command" where
  "hub_main get args =
     (if 3 < length args \<and> args ! 1 = ''health'' then HubHealth (check_health get (args ! 3)) else StartHub)"

text \<open>\<open>getBaseApp\<close>: the configuration of the application; its migrations are written automatically in development.\<close>

record base_app =
  ba_data_dir :: string
  ba_dev :: bool
  ba_version :: string
  ba_use :: string
  ba_short :: string
  ba_commands :: "string list"
  ba_automigrate :: bool
  ba_migrations_dir :: string

definition get_base_app :: "environment \<Rightarrow> base_app" where
  "get_base_app env =
     (let isDev = (env ''ENV'' = Some ''dev'') in
      \<lparr>ba_data_dir = ''homemonit'' @ ''_data'', ba_dev = isDev, ba_version = ''0.1.0'', ba_use = ''homemonit'', ba_short = '''',
       ba_commands = [''health''], ba_automigrate = isDev, ba_migrations_dir = ''../../migrations''\<rparr>)"

text \<open>
  \<open>newHealthCmd\<close>: the flag \<open>url\<close> is required; the result is the exit status (the command does not run without the flag, and
  \<open>Execute\<close> returns the error).
\<close>

definition health_cmd :: "(string \<Rightarrow> nat option) \<Rightarrow> string option \<Rightarrow> int option" where
  "health_cmd get url = map_option (\<lambda>baseURL. if check_health get baseURL then 0 else 1) url"

lemma health_cmd_zero: "health_cmd get url = Some 0 \<longleftrightarrow> (\<exists>u. url = Some u \<and> get (u @ ''/api/health'') = Some 200)"
  by (auto simp: health_cmd_def check_health_def)

end
