(* ===== verification/DevServer.thy ===== *)
theory DevServer
  imports HubSetup
begin

text \<open>
  \<^verbatim>\<open>internal/hub/server_development.go\<close>: the pages of a development build come from the frontend's own server, and every
  HTML page is rewritten on its way through. The reverse proxy and the launch of a browser are outside; an answer is its
  content type, a body that may fail to be read, and its length.
\<close>

record dev_response =
  dr_content_type :: string
  dr_body :: "string option"
  dr_content_length :: int
  dr_length_header :: string

text \<open>
  \<open>RoundTrip\<close>, given the answer of the wrapped transport: the response, whether there was an error, or \<open>None\<close> where
  \<open>modifyIndexHTML\<close> panics. The body of a response that could not be read is left as it is.
\<close>

definition round_trip ::
  "environment \<Rightarrow> (string \<Rightarrow> string option) \<Rightarrow> (public_app_info \<Rightarrow> string option) \<Rightarrow> 'signer hub \<Rightarrow>
   dev_response + dev_response \<Rightarrow> (bool \<times> dev_response) option" where
  "round_trip env url_path marshal h answer =
     (case answer of
        Inl resp \<Rightarrow> Some (False, resp)
      | Inr resp \<Rightarrow>
          if \<not> contains (dr_content_type resp) ''text/html'' then Some (True, resp)
          else (case dr_body resp of
                  None \<Rightarrow> Some (False, resp)
                | Some body \<Rightarrow>
                    map_option (\<lambda>page. (True, resp\<lparr>dr_body := Some page, dr_content_length := int (length page),
                                                   dr_length_header := itoa (length page)\<rparr>))
                      (modify_index_html env url_path marshal h body)))"

text \<open>\<open>startServer\<close>: every path goes to the frontend's server.\<close>

definition dev_target :: "string \<Rightarrow> string" where
  "dev_target path = ''http://localhost:5173'' @ path"

definition dev_start_server ::
  "environment \<Rightarrow> (string \<Rightarrow> string option) \<Rightarrow> (public_app_info \<Rightarrow> string option) \<Rightarrow> 'signer hub \<Rightarrow>
   (string \<Rightarrow> dev_response + dev_response) \<Rightarrow> string \<Rightarrow> (bool \<times> dev_response) option" where
  "dev_start_server env url_path marshal h fetch path = round_trip env url_path marshal h (fetch (dev_target path))"

text \<open>A page that is served has the length it announces, and other answers pass unchanged.\<close>

lemma dev_page_length:
  assumes "round_trip env url_path marshal h (Inr resp) = Some (True, resp')" and "contains (dr_content_type resp) ''text/html''"
  shows "\<exists>page. dr_body resp' = Some page \<and> dr_content_length resp' = int (length page) \<and> dr_length_header resp' = itoa (length page)"
  using assms by (auto simp: round_trip_def split: option.splits)

lemma dev_other_unchanged:
  "\<not> contains (dr_content_type resp) ''text/html'' \<Longrightarrow> round_trip env url_path marshal h (Inr resp) = Some (True, resp)"
  by (simp add: round_trip_def)

end
