(* ===== verification/DockerJson.thy ===== *)
theory DockerJson
  imports AgentData StatsJson
begin

text \<open>
  The answers of the Docker API as JSON: the structures of \<^verbatim>\<open>internal/entities/container/container.go\<close> that they are
  decoded into. \<^verbatim>\<open>agent/docker.go\<close> decodes the list of containers into the slice of the poll before, cut to length
  zero, and the statistics of every container into one structure. What a member of the JSON is missing for keeps the
  value it has there. \<open>parse_time\<close> is \<open>time.Parse(time.RFC3339, s)\<close>.
\<close>

section \<open>Statistics\<close>

definition read_time :: "(string \<Rightarrow> instant option) \<Rightarrow> instant reader" where
  "read_time parse_time v old = (case v of JvNull \<Rightarrow> Some old | JvStr s \<Rightarrow> parse_time s | _ \<Rightarrow> None)"

text \<open>The bytes sent and received.\<close>

definition read_network :: "(u64 \<times> u64) reader" where
  "read_network = read_struct [(''rx_bytes'', into apsnd snd read_word), (''tx_bytes'', into apfst fst read_word)]"

definition read_plain_map :: "'a reader \<Rightarrow> 'a \<Rightarrow> (string, 'a) gomap reader" where
  "read_plain_map r zero v old = map_option (\<lambda>m. case m of Some e \<Rightarrow> e | None \<Rightarrow> []) (read_map r zero v (Some old))"

definition read_plain_list :: "'a reader \<Rightarrow> 'a \<Rightarrow> 'a list reader" where
  "read_plain_list r zero v old = map_option (\<lambda>s. case s of Some xs \<Rightarrow> xs | None \<Rightarrow> []) (read_slice r zero v (Some old))"

definition read_cpu_usage :: "api_stats reader" where
  "read_cpu_usage = read_struct [(''total_usage'', into as_total_usage_update as_total_usage read_word)]"

definition read_cpu_stats :: "api_stats reader" where
  "read_cpu_stats = read_struct
     [(''cpu_usage'', read_cpu_usage), (''system_cpu_usage'', into as_system_usage_update as_system_usage read_word)]"

definition read_memory_stats_stats :: "api_stats reader" where
  "read_memory_stats_stats = read_struct
     [(''cache'', into as_mem_cache_update as_mem_cache read_word),
      (''inactive_file'', into as_mem_inactive_update as_mem_inactive read_word)]"

definition read_memory_stats :: "api_stats reader" where
  "read_memory_stats = read_struct
     [(''usage'', into as_mem_usage_update as_mem_usage read_word), (''stats'', read_memory_stats_stats),
      (''privateworkingset'', into as_mem_private_update as_mem_private read_word)]"

definition read_api_stats :: "(string \<Rightarrow> instant option) \<Rightarrow> api_stats reader" where
  "read_api_stats parse_time = read_struct
     [(''read'', into as_read_update as_read (read_time parse_time)),
      (''num_procs'', into as_num_procs_update as_num_procs read_word),
      (''Networks'', into as_networks_update as_networks (read_plain_map read_network (0, 0))),
      (''cpu_stats'', read_cpu_stats), (''memory_stats'', read_memory_stats)]"

section \<open>Containers\<close>

definition port_table :: "port table" where
  "port_table = [(''PublicPort'', into po_public_update po_public read_word), (''IP'', into po_ip_update po_ip read_string)]"

definition read_port :: "port reader" where "read_port = read_struct port_table"

definition zero_port :: port where "zero_port = \<lparr>po_public = 0, po_ip = ''''\<rparr>"

definition read_health :: "string reader" where
  "read_health = read_struct [(''Status'', into (\<lambda>f. f) (\<lambda>s. s) read_string)]"

definition info_table :: "api_info table" where
  "info_table =
     [(''Id'', into ai_id_update ai_id read_string), (''IdShort'', into ai_short_update ai_short read_string),
      (''Names'', into ai_names_update ai_names (read_plain_list read_string '''')),
      (''Status'', into ai_status_update ai_status read_string), (''State'', into ai_state_update ai_state read_string),
      (''Image'', into ai_image_update ai_image read_string), (''Health'', into ai_health_update ai_health read_health),
      (''Ports'', into ai_ports_update ai_ports (read_plain_list read_port zero_port))]"

definition read_api_info :: "api_info reader" where "read_api_info = read_struct info_table"

definition zero_api_info :: api_info where
  "zero_api_info = \<lparr>ai_id = '''', ai_short = '''', ai_names = [], ai_status = '''', ai_state = '''', ai_image = '''',
     ai_health = '''', ai_ports = []\<rparr>"

text \<open>
  \<open>decode(resp, &dm.apiContainerList)\<close>: \<open>backing\<close> is what the array of the slice holds, the containers of earlier polls
  as these left them. Cutting the slice does not clear it, and the decoder reads each element over the one it finds. The
  result is the list and the array. A \<open>null\<close> in the list would be a nil pointer, at which the poll panics, and is an
  error here.
\<close>

definition decode_container_list :: "jval \<Rightarrow> api_info list \<Rightarrow> (api_info list \<times> api_info list) option" where
  "decode_container_list v backing =
     (case v of
        JvNull \<Rightarrow> Some ([], [])
      | JvArr [] \<Rightarrow> Some ([], [])
      | JvArr vs \<Rightarrow>
          if JvNull \<in> set vs then None
          else map_option (\<lambda>xs. (xs, xs @ drop (length xs) backing)) (read_each read_api_info zero_api_info backing vs)
      | _ \<Rightarrow> None)"

section \<open>The host\<close>

definition read_host_info :: "host_info reader" where
  "read_host_info = read_struct
     [(''OperatingSystem'', into ho_operating_system_update ho_operating_system read_string),
      (''KernelVersion'', into ho_kernel_version_update ho_kernel_version read_string),
      (''NCPU'', into ho_ncpu_update ho_ncpu read_int), (''MemTotal'', into ho_mem_total_update ho_mem_total read_word)]"

text \<open>\<open>GetHostInfo\<close>: the outer \<open>None\<close> is a failed request, the inner one a body that is no JSON; the status is not looked at.\<close>

definition get_host_info :: "jval option option \<Rightarrow> host_info option" where
  "get_host_info answer = Option.bind (Option.bind answer (\<lambda>body. body)) (\<lambda>v. read_host_info v zero_host_info)"

section \<open>What is left of the container before\<close>

lemma find_field_in: "find_field t k = Some f \<Longrightarrow> \<exists>k'. (k', f) \<in> set t \<and> fold_name k' = fold_name k"
  by (fastforce simp: find_field_def dest!: map_of_SomeD split: option.splits)

text \<open>A property that no reader but those of one name touches is kept by an object without that name.\<close>

lemma read_fields_keeps:
  assumes "\<And>k f v r r'. (k, f) \<in> set t \<Longrightarrow> fold_name k \<noteq> name \<Longrightarrow> f v r = Some r' \<Longrightarrow> g r' = g r"
    and "name \<notin> fold_name ` fst ` set js" and "read_fields t js r = Some r'"
  shows "g r' = g r"
  using assms(2,3)
proof (induction js arbitrary: r)
  case (Cons x js)
  obtain k v where x: "x = (k, v)" by (cases x)
  obtain r1 where r1: "(case find_field t k of None \<Rightarrow> Some r | Some f \<Rightarrow> f v r) = Some r1" "read_fields t js r1 = Some r'"
    using Cons.prems(2) by (auto simp: x split: option.splits)
  have "g r1 = g r"
  proof (cases "find_field t k")
    case (Some f)
    then obtain k' where "(k', f) \<in> set t" "fold_name k' = fold_name k" using find_field_in by blast
    moreover have "fold_name k \<noteq> name" using Cons.prems(1) x by auto
    ultimately show ?thesis using assms(1) [of k' f v r r1] r1(1) Some by simp
  qed (use r1(1) in simp)
  then show ?case using Cons.IH [OF _ r1(2)] Cons.prems(1) by (simp add: x)
qed simp

lemma fold_health: "fold_name ''Health'' = ''health''"
proof -
  have "fold_name ''ealth'' = ''ealth''" by (rule fold_lower_name) (simp add: lower_name_def less_eq_char_def)
  then show ?thesis by (subst fold_name.simps) (simp add: char_of_eq_iff less_eq_char_def del: fold_name.simps)
qed

text \<open>
  The health of a container whose entry has none is the health of the container that was at its place in the list before,
  and that is what the agent reports. (Of the ports the code clears what it has processed, for this very reason.)
\<close>

lemma health_of_previous_container:
  assumes "read_api_info (JvObj js) old = Some new" and "''health'' \<notin> fold_name ` fst ` set js"
    and "parse_docker_health_status (ai_health old) = Some h"
  shows "ai_health new = ai_health old \<and> container_health podman ans new status = h"
proof -
  have "ai_health new = ai_health old"
  proof (rule read_fields_keeps [OF _ assms(2), where t = info_table])
    show "read_fields info_table js old = Some new" using assms(1) by (simp add: read_api_info_def read_struct_def)
  qed (auto simp: info_table_def fold_health into_def simp del: fold_name.simps)
  moreover have "parse_docker_health_status '''' = None" by code_simp
  then have "ai_health old \<noteq> ''''" using assms(3) by auto
  ultimately show ?thesis using assms(3) by (simp add: container_health_def)
qed

text \<open>The health is that of the neighbour, for instance, when a container with a health check goes and another moves up.\<close>

lemma health_moves_up:
  assumes "parse_docker_health_status (ai_health gone) = Some h" and "''health'' \<notin> fold_name ` fst ` set js"
    and "decode_container_list (JvArr [JvObj js]) (gone # rest) = Some (list, backing)"
  shows "\<exists>new. list = [new] \<and> backing = new # rest \<and> container_health podman ans new status = h"
proof -
  obtain new where new: "read_api_info (JvObj js) gone = Some new" "list = [new]" "backing = new # rest"
    using assms(3) by (auto simp: decode_container_list_def split: option.splits)
  then show ?thesis using health_of_previous_container [OF new(1) assms(2,1)] by simp
qed

text \<open>
  The ports of a container that the exclusion patterns skip, or whose statistics could not be asked for, are not cleared.
  A port that is exposed and not published has no public port in the answer, and takes the one that is left at its place.
\<close>

lemma port_of_previous_container:
  assumes "read_port (JvObj js) old = Some new" and "fold_name ''PublicPort'' \<notin> fold_name ` fst ` set js"
  shows "po_public new = po_public old"
proof (rule read_fields_keeps [OF _ assms(2), where t = port_table])
  show "read_fields port_table js old = Some new" using assms(1) by (simp add: read_port_def read_struct_def)
qed (auto simp: port_table_def into_def simp del: fold_name.simps)

text \<open>The body of an error, which has a message and nothing else, changes nothing of the shared statistics.\<close>

lemma fold_ascii_length: "list_all (\<lambda>c. of_char c < (128 :: nat)) k \<Longrightarrow> length (fold_name k) = length k"
  by (induction k rule: fold_name.induct) (auto simp: char_of_eq_iff)

lemma error_body_keeps_stats: "read_api_stats parse_time (JvObj [(''message'', JvStr m)]) r = Some r"
proof -
  define t where "t = [(''read'', into as_read_update as_read (read_time parse_time)),
      (''num_procs'', into as_num_procs_update as_num_procs read_word),
      (''Networks'', into as_networks_update as_networks (read_plain_map read_network (0, 0))),
      (''cpu_stats'', read_cpu_stats), (''memory_stats'', read_memory_stats)]"
  have "find_field t ''message'' = None"
  proof (rule ccontr)
    assume "find_field t ''message'' \<noteq> None"
    then obtain k f where k: "(k, f) \<in> set t" "fold_name k = fold_name ''message''" using find_field_in by blast
    have "list_all (\<lambda>c. of_char c < (128 :: nat)) k" using k(1) by (auto simp: t_def)
    moreover have "length (fold_name ''message'') = 7" by (subst fold_ascii_length) simp_all
    ultimately have "length k = 7" using k(2) fold_ascii_length [of k] by simp
    then show False using k(1) by (auto simp: t_def)
  qed
  then show ?thesis by (simp add: read_api_stats_def read_struct_def t_def)
qed

end
