(* ===== verification/Startup.thy ===== *)
theory Startup
  imports HubSetup
begin

text \<open>
  How the hub comes up: \<^verbatim>\<open>NewHub\<close>, \<^verbatim>\<open>StartHub\<close>, \<^verbatim>\<open>registerMiddlewares\<close> and
  \<^verbatim>\<open>registerCronJobs\<close> of \<^verbatim>\<open>internal/hub/hub.go\<close> and \<^verbatim>\<open>api.go\<close>. The parts they put together
  are those of \<open>StatusAlerts\<close>, \<open>Systems\<close>, \<open>Hub\<close>, \<open>HubApi\<close> and \<open>HubSetup\<close>. PocketBase runs the handlers of its serve
  hook in the order they were bound; each decides whether the next one runs.
\<close>

section \<open>State\<close>

datatype middleware = AutoLogin string | TrustedHeader string
datatype job = DeleteOldRecords | CreateLongerRecords

record 'signer app =
  ap_hub :: "'signer hub"
  ap_state :: hub_state
  ap_settings :: hub_settings
  ap_collections :: collections
  ap_middlewares :: "middleware list"
  ap_routes :: "(string \<times> string \<times> api_handler \<times> bool) list"
  ap_cron :: "(string \<times> string \<times> job) list"
  ap_page :: "(string \<Rightarrow> served) option"
  ap_hooks :: bool
  ap_serving :: bool

text \<open>What the environment and the database answer during a start.\<close>

record boot_env =
  bt_env :: environment
  bt_alert_rows :: "alert_record list option"
  bt_pending :: "(string \<times> string \<times> string) list option"
  bt_settings_ok :: bool
  bt_saves :: "string \<Rightarrow> bool"
  bt_url_path :: "string \<Rightarrow> string option"
  bt_marshal :: "public_app_info \<Rightarrow> string option"
  bt_index :: string
  bt_systems :: "system_row list option"

section \<open>The serve hook\<close>

text \<open>A handler gets the rest of the chain as \<open>e.Next\<close>; \<open>None\<close> is a panic, the flag is whether no error came back.\<close>

type_synonym 's handler = "('s \<Rightarrow> (bool \<times> 's) option) \<Rightarrow> 's \<Rightarrow> (bool \<times> 's) option"

definition trigger :: "'s handler list \<Rightarrow> ('s \<Rightarrow> (bool \<times> 's) option) \<Rightarrow> 's \<Rightarrow> (bool \<times> 's) option" where
  "trigger handlers final = foldr (\<lambda>h next. h next) handlers final"

text \<open>The alert manager fills its cache and restores the pending alerts; its errors are logged only.\<close>

definition alerts_handler :: "boot_env \<Rightarrow> 'signer app handler" where
  "alerts_handler be next ap =
     next (ap\<lparr>ap_state := (ap_state ap)\<lparr>hs_alerts := on_serve (bt_pending be) (bt_alert_rows be) (hs_alerts (ap_state ap))\<rparr>\<rparr>)"

definition initialize_app :: "boot_env \<Rightarrow> 'signer app \<Rightarrow> bool \<times> 'signer app" where
  "initialize_app be ap =
     (let (collections_ok, cs) = set_collection_auth_settings (bt_env be) (bt_saves be) (ap_collections ap);
          (ok, settings, h) = initialize (hub_get_env (bt_env be) ''APP_URL'') (bt_settings_ok be) collections_ok (ap_settings ap) (ap_hub ap)
      in (ok, ap\<lparr>ap_settings := settings, ap_hub := h, ap_collections := (if bt_settings_ok be then cs else ap_collections ap)\<rparr>))"

text \<open>Before the bootstrap the function is bound to the serve hook; afterwards it runs at once, and \<open>NewHub\<close> drops its error.\<close>

definition on_after_bootstrap_and_migrations ::
  "bool \<Rightarrow> ('s \<Rightarrow> bool \<times> 's) \<Rightarrow> 's \<Rightarrow> 's handler list \<times> 's" where
  "on_after_bootstrap_and_migrations bootstrapped fn ap =
     (if bootstrapped then ([], snd (fn ap))
      else ([\<lambda>next ap. case fn ap of (False, ap') \<Rightarrow> Some (False, ap') | (True, ap') \<Rightarrow> next ap'], ap))"

definition new_hub :: "boot_env \<Rightarrow> bool \<Rightarrow> 'signer app \<Rightarrow> 'signer app handler list \<times> 'signer app" where
  "new_hub be bootstrapped ap =
     (let (handlers, ap') = on_after_bootstrap_and_migrations bootstrapped (initialize_app be) ap
      in (alerts_handler be # handlers, ap'))"

definition register_middlewares :: "environment \<Rightarrow> middleware list" where
  "register_middlewares env =
     (let autoLogin = or_empty (hub_get_env env ''AUTO_LOGIN'');
          trustedHeader = or_empty (hub_get_env env ''TRUSTED_AUTH_HEADER'')
      in (if autoLogin \<noteq> '''' then [AutoLogin autoLogin] else []) @
         (if trustedHeader \<noteq> '''' then [TrustedHeader trustedHeader] else []))"

definition register_cron_jobs :: "(string \<times> string \<times> job) list" where
  "register_cron_jobs =
     [(''delete old records'', ''8 * * * *'', DeleteOldRecords),
      (''create longer records'', ''*/10 * * * *'', CreateLongerRecords)]"

definition hub_handler :: "boot_env \<Rightarrow> 'signer app handler" where
  "hub_handler be next ap =
     (let ap = ap\<lparr>ap_middlewares := ap_middlewares ap @ register_middlewares (bt_env be)\<rparr>;
          ap = ap\<lparr>ap_routes := ap_routes ap @ api_routes\<rparr>;
          ap = ap\<lparr>ap_cron := ap_cron ap @ register_cron_jobs\<rparr>
      in case start_server (bt_env be) (bt_url_path be) (bt_marshal be) (ap_hub ap) (bt_index be) of
           None \<Rightarrow> None
         | Some page \<Rightarrow>
             (let ap = ap\<lparr>ap_page := Some page, ap_hooks := True\<rparr>
              in case initialize_systems (bt_systems be) (ap_state ap) of
                   (False, st) \<Rightarrow> Some (False, ap\<lparr>ap_state := st\<rparr>)
                 | (True, st) \<Rightarrow> next (ap\<lparr>ap_state := st\<rparr>)))"

text \<open>The last step of the chain is PocketBase's: it listens and serves.\<close>

definition serve :: "bool \<Rightarrow> 'signer app \<Rightarrow> (bool \<times> 'signer app) option" where
  "serve ok ap = Some (ok, ap\<lparr>ap_serving := True\<rparr>)"

definition start_hub ::
  "boot_env \<Rightarrow> bool \<Rightarrow> bool \<Rightarrow> 'signer app handler list \<Rightarrow> 'signer app \<Rightarrow> (bool \<times> 'signer app) option" where
  "start_hub be is_pocket_base serve_ok handlers ap =
     (if is_pocket_base then trigger (handlers @ [hub_handler be]) (serve serve_ok) ap else Some (False, ap))"

definition boot :: "boot_env \<Rightarrow> bool \<Rightarrow> bool \<Rightarrow> bool \<Rightarrow> 'signer app \<Rightarrow> (bool \<times> 'signer app) option" where
  "boot be bootstrapped is_pocket_base serve_ok ap =
     (let (handlers, ap') = new_hub be bootstrapped ap in start_hub be is_pocket_base serve_ok handlers ap')"

section \<open>The middlewares that were bound\<close>

fun run_middleware :: "(string \<Rightarrow> 'u option) \<Rightarrow> ('u \<Rightarrow> string option) \<Rightarrow> 'u request \<Rightarrow> middleware \<Rightarrow> 'u request" where
  "run_middleware find_user new_token rq (AutoLogin email) = authorize_request_with_email find_user new_token email rq"
| "run_middleware find_user new_token rq (TrustedHeader header) =
     authorize_request_with_email find_user new_token (rq_headers rq header) rq"

lemma middlewares_applied:
  "foldl (run_middleware find_user new_token) rq (register_middlewares env) = apply_middlewares env find_user new_token rq"
  by (simp add: register_middlewares_def apply_middlewares_def Let_def)

section \<open>The systems that are started\<close>

lemma add_system_known:
  assumes "sy_id s \<noteq> ''''" and "sy_host s \<noteq> ''''"
  shows "map_of (hs_systems (snd (add_system s st))) (sy_id s) \<noteq> None"
  using assms by (simp add: add_system_def store_laws Let_def)

lemma add_system_keeps:
  assumes "map_of (hs_systems st) i \<noteq> None"
  shows "map_of (hs_systems (snd (add_system s st))) i \<noteq> None"
  using assms by (simp add: add_system_def store_laws Let_def)

lemma add_system_alerts: "hs_alerts (snd (add_system s st)) = hs_alerts st"
  by (simp add: add_system_def Let_def)

definition add_row :: "system_row \<Rightarrow> hub_state \<Rightarrow> hub_state" where
  "add_row r st = snd (add_system ((new_system (row_id r))\<lparr>sy_host := row_host r, sy_port := row_port r, sy_status := row_status r\<rparr>) st)"

lemma initialize_systems_rows:
  "initialize_systems query st = (case query of None \<Rightarrow> (False, st) | Some rows \<Rightarrow> (True, fold add_row rows st))"
proof -
  have "add_row = (\<lambda>r st. snd (add_system ((new_system (row_id r))
      \<lparr>sy_host := row_host r, sy_port := row_port r, sy_status := row_status r\<rparr>) st))"
    by (intro ext) (simp add: add_row_def)
  then show ?thesis by (simp add: initialize_systems_def split: option.split)
qed

lemma add_rows_keep:
  "map_of (hs_systems st) i \<noteq> None \<Longrightarrow> map_of (hs_systems (fold add_row rows st)) i \<noteq> None"
proof (induction rows arbitrary: st)
  case (Cons r rows)
  show ?case using Cons.IH [OF add_system_keeps [OF Cons.prems]] by (simp add: add_row_def)
qed simp

lemma add_rows_alerts: "hs_alerts (fold add_row rows st) = hs_alerts st"
  by (induction rows arbitrary: st) (simp_all add: add_row_def add_system_alerts)

lemma add_rows_known:
  "r \<in> set rows \<Longrightarrow> row_id r \<noteq> '''' \<Longrightarrow> row_host r \<noteq> '''' \<Longrightarrow> map_of (hs_systems (fold add_row rows st)) (row_id r) \<noteq> None"
proof (induction rows arbitrary: st)
  case (Cons q rows)
  show ?case
  proof (cases "r = q")
    case True
    have "map_of (hs_systems (add_row r st)) (row_id r) \<noteq> None"
      using Cons.prems add_system_known [of "(new_system (row_id r))\<lparr>sy_host := row_host r, sy_port := row_port r, sy_status := row_status r\<rparr>" st]
      by (simp add: add_row_def new_system_def)
    then show ?thesis using add_rows_keep True by simp
  qed (use Cons in simp)
qed simp


section \<open>A start as a whole\<close>

lemma boot_fresh:
  "boot be False True serve_ok ap =
     (case initialize_app be (ap\<lparr>ap_state := (ap_state ap)\<lparr>hs_alerts := on_serve (bt_pending be) (bt_alert_rows be) (hs_alerts (ap_state ap))\<rparr>\<rparr>) of
        (False, ap') \<Rightarrow> Some (False, ap')
      | (True, ap') \<Rightarrow> hub_handler be (serve serve_ok) ap')"
  by (simp add: boot_def new_hub_def on_after_bootstrap_and_migrations_def start_hub_def trigger_def alerts_handler_def)

text \<open>On an application that is already bootstrapped the error of the initialisation is dropped, and the hub serves.\<close>

lemma bootstrapped_error_dropped:
  assumes "\<not> bt_settings_ok be" and "bt_systems be = Some rows"
    and "start_server (bt_env be) (bt_url_path be) (bt_marshal be) (ap_hub (snd (initialize_app be ap))) (bt_index be) \<noteq> None"
  shows "\<exists>ap'. boot be True True True ap = Some (True, ap') \<and> ap_serving ap' \<and> ap_collections ap' = ap_collections ap"
proof -
  have "ap_collections (snd (initialize_app be ap)) = ap_collections ap"
    using assms(1) by (simp add: initialize_app_def split_beta Let_def)
  then show ?thesis
    using assms(2,3)
    by (auto simp: boot_def new_hub_def on_after_bootstrap_and_migrations_def start_hub_def trigger_def alerts_handler_def
        hub_handler_def initialize_systems_rows serve_def Let_def)
qed

lemma initialize_app_fields:
  assumes "initialize_app be ap = (ok, ap')"
  shows "ok \<longleftrightarrow> bt_settings_ok be \<and> fst (set_collection_auth_settings (bt_env be) (bt_saves be) (ap_collections ap))"
    and "ok \<Longrightarrow> ap_collections ap' = snd (set_collection_auth_settings (bt_env be) (bt_saves be) (ap_collections ap))"
    and "set_batch_enabled (ap_settings ap')" and "hub_pub_key (ap_hub ap') = hub_pub_key (ap_hub ap)"
    and "ap_state ap' = ap_state ap" and "ap_serving ap' = ap_serving ap" and "ap_routes ap' = ap_routes ap"
    and "ap_cron ap' = ap_cron ap" and "ap_middlewares ap' = ap_middlewares ap" and "ap_page ap' = ap_page ap"
  using assms by (auto simp: initialize_app_def initialize_def Let_def split: prod.splits option.splits if_splits)

lemma hub_handler_fields:
  assumes "hub_handler be (serve serve_ok) ap = Some (ok, ap')" and "\<not> ap_serving ap"
  shows "ap_serving ap' \<longleftrightarrow> bt_systems be \<noteq> None"
    and "ap_routes ap' = ap_routes ap @ api_routes" and "ap_cron ap' = ap_cron ap @ register_cron_jobs"
    and "ap_middlewares ap' = ap_middlewares ap @ register_middlewares (bt_env be)" and "ap_page ap' \<noteq> None"
    and "ap_collections ap' = ap_collections ap" and "ap_settings ap' = ap_settings ap" and "ap_hub ap' = ap_hub ap"
    and "bt_systems be = Some rows \<Longrightarrow> ap_state ap' = fold add_row rows (ap_state ap)"
    and "bt_systems be = None \<Longrightarrow> ap_state ap' = ap_state ap" and "\<not> ap_serving ap' \<Longrightarrow> \<not> ok"
  using assms by (auto simp: hub_handler_def serve_def initialize_systems_rows Let_def split: option.splits)


text \<open>
  No start loads the key pair: \<open>GetSSHKey\<close> has no caller, so the public key the interface shows stays what it was,
  the empty string.
\<close>

lemma key_never_loaded:
  assumes "boot be False is_pocket_base serve_ok ap = Some (ok, ap')"
  shows "hub_pub_key (ap_hub ap') = hub_pub_key (ap_hub ap)"
proof (cases is_pocket_base)
  case True
  define ap1 where "ap1 = ap\<lparr>ap_state := (ap_state ap)\<lparr>hs_alerts := on_serve (bt_pending be) (bt_alert_rows be) (hs_alerts (ap_state ap))\<rparr>\<rparr>"
  obtain ok2 ap2 where i: "initialize_app be ap1 = (ok2, ap2)" by force
  have "hub_pub_key (ap_hub ap2) = hub_pub_key (ap_hub ap)" using initialize_app_fields(4) [OF i] by (simp add: ap1_def)
  moreover have "ap_hub ap' = ap_hub ap2"
    using assms True i
    by (auto simp: boot_fresh ap1_def [symmetric] hub_handler_def serve_def Let_def split: bool.splits option.splits prod.splits)
  ultimately show ?thesis by simp
next
  case False
  then show ?thesis using assms
    by (auto simp: boot_def new_hub_def on_after_bootstrap_and_migrations_def start_hub_def)
qed



definition demo_boot :: boot_env where
  "demo_boot = \<lparr>bt_env = (\<lambda>_. None), bt_alert_rows = Some [], bt_pending = Some [], bt_settings_ok = True, bt_saves = (\<lambda>_. True),
     bt_url_path = Some, bt_marshal = (\<lambda>_. None), bt_index = ''<html>'', bt_systems = Some [demo_system]\<rparr>"

definition demo_app :: "string app" where
  "demo_app = \<lparr>ap_hub = \<lparr>hub_signer = None, hub_pub_key = '''', hub_app_url = ''''\<rparr>, ap_state = hub_start demo_start,
     ap_settings = \<lparr>set_batch_enabled = False, set_app_url = ''''\<rparr>,
     ap_collections = (\<lambda>_. Some \<lparr>pc_rules = no_rules, pc_password_auth = True, pc_identity_fields = []\<rparr>),
     ap_middlewares = [], ap_routes = [], ap_cron = [], ap_page = None, ap_hooks = False, ap_serving = False\<rparr>"

lemma demo_rules_applied:
  "fst (set_collection_auth_settings (bt_env demo_boot) (bt_saves demo_boot) (ap_collections demo_app))"
  by (simp add: demo_boot_def demo_app_def set_collection_auth_settings_def save_collection_def bind_ok_def)

lemma demo_boots: "\<exists>ok ap'. boot demo_boot False True True demo_app = Some (ok, ap')"
proof -
  have "\<exists>page. start_server (bt_env demo_boot) (bt_url_path demo_boot) (bt_marshal demo_boot) h (bt_index demo_boot) = Some page"
    for h :: "string hub"
    by (simp add: demo_boot_def start_server_def modify_index_html_def get_public_app_info_def)
  then obtain page where page: "\<And>h :: string hub. start_server (bt_env demo_boot) (bt_url_path demo_boot) (bt_marshal demo_boot) h
      (bt_index demo_boot) = Some (page h)" by metis
  have "hub_handler demo_boot (serve True) ap \<noteq> None" for ap :: "string app"
    by (cases "bt_systems demo_boot") (simp_all add: hub_handler_def page serve_def initialize_systems_rows Let_def)
  then have "boot demo_boot False True True demo_app \<noteq> None"
    by (simp add: boot_fresh split: prod.split bool.split)
  then show ?thesis by auto
qed


end
