(* ===== verification/Schema.thy ===== *)
theory Schema
  imports HubSetup RecordsStore
begin

text \<open>
  \<^verbatim>\<open>internal/migrations/0_collections_snapshot_0_19_0_dev_1.go\<close>: the collections of the database, as the JSON
  document the migration imports, and the filter it applies. What the document says about a field is read off it, so that
  what the hub stores can be compared with it: the hub writes most rows without PocketBase's validation.
\<close>

section \<open>JSON\<close>

datatype json = JNull | JBool bool | JInt int | JStr string | JArr "json list" | JObj "(string \<times> json) list"

fun jget :: "string \<Rightarrow> json \<Rightarrow> json option" where
  "jget k (JObj m) = map_of m k"
| "jget k _ = None"

section \<open>The document\<close>

text \<open>One definition for each collection, in the order of the document.\<close>

definition alerts_collection :: json where
  "alerts_collection = JObj
   [(''id'', JStr ''elngm8x1l60zi2v''),
    (''listRule'', JStr ''@request.auth.id != \"\" && user = @request.auth.id''),
    (''viewRule'', JNull),
    (''createRule'', JStr ''@request.auth.id != \"\" && user = @request.auth.id''),
    (''updateRule'', JStr ''@request.auth.id != \"\" && user = @request.auth.id''),
    (''deleteRule'', JStr ''@request.auth.id != \"\" && user = @request.auth.id''),
    (''name'', JStr ''alerts''),
    (''type'', JStr ''base''),
    (''fields'', JArr
     [JObj [(''autogeneratePattern'', JStr ''[a-z0-9]{15}''), (''hidden'', JBool False), (''id'',
       JStr ''text3208210256''), (''max'', JInt 15), (''min'', JInt 15), (''name'', JStr ''id''), (''pattern'',
       JStr ''^[a-z0-9]+$''), (''presentable'', JBool False), (''primaryKey'', JBool True),
       (''required'', JBool True), (''system'', JBool True), (''type'', JStr ''text'')],
      JObj [(''cascadeDelete'', JBool True), (''collectionId'', JStr ''_pb_users_auth_''), (''hidden'', JBool False),
       (''id'', JStr ''hn5ly3vi''), (''maxSelect'', JInt 1), (''minSelect'', JInt 0), (''name'', JStr ''user''),
       (''presentable'', JBool False), (''required'', JBool True), (''system'', JBool False), (''type'',
       JStr ''relation'')],
      JObj [(''cascadeDelete'', JBool True), (''collectionId'', JStr ''2hz5ncl8tizk5nx''), (''hidden'', JBool False),
       (''id'', JStr ''g5sl3jdg''), (''maxSelect'', JInt 1), (''minSelect'', JInt 0), (''name'', JStr ''system''),
       (''presentable'', JBool False), (''required'', JBool True), (''system'', JBool False), (''type'',
       JStr ''relation'')],
      JObj [(''hidden'', JBool False), (''id'', JStr ''zj3ingrv''), (''maxSelect'', JInt 1), (''name'',
       JStr ''name''), (''presentable'', JBool False), (''required'', JBool True), (''system'', JBool False),
       (''type'', JStr ''select''), (''values'', JArr [JStr ''Status'', JStr ''CPU'', JStr ''Memory'', JStr ''Disk'',
       JStr ''Temperature'', JStr ''Bandwidth'', JStr ''GPU'', JStr ''LoadAvg1'', JStr ''LoadAvg5'',
       JStr ''LoadAvg15'', JStr ''Battery''])],
      JObj [(''hidden'', JBool False), (''id'', JStr ''o2ablxvn''), (''max'', JNull), (''min'', JNull), (''name'',
       JStr ''value''), (''onlyInt'', JBool False), (''presentable'', JBool False), (''required'', JBool False),
       (''system'', JBool False), (''type'', JStr ''number'')],
      JObj [(''hidden'', JBool False), (''id'', JStr ''fstdehcq''), (''max'', JInt 60), (''min'', JNull), (''name'',
       JStr ''min''), (''onlyInt'', JBool True), (''presentable'', JBool False), (''required'', JBool False),
       (''system'', JBool False), (''type'', JStr ''number'')],
      JObj [(''hidden'', JBool False), (''id'', JStr ''6hgdf6hs''), (''name'', JStr ''triggered''),
       (''presentable'', JBool False), (''required'', JBool False), (''system'', JBool False), (''type'',
       JStr ''bool'')],
      JObj [(''hidden'', JBool False), (''id'', JStr ''autodate2990389176''), (''name'', JStr ''created''),
       (''onCreate'', JBool True), (''onUpdate'', JBool False), (''presentable'', JBool False),
       (''system'', JBool False), (''type'', JStr ''autodate'')],
      JObj [(''hidden'', JBool False), (''id'', JStr ''autodate3332085495''), (''name'', JStr ''updated''),
       (''onCreate'', JBool True), (''onUpdate'', JBool True), (''presentable'', JBool False),
       (''system'', JBool False), (''type'', JStr ''autodate'')]]),
    (''indexes'', JArr [JStr (''CREATE UNIQUE INDEX `idx_MnhEt21L5r` ON `alerts` ('' @ [CHR 0x0A]
    @ ''  `user`,'' @ [CHR 0x0A] @ ''  `system`,'' @ [CHR 0x0A] @ ''  `name`'' @ [CHR 0x0A] @ '')'')]),
    (''system'', JBool False)]"

definition alerts_history_collection :: json where
  "alerts_history_collection = JObj
   [(''id'', JStr ''pbc_1697146157''),
    (''listRule'', JStr ''@request.auth.id != \"\" && user = @request.auth.id''),
    (''viewRule'', JNull),
    (''createRule'', JNull),
    (''updateRule'', JNull),
    (''deleteRule'', JStr ''@request.auth.id != \"\" && user = @request.auth.id''),
    (''name'', JStr ''alerts_history''),
    (''type'', JStr ''base''),
    (''fields'', JArr
     [JObj [(''autogeneratePattern'', JStr ''[a-z0-9]{15}''), (''hidden'', JBool False), (''id'',
       JStr ''text3208210256''), (''max'', JInt 15), (''min'', JInt 15), (''name'', JStr ''id''), (''pattern'',
       JStr ''^[a-z0-9]+$''), (''presentable'', JBool False), (''primaryKey'', JBool True),
       (''required'', JBool True), (''system'', JBool True), (''type'', JStr ''text'')],
      JObj [(''cascadeDelete'', JBool True), (''collectionId'', JStr ''_pb_users_auth_''), (''hidden'', JBool False),
       (''id'', JStr ''relation2375276105''), (''maxSelect'', JInt 1), (''minSelect'', JInt 0), (''name'',
       JStr ''user''), (''presentable'', JBool False), (''required'', JBool True), (''system'', JBool False),
       (''type'', JStr ''relation'')],
      JObj [(''cascadeDelete'', JBool True), (''collectionId'', JStr ''2hz5ncl8tizk5nx''), (''hidden'', JBool False),
       (''id'', JStr ''relation3377271179''), (''maxSelect'', JInt 1), (''minSelect'', JInt 0), (''name'',
       JStr ''system''), (''presentable'', JBool False), (''required'', JBool True), (''system'', JBool False),
       (''type'', JStr ''relation'')],
      JObj [(''autogeneratePattern'', JStr ''''), (''hidden'', JBool False), (''id'', JStr ''text2466471794''),
       (''max'', JInt 0), (''min'', JInt 0), (''name'', JStr ''alert_id''), (''pattern'', JStr ''''),
       (''presentable'', JBool False), (''primaryKey'', JBool False), (''required'', JBool False),
       (''system'', JBool False), (''type'', JStr ''text'')],
      JObj [(''autogeneratePattern'', JStr ''''), (''hidden'', JBool False), (''id'', JStr ''text1579384326''),
       (''max'', JInt 0), (''min'', JInt 0), (''name'', JStr ''name''), (''pattern'', JStr ''''),
       (''presentable'', JBool False), (''primaryKey'', JBool False), (''required'', JBool True),
       (''system'', JBool False), (''type'', JStr ''text'')],
      JObj [(''hidden'', JBool False), (''id'', JStr ''number494360628''), (''max'', JNull), (''min'', JNull),
       (''name'', JStr ''value''), (''onlyInt'', JBool False), (''presentable'', JBool False),
       (''required'', JBool False), (''system'', JBool False), (''type'', JStr ''number'')],
      JObj [(''hidden'', JBool False), (''id'', JStr ''autodate2990389176''), (''name'', JStr ''created''),
       (''onCreate'', JBool True), (''onUpdate'', JBool False), (''presentable'', JBool False),
       (''system'', JBool False), (''type'', JStr ''autodate'')],
      JObj [(''hidden'', JBool False), (''id'', JStr ''date2276568630''), (''max'', JStr ''''), (''min'', JStr ''''),
       (''name'', JStr ''resolved''), (''presentable'', JBool False), (''required'', JBool False),
       (''system'', JBool False), (''type'', JStr ''date'')]]),
    (''indexes'', JArr [JStr ''CREATE INDEX `idx_YdGnup5aqB` ON `alerts_history` (`user`)'',
    JStr ''CREATE INDEX `idx_taLet9VdME` ON `alerts_history` (`created`)'']),
    (''system'', JBool False)]"

definition container_stats_collection :: json where
  "container_stats_collection = JObj
   [(''id'', JStr ''juohu4jipgc13v7''),
    (''listRule'', JNull),
    (''viewRule'', JNull),
    (''createRule'', JNull),
    (''updateRule'', JNull),
    (''deleteRule'', JNull),
    (''name'', JStr ''container_stats''),
    (''type'', JStr ''base''),
    (''fields'', JArr
     [JObj [(''autogeneratePattern'', JStr ''[a-z0-9]{15}''), (''hidden'', JBool False), (''id'',
       JStr ''text3208210256''), (''max'', JInt 15), (''min'', JInt 15), (''name'', JStr ''id''), (''pattern'',
       JStr ''^[a-z0-9]+$''), (''presentable'', JBool False), (''primaryKey'', JBool True),
       (''required'', JBool True), (''system'', JBool True), (''type'', JStr ''text'')],
      JObj [(''cascadeDelete'', JBool True), (''collectionId'', JStr ''2hz5ncl8tizk5nx''), (''hidden'', JBool False),
       (''id'', JStr ''hutcu6ps''), (''maxSelect'', JInt 1), (''minSelect'', JInt 0), (''name'', JStr ''system''),
       (''presentable'', JBool False), (''required'', JBool True), (''system'', JBool False), (''type'',
       JStr ''relation'')],
      JObj [(''hidden'', JBool False), (''id'', JStr ''r39hhnil''), (''maxSize'', JInt 2000000), (''name'',
       JStr ''stats''), (''presentable'', JBool False), (''required'', JBool True), (''system'', JBool False),
       (''type'', JStr ''json'')],
      JObj [(''hidden'', JBool False), (''id'', JStr ''vo7iuj96''), (''maxSelect'', JInt 1), (''name'',
       JStr ''type''), (''presentable'', JBool False), (''required'', JBool True), (''system'', JBool False),
       (''type'', JStr ''select''), (''values'', JArr [JStr ''1m'', JStr ''10m'', JStr ''20m'', JStr ''120m'',
       JStr ''480m''])],
      JObj [(''hidden'', JBool False), (''id'', JStr ''autodate2990389176''), (''name'', JStr ''created''),
       (''onCreate'', JBool True), (''onUpdate'', JBool False), (''presentable'', JBool False),
       (''system'', JBool False), (''type'', JStr ''autodate'')],
      JObj [(''hidden'', JBool False), (''id'', JStr ''autodate3332085495''), (''name'', JStr ''updated''),
       (''onCreate'', JBool True), (''onUpdate'', JBool True), (''presentable'', JBool False),
       (''system'', JBool False), (''type'', JStr ''autodate'')]]),
    (''indexes'', JArr [JStr (''CREATE INDEX `idx_d87OiXGZD8` ON `container_stats` ('' @ [CHR 0x0A]
    @ ''  `system`,'' @ [CHR 0x0A] @ ''  `type`,'' @ [CHR 0x0A] @ ''  `created`'' @ [CHR 0x0A] @ '')'')]),
    (''system'', JBool False)]"

definition fingerprints_collection :: json where
  "fingerprints_collection = JObj
   [(''id'', JStr ''pbc_3663931638''),
    (''listRule'', JNull),
    (''viewRule'', JNull),
    (''createRule'', JNull),
    (''updateRule'', JNull),
    (''deleteRule'', JNull),
    (''name'', JStr ''fingerprints''),
    (''type'', JStr ''base''),
    (''fields'', JArr
     [JObj [(''autogeneratePattern'', JStr ''[a-z0-9]{9}''), (''hidden'', JBool False), (''id'',
       JStr ''text3208210256''), (''max'', JInt 15), (''min'', JInt 9), (''name'', JStr ''id''), (''pattern'',
       JStr ''^[a-z0-9]+$''), (''presentable'', JBool False), (''primaryKey'', JBool True),
       (''required'', JBool True), (''system'', JBool True), (''type'', JStr ''text'')],
      JObj [(''cascadeDelete'', JBool True), (''collectionId'', JStr ''2hz5ncl8tizk5nx''), (''hidden'', JBool False),
       (''id'', JStr ''relation3377271179''), (''maxSelect'', JInt 1), (''minSelect'', JInt 0), (''name'',
       JStr ''system''), (''presentable'', JBool False), (''required'', JBool True), (''system'', JBool False),
       (''type'', JStr ''relation'')],
      JObj [(''autogeneratePattern'', JStr ''[a-zA-Z9-9]{20}''), (''hidden'', JBool False), (''id'',
       JStr ''text1597481275''), (''max'', JInt 255), (''min'', JInt 9), (''name'', JStr ''token''), (''pattern'',
       JStr ''''), (''presentable'', JBool False), (''primaryKey'', JBool False), (''required'', JBool True),
       (''system'', JBool False), (''type'', JStr ''text'')],
      JObj [(''autogeneratePattern'', JStr ''''), (''hidden'', JBool False), (''id'', JStr ''text4228609354''),
       (''max'', JInt 255), (''min'', JInt 9), (''name'', JStr ''fingerprint''), (''pattern'', JStr ''''),
       (''presentable'', JBool False), (''primaryKey'', JBool False), (''required'', JBool False),
       (''system'', JBool False), (''type'', JStr ''text'')],
      JObj [(''hidden'', JBool False), (''id'', JStr ''autodate3332085495''), (''name'', JStr ''updated''),
       (''onCreate'', JBool True), (''onUpdate'', JBool True), (''presentable'', JBool False),
       (''system'', JBool False), (''type'', JStr ''autodate'')]]),
    (''indexes'', JArr [JStr ''CREATE INDEX `idx_p9qZlu26po` ON `fingerprints` (`token`)'',
    JStr ''CREATE UNIQUE INDEX `idx_ngboulGMYw` ON `fingerprints` (`system`)'']),
    (''system'', JBool False)]"

definition system_stats_collection :: json where
  "system_stats_collection = JObj
   [(''id'', JStr ''ej9oowivz8b2mht''),
    (''listRule'', JNull),
    (''viewRule'', JNull),
    (''createRule'', JNull),
    (''updateRule'', JNull),
    (''deleteRule'', JNull),
    (''name'', JStr ''system_stats''),
    (''type'', JStr ''base''),
    (''fields'', JArr
     [JObj [(''autogeneratePattern'', JStr ''[a-z0-9]{15}''), (''hidden'', JBool False), (''id'',
       JStr ''text3208210256''), (''max'', JInt 15), (''min'', JInt 15), (''name'', JStr ''id''), (''pattern'',
       JStr ''^[a-z0-9]+$''), (''presentable'', JBool False), (''primaryKey'', JBool True),
       (''required'', JBool True), (''system'', JBool True), (''type'', JStr ''text'')],
      JObj [(''cascadeDelete'', JBool True), (''collectionId'', JStr ''2hz5ncl8tizk5nx''), (''hidden'', JBool False),
       (''id'', JStr ''h9sg148r''), (''maxSelect'', JInt 1), (''minSelect'', JInt 0), (''name'', JStr ''system''),
       (''presentable'', JBool False), (''required'', JBool True), (''system'', JBool False), (''type'',
       JStr ''relation'')],
      JObj [(''hidden'', JBool False), (''id'', JStr ''azftn0be''), (''maxSize'', JInt 2000000), (''name'',
       JStr ''stats''), (''presentable'', JBool False), (''required'', JBool True), (''system'', JBool False),
       (''type'', JStr ''json'')],
      JObj [(''hidden'', JBool False), (''id'', JStr ''m1ekhli3''), (''maxSelect'', JInt 1), (''name'',
       JStr ''type''), (''presentable'', JBool False), (''required'', JBool True), (''system'', JBool False),
       (''type'', JStr ''select''), (''values'', JArr [JStr ''1m'', JStr ''10m'', JStr ''20m'', JStr ''120m'',
       JStr ''480m''])],
      JObj [(''hidden'', JBool False), (''id'', JStr ''autodate2990389176''), (''name'', JStr ''created''),
       (''onCreate'', JBool True), (''onUpdate'', JBool False), (''presentable'', JBool False),
       (''system'', JBool False), (''type'', JStr ''autodate'')],
      JObj [(''hidden'', JBool False), (''id'', JStr ''autodate3332085495''), (''name'', JStr ''updated''),
       (''onCreate'', JBool True), (''onUpdate'', JBool True), (''presentable'', JBool False),
       (''system'', JBool False), (''type'', JStr ''autodate'')]]),
    (''indexes'', JArr [JStr (''CREATE INDEX `idx_GxIee0j` ON `system_stats` ('' @ [CHR 0x0A]
    @ ''  `system`,'' @ [CHR 0x0A] @ ''  `type`,'' @ [CHR 0x0A] @ ''  `created`'' @ [CHR 0x0A] @ '')'')]),
    (''system'', JBool False)]"

definition user_settings_collection :: json where
  "user_settings_collection = JObj
   [(''id'', JStr ''4afacsdnlu8q8r2''),
    (''listRule'', JStr ''@request.auth.id != \"\" && user = @request.auth.id''),
    (''viewRule'', JNull),
    (''createRule'', JStr ''@request.auth.id != \"\" && user = @request.auth.id''),
    (''updateRule'', JStr ''@request.auth.id != \"\" && user = @request.auth.id''),
    (''deleteRule'', JNull),
    (''name'', JStr ''user_settings''),
    (''type'', JStr ''base''),
    (''fields'', JArr
     [JObj [(''autogeneratePattern'', JStr ''[a-z0-9]{15}''), (''hidden'', JBool False), (''id'',
       JStr ''text3208210256''), (''max'', JInt 15), (''min'', JInt 15), (''name'', JStr ''id''), (''pattern'',
       JStr ''^[a-z0-9]+$''), (''presentable'', JBool False), (''primaryKey'', JBool True),
       (''required'', JBool True), (''system'', JBool True), (''type'', JStr ''text'')],
      JObj [(''cascadeDelete'', JBool True), (''collectionId'', JStr ''_pb_users_auth_''), (''hidden'', JBool False),
       (''id'', JStr ''d5vztyxa''), (''maxSelect'', JInt 1), (''minSelect'', JInt 0), (''name'', JStr ''user''),
       (''presentable'', JBool False), (''required'', JBool True), (''system'', JBool False), (''type'',
       JStr ''relation'')],
      JObj [(''hidden'', JBool False), (''id'', JStr ''xcx4qgqq''), (''maxSize'', JInt 2000000), (''name'',
       JStr ''settings''), (''presentable'', JBool False), (''required'', JBool False), (''system'', JBool False),
       (''type'', JStr ''json'')],
      JObj [(''hidden'', JBool False), (''id'', JStr ''autodate2990389176''), (''name'', JStr ''created''),
       (''onCreate'', JBool True), (''onUpdate'', JBool False), (''presentable'', JBool False),
       (''system'', JBool False), (''type'', JStr ''autodate'')],
      JObj [(''hidden'', JBool False), (''id'', JStr ''autodate3332085495''), (''name'', JStr ''updated''),
       (''onCreate'', JBool True), (''onUpdate'', JBool True), (''presentable'', JBool False),
       (''system'', JBool False), (''type'', JStr ''autodate'')]]),
    (''indexes'', JArr [JStr ''CREATE UNIQUE INDEX `idx_30Lwgf2` ON `user_settings` (`user`)'']),
    (''system'', JBool False)]"

definition systems_collection :: json where
  "systems_collection = JObj
   [(''id'', JStr ''2hz5ncl8tizk5nx''),
    (''listRule'', JNull),
    (''viewRule'', JNull),
    (''createRule'', JNull),
    (''updateRule'', JNull),
    (''deleteRule'', JNull),
    (''name'', JStr ''systems''),
    (''type'', JStr ''base''),
    (''fields'', JArr
     [JObj [(''autogeneratePattern'', JStr ''[a-z0-9]{15}''), (''hidden'', JBool False), (''id'',
       JStr ''text3208210256''), (''max'', JInt 15), (''min'', JInt 15), (''name'', JStr ''id''), (''pattern'',
       JStr ''^[a-z0-9]+$''), (''presentable'', JBool False), (''primaryKey'', JBool True),
       (''required'', JBool True), (''system'', JBool True), (''type'', JStr ''text'')],
      JObj [(''autogeneratePattern'', JStr ''''), (''hidden'', JBool False), (''id'', JStr ''7xloxkwk''),
       (''max'', JInt 0), (''min'', JInt 0), (''name'', JStr ''name''), (''pattern'', JStr ''''),
       (''presentable'', JBool False), (''primaryKey'', JBool False), (''required'', JBool True),
       (''system'', JBool False), (''type'', JStr ''text'')],
      JObj [(''hidden'', JBool False), (''id'', JStr ''waj7seaf''), (''maxSelect'', JInt 1), (''name'',
       JStr ''status''), (''presentable'', JBool False), (''required'', JBool False), (''system'', JBool False),
       (''type'', JStr ''select''), (''values'', JArr [JStr ''up'', JStr ''down'', JStr ''paused'',
       JStr ''pending''])],
      JObj [(''autogeneratePattern'', JStr ''''), (''hidden'', JBool False), (''id'', JStr ''ve781smf''),
       (''max'', JInt 0), (''min'', JInt 0), (''name'', JStr ''host''), (''pattern'', JStr ''''),
       (''presentable'', JBool False), (''primaryKey'', JBool False), (''required'', JBool True),
       (''system'', JBool False), (''type'', JStr ''text'')],
      JObj [(''autogeneratePattern'', JStr ''''), (''hidden'', JBool False), (''id'', JStr ''pij0k2jk''),
       (''max'', JInt 0), (''min'', JInt 0), (''name'', JStr ''port''), (''pattern'', JStr ''''),
       (''presentable'', JBool False), (''primaryKey'', JBool False), (''required'', JBool False),
       (''system'', JBool False), (''type'', JStr ''text'')],
      JObj [(''hidden'', JBool False), (''id'', JStr ''qoq64ntl''), (''maxSize'', JInt 2000000), (''name'',
       JStr ''info''), (''presentable'', JBool False), (''required'', JBool False), (''system'', JBool False),
       (''type'', JStr ''json'')],
      JObj [(''cascadeDelete'', JBool True), (''collectionId'', JStr ''_pb_users_auth_''), (''hidden'', JBool False),
       (''id'', JStr ''jcarjnjj''), (''maxSelect'', JInt 2147483647), (''minSelect'', JInt 0), (''name'',
       JStr ''users''), (''presentable'', JBool False), (''required'', JBool True), (''system'', JBool False),
       (''type'', JStr ''relation'')],
      JObj [(''hidden'', JBool False), (''id'', JStr ''autodate2990389176''), (''name'', JStr ''created''),
       (''onCreate'', JBool True), (''onUpdate'', JBool False), (''presentable'', JBool False),
       (''system'', JBool False), (''type'', JStr ''autodate'')],
      JObj [(''hidden'', JBool False), (''id'', JStr ''autodate3332085495''), (''name'', JStr ''updated''),
       (''onCreate'', JBool True), (''onUpdate'', JBool True), (''presentable'', JBool False),
       (''system'', JBool False), (''type'', JStr ''autodate'')]]),
    (''indexes'', JArr [JStr ''CREATE INDEX `idx_systems_status` ON `systems` (`status`)'']),
    (''system'', JBool False)]"

definition users_collection :: json where
  "users_collection = JObj
   [(''id'', JStr ''_pb_users_auth_''),
    (''listRule'', JStr ''id = @request.auth.id''),
    (''viewRule'', JStr ''id = @request.auth.id''),
    (''createRule'', JNull),
    (''updateRule'', JNull),
    (''deleteRule'', JNull),
    (''name'', JStr ''users''),
    (''type'', JStr ''auth''),
    (''fields'', JArr
     [JObj [(''autogeneratePattern'', JStr ''[a-z0-9]{15}''), (''hidden'', JBool False), (''id'',
       JStr ''text3208210256''), (''max'', JInt 15), (''min'', JInt 15), (''name'', JStr ''id''), (''pattern'',
       JStr ''^[a-z0-9]+$''), (''presentable'', JBool False), (''primaryKey'', JBool True),
       (''required'', JBool True), (''system'', JBool True), (''type'', JStr ''text'')],
      JObj [(''cost'', JInt 10), (''hidden'', JBool True), (''id'', JStr ''password901924565''), (''max'', JInt 0),
       (''min'', JInt 8), (''name'', JStr ''password''), (''pattern'', JStr ''''), (''presentable'', JBool False),
       (''required'', JBool True), (''system'', JBool True), (''type'', JStr ''password'')],
      JObj [(''autogeneratePattern'', JStr ''[a-zA-Z0-9_]{50}''), (''hidden'', JBool True), (''id'',
       JStr ''text2504183744''), (''max'', JInt 60), (''min'', JInt 30), (''name'', JStr ''tokenKey''), (''pattern'',
       JStr ''''), (''presentable'', JBool False), (''primaryKey'', JBool False), (''required'', JBool True),
       (''system'', JBool True), (''type'', JStr ''text'')],
      JObj [(''exceptDomains'', JNull), (''hidden'', JBool False), (''id'', JStr ''email3885137012''), (''name'',
       JStr ''email''), (''onlyDomains'', JNull), (''presentable'', JBool False), (''required'', JBool True),
       (''system'', JBool True), (''type'', JStr ''email'')],
      JObj [(''hidden'', JBool False), (''id'', JStr ''bool1547992806''), (''name'', JStr ''emailVisibility''),
       (''presentable'', JBool False), (''required'', JBool False), (''system'', JBool True), (''type'',
       JStr ''bool'')],
      JObj [(''hidden'', JBool False), (''id'', JStr ''bool256245529''), (''name'', JStr ''verified''),
       (''presentable'', JBool False), (''required'', JBool False), (''system'', JBool True), (''type'',
       JStr ''bool'')],
      JObj [(''autogeneratePattern'', JStr ''users[0-9]{6}''), (''hidden'', JBool False), (''id'',
       JStr ''text4166911607''), (''max'', JInt 150), (''min'', JInt 3), (''name'', JStr ''username''), (''pattern'',
       JStr (''^['' @ [CHR 0x5C] @ ''w]['' @ [CHR 0x5C] @ ''w'' @ [CHR 0x5C] @ ''.'' @ [CHR 0x5C] @ ''-]*$'')),
       (''presentable'', JBool False), (''primaryKey'', JBool False), (''required'', JBool False),
       (''system'', JBool False), (''type'', JStr ''text'')],
      JObj [(''hidden'', JBool False), (''id'', JStr ''qkbp58ae''), (''maxSelect'', JInt 1), (''name'',
       JStr ''role''), (''presentable'', JBool False), (''required'', JBool False), (''system'', JBool False),
       (''type'', JStr ''select''), (''values'', JArr [JStr ''user'', JStr ''admin'', JStr ''readonly''])],
      JObj [(''hidden'', JBool False), (''id'', JStr ''autodate2990389176''), (''name'', JStr ''created''),
       (''onCreate'', JBool True), (''onUpdate'', JBool False), (''presentable'', JBool False),
       (''system'', JBool False), (''type'', JStr ''autodate'')],
      JObj [(''hidden'', JBool False), (''id'', JStr ''autodate3332085495''), (''name'', JStr ''updated''),
       (''onCreate'', JBool True), (''onUpdate'', JBool True), (''presentable'', JBool False),
       (''system'', JBool False), (''type'', JStr ''autodate'')]]),
    (''indexes'', JArr [JStr ''CREATE UNIQUE INDEX `__pb_users_auth__username_idx` ON `users` (username COLLATE NOCASE)'',
    JStr (''CREATE UNIQUE INDEX `__pb_users_auth__email_idx` ON `users` (`email`) WHERE `email` != '' @ [CHR 0x27]
    @ [CHR 0x27]), JStr ''CREATE UNIQUE INDEX `__pb_users_auth__tokenKey_idx` ON `users` (`tokenKey`)'']),
    (''system'', JBool False),
    (''authRule'', JStr ''''),
    (''manageRule'', JNull)]"

definition containers_collection :: json where
  "containers_collection = JObj
   [(''id'', JStr ''pbc_1864144027''),
    (''listRule'', JNull),
    (''viewRule'', JNull),
    (''createRule'', JNull),
    (''updateRule'', JNull),
    (''deleteRule'', JNull),
    (''name'', JStr ''containers''),
    (''type'', JStr ''base''),
    (''fields'', JArr
     [JObj [(''autogeneratePattern'', JStr ''[a-f0-9]{6}''), (''hidden'', JBool False), (''id'',
       JStr ''text3208210256''), (''max'', JInt 12), (''min'', JInt 6), (''name'', JStr ''id''), (''pattern'',
       JStr ''^[a-f0-9]+$''), (''presentable'', JBool False), (''primaryKey'', JBool True),
       (''required'', JBool True), (''system'', JBool True), (''type'', JStr ''text'')],
      JObj [(''cascadeDelete'', JBool False), (''collectionId'', JStr ''2hz5ncl8tizk5nx''),
       (''hidden'', JBool False), (''id'', JStr ''relation3377271179''), (''maxSelect'', JInt 1),
       (''minSelect'', JInt 0), (''name'', JStr ''system''), (''presentable'', JBool False),
       (''required'', JBool False), (''system'', JBool False), (''type'', JStr ''relation'')],
      JObj [(''autogeneratePattern'', JStr ''''), (''hidden'', JBool False), (''id'', JStr ''text1579384326''),
       (''max'', JInt 0), (''min'', JInt 0), (''name'', JStr ''name''), (''pattern'', JStr ''''),
       (''presentable'', JBool False), (''primaryKey'', JBool False), (''required'', JBool False),
       (''system'', JBool False), (''type'', JStr ''text'')],
      JObj [(''autogeneratePattern'', JStr ''''), (''hidden'', JBool False), (''id'', JStr ''text2063623452''),
       (''max'', JInt 0), (''min'', JInt 0), (''name'', JStr ''status''), (''pattern'', JStr ''''),
       (''presentable'', JBool False), (''primaryKey'', JBool False), (''required'', JBool False),
       (''system'', JBool False), (''type'', JStr ''text'')],
      JObj [(''hidden'', JBool False), (''id'', JStr ''number3470402323''), (''max'', JNull), (''min'', JNull),
       (''name'', JStr ''health''), (''onlyInt'', JBool False), (''presentable'', JBool False),
       (''required'', JBool False), (''system'', JBool False), (''type'', JStr ''number'')],
      JObj [(''hidden'', JBool False), (''id'', JStr ''number3128971310''), (''max'', JInt 100), (''min'', JInt 0),
       (''name'', JStr ''cpu''), (''onlyInt'', JBool False), (''presentable'', JBool False),
       (''required'', JBool False), (''system'', JBool False), (''type'', JStr ''number'')],
      JObj [(''hidden'', JBool False), (''id'', JStr ''number3933025333''), (''max'', JNull), (''min'', JInt 0),
       (''name'', JStr ''memory''), (''onlyInt'', JBool False), (''presentable'', JBool False),
       (''required'', JBool False), (''system'', JBool False), (''type'', JStr ''number'')],
      JObj [(''hidden'', JBool False), (''id'', JStr ''number4075427327''), (''max'', JNull), (''min'', JNull),
       (''name'', JStr ''net''), (''onlyInt'', JBool False), (''presentable'', JBool False),
       (''required'', JBool False), (''system'', JBool False), (''type'', JStr ''number'')],
      JObj [(''autogeneratePattern'', JStr ''''), (''hidden'', JBool False), (''id'', JStr ''text3309110367''),
       (''max'', JInt 0), (''min'', JInt 0), (''name'', JStr ''image''), (''pattern'', JStr ''''),
       (''presentable'', JBool False), (''primaryKey'', JBool False), (''required'', JBool False),
       (''system'', JBool False), (''type'', JStr ''text'')],
      JObj [(''autogeneratePattern'', JStr ''''), (''hidden'', JBool False), (''id'', JStr ''text2308952269''),
       (''max'', JInt 0), (''min'', JInt 0), (''name'', JStr ''ports''), (''pattern'', JStr ''''),
       (''presentable'', JBool False), (''primaryKey'', JBool False), (''required'', JBool False),
       (''system'', JBool False), (''type'', JStr ''text'')],
      JObj [(''hidden'', JBool False), (''id'', JStr ''number3332085495''), (''max'', JNull), (''min'', JNull),
       (''name'', JStr ''updated''), (''onlyInt'', JBool True), (''presentable'', JBool False),
       (''required'', JBool True), (''system'', JBool False), (''type'', JStr ''number'')]]),
    (''indexes'', JArr [JStr ''CREATE INDEX `idx_JxWirjdhyO` ON `containers` (`updated`)'',
    JStr ''CREATE INDEX `idx_r3Ja0rs102` ON `containers` (`system`)'']),
    (''system'', JBool False)]"

definition systemd_services_collection :: json where
  "systemd_services_collection = JObj
   [(''createRule'', JNull),
    (''deleteRule'', JNull),
    (''fields'', JArr
     [JObj [(''autogeneratePattern'', JStr ''[a-z0-9]{10}''), (''hidden'', JBool False), (''id'',
       JStr ''text3208210256''), (''max'', JInt 10), (''min'', JInt 6), (''name'', JStr ''id''), (''pattern'',
       JStr ''^[a-z0-9]+$''), (''presentable'', JBool False), (''primaryKey'', JBool True),
       (''required'', JBool True), (''system'', JBool True), (''type'', JStr ''text'')],
      JObj [(''autogeneratePattern'', JStr ''''), (''hidden'', JBool False), (''id'', JStr ''text1579384326''),
       (''max'', JInt 0), (''min'', JInt 0), (''name'', JStr ''name''), (''pattern'', JStr ''''),
       (''presentable'', JBool False), (''primaryKey'', JBool False), (''required'', JBool False),
       (''system'', JBool False), (''type'', JStr ''text'')],
      JObj [(''cascadeDelete'', JBool True), (''collectionId'', JStr ''2hz5ncl8tizk5nx''), (''hidden'', JBool False),
       (''id'', JStr ''relation3377271179''), (''maxSelect'', JInt 1), (''minSelect'', JInt 0), (''name'',
       JStr ''system''), (''presentable'', JBool False), (''required'', JBool False), (''system'', JBool False),
       (''type'', JStr ''relation'')],
      JObj [(''hidden'', JBool False), (''id'', JStr ''number2063623452''), (''max'', JNull), (''min'', JNull),
       (''name'', JStr ''state''), (''onlyInt'', JBool True), (''presentable'', JBool False),
       (''required'', JBool False), (''system'', JBool False), (''type'', JStr ''number'')],
      JObj [(''hidden'', JBool False), (''id'', JStr ''number1476559580''), (''max'', JNull), (''min'', JNull),
       (''name'', JStr ''sub''), (''onlyInt'', JBool True), (''presentable'', JBool False),
       (''required'', JBool False), (''system'', JBool False), (''type'', JStr ''number'')],
      JObj [(''hidden'', JBool False), (''id'', JStr ''number3128971310''), (''max'', JNull), (''min'', JNull),
       (''name'', JStr ''cpu''), (''onlyInt'', JBool False), (''presentable'', JBool False),
       (''required'', JBool False), (''system'', JBool False), (''type'', JStr ''number'')],
      JObj [(''hidden'', JBool False), (''id'', JStr ''number1052053287''), (''max'', JNull), (''min'', JNull),
       (''name'', JStr ''cpuPeak''), (''onlyInt'', JBool False), (''presentable'', JBool False),
       (''required'', JBool False), (''system'', JBool False), (''type'', JStr ''number'')],
      JObj [(''hidden'', JBool False), (''id'', JStr ''number3933025333''), (''max'', JNull), (''min'', JNull),
       (''name'', JStr ''memory''), (''onlyInt'', JBool False), (''presentable'', JBool False),
       (''required'', JBool False), (''system'', JBool False), (''type'', JStr ''number'')],
      JObj [(''hidden'', JBool False), (''id'', JStr ''number1828797201''), (''max'', JNull), (''min'', JNull),
       (''name'', JStr ''memPeak''), (''onlyInt'', JBool False), (''presentable'', JBool False),
       (''required'', JBool False), (''system'', JBool False), (''type'', JStr ''number'')],
      JObj [(''hidden'', JBool False), (''id'', JStr ''number3332085495''), (''max'', JNull), (''min'', JNull),
       (''name'', JStr ''updated''), (''onlyInt'', JBool False), (''presentable'', JBool False),
       (''required'', JBool False), (''system'', JBool False), (''type'', JStr ''number'')]]),
    (''id'', JStr ''pbc_3494996990''),
    (''indexes'', JArr [JStr ''CREATE INDEX `idx_4Z7LuLNdQb` ON `systemd_services` (`system`)'',
    JStr ''CREATE INDEX `idx_pBp1fF837e` ON `systemd_services` (`updated`)'']),
    (''listRule'', JNull),
    (''name'', JStr ''systemd_services''),
    (''system'', JBool False),
    (''type'', JStr ''base''),
    (''updateRule'', JNull),
    (''viewRule'', JNull)]"

definition quiet_hours_collection :: json where
  "quiet_hours_collection = JObj
   [(''createRule'', JStr ''@request.auth.id != \"\" && user = @request.auth.id''),
    (''deleteRule'', JStr ''@request.auth.id != \"\" && user = @request.auth.id''),
    (''fields'', JArr
     [JObj [(''autogeneratePattern'', JStr ''[a-z0-9]{10}''), (''hidden'', JBool False), (''id'',
       JStr ''text3208210256''), (''max'', JInt 10), (''min'', JInt 10), (''name'', JStr ''id''), (''pattern'',
       JStr ''^[a-z0-9]+$''), (''presentable'', JBool False), (''primaryKey'', JBool True),
       (''required'', JBool True), (''system'', JBool True), (''type'', JStr ''text'')],
      JObj [(''cascadeDelete'', JBool True), (''collectionId'', JStr ''_pb_users_auth_''), (''hidden'', JBool False),
       (''id'', JStr ''relation2375276105''), (''maxSelect'', JInt 1), (''minSelect'', JInt 0), (''name'',
       JStr ''user''), (''presentable'', JBool False), (''required'', JBool False), (''system'', JBool False),
       (''type'', JStr ''relation'')],
      JObj [(''cascadeDelete'', JBool True), (''collectionId'', JStr ''2hz5ncl8tizk5nx''), (''hidden'', JBool False),
       (''id'', JStr ''relation3377271179''), (''maxSelect'', JInt 1), (''minSelect'', JInt 0), (''name'',
       JStr ''system''), (''presentable'', JBool False), (''required'', JBool False), (''system'', JBool False),
       (''type'', JStr ''relation'')],
      JObj [(''hidden'', JBool False), (''id'', JStr ''select2844932856''), (''maxSelect'', JInt 1), (''name'',
       JStr ''type''), (''presentable'', JBool False), (''required'', JBool True), (''system'', JBool False),
       (''type'', JStr ''select''), (''values'', JArr [JStr ''one-time'', JStr ''daily''])],
      JObj [(''hidden'', JBool False), (''id'', JStr ''date2675529103''), (''max'', JStr ''''), (''min'', JStr ''''),
       (''name'', JStr ''start''), (''presentable'', JBool False), (''required'', JBool True),
       (''system'', JBool False), (''type'', JStr ''date'')],
      JObj [(''hidden'', JBool False), (''id'', JStr ''date16528305''), (''max'', JStr ''''), (''min'', JStr ''''),
       (''name'', JStr ''end''), (''presentable'', JBool False), (''required'', JBool True),
       (''system'', JBool False), (''type'', JStr ''date'')]]),
    (''id'', JStr ''pbc_451525641''),
    (''indexes'', JArr [JStr (''CREATE INDEX `idx_q0iKnRP9v8` ON `quiet_hours` ('' @ [CHR 0x0A]
    @ ''  `user`,'' @ [CHR 0x0A] @ ''  `system`'' @ [CHR 0x0A] @ '')''),
    JStr (''CREATE INDEX `idx_6T7ljT7FJd` ON `quiet_hours` ('' @ [CHR 0x0A] @ ''  `type`,'' @ [CHR 0x0A]
    @ ''  `end`'' @ [CHR 0x0A] @ '')'')]),
    (''listRule'', JStr ''@request.auth.id != \"\" && user = @request.auth.id''),
    (''name'', JStr ''quiet_hours''),
    (''system'', JBool False),
    (''type'', JStr ''base''),
    (''updateRule'', JStr ''@request.auth.id != \"\" && user = @request.auth.id''),
    (''viewRule'', JStr ''@request.auth.id != \"\" && user = @request.auth.id'')]"

definition smart_devices_collection :: json where
  "smart_devices_collection = JObj
   [(''createRule'', JNull),
    (''deleteRule'', JNull),
    (''fields'', JArr
     [JObj [(''autogeneratePattern'', JStr ''[a-z0-9]{10}''), (''hidden'', JBool False), (''id'',
       JStr ''text3208210256''), (''max'', JInt 10), (''min'', JInt 10), (''name'', JStr ''id''), (''pattern'',
       JStr ''^[a-z0-9]+$''), (''presentable'', JBool False), (''primaryKey'', JBool True),
       (''required'', JBool True), (''system'', JBool True), (''type'', JStr ''text'')],
      JObj [(''cascadeDelete'', JBool True), (''collectionId'', JStr ''2hz5ncl8tizk5nx''), (''hidden'', JBool False),
       (''id'', JStr ''relation3377271179''), (''maxSelect'', JInt 1), (''minSelect'', JInt 0), (''name'',
       JStr ''system''), (''presentable'', JBool False), (''required'', JBool True), (''system'', JBool False),
       (''type'', JStr ''relation'')],
      JObj [(''autogeneratePattern'', JStr ''''), (''hidden'', JBool False), (''id'', JStr ''text1579384326''),
       (''max'', JInt 0), (''min'', JInt 0), (''name'', JStr ''name''), (''pattern'', JStr ''''),
       (''presentable'', JBool False), (''primaryKey'', JBool False), (''required'', JBool False),
       (''system'', JBool False), (''type'', JStr ''text'')],
      JObj [(''autogeneratePattern'', JStr ''''), (''hidden'', JBool False), (''id'', JStr ''text3616895705''),
       (''max'', JInt 0), (''min'', JInt 0), (''name'', JStr ''model''), (''pattern'', JStr ''''),
       (''presentable'', JBool False), (''primaryKey'', JBool False), (''required'', JBool False),
       (''system'', JBool False), (''type'', JStr ''text'')],
      JObj [(''autogeneratePattern'', JStr ''''), (''hidden'', JBool False), (''id'', JStr ''text2744374011''),
       (''max'', JInt 0), (''min'', JInt 0), (''name'', JStr ''state''), (''pattern'', JStr ''''),
       (''presentable'', JBool False), (''primaryKey'', JBool False), (''required'', JBool False),
       (''system'', JBool False), (''type'', JStr ''text'')],
      JObj [(''hidden'', JBool False), (''id'', JStr ''number3051925876''), (''max'', JNull), (''min'', JNull),
       (''name'', JStr ''capacity''), (''onlyInt'', JBool False), (''presentable'', JBool False),
       (''required'', JBool False), (''system'', JBool False), (''type'', JStr ''number'')],
      JObj [(''hidden'', JBool False), (''id'', JStr ''number190023114''), (''max'', JNull), (''min'', JNull),
       (''name'', JStr ''temp''), (''onlyInt'', JBool False), (''presentable'', JBool False),
       (''required'', JBool False), (''system'', JBool False), (''type'', JStr ''number'')],
      JObj [(''autogeneratePattern'', JStr ''''), (''hidden'', JBool False), (''id'', JStr ''text3589068740''),
       (''max'', JInt 0), (''min'', JInt 0), (''name'', JStr ''firmware''), (''pattern'', JStr ''''),
       (''presentable'', JBool False), (''primaryKey'', JBool False), (''required'', JBool False),
       (''system'', JBool False), (''type'', JStr ''text'')],
      JObj [(''autogeneratePattern'', JStr ''''), (''hidden'', JBool False), (''id'', JStr ''text3547646428''),
       (''max'', JInt 0), (''min'', JInt 0), (''name'', JStr ''serial''), (''pattern'', JStr ''''),
       (''presentable'', JBool False), (''primaryKey'', JBool False), (''required'', JBool False),
       (''system'', JBool False), (''type'', JStr ''text'')],
      JObj [(''autogeneratePattern'', JStr ''''), (''hidden'', JBool False), (''id'', JStr ''text2363381545''),
       (''max'', JInt 0), (''min'', JInt 0), (''name'', JStr ''type''), (''pattern'', JStr ''''),
       (''presentable'', JBool False), (''primaryKey'', JBool False), (''required'', JBool False),
       (''system'', JBool False), (''type'', JStr ''text'')],
      JObj [(''hidden'', JBool False), (''id'', JStr ''number1234567890''), (''max'', JNull), (''min'', JNull),
       (''name'', JStr ''hours''), (''onlyInt'', JBool True), (''presentable'', JBool False),
       (''required'', JBool False), (''system'', JBool False), (''type'', JStr ''number'')],
      JObj [(''hidden'', JBool False), (''id'', JStr ''number0987654321''), (''max'', JNull), (''min'', JNull),
       (''name'', JStr ''cycles''), (''onlyInt'', JBool True), (''presentable'', JBool False),
       (''required'', JBool False), (''system'', JBool False), (''type'', JStr ''number'')],
      JObj [(''hidden'', JBool False), (''id'', JStr ''json832282224''), (''maxSize'', JInt 0), (''name'',
       JStr ''attributes''), (''presentable'', JBool False), (''required'', JBool False), (''system'', JBool False),
       (''type'', JStr ''json'')],
      JObj [(''hidden'', JBool False), (''id'', JStr ''autodate3332085495''), (''name'', JStr ''updated''),
       (''onCreate'', JBool True), (''onUpdate'', JBool True), (''presentable'', JBool False),
       (''system'', JBool False), (''type'', JStr ''autodate'')]]),
    (''id'', JStr ''pbc_2571630677''),
    (''indexes'', JArr [JStr ''CREATE INDEX `idx_DZ9yhvgl44` ON `smart_devices` (`system`)'']),
    (''listRule'', JNull),
    (''name'', JStr ''smart_devices''),
    (''system'', JBool False),
    (''type'', JStr ''base''),
    (''updateRule'', JNull),
    (''viewRule'', JNull)]"

definition system_details_collection :: json where
  "system_details_collection = JObj
   [(''createRule'', JNull),
    (''deleteRule'', JNull),
    (''fields'', JArr
     [JObj [(''autogeneratePattern'', JStr ''[a-z0-9]{15}''), (''hidden'', JBool False), (''id'',
       JStr ''text3208210256''), (''max'', JInt 15), (''min'', JInt 15), (''name'', JStr ''id''), (''pattern'',
       JStr ''^[a-z0-9]+$''), (''presentable'', JBool False), (''primaryKey'', JBool True),
       (''required'', JBool True), (''system'', JBool True), (''type'', JStr ''text'')],
      JObj [(''cascadeDelete'', JBool True), (''collectionId'', JStr ''2hz5ncl8tizk5nx''), (''hidden'', JBool False),
       (''id'', JStr ''relation3377271179''), (''maxSelect'', JInt 1), (''minSelect'', JInt 0), (''name'',
       JStr ''system''), (''presentable'', JBool False), (''required'', JBool True), (''system'', JBool False),
       (''type'', JStr ''relation'')],
      JObj [(''autogeneratePattern'', JStr ''''), (''hidden'', JBool False), (''id'', JStr ''text3847340049''),
       (''max'', JInt 0), (''min'', JInt 0), (''name'', JStr ''hostname''), (''pattern'', JStr ''''),
       (''presentable'', JBool False), (''primaryKey'', JBool False), (''required'', JBool False),
       (''system'', JBool False), (''type'', JStr ''text'')],
      JObj [(''hidden'', JBool False), (''id'', JStr ''number1789936913''), (''max'', JNull), (''min'', JNull),
       (''name'', JStr ''os''), (''onlyInt'', JBool False), (''presentable'', JBool False),
       (''required'', JBool False), (''system'', JBool False), (''type'', JStr ''number'')],
      JObj [(''autogeneratePattern'', JStr ''''), (''hidden'', JBool False), (''id'', JStr ''text2818598173''),
       (''max'', JInt 0), (''min'', JInt 0), (''name'', JStr ''os_name''), (''pattern'', JStr ''''),
       (''presentable'', JBool False), (''primaryKey'', JBool False), (''required'', JBool False),
       (''system'', JBool False), (''type'', JStr ''text'')],
      JObj [(''autogeneratePattern'', JStr ''''), (''hidden'', JBool False), (''id'', JStr ''text1574083243''),
       (''max'', JInt 0), (''min'', JInt 0), (''name'', JStr ''kernel''), (''pattern'', JStr ''''),
       (''presentable'', JBool False), (''primaryKey'', JBool False), (''required'', JBool False),
       (''system'', JBool False), (''type'', JStr ''text'')],
      JObj [(''autogeneratePattern'', JStr ''''), (''hidden'', JBool False), (''id'', JStr ''text3128971310''),
       (''max'', JInt 0), (''min'', JInt 0), (''name'', JStr ''cpu''), (''pattern'', JStr ''''),
       (''presentable'', JBool False), (''primaryKey'', JBool False), (''required'', JBool False),
       (''system'', JBool False), (''type'', JStr ''text'')],
      JObj [(''autogeneratePattern'', JStr ''''), (''hidden'', JBool False), (''id'', JStr ''text4161937994''),
       (''max'', JInt 0), (''min'', JInt 0), (''name'', JStr ''arch''), (''pattern'', JStr ''''),
       (''presentable'', JBool False), (''primaryKey'', JBool False), (''required'', JBool False),
       (''system'', JBool False), (''type'', JStr ''text'')],
      JObj [(''hidden'', JBool False), (''id'', JStr ''number4245036687''), (''max'', JNull), (''min'', JNull),
       (''name'', JStr ''cores''), (''onlyInt'', JBool False), (''presentable'', JBool False),
       (''required'', JBool False), (''system'', JBool False), (''type'', JStr ''number'')],
      JObj [(''hidden'', JBool False), (''id'', JStr ''number1871592925''), (''max'', JNull), (''min'', JNull),
       (''name'', JStr ''threads''), (''onlyInt'', JBool False), (''presentable'', JBool False),
       (''required'', JBool False), (''system'', JBool False), (''type'', JStr ''number'')],
      JObj [(''hidden'', JBool False), (''id'', JStr ''number3933025333''), (''max'', JNull), (''min'', JNull),
       (''name'', JStr ''memory''), (''onlyInt'', JBool False), (''presentable'', JBool False),
       (''required'', JBool False), (''system'', JBool False), (''type'', JStr ''number'')],
      JObj [(''hidden'', JBool False), (''id'', JStr ''bool2200265312''), (''name'', JStr ''podman''),
       (''presentable'', JBool False), (''required'', JBool False), (''system'', JBool False), (''type'',
       JStr ''bool'')],
      JObj [(''hidden'', JBool False), (''id'', JStr ''autodate3332085495''), (''name'', JStr ''updated''),
       (''onCreate'', JBool True), (''onUpdate'', JBool True), (''presentable'', JBool False),
       (''system'', JBool False), (''type'', JStr ''autodate'')]]),
    (''id'', JStr ''pbc_3116237454''),
    (''indexes'', JArr []),
    (''name'', JStr ''system_details''),
    (''system'', JBool False),
    (''type'', JStr ''base''),
    (''updateRule'', JNull),
    (''listRule'', JNull),
    (''viewRule'', JNull)]"

definition universal_tokens_collection :: json where
  "universal_tokens_collection = JObj
   [(''createRule'', JNull),
    (''deleteRule'', JNull),
    (''fields'', JArr
     [JObj [(''autogeneratePattern'', JStr ''[a-z0-9]{10}''), (''hidden'', JBool False), (''id'',
       JStr ''text3208210256''), (''max'', JInt 10), (''min'', JInt 10), (''name'', JStr ''id''), (''pattern'',
       JStr ''^[a-z0-9]+$''), (''presentable'', JBool False), (''primaryKey'', JBool True),
       (''required'', JBool True), (''system'', JBool True), (''type'', JStr ''text'')],
      JObj [(''cascadeDelete'', JBool True), (''collectionId'', JStr ''_pb_users_auth_''), (''hidden'', JBool False),
       (''id'', JStr ''relation2375276105''), (''maxSelect'', JInt 1), (''minSelect'', JInt 0), (''name'',
       JStr ''user''), (''presentable'', JBool False), (''required'', JBool True), (''system'', JBool False),
       (''type'', JStr ''relation'')],
      JObj [(''autogeneratePattern'', JStr ''''), (''hidden'', JBool False), (''id'', JStr ''text1597481275''),
       (''max'', JInt 0), (''min'', JInt 0), (''name'', JStr ''token''), (''pattern'', JStr ''''),
       (''presentable'', JBool False), (''primaryKey'', JBool False), (''required'', JBool False),
       (''system'', JBool False), (''type'', JStr ''text'')],
      JObj [(''hidden'', JBool False), (''id'', JStr ''autodate2990389176''), (''name'', JStr ''created''),
       (''onCreate'', JBool True), (''onUpdate'', JBool False), (''presentable'', JBool False),
       (''system'', JBool False), (''type'', JStr ''autodate'')]]),
    (''id'', JStr ''pbc_3383022248''),
    (''indexes'', JArr [JStr ''CREATE INDEX `idx_iaD9Y2Lgbl` ON `universal_tokens` (`token`)'',
    JStr ''CREATE UNIQUE INDEX `idx_wdR0A4PbRG` ON `universal_tokens` (`user`)'']),
    (''listRule'', JNull),
    (''name'', JStr ''universal_tokens''),
    (''system'', JBool False),
    (''type'', JStr ''base''),
    (''updateRule'', JNull),
    (''viewRule'', JNull)]"

definition snapshot :: "json list" where
  "snapshot =
    [alerts_collection, alerts_history_collection, container_stats_collection, fingerprints_collection,
     system_stats_collection, user_settings_collection, systems_collection, users_collection,
     containers_collection, systemd_services_collection, quiet_hours_collection, smart_devices_collection,
     system_details_collection, universal_tokens_collection]"

section \<open>The import\<close>

definition left_out :: "string list" where
  "left_out = [''alerts_history'', ''smart_devices'', ''systemd_services'', ''universal_tokens'', ''quiet_hours'', ''fingerprints'']"

definition filter_collections :: "json list \<Rightarrow> json list" where
  "filter_collections collections =
     filter (\<lambda>col. case jget ''name'' col of Some (JStr name) \<Rightarrow> name \<notin> set left_out | _ \<Rightarrow> False) collections"

text \<open>\<open>import\<close> is PocketBase's import of the marshalled document; \<open>None\<close> is its error.\<close>

definition snapshot_migration :: "(json list \<Rightarrow> 'db \<Rightarrow> 'db option) \<Rightarrow> 'db \<Rightarrow> 'db option" where
  "snapshot_migration import db = import (filter_collections snapshot) db"

section \<open>Reading the document\<close>

definition collection_name :: "json \<Rightarrow> string option" where
  "collection_name col = (case jget ''name'' col of Some (JStr n) \<Rightarrow> Some n | _ \<Rightarrow> None)"

definition field :: "string \<Rightarrow> json \<Rightarrow> json option" where
  "field f col =
     (case jget ''fields'' col of
        Some (JArr fs) \<Rightarrow> find (\<lambda>x. jget ''name'' x = Some (JStr f)) fs
      | _ \<Rightarrow> None)"

definition json_strings :: "json \<Rightarrow> string list" where
  "json_strings v = (case v of JArr vs \<Rightarrow> List.map_filter (\<lambda>x. case x of JStr s \<Rightarrow> Some s | _ \<Rightarrow> None) vs | _ \<Rightarrow> [])"

text \<open>The values a field of type \<open>select\<close> admits, for one value; an empty one is admitted unless the field is required.\<close>

definition select_fits :: "json \<Rightarrow> string \<Rightarrow> string \<Rightarrow> bool" where
  "select_fits col f v =
     (case field f col of
        Some x \<Rightarrow>
          jget ''type'' x = Some (JStr ''select'') \<and>
          (if v = '''' then jget ''required'' x \<noteq> Some (JBool True)
           else (case jget ''values'' x of Some vs \<Rightarrow> v \<in> set (json_strings vs) | None \<Rightarrow> False))
      | None \<Rightarrow> False)"

lemma snapshot_names:
  "map collection_name snapshot =
     map Some [''alerts'', ''alerts_history'', ''container_stats'', ''fingerprints'', ''system_stats'', ''user_settings'',
       ''systems'', ''users'', ''containers'', ''systemd_services'', ''quiet_hours'', ''smart_devices'', ''system_details'',
       ''universal_tokens'']"
  by code_simp

lemma imported_names:
  "map collection_name (filter_collections snapshot) =
     map Some [''alerts'', ''container_stats'', ''system_stats'', ''user_settings'', ''systems'', ''users'', ''containers'',
       ''system_details'']"
  by code_simp

lemma status_values:
  "select_fits systems_collection ''status'' ''up''" "select_fits systems_collection ''status'' ''down''"
  "select_fits systems_collection ''status'' ''paused''" "select_fits systems_collection ''status'' ''pending''"
  by code_simp+

lemma type_values:
  "list_all (select_fits system_stats_collection ''type'') [''1m'', ''10m'', ''20m'', ''120m'', ''480m'']"
  "list_all (select_fits container_stats_collection ''type'') [''1m'', ''10m'', ''20m'', ''120m'', ''480m'']"
  by code_simp+

section \<open>The statuses of systems\<close>

text \<open>Every row that an operation makes or changes gets a status of \<open>S\<close>.\<close>

definition new_statuses :: "string set \<Rightarrow> hub_state \<Rightarrow> hub_state \<Rightarrow> bool" where
  "new_statuses S st st' \<longleftrightarrow>
     (\<forall>i row. hs_rows st' i = Some row \<longrightarrow> hs_rows st i = Some row \<or> row_status row \<in> S)"

named_theorems status_rules \<open>operations that store known statuses only\<close>

lemma new_statuses_same [status_rules]: "hs_rows st' = hs_rows st \<Longrightarrow> new_statuses S st st'"
  by (simp add: new_statuses_def)

lemma new_statuses_trans: "new_statuses S st st1 \<Longrightarrow> new_statuses S st1 st2 \<Longrightarrow> new_statuses S st st2"
  unfolding new_statuses_def by blast

lemma new_statuses_from: "hs_rows st1 = hs_rows st \<Longrightarrow> new_statuses S st1 st2 \<Longrightarrow> new_statuses S st st2"
  by (simp add: new_statuses_def)

lemma save_row_statuses [status_rules]: "row_status row \<in> S \<Longrightarrow> new_statuses S st (snd (save_row env row st))"
  by (cases "row_status row = paused") (auto simp: new_statuses_def save_row_def Let_def on_record_update_def)

lemma get_record_same: "get_record env k st = (r, st') \<Longrightarrow> hs_rows st' = hs_rows st"
  by (auto simp: get_record_def Let_def split: option.splits if_splits)

lemma set_down_statuses [status_rules]: "down \<in> S \<Longrightarrow> new_statuses S st (snd (set_down env k st))"
  using get_record_same [of env k st]
  by (auto simp: set_down_def Let_def split: prod.split option.split
      intro: new_statuses_same new_statuses_from [OF _ save_row_statuses])

lemma create_records_statuses [status_rules]: "up \<in> S \<Longrightarrow> new_statuses S st (snd (create_records env tx_ok data k st))"
  using get_record_same [of env k st]
  by (auto simp: create_records_def split: prod.split option.split
      intro: new_statuses_same new_statuses_from [OF _ save_row_statuses])

lemma begin_update_same: "hs_rows (begin_update ping_ok k st) = hs_rows st"
  by (simp add: begin_update_def handle_paused_def Let_def split: option.split)

lemma fetch_data_same: "fetch_data answer k st = (d, st') \<Longrightarrow> hs_rows st' = hs_rows st"
  by (auto simp: fetch_data_def Let_def split: option.splits if_splits)

lemma finish_update_statuses:
  assumes "up \<in> S"
  shows "new_statuses S st (snd (finish_update env o64 answer tx_ok k st))"
proof (cases "fetch_data answer k st")
  case (Pair d st1)
  then have st1: "hs_rows st1 = hs_rows st" by (rule fetch_data_same)
  show ?thesis
  proof (cases d)
    case None
    then show ?thesis using Pair st1 by (simp add: finish_update_def new_statuses_same)
  next
    case (Some data)
    define x where "x = migrate_deprecated_fields o64 (\<not> sy_details_fetched (hs_objects st1 ! k)) data"
    define st2 where "st2 = set_object k (\<lambda>s. s\<lparr>sy_data := x\<rparr>) st1"
    obtain c st3 where cr: "create_records env tx_ok x k st2 = (c, st3)" by (rule prod.exhaust)
    have "hs_rows st2 = hs_rows st" using st1 by (simp add: st2_def)
    then have "new_statuses S st st3"
      using new_statuses_from [OF _ create_records_statuses [OF assms], of st2 st env tx_ok x k] cr by simp
    moreover have "hs_rows (snd (finish_update env o64 answer tx_ok k st)) = hs_rows st3"
      by (simp add: finish_update_def Pair Some Let_def x_def [symmetric] st2_def [symmetric] cr)
    ultimately show ?thesis by (simp add: new_statuses_def)
  qed
qed

lemma updater_finish_statuses:
  assumes "up \<in> S" "down \<in> S"
  shows "new_statuses S st (updater_finish env down_env o64 answer tx_ok k waits st)"
proof -
  define st0 where "st0 = st\<lparr>hs_updating := remove1 (k, waits) (hs_updating st)\<rparr>"
  obtain c st1 where f: "finish_update env o64 answer tx_ok k st0 = (c, st1)" by (rule prod.exhaust)
  have "new_statuses S st st1"
    using finish_update_statuses [OF assms(1), of st0 env o64 answer tx_ok k] f by (simp add: st0_def new_statuses_def)
  moreover from this have "new_statuses S st (snd (set_down down_env k st1))"
    using set_down_statuses [OF assms(2)] new_statuses_trans by blast
  ultimately show ?thesis by (simp add: updater_finish_def st0_def [symmetric] f new_statuses_same)
qed

lemma hub_step_statuses:
  assumes "{up, down, pending} \<subseteq> S" and "\<And>env row. e = SaveRow env row \<Longrightarrow> row_status row \<in> S"
  shows "new_statuses S st (hub_step st e)"
proof (cases e)
  case (CreateRow env row)
  then show ?thesis using assms(1) by (auto simp: new_statuses_def create_row_def on_record_create_def Let_def)
next
  case (AgentConnect env i w)
  then show ?thesis
    by (auto simp: add_websocket_system_def split: option.split prod.split intro!: new_statuses_same)
      (metis add_record_fields(2) snd_conv)
next
  case (AlertEvent x)
  then show ?thesis by (cases x) (simp_all add: new_statuses_same)
next
  case (UpdaterDown env k)
  then show ?thesis
    using assms(1) new_statuses_from [OF _ set_down_statuses, of "set_object k (\<lambda>s. s\<lparr>sy_ws := None\<rparr>) st" st S env k]
    by (simp add: updater_down_def new_statuses_same)
next
  case (SaveRow env row)
  then show ?thesis using assms(2) by (simp add: status_rules)
next
  case (FinishUpdate env down_env o64 answer tx_ok k waits)
  then show ?thesis using assms(1) by (simp add: new_statuses_same updater_finish_statuses)
next
  case (DeleteRow i)
  then show ?thesis by (simp add: delete_row_def new_statuses_def)
qed (simp_all add: updater_start_def updater_tick_def updater_stop_def begin_update_same new_statuses_same)

lemma run_statuses:
  assumes "{up, down, pending} \<subseteq> S" and "\<And>env row. SaveRow env row \<in> set es \<Longrightarrow> row_status row \<in> S"
  shows "new_statuses S st (foldl hub_step st es)"
  using assms(2)
proof (induction es rule: rev_induct)
  case (snoc e es)
  have "new_statuses S st (foldl hub_step st es)" by (rule snoc.IH) (use snoc.prems in auto)
  moreover have "new_statuses S (foldl hub_step st es) (hub_step (foldl hub_step st es) e)"
    by (rule hub_step_statuses [OF assms(1)]) (use snoc.prems in auto)
  ultimately show ?case by (simp add: new_statuses_trans)
qed (simp add: new_statuses_def)

section \<open>The types of records\<close>

definition known_types :: "stats_tables \<Rightarrow> bool" where
  "known_types t \<longleftrightarrow>
     (\<forall>r \<in> set (t_system t). sr_type r \<in> {''1m'', ''10m'', ''20m'', ''120m'', ''480m''}) \<and>
     (\<forall>r \<in> set (t_container t). sr_type r \<in> {''1m'', ''10m'', ''20m'', ''120m'', ''480m''})"

lemma longer_step_types:
  "r \<in> set (longer_step mean ok now sys d table) \<Longrightarrow> r \<in> set table \<or> sr_type r = lr_longer d"
  by (auto simp: longer_step_def Let_def split: if_splits)

lemma create_for_types:
  "d \<in> set longer_record_plan \<Longrightarrow> known_types t \<Longrightarrow> known_types (create_for o64 o8 ok now sys d t)"
  by (fastforce simp: known_types_def create_for_def longer_record_plan_def dest!: longer_step_types)

lemma store_step_types: "known_types t \<Longrightarrow> known_types (store_step t e)"
proof (cases e)
  case (CreateRun o64 o8 ok now up)
  assume t: "known_types t"
  have "known_types (create_longer_records o64 o8 ok now up t)"
    unfolding create_longer_records_def
  proof (rule fold_keeps [where P = known_types])
    show "known_types (fold (create_for o64 o8 ok now sys) longer_record_plan t)" if "known_types t" for sys t
      by (rule fold_keeps [where P = known_types]) (use that create_for_types in auto)
  qed (rule t)
  then show ?thesis using CreateRun by simp
qed (auto simp: known_types_def delete_old_system_stats_def delete_expired_def Let_def)

lemma run_types: "known_types (foldl store_step empty_tables evs)"
proof (induction evs rule: rev_induct)
  case Nil
  then show ?case by (simp add: known_types_def empty_tables_def)
qed (simp add: store_step_types)



section \<open>A fresh installation\<close>

text \<open>
  The collections as \<open>set_collection_auth_settings\<close> finds them after the import into an empty database. The document does
  not set the password sign-in or the identity fields of the users, which the start-up overwrites.
\<close>

definition rule_of :: "string \<Rightarrow> json \<Rightarrow> string option" where
  "rule_of k col = (case jget k col of Some (JStr r) \<Rightarrow> Some r | _ \<Rightarrow> None)"

definition pb_of :: "json \<Rightarrow> pb_collection" where
  "pb_of col =
     \<lparr>pc_rules = \<lparr>rule_list = rule_of ''listRule'' col, rule_view = rule_of ''viewRule'' col,
        rule_create = rule_of ''createRule'' col, rule_update = rule_of ''updateRule'' col, rule_delete = rule_of ''deleteRule'' col\<rparr>,
      pc_password_auth = True, pc_identity_fields = []\<rparr>"

definition imported :: "json list \<Rightarrow> collections" where
  "imported cols = map_of (List.map_filter (\<lambda>col. map_option (\<lambda>n. (n, pb_of col)) (collection_name col)) cols)"

lemma imported_dom: "n \<in> dom (imported cols) \<longleftrightarrow> Some n \<in> set (map collection_name cols)"
  by (induction cols) (auto simp: imported_def List.map_filter_simps split: option.split)

lemma fresh_dom:
  "dom (imported (filter_collections snapshot)) =
     {''alerts'', ''container_stats'', ''system_stats'', ''user_settings'', ''systems'', ''users'', ''containers'', ''system_details''}"
proof (rule set_eqI)
  fix n
  show "n \<in> dom (imported (filter_collections snapshot)) \<longleftrightarrow>
    n \<in> {''alerts'', ''container_stats'', ''system_stats'', ''user_settings'', ''systems'', ''users'', ''containers'', ''system_details''}"
    unfolding imported_dom imported_names by auto
qed

text \<open>Every collection the start-up sets rules for is there, so the start-up succeeds when the saves do.\<close>

lemma apply_rules_succeeds:
  assumes "set names \<subseteq> dom cs"
  obtains cs' where "apply_collection_rules (\<lambda>_. True) names rules cs = (True, cs')" and "dom cs' = dom cs"
  using assms
proof (induction names arbitrary: cs thesis)
  case (Cons n ns)
  then obtain c where c: "cs n = Some c" by auto
  define cs1 where "cs1 = cs(n \<mapsto> c\<lparr>pc_rules := rules\<rparr>)"
  have d: "dom cs1 = dom cs" using c by (auto simp: cs1_def)
  have "set ns \<subseteq> dom cs1" using Cons.prems(2) by (simp add: d)
  then obtain cs' where r: "apply_collection_rules (\<lambda>_. True) ns rules cs1 = (True, cs')" "dom cs' = dom cs1"
    using Cons.IH by blast
  have "apply_collection_rules (\<lambda>_. True) (n # ns) rules cs = (True, cs')"
    using r(1) by (simp add: c save_collection_def cs1_def)
  then show ?case by (rule Cons.prems(1)) (simp only: r(2) d)
qed simp

lemma fresh_start_succeeds:
  "\<exists>cs'. set_collection_auth_settings env (\<lambda>_. True) (imported (filter_collections snapshot)) = (True, cs')"
proof -
  define cs where "cs = imported (filter_collections snapshot)"
  have names: "{''users'', ''systems'', ''containers'', ''container_stats'', ''system_stats'', ''system_details''} \<subseteq> dom cs"
    unfolding cs_def fresh_dom by simp
  then obtain u where u: "cs ''users'' = Some u" by blast
  define cs1 where "cs1 = cs(''users'' \<mapsto> users_settings env u)"
  have d1: "dom cs1 = dom cs" using u by (auto simp: cs1_def)
  obtain cs2 where c2: "apply_collection_rules (\<lambda>_. True) [''systems''] systems_rules cs1 = (True, cs2)" "dom cs2 = dom cs1"
    by (rule apply_rules_succeeds [of "[''systems'']" cs1]) (use names in \<open>simp add: d1\<close>)
  obtain cs3 where c3: "apply_collection_rules (\<lambda>_. True) [''containers'', ''container_stats'', ''system_stats'']
      (no_rules\<lparr>rule_list := Some authenticated_rule\<rparr>) cs2 = (True, cs3)" "dom cs3 = dom cs2"
    by (rule apply_rules_succeeds [of "[''containers'', ''container_stats'', ''system_stats'']" cs2])
       (use names in \<open>simp add: d1 c2(2)\<close>)
  obtain cs4 where c4: "apply_collection_rules (\<lambda>_. True) [''system_details'']
      (no_rules\<lparr>rule_list := Some authenticated_rule, rule_view := Some authenticated_rule\<rparr>) cs3 = (True, cs4)"
    by (rule apply_rules_succeeds [of "[''system_details'']" cs3]) (use names in \<open>simp add: d1 c2(2) c3(2)\<close>)
  have "set_collection_auth_settings env (\<lambda>_. True) cs = (True, cs4)"
    unfolding set_collection_auth_settings_def u option.case
    by (simp add: bind_ok_def save_collection_def cs1_def [symmetric] c2(1) c3(1) c4 del: apply_collection_rules.simps)
  then show ?thesis by (auto simp: cs_def)
qed

text \<open>
  The deletion job names three collections that the import leaves out, so on a fresh installation its statements about
  them always fail; and the alerts may have names for which the hub has no value, so that they never fire.
\<close>

lemma deletion_names_missing_tables:
  "{''alerts_history'', ''systemd_services'', ''quiet_hours''} \<inter> dom (imported (filter_collections snapshot)) = {}"
  by (simp add: fresh_dom)

lemma alerts_without_value:
  assumes "n \<in> set [''Temperature'', ''Bandwidth'', ''GPU'', ''LoadAvg1'', ''LoadAvg5'', ''LoadAvg15'', ''Battery'']"
  shows "select_fits alerts_collection ''name'' n \<and> triage data now (c\<lparr>ca_name := n\<rparr>) = Skip"
proof -
  have "list_all (select_fits alerts_collection ''name'')
      [''Temperature'', ''Bandwidth'', ''GPU'', ''LoadAvg1'', ''LoadAvg5'', ''LoadAvg15'', ''Battery'']" by code_simp
  then show ?thesis using assms by (auto simp: triage_def alert_value_def)
qed

end
