(* ===== verification/Reconnect.thy ===== *)
theory Reconnect
  imports HubApi
begin

text \<open>
  An agent that comes back while the hub still waits for an answer over its old connection. The new connection gets a new
  object; the updater of the old one is cancelled, but its pending update fails and still reports the system down, since
  \<open>setDown\<close> looks at the status of its own object only and never at the cancelled context
  (\<^verbatim>\<open>internal/hub/systems/system.go\<close>).
\<close>

lemma fetch_fails:
  assumes "k < length (hs_objects st)"
  obtains st' where "fetch_data None k st = (None, st')" and "hs_systems st' = hs_systems st" and "hs_rows st' = hs_rows st"
    and "length (hs_objects st') = length (hs_objects st)" and "\<And>j. j \<noteq> k \<Longrightarrow> hs_objects st' ! j = hs_objects st ! j"
    and "sy_id (hs_objects st' ! k) = sy_id (hs_objects st ! k)" and "sy_status (hs_objects st' ! k) = sy_status (hs_objects st ! k)"
proof (cases "\<exists>w. sy_ws (hs_objects st ! k) = Some w \<and> ws_connected w")
  case True
  then have "fetch_data None k st = (None, set_object k close_ws st)" by (auto simp: fetch_data_def)
  then show ?thesis by (rule that) (use assms in \<open>simp_all add: set_object_def close_ws_def\<close>)
next
  case False
  then have "fetch_data None k st = (None, st)" by (auto simp: fetch_data_def split: option.split)
  then show ?thesis by (rule that) simp_all
qed

text \<open>A save with the status ``down'' reaches the object in the store, whichever it is.\<close>

lemma save_down:
  assumes "he_save_ok env" and "map_of (hs_systems st) (row_id row) = Some k" and "k < length (hs_objects st)" and "row_status row = down"
  shows "map_option row_status (hs_rows (snd (save_row env row st)) (row_id row)) = Some down"
    and "hs_systems (snd (save_row env row st)) = hs_systems st"
    and "hs_objects (snd (save_row env row st)) = (hs_objects st)[k := (hs_objects st ! k)\<lparr>sy_status := down\<rparr>]"
proof -
  have d: "down \<noteq> paused" "down \<noteq> pending" "down \<noteq> up" by (simp_all add: down_def paused_def pending_def up_def)
  show "map_option row_status (hs_rows (snd (save_row env row st)) (row_id row)) = Some down"
    using save_row_status [OF assms(1), of row st] assms(4) by simp
  show "hs_systems (snd (save_row env row st)) = hs_systems st"
    and "hs_objects (snd (save_row env row st)) = (hs_objects st)[k := (hs_objects st ! k)\<lparr>sy_status := down\<rparr>]"
    using assms d by (simp_all add: save_row_def Let_def on_record_update_def on_record_after_update_success_def set_object_def)
qed

lemma reconnected:
  fixes w :: ws_conn
  assumes inv: "store_inv st" and known: "map_of (hs_systems st) i = Some k" and row: "hs_rows st i = Some row" "row_id row = i"
    and host: "i \<noteq> ''''" "row_host row \<noteq> ''''" and found: "he_find_ok env"
  defines "st1 \<equiv> snd (add_websocket_system env i w st)"
  shows "map_of (hs_systems st1) i = Some (length (hs_objects st))" and "length (hs_objects st1) = Suc (length (hs_objects st))"
    and "sy_ws (hs_objects st1 ! length (hs_objects st)) = Some w" and "\<not> sy_cancelled (hs_objects st1 ! length (hs_objects st))"
    and "hs_objects st1 ! k = close_ws ((hs_objects st ! k)\<lparr>sy_cancelled := True\<rparr>)"
    and "hs_rows st1 = hs_rows st" and "hs_updating st1 = hs_updating st"
proof -
  have k: "k < length (hs_objects st)" using inv known by (simp add: store_inv_def)
  define s where "s = (new_system i)\<lparr>sy_ws := Some w, sy_status := row_status row, sy_host := row_host row, sy_port := row_port row\<rparr>"
  define r where "r = snd (remove_system i st)"
  have r: "r = (set_object k (\<lambda>s. close_ws (s\<lparr>sy_cancelled := True\<rparr>)) st)\<lparr>hs_systems := AList.delete i (hs_systems st)\<rparr>"
    using known by (simp add: r_def remove_system_def)
  have "st1 = snd (add_system s r)"
    using known row found by (simp add: st1_def add_websocket_system_def add_record_def split_beta Let_def s_def r_def)
  then have st1: "st1 = r\<lparr>hs_objects := hs_objects r @ [s\<lparr>sy_data := zero_data\<rparr>],
      hs_systems := AList.update i (length (hs_objects r)) (hs_systems r), hs_updaters := length (hs_objects r) # hs_updaters r\<rparr>"
    using host by (simp add: add_system_def r s_def new_system_def store_laws Let_def)
  show "map_of (hs_systems st1) i = Some (length (hs_objects st))" "length (hs_objects st1) = Suc (length (hs_objects st))"
    "sy_ws (hs_objects st1 ! length (hs_objects st)) = Some w" "\<not> sy_cancelled (hs_objects st1 ! length (hs_objects st))"
    "hs_objects st1 ! k = close_ws ((hs_objects st ! k)\<lparr>sy_cancelled := True\<rparr>)"
    "hs_rows st1 = hs_rows st" "hs_updating st1 = hs_updating st"
    using k by (simp_all add: st1 r set_object_def store_laws nth_append s_def new_system_def)
qed

text \<open>
  C6: an agent that reconnects while an update over its old connection is still waiting is reported down although it is
  connected: when the old update fails, as the closing of the old connection makes it do, the record of the system and
  the object of the new connection get the status ``down''.
\<close>

theorem reconnected_agent_reported_down:
  assumes inv: "store_inv st"
    and known: "map_of (hs_systems st) i = Some k" "i \<noteq> ''''" and running: "(k, True) \<in> set (hs_updating st)"
    and status: "sy_status (hs_objects st ! k) = up" and row: "hs_rows st i = Some row" "row_host row \<noteq> ''''"
    and row_id: "row_id row = i"
    and db: "he_find_ok env" "he_find_ok down_env" "he_save_ok down_env"
  shows "let st1 = snd (add_websocket_system env i w st);
             st2 = updater_finish env' down_env o64 None tx_ok k True st1
         in (\<exists>s. get_system i st1 = Some s \<and> sy_ws s = Some w) \<and>
            (\<exists>s. get_system i st2 = Some s \<and> sy_ws s = Some w \<and> \<not> sy_cancelled s \<and> sy_status s = down) \<and>
            map_option row_status (hs_rows st2 i) = Some down"
proof -
  define st1 where "st1 = snd (add_websocket_system env i w st)"
  define n where "n = length (hs_objects st)"
  note st1 = reconnected [OF inv known(1) row(1) row_id known(2) row(2) db(1), of w, folded st1_def n_def]
  have k: "k < n" "sy_id (hs_objects st ! k) = i" using inv known(1) by (auto simp: store_inv_def n_def)
  define st3 where "st3 = st1\<lparr>hs_updating := remove1 (k, True) (hs_updating st1)\<rparr>"
  have "k < length (hs_objects st3)" using k(1) st1(2) by (simp add: st3_def)
  then obtain st4 where st4: "fetch_data None k st3 = (None, st4)" "hs_systems st4 = hs_systems st3" "hs_rows st4 = hs_rows st3"
    "length (hs_objects st4) = length (hs_objects st3)" "hs_objects st4 ! n = hs_objects st3 ! n"
    "sy_id (hs_objects st4 ! k) = i" "sy_status (hs_objects st4 ! k) = up"
    by (rule fetch_fails) (use k st1(5) status in \<open>simp_all add: st3_def close_ws_def\<close>)
  have finish: "finish_update env' o64 None tx_ok k st3 = (False, st4)" by (simp add: finish_update_def st4(1))
  have "set_down down_env k st4 = save_row down_env (row\<lparr>row_status := down\<rparr>) st4"
    using st4 st1(6) row(1) db(2) by (simp add: set_down_def get_record_def st3_def down_def up_def paused_def)
  then have st2: "updater_finish env' down_env o64 None tx_ok k True st1 = snd (save_row down_env (row\<lparr>row_status := down\<rparr>) st4)"
    using running st1(7) unfolding updater_finish_def st3_def [symmetric] finish by simp
  have sys: "map_of (hs_systems st4) (row_id (row\<lparr>row_status := down\<rparr>)) = Some n" "n < length (hs_objects st4)"
    using st4 st1 row_id by (simp_all add: st3_def)
  note saved = save_down [OF db(3) sys, simplified, unfolded row_id]
  have "get_system i (updater_finish env' down_env o64 None tx_ok k True st1) = Some ((hs_objects st1 ! n)\<lparr>sy_status := down\<rparr>)"
    unfolding st2 get_system_def using saved(2,3) sys st4(5) row_id by (simp add: st3_def)
  moreover have "get_system i st1 = Some (hs_objects st1 ! n)" using st1(1) by (simp add: get_system_def)
  moreover have "map_option row_status (hs_rows (updater_finish env' down_env o64 None tx_ok k True st1) i) = Some down"
    unfolding st2 using saved(1) by simp
  ultimately show ?thesis using st1(3,4) unfolding Let_def st1_def [symmetric] by simp
qed

lemma reconnected_agent_reported_down_witness:
  "let st1 = snd (add_websocket_system demo_hub_env ''s1'' open_connection busy_hub);
       st2 = updater_finish demo_hub_env demo_hub_env (\<lambda>_. 0) None True 0 True st1
   in (\<exists>s. get_system ''s1'' st1 = Some s \<and> sy_ws s = Some open_connection) \<and>
      (\<exists>s. get_system ''s1'' st2 = Some s \<and> sy_ws s = Some open_connection \<and> \<not> sy_cancelled s \<and> sy_status s = down) \<and>
      map_option row_status (hs_rows st2 ''s1'') = Some down"
  by (rule reconnected_agent_reported_down [where row = "demo_system\<lparr>row_status := up\<rparr>"])
     (simp_all add: store_inv_def busy_hub_def new_system_def demo_system_def demo_hub_env_def)

text \<open>An update that fails sets the record of a system that was neither down nor paused to ``down''.\<close>

lemma failed_update_down:
  assumes "k < length (hs_objects st)" and running: "(k, True) \<in> set (hs_updating st)"
    and status: "sy_status (hs_objects st ! k) \<noteq> down" "sy_status (hs_objects st ! k) \<noteq> paused"
    and row: "hs_rows st (sy_id (hs_objects st ! k)) = Some row" "row_id row = sy_id (hs_objects st ! k)"
    and db: "he_find_ok down_env" "he_save_ok down_env"
  shows "map_option row_status (hs_rows (updater_finish env down_env o64 None tx_ok k True st) (row_id row)) = Some down"
proof -
  define st3 where "st3 = st\<lparr>hs_updating := remove1 (k, True) (hs_updating st)\<rparr>"
  have "k < length (hs_objects st3)" using assms(1) by (simp add: st3_def)
  then obtain st4 where st4: "fetch_data None k st3 = (None, st4)" "hs_rows st4 = hs_rows st3"
    "sy_id (hs_objects st4 ! k) = row_id row" "sy_status (hs_objects st4 ! k) = sy_status (hs_objects st ! k)"
    by (rule fetch_fails) (use row in \<open>simp_all add: st3_def\<close>)
  have finish: "finish_update env o64 None tx_ok k st3 = (False, st4)" by (simp add: finish_update_def st4(1))
  have "set_down down_env k st4 = save_row down_env (row\<lparr>row_status := down\<rparr>) st4"
    using st4 status row db(1) by (simp add: set_down_def get_record_def st3_def)
  then have "updater_finish env down_env o64 None tx_ok k True st = snd (save_row down_env (row\<lparr>row_status := down\<rparr>) st4)"
    using running unfolding updater_finish_def st3_def [symmetric] finish by simp
  then show ?thesis using save_row_status [OF db(2), of "row\<lparr>row_status := down\<rparr>" st4] by simp
qed

end
