(* ===== verification/WsConn.thy ===== *)
theory WsConn
  imports ReqManager Protocol
begin

text \<open>
  \<^verbatim>\<open>internal/hub/ws/ws.go\<close>: the hub's end of one agent's connection. The socket belongs to the WebSocket library;
  its session holds the \<open>WsConn\<close>, which holds the request manager. \<open>DownChan\<close> is a channel of capacity one; the
  goroutine of \<open>OnClose\<close> sleeps five seconds and sends on it, unless the \<open>WsConn\<close> is gone by then.
\<close>

section \<open>State\<close>

datatype frame = CloseFrame nat string | PingFrame | BinaryFrame string

text \<open>
  \<open>wl_down\<close> is the number of values in \<open>DownChan\<close>; \<open>so_sleepers\<close> are the goroutines that sleep, by the time they wake;
  \<open>wl_taken\<close> is the number of values the updater has taken.
\<close>

record 'm ws_link =
  wl_open :: bool
  wl_manager :: "'m req_manager"
  wl_down :: nat
  wl_version :: version
  wl_taken :: nat

record 'm socket =
  so_session :: "'m ws_link option"
  so_deadline :: "instant option"
  so_frames :: "frame list"
  so_sleepers :: "instant list"
  so_collected :: bool

definition deadline :: duration where "deadline = 70 * second"

definition new_ws_connection :: "version \<Rightarrow> 'm ws_link" where
  "new_ws_connection v =
     \<lparr>wl_open = True, wl_manager = new_request_manager True, wl_down = 0, wl_version = v, wl_taken = 0\<rparr>"

definition new_socket :: "'m socket" where
  "new_socket = \<lparr>so_session = None, so_deadline = None, so_frames = [], so_sleepers = [], so_collected = False\<rparr>"

section \<open>Operations\<close>

definition set_deadline :: "instant \<Rightarrow> 'm socket \<Rightarrow> 'm socket" where
  "set_deadline now so = so\<lparr>so_deadline := Some (now + deadline)\<rparr>"

definition write_frame :: "frame \<Rightarrow> 'm socket \<Rightarrow> 'm socket" where
  "write_frame f so = so\<lparr>so_frames := f # so_frames so\<rparr>"

definition ws_on_open :: "instant \<Rightarrow> 'm socket \<Rightarrow> 'm socket" where
  "ws_on_open now so = set_deadline now so"

text \<open>A message is text or binary and has a length; \<open>None\<close> when its handler blocks.\<close>

definition ws_on_message ::
  "('m \<Rightarrow> u32 option option) \<Rightarrow> bool \<Rightarrow> instant \<Rightarrow> bool \<Rightarrow> nat \<Rightarrow> 'm \<Rightarrow> 'm socket \<Rightarrow> 'm socket option" where
  "ws_on_message decode prefer_send now binary len m so =
     (let so = set_deadline now so in
      if \<not> binary \<or> len = 0 then Some so
      else (case so_session so of
        None \<Rightarrow> Some (write_frame (CloseFrame 1000 '''') so)
      | Some l \<Rightarrow> map_option (\<lambda>rm. so\<lparr>so_session := Some (l\<lparr>wl_manager := rm\<rparr>)\<rparr>) (handle_response decode prefer_send m (wl_manager l))))"

definition ws_on_close :: "instant \<Rightarrow> 'm socket \<Rightarrow> 'm socket" where
  "ws_on_close now so =
     (case so_session so of
        None \<Rightarrow> so
      | Some l \<Rightarrow> so\<lparr>so_session := Some (l\<lparr>wl_open := False\<rparr>), so_sleepers := so_sleepers so @ [now + 5 * second]\<rparr>)"

definition drop_nth :: "nat \<Rightarrow> 'a list \<Rightarrow> 'a list" where
  "drop_nth k xs = take k xs @ drop (Suc k) xs"

text \<open>The end of a sleep: the goroutine sends on the channel, and blocks (\<open>None\<close>) when it is full.\<close>

definition wake_up :: "nat \<Rightarrow> 'm socket \<Rightarrow> 'm socket option" where
  "wake_up k so =
     (let so' = so\<lparr>so_sleepers := drop_nth k (so_sleepers so)\<rparr> in
      if so_collected so then Some so'
      else (case so_session so of
        None \<Rightarrow> Some so'
      | Some l \<Rightarrow> if wl_down l < 1 then Some (so'\<lparr>so_session := Some (l\<lparr>wl_down := wl_down l + 1\<rparr>)\<rparr>) else None))"

definition is_connected :: "'m ws_link \<Rightarrow> bool" where
  "is_connected l \<longleftrightarrow> wl_open l"

definition on_link :: "('m ws_link \<Rightarrow> 'm ws_link) \<Rightarrow> 'm socket \<Rightarrow> 'm socket" where
  "on_link f so = so\<lparr>so_session := map_option f (so_session so)\<rparr>"

text \<open>\<open>Close\<close>: the request manager is closed whether or not the connection still is.\<close>

definition close_connection :: "string \<Rightarrow> 'm socket \<Rightarrow> 'm socket" where
  "close_connection msg so =
     on_link (\<lambda>l. l\<lparr>wl_manager := close_manager (wl_manager l)\<rparr>)
       (case so_session so of Some l \<Rightarrow> if is_connected l then write_frame (CloseFrame 1000 msg) so else so | None \<Rightarrow> so)"

text \<open>\<open>Ping\<close> and \<open>sendMessage\<close> answer whether they succeeded; \<open>write_ok\<close> is the library's answer.\<close>

definition ping :: "bool \<Rightarrow> instant \<Rightarrow> 'm socket \<Rightarrow> bool \<times> 'm socket" where
  "ping write_ok now so =
     (case so_session so of
        None \<Rightarrow> (False, so)
      | Some l \<Rightarrow> if \<not> wl_open l then (False, so) else (write_ok, write_frame PingFrame (set_deadline now so)))"

definition ws_send_message :: "('d \<Rightarrow> string option) \<Rightarrow> bool \<Rightarrow> 'd \<Rightarrow> 'm socket \<Rightarrow> bool \<times> 'm socket" where
  "ws_send_message encode write_ok d so =
     (case so_session so of
        None \<Rightarrow> (False, so)
      | Some l \<Rightarrow>
          if \<not> wl_open l then (False, so)
          else (case encode d of None \<Rightarrow> (False, so) | Some bytes \<Rightarrow> (write_ok, write_frame (BinaryFrame bytes) so)))"

text \<open>The updater's receive from \<open>DownChan\<close>.\<close>

definition take_down :: "'m socket \<Rightarrow> 'm socket" where
  "take_down so = on_link (\<lambda>l. if 0 < wl_down l then l\<lparr>wl_down := wl_down l - 1, wl_taken := wl_taken l + 1\<rparr> else l) so"


section \<open>Runs\<close>

text \<open>
  \<open>Registered\<close> is \<open>NewWsConnection\<close> and the store into the session, \<open>Collected\<close> the end of the object's life.
  \<open>Requests\<close> are the request manager's own events; answers reach it through the socket only.
\<close>

datatype 'm ws_event =
    Registered version
  | Opened instant
  | Incoming bool instant bool nat 'm
  | Closed instant
  | Woken nat instant
  | ClosedByHub string
  | Pinged bool instant
  | DownTaken
  | Collected
  | Requests "'m req_event"

fun is_response :: "'m req_event \<Rightarrow> bool" where
  "is_response (req_event.Response prefer m) \<longleftrightarrow> True"
| "is_response e \<longleftrightarrow> False"

definition or_same :: "'s option \<Rightarrow> 's \<Rightarrow> 's" where
  "or_same r s = (case r of Some s' \<Rightarrow> s' | None \<Rightarrow> s)"

fun ws_step :: "('m \<Rightarrow> u32 option option) \<Rightarrow> 'm socket \<Rightarrow> 'm ws_event \<Rightarrow> 'm socket" where
  "ws_step decode so (Registered v) = (if so_session so = None then so\<lparr>so_session := Some (new_ws_connection v)\<rparr> else so)"
| "ws_step decode so (Opened now) = ws_on_open now so"
| "ws_step decode so (Incoming prefer now binary len m) = or_same (ws_on_message decode prefer now binary len m so) so"
| "ws_step decode so (Closed now) = ws_on_close now so"
| "ws_step decode so (Woken k now) =
     (if k < length (so_sleepers so) \<and> so_sleepers so ! k \<le> now then or_same (wake_up k so) so else so)"
| "ws_step decode so (ClosedByHub msg) = close_connection msg so"
| "ws_step decode so (Pinged ok now) = snd (ping ok now so)"
| "ws_step decode so DownTaken = take_down so"
| "ws_step decode so Collected = so\<lparr>so_collected := True\<rparr>"
| "ws_step decode so (Requests e) =
     (if is_response e then so else on_link (\<lambda>l. l\<lparr>wl_manager := req_step decode (wl_manager l) e\<rparr>) so)"

section \<open>The request manager inside the connection\<close>

text \<open>A machine whose steps are runs of another one, seen through an abstraction.\<close>

locale simulation =
  fixes step :: "'s \<Rightarrow> 'e \<Rightarrow> 's"
    and step' :: "'a \<Rightarrow> 'f \<Rightarrow> 'a"
    and abs :: "'s \<Rightarrow> 'a"
    and events :: "'e \<Rightarrow> 'f list"
    and ok :: "'s \<Rightarrow> bool"
  assumes ok_step: "ok s \<Longrightarrow> ok (step s e)"
    and abs_step: "ok s \<Longrightarrow> abs (step s e) = foldl step' (abs s) (events e)"
begin

lemma simulates:
  "ok s \<Longrightarrow> ok (foldl step s es) \<and> abs (foldl step s es) = foldl step' (abs s) (concat (map events es))"
  by (induction es arbitrary: s) (simp_all add: ok_step abs_step)

end

definition manager_of :: "'m socket \<Rightarrow> 'm req_manager" where
  "manager_of so = (case so_session so of Some l \<Rightarrow> wl_manager l | None \<Rightarrow> new_request_manager True)"

fun manager_events :: "'m ws_event \<Rightarrow> 'm req_event list" where
  "manager_events (Incoming prefer now binary len m) = (if binary \<and> len \<noteq> 0 then [req_event.Response prefer m] else [])"
| "manager_events (ClosedByHub msg) = [CloseManager]"
| "manager_events (Requests e) = (if is_response e then [] else [e])"
| "manager_events e = []"

lemmas socket_defs = ws_on_open_def ws_on_message_def ws_on_close_def wake_up_def close_connection_def ping_def take_down_def
  set_deadline_def write_frame_def on_link_def or_same_def manager_of_def is_connected_def

interpretation link: simulation "ws_step decode" "req_step decode" manager_of manager_events "\<lambda>so. so_session so \<noteq> None"
  for decode :: "'m \<Rightarrow> u32 option option"
proof
  fix so :: "'m socket" and e :: "'m ws_event"
  assume s: "so_session so \<noteq> None"
  then obtain l where l: "so_session so = Some l" by blast
  show "so_session (ws_step decode so e) \<noteq> None"
    using l by (cases e) (auto simp: socket_defs Let_def split: option.split)
  show "manager_of (ws_step decode so e) = foldl (req_step decode) (manager_of so) (manager_events e)"
    using l by (cases e) (auto simp: socket_defs Let_def split: option.split)
qed

text \<open>The manager starts as a new one when the connection is registered, so what holds of its runs holds of it here.\<close>

lemma manager_reachable:
  "\<exists>evs. manager_of (foldl (ws_step decode) new_socket es) = foldl (req_step decode) (new_request_manager True) evs"
proof (induction es rule: rev_induct)
  case Nil
  show ?case by (rule exI [of _ "[]"]) (simp add: manager_of_def new_socket_def)
next
  case (snoc e es)
  define so where "so = foldl (ws_step decode) new_socket es"
  obtain evs where evs: "manager_of so = foldl (req_step decode) (new_request_manager True) evs" using snoc so_def by blast
  have "\<exists>xs. manager_of (ws_step decode so e) = foldl (req_step decode) (manager_of so) xs"
  proof (cases "so_session so")
    case None
    have "manager_of (ws_step decode so e) = foldl (req_step decode) (manager_of so) []"
      using None by (cases e) (auto simp: socket_defs new_ws_connection_def Let_def)
    then show ?thesis by blast
  qed (use link.abs_step in blast)
  then obtain xs where "manager_of (ws_step decode so e) = foldl (req_step decode) (manager_of so) xs" by blast
  then have "manager_of (ws_step decode so e) = foldl (req_step decode) (new_request_manager True) (evs @ xs)" by (simp add: evs)
  then show ?case by (intro exI [of _ "evs @ xs"]) (simp add: so_def)
qed

section \<open>The signal of a lost connection\<close>

fun is_closed :: "'m ws_event \<Rightarrow> bool" where
  "is_closed (Closed now) \<longleftrightarrow> True"
| "is_closed e \<longleftrightarrow> False"

definition signals :: "'m socket \<Rightarrow> nat" where
  "signals so = (case so_session so of Some l \<Rightarrow> wl_down l + wl_taken l | None \<Rightarrow> 0)"

lemma length_drop_nth: "k < length xs \<Longrightarrow> length (drop_nth k xs) = length xs - 1"
  by (simp add: drop_nth_def)

lemma set_drop_nth: "set (drop_nth k xs) \<subseteq> set xs"
  by (auto simp: drop_nth_def dest: in_set_takeD in_set_dropD)

lemma ws_event_kinds:
  obtains (woken) k now where "e = Woken k now"
  | (closed) now where "e = Closed now"
  | (other) "\<And>now. e \<noteq> Closed now" and "\<And>k now. e \<noteq> Woken k now"
  by (cases e) blast+

text \<open>Only a close makes a goroutine sleep, and only a waking one makes a signal.\<close>

lemma other_events:
  assumes "\<And>now. e \<noteq> Closed now" and "\<And>k now. e \<noteq> Woken k now"
  shows "so_sleepers (ws_step decode so e) = so_sleepers so" and "signals (ws_step decode so e) = signals so"
  using assms by (cases e; auto simp: socket_defs signals_def new_ws_connection_def Let_def split: option.split)+

lemma closed_event:
  "so_sleepers (ws_step decode so (Closed now)) =
     (if so_session so = None then so_sleepers so else so_sleepers so @ [now + 5 * second])"
  "signals (ws_step decode so (Closed now)) = signals so"
  by (auto simp: ws_on_close_def signals_def split: option.split)

lemma woken_event:
  obtains "ws_step decode so (Woken k now) = so"
  | "k < length (so_sleepers so)" and "so_sleepers so ! k \<le> now"
      and "so_sleepers (ws_step decode so (Woken k now)) = drop_nth k (so_sleepers so)"
      and "signals (ws_step decode so (Woken k now)) \<le> signals so + 1"
proof (cases "k < length (so_sleepers so) \<and> so_sleepers so ! k \<le> now \<and> wake_up k so \<noteq> None")
  case True
  then obtain so' where w: "wake_up k so = Some so'" by blast
  then have "so_sleepers so' = drop_nth k (so_sleepers so) \<and> signals so' \<le> signals so + 1"
    by (auto simp: wake_up_def signals_def Let_def split: if_splits option.splits)
  then show ?thesis using that(2) True w by (simp add: or_same_def)
next
  case False
  then show ?thesis using that(1) by (auto simp: or_same_def split: option.split)
qed

lemma signals_step:
  "length (so_sleepers (ws_step decode so e)) + signals (ws_step decode so e) \<le>
   length (so_sleepers so) + signals so + (if is_closed e then 1 else 0)"
proof (cases e rule: ws_event_kinds)
  case (woken k now)
  show ?thesis unfolding woken
    by (rule woken_event [of decode so k now]) (simp_all del: ws_step.simps add: length_drop_nth)
next
  case (closed now)
  then show ?thesis by (simp only: closed_event) simp
qed (simp add: other_events)

lemma signals_bounded:
  "length (so_sleepers (foldl (ws_step decode) new_socket es)) + signals (foldl (ws_step decode) new_socket es)
     \<le> length (filter is_closed es)"
proof (induction es rule: rev_induct)
  case Nil
  then show ?case by (simp add: new_socket_def signals_def)
next
  case (snoc e es)
  then show ?case using signals_step [of decode "foldl (ws_step decode) new_socket es" e] by auto
qed

text \<open>A goroutine sleeps five seconds from a close, and a signal comes from one that has slept.\<close>

definition timed :: "'m ws_event list \<Rightarrow> 'm socket \<Rightarrow> bool" where
  "timed es so \<longleftrightarrow>
     (\<forall>s \<in> set (so_sleepers so). \<exists>t. Closed t \<in> set es \<and> s = t + 5 * second) \<and>
     (0 < signals so \<longrightarrow> (\<exists>t k now. Closed t \<in> set es \<and> Woken k now \<in> set es \<and> t + 5 * second \<le> now))"

lemma timed_more: "timed es so \<Longrightarrow> timed (es @ [e]) so"
  unfolding timed_def set_append by blast

lemma timed_step:
  assumes "timed es so"
  shows "timed (es @ [e]) (ws_step decode so e)"
proof (cases e rule: ws_event_kinds)
  case (woken k now)
  show ?thesis
  proof (rule woken_event [of decode so k now])
    assume "ws_step decode so (Woken k now) = so"
    then show ?thesis using timed_more [OF assms] woken by simp
  next
    assume k: "k < length (so_sleepers so)" "so_sleepers so ! k \<le> now"
      and s: "so_sleepers (ws_step decode so (Woken k now)) = drop_nth k (so_sleepers so)"
    have "so_sleepers so ! k \<in> set (so_sleepers so)" using k(1) by (rule nth_mem)
    then obtain t where "Closed t \<in> set es" "so_sleepers so ! k = t + 5 * second" using assms unfolding timed_def by blast
    then have "\<exists>t k now. Closed t \<in> set (es @ [e]) \<and> Woken k now \<in> set (es @ [e]) \<and> t + 5 * second \<le> now"
      using k(2) woken by (intro exI [of _ t] exI [of _ k] exI [of _ now]) simp
    moreover have "\<forall>s \<in> set (drop_nth k (so_sleepers so)). \<exists>t. Closed t \<in> set (es @ [e]) \<and> s = t + 5 * second"
      using assms set_drop_nth [of k "so_sleepers so"] unfolding timed_def by fastforce
    ultimately show ?thesis unfolding timed_def woken s by blast
  qed
next
  case (closed now)
  have "\<forall>s \<in> set (so_sleepers (ws_step decode so e)). \<exists>t. Closed t \<in> set (es @ [e]) \<and> s = t + 5 * second"
    using timed_more [OF assms, of e] unfolding closed closed_event timed_def by auto
  then show ?thesis using timed_more [OF assms, of e] unfolding closed closed_event timed_def by blast
next
  case other
  show ?thesis using timed_more [OF assms, of e] unfolding timed_def other_events [OF other] .
qed

lemma timed_run: "timed es (foldl (ws_step decode) new_socket es)"
proof (induction es rule: rev_induct)
  case Nil
  then show ?case by (simp add: timed_def new_socket_def signals_def)
qed (simp add: timed_step)


section \<open>Properties\<close>

text \<open>
  C21: a connection never blocks. In every run of messages, requests, answers, timeouts and closings, handling a message
  from the agent ends; and when the library reports the closing of the connection once, as it documents, the goroutine
  that signals it never waits for a free place in the channel, the updater gets one signal at most, and none before
  five seconds have passed since the connection was lost.
\<close>

theorem connection_never_blocks:
  assumes once: "length (filter is_closed es) \<le> 1"
  shows "let so = foldl (ws_step decode) new_socket es
    in ws_on_message decode choice now binary len m so \<noteq> None \<and>
      (k < length (so_sleepers so) \<longrightarrow> wake_up k so \<noteq> None) \<and> signals so \<le> 1 \<and>
      (0 < signals so \<longrightarrow> (\<exists>t k now. Closed t \<in> set es \<and> Woken k now \<in> set es \<and> t + 5 * second \<le> now))"
proof -
  define so where "so = foldl (ws_step decode) new_socket es"
  obtain evs where "manager_of so = foldl (req_step decode) (new_request_manager True) evs"
    using manager_reachable so_def by blast
  then have inv: "req_inv decode (manager_of so)" using requests.inv_reachable [of "new_request_manager True"] by auto
  have "ws_on_message decode choice now binary len m so \<noteq> None"
    using response_inv [OF inv, of choice m] by (auto simp: ws_on_message_def set_deadline_def manager_of_def Let_def split: option.split)
  moreover have count: "length (so_sleepers so) + signals so \<le> 1" using signals_bounded [of decode es] once by (simp add: so_def)
  then have "k < length (so_sleepers so) \<longrightarrow> wake_up k so \<noteq> None"
    by (auto simp: wake_up_def signals_def Let_def split: option.splits)
  moreover have "0 < signals so \<longrightarrow> (\<exists>t k now. Closed t \<in> set es \<and> Woken k now \<in> set es \<and> t + 5 * second \<le> now)"
    using timed_run [of es decode] unfolding timed_def so_def by blast
  ultimately show ?thesis using count unfolding Let_def so_def [symmetric] by simp
qed

lemma connection_never_blocks_witness:
  "let es = [Registered own_version, Opened 0, Requests (SendRequest True 1), Closed 2, Woken 0 (6 * second), DownTaken];
       so = foldl (ws_step (\<lambda>_ :: string. None)) new_socket es
   in ws_on_message (\<lambda>_. None) True 0 True 3 ''bytes'' so \<noteq> None \<and>
      (0 < length (so_sleepers so) \<longrightarrow> wake_up 0 so \<noteq> None) \<and> signals so \<le> 1 \<and>
      (0 < signals so \<longrightarrow> (\<exists>t k now. Closed t \<in> set es \<and> Woken k now \<in> set es \<and> t + 5 * second \<le> now))"
  using connection_never_blocks [where decode = "\<lambda>_ :: string. None" and k = 0 and choice = True and binary = True and now = 0 and len = 3
      and m = "''bytes''" and
      es = "[Registered own_version, Opened 0, Requests (SendRequest True 1), Closed 2, Woken 0 (6 * second), DownTaken]"]
  by (simp only: Let_def is_closed.simps filter.simps if_True if_False list.size) simp

text \<open>In that run the signal does come, and it is taken.\<close>

lemma lost_connection_is_signalled:
  "signals (foldl (ws_step (\<lambda>_ :: string. None)) new_socket
     [Registered own_version, Opened 0, Requests (SendRequest True 1), Closed 2, Woken 0 (6 * second), DownTaken]) = 1"
  by (simp add: new_socket_def signals_def socket_defs new_ws_connection_def drop_nth_def time_units Let_def)

text \<open>
  \<open>OnClose\<close> leaves the request manager open: requests of a lost connection stay pending until they time out, or until the
  hub closes the connection.
\<close>

lemma close_keeps_requests: "manager_of (ws_on_close now so) = manager_of so"
  by (simp add: ws_on_close_def manager_of_def split: option.split)

lemma hub_close_ends_requests:
  "so_session so \<noteq> None \<Longrightarrow> manager_of (close_connection msg so) = close_manager (manager_of so)"
  by (auto simp: close_connection_def on_link_def manager_of_def write_frame_def split: option.split)

end
