(* ===== verification/Wire.thy ===== *)
theory Wire
  imports Reconnect HubRecords AgentConn
begin

text \<open>
  One measurement on its way through both programs: the message that reaches the agent, the handler's answer and its bytes
  (\<open>AgentConn\<close>, \<open>Protocol\<close>), the hub's decoding (\<open>Protocol\<close>), the update of the system (\<open>Systems\<close>) and the rows
  it leaves (\<open>HubRecords\<close>).
\<close>

section \<open>The exchange\<close>

text \<open>The bytes of the answer that a message brought about, if it did.\<close>

definition agent_reply :: "codec \<Rightarrow> u32 \<Rightarrow> conn_manager \<Rightarrow> conn_manager \<Rightarrow> string option" where
  "agent_reply cbor rid cm cm' =
     (if length (cm_answers cm) < length (cm_answers cm') then Some (send_response cbor (hd (cm_answers cm')) (Some rid)) else None)"

definition hub_answer :: "codec \<Rightarrow> version \<Rightarrow> string option \<Rightarrow> agent_answer" where
  "hub_answer cbor v answer =
     (case transport_request cbor True True v answer get_data (DataDest zero_data) of
        Inr (DataDest _) \<Rightarrow>
          Some (\<lambda>old. case transport_request cbor True True v answer get_data (DataDest old) of Inr (DataDest d) \<Rightarrow> d | _ \<Rightarrow> old)
      | _ \<Rightarrow> None)"

definition exchange ::
  "codec \<Rightarrow> agent_api \<Rightarrow> (string \<Rightarrow> (u8 \<times> string) option) \<Rightarrow> version \<Rightarrow> u32 \<Rightarrow> string \<Rightarrow> conn_manager \<Rightarrow> agent_answer" where
  "exchange cbor ag decode v rid bytes cm = hub_answer cbor v (agent_reply cbor rid cm (on_message ag decode True bytes cm))"

lemma verified_exchange:
  assumes client: "cm_client cm = Some cl" "cl_verified cl" and request: "decode bytes = Some (get_data, opts)"
    and sent: "ag_send ag (SystemData (ag_gather ag (ag_options ag opts)))"
    and v: "\<not> is_legacy v" and codec: "decodes cbor (new_agent_response cbor (SystemData (ag_gather ag (ag_options ag opts))) (Some rid))"
  shows "exchange cbor ag decode v rid bytes cm = Some (\<lambda>_. on_wire (ag_gather ag (ag_options ag opts)))"
proof -
  define d where "d = ag_gather ag (ag_options ag opts)"
  have m: "on_message ag decode True bytes cm = cm\<lparr>cm_answers := SystemData d # cm_answers cm\<rparr>"
    using client request sent
    by (simp add: on_message_def handle_hub_request_def new_handler_registry_def get_data_handle_def send_message_def action_defs d_def)
  have "transport_request cbor True True v (Some (send_response cbor (SystemData d) (Some rid))) get_data (DataDest old)
      = Inr (DataDest (on_wire d))" for old
    using sent_answer [OF codec [folded d_def]] v
    by (simp add: transport_request_def new_agent_response_def empty_response_def unmarshal_response_def
        unmarshal_legacy_response_def sent_response_def Let_def)
  then show ?thesis by (simp add: exchange_def m agent_reply_def hub_answer_def d_def [symmetric])
qed

text \<open>The version the agent of this repository reports makes the hub take the wrapped answer for bare data.\<close>

lemma own_version_misread:
  "hub_answer cbor own_version (Some bytes) =
     (case decode_data cbor bytes zero_data of
        Some _ \<Rightarrow> Some (\<lambda>old. case decode_data cbor bytes old of Some d \<Rightarrow> d | None \<Rightarrow> old)
      | None \<Rightarrow> None)"
  by (auto simp: hub_answer_def transport_request_def own_version_is_legacy cbor_unmarshal_def fun_eq_iff split: option.split)

section \<open>The rows\<close>

definition no_faults :: db_faults where
  "no_faults = \<lparr>df_stats = True, df_containers = True, df_container_stats = True, df_details_update = True,
     df_details_insert = True, df_system = True\<rparr>"

lemma write_records_succeed: "fst (write_records o64 no_faults now data i t)"
  by (simp add: write_records_def record_statements_def bind_statement_def store_system_stats_def store_containers_def
      store_details_def create_system_details_record_def require_def no_faults_def split: option.split)

lemma update_stores_info:
  fixes d :: combined_data and o64 :: "flt \<Rightarrow> u64"
  assumes running: "(k, True) \<in> set (hs_updating st)" and connected: "sy_ws (hs_objects st ! k) = Some w" "ws_connected w"
    and row: "hs_rows st (sy_id (hs_objects st ! k)) = Some row" "row_id row = sy_id (hs_objects st ! k)"
    and db: "he_find_ok env" "he_save_ok env"
  defines "x \<equiv> migrate_deprecated_fields o64 (\<not> sy_details_fetched (hs_objects st ! k)) d"
  shows "map_option (\<lambda>r. (row_status r, row_info r)) (hs_rows (updater_finish env down_env o64 (Some (\<lambda>_. d)) True k True st) (row_id row))
     = Some (up, cd_info x)"
proof -
  define st3 where "st3 = st\<lparr>hs_updating := remove1 (k, True) (hs_updating st)\<rparr>"
  define st4 where "st4 = set_object k (\<lambda>s. s\<lparr>sy_data := d\<rparr>) st3"
  have fd: "fetch_data (Some (\<lambda>_. d)) k st3 = (Some d, st4)"
    using connected by (simp add: fetch_data_def st3_def st4_def Let_def)
  have x: "migrate_deprecated_fields o64 (\<not> sy_details_fetched (hs_objects st4 ! k)) d = x"
    by (cases "k < length (hs_objects st)") (simp_all add: x_def st4_def st3_def set_object_def list_update_beyond)
  define st5 where "st5 = set_object k (\<lambda>s. s\<lparr>sy_data := x\<rparr>) st4"
  have o5: "sy_id (hs_objects st5 ! k) = row_id row" "hs_rows st5 (row_id row) = Some row"
    using row by (simp_all add: st5_def st4_def st3_def set_object_nth)
  define new where "new = row\<lparr>row_status := up, row_info := cd_info x\<rparr>"
  have "create_records env True x k st5 = save_row env new st5"
    using o5 db(1) by (simp add: create_records_def get_record_def new_def)
  moreover have "fst (save_row env new st5)" using db(2) by (simp add: save_row_def Let_def)
  ultimately obtain st6 where c: "create_records env True x k st5 = (True, st6)" "st6 = snd (save_row env new st5)"
    by (cases "save_row env new st5") auto
  have "hs_rows (snd (finish_update env o64 (Some (\<lambda>_. d)) True k st3)) = hs_rows st6"
    "fst (finish_update env o64 (Some (\<lambda>_. d)) True k st3)"
    by (simp_all add: finish_update_def fd Let_def x st5_def [symmetric] c(1))
  then have "hs_rows (updater_finish env down_env o64 (Some (\<lambda>_. d)) True k True st) = hs_rows st6"
    using running by (simp add: updater_finish_def st3_def [symmetric] split_beta)
  moreover have "map_option (\<lambda>r. (row_status r, row_info r)) (hs_rows st6 (row_id row)) = Some (up, cd_info x)"
    using db(2) by (simp add: c(2) save_row_def Let_def new_def on_record_update_def up_def paused_def)
  ultimately show ?thesis by simp
qed

lemma write_records_containers:
  assumes "write_records o64 df now data i t = (True, t')" and "distinct (map ct_id (cd_containers data))"
    and "'''' \<notin> ct_id ` set (cd_containers data)" and "c \<in> set (cd_containers data)"
  shows "map_of (tb_containers t') (ct_id c) = Some (container_row_of o64 now i c)"
proof -
  have first: "ct_id (hd (cd_containers data)) \<noteq> ''''" "cd_containers data \<noteq> []"
    using assms(3,4) by (cases "cd_containers data"; force)+
  obtain t1 t2 t3 where t1: "store_system_stats df data i t = Done t1" and t2: "store_containers o64 df now data i t1 = Done t2"
    and t3: "store_details df now data i t2 = Done t3" "t' = t3"
    using assms(1) by (auto simp: write_records_def record_statements_def bind_Done require_Done split: statement.splits)
  have "tb_containers t2 = tb_containers (create_container_records o64 now (cd_containers data) i t1)"
    using t2 first by (auto simp: store_containers_def bind_Done require_Done)
  moreover have "tb_containers t3 = tb_containers t2"
    using t3(1) by (auto simp: store_details_def create_system_details_record_def split: option.splits if_splits)
  ultimately show ?thesis using reported_container_stored [OF assms(2,4)] t3(2) by simp
qed

lemma migrate_containers: "cd_containers (migrate_deprecated_fields o64 b d) = cd_containers d"
  by (simp add: migrate_deprecated_fields_def Let_def)

section \<open>An agent that does not answer\<close>

lemma silent_exchange:
  assumes "silent cm" and "\<And>a d. decode bytes = Some (a, d) \<Longrightarrow> a \<noteq> check_fingerprint"
  shows "exchange cbor ag decode v rid bytes cm = None"
proof -
  have "cm_answers (on_message ag decode True bytes cm) = []"
    using silent_message [OF assms, where ag = ag and binary = True] by (simp add: silent_def)
  then show ?thesis by (simp add: exchange_def agent_reply_def hub_answer_def transport_request_def)
qed

end
