(* ===== verification/StaleData.thy ===== *)
theory StaleData
  imports Wire
begin

text \<open>
  The hub decodes every answer of an agent into the data of the answer before (\<open>fetchDataViaWebSocket\<close> hands \<open>sys.data\<close> to
  the transport). For an answer in its own structure that is no matter, since the structure is copied as a whole; a bare
  payload, which agents before version 0.13.0 send, and the generic payload of newer ones are decoded over the old fields, and what
  the struct tags leave out stays.
\<close>

section \<open>The data of one object\<close>

text \<open>\<open>data_kept k st st'\<close>: the object \<open>k\<close> is still there and holds the same data.\<close>

definition data_kept :: "nat \<Rightarrow> hub_state \<Rightarrow> hub_state \<Rightarrow> bool" where
  "data_kept k st st' \<longleftrightarrow>
     length (hs_objects st) \<le> length (hs_objects st') \<and>
     (k < length (hs_objects st) \<longrightarrow> sy_data (hs_objects st' ! k) = sy_data (hs_objects st ! k))"

named_theorems kept_rules \<open>operations that keep the data of an object\<close>

lemma data_kept_refl [kept_rules]: "data_kept k st st"
  by (simp add: data_kept_def)

lemma data_kept_trans: "data_kept k st st1 \<Longrightarrow> data_kept k st1 st2 \<Longrightarrow> data_kept k st st2"
  by (auto simp: data_kept_def)

lemma data_kept_same [kept_rules]: "hs_objects st' = hs_objects st \<Longrightarrow> data_kept k st st'"
  by (simp add: data_kept_def)

lemma data_kept_set_object [kept_rules]: "(\<And>s. sy_data (f s) = sy_data s) \<Longrightarrow> data_kept k st (set_object j f st)"
  by (cases "k = j") (simp_all add: data_kept_def set_object_def)

lemma data_kept_remove [kept_rules]: "data_kept k st (snd (remove_system i st))"
proof (cases "map_of (hs_systems st) i")
  case (Some j)
  have "data_kept k st (set_object j (\<lambda>s. close_ws (s\<lparr>sy_cancelled := True\<rparr>)) st)"
    by (rule data_kept_set_object) (simp add: close_ws_def)
  then show ?thesis using Some by (simp add: remove_system_def data_kept_def)
qed (simp add: remove_system_def data_kept_def)

lemma data_kept_add [kept_rules]: "data_kept k st (snd (add_system s st))"
  by (simp add: data_kept_def add_system_def nth_append Let_def)

lemma data_kept_add_record [kept_rules]: "data_kept k st (snd (add_record row s st))"
  unfolding add_record_def Let_def
  by (rule data_kept_trans [where ?st1.0 = "if map_of (hs_systems st) (row_id row) \<noteq> None then snd (remove_system (row_id row) st) else st"])
    (auto intro: kept_rules)

lemma data_kept_from: "hs_objects st1 = hs_objects st \<Longrightarrow> data_kept k st1 st2 \<Longrightarrow> data_kept k st st2"
  by (simp add: data_kept_def)

lemma data_kept_to: "hs_objects st2 = hs_objects st1 \<Longrightarrow> data_kept k st st1 \<Longrightarrow> data_kept k st st2"
  by (simp add: data_kept_def)

lemma data_kept_hook [kept_rules]: "data_kept k st (on_record_after_update_success env row st)"
proof -
  define st1 where "st1 = (case map_of (hs_systems st) (row_id row) of
      Some j \<Rightarrow> set_object j (\<lambda>s. s\<lparr>sy_status := row_status row\<rparr>) st | None \<Rightarrow> st)"
  have "data_kept k st st1" by (auto simp: st1_def intro: kept_rules split: option.split)
  moreover have "data_kept k st1 (on_record_after_update_success env row st)"
    unfolding on_record_after_update_success_def Let_def st1_def [symmetric] update_alerts_def
    by (auto intro: kept_rules data_kept_to split: option.split)
  ultimately show ?thesis by (rule data_kept_trans)
qed

lemma data_kept_save [kept_rules]: "data_kept k st (snd (save_row env row st))"
  using data_kept_from [OF _ data_kept_hook] by (auto simp: save_row_def Let_def intro: kept_rules)

lemma data_kept_record: "data_kept k st (snd (get_record env j st))"
  by (auto simp: get_record_def Let_def intro: kept_rules split: option.split)

lemma data_kept_after_record:
  "get_record env j st = (r, st1) \<Longrightarrow> data_kept k st1 st2 \<Longrightarrow> data_kept k st st2"
  using data_kept_trans data_kept_record by (metis snd_conv)

lemma data_kept_down [kept_rules]: "data_kept k st (snd (set_down env j st))"
  by (auto simp: set_down_def Let_def intro: kept_rules data_kept_after_record split: option.split prod.split)

lemma data_kept_create [kept_rules]: "data_kept k st (snd (create_records env tx_ok data j st))"
  by (auto simp: create_records_def intro: kept_rules data_kept_after_record split: option.split prod.split)

lemma data_kept_begin [kept_rules]: "data_kept k st (begin_update ping_ok j st)"
  by (auto simp: begin_update_def handle_paused_def Let_def intro: kept_rules split: option.split)

section \<open>One update\<close>

text \<open>An update leaves the data of the other objects, and of its own when there is no answer; otherwise its own is the migrated answer.\<close>

lemma finish_update_data:
  assumes "finish_update env o64 answer tx_ok j st = (ok, st')"
  obtains "data_kept k st st'"
  | decode b where "j = k" and "answer = Some decode" and "length (hs_objects st) \<le> length (hs_objects st')"
      and "k < length (hs_objects st) \<Longrightarrow>
        sy_data (hs_objects st' ! k) = migrate_deprecated_fields o64 b (decode (sy_data (hs_objects st ! k)))"
proof (cases "fetch_data answer j st")
  case (Pair d st1)
  show ?thesis
  proof (cases d)
    case None
    then have "st' = st1" using assms Pair by (simp add: finish_update_def)
    moreover have "data_kept k st st1"
      using Pair None by (auto simp: fetch_data_def close_ws_def Let_def intro: kept_rules split: option.splits if_splits)
    ultimately show ?thesis using that(1) by blast
  next
    case (Some data)
    then obtain decode where a: "answer = Some decode" and data: "data = decode (sy_data (hs_objects st ! j))"
      and st1: "st1 = set_object j (\<lambda>s. s\<lparr>sy_data := data\<rparr>) st"
      using Pair by (auto simp: fetch_data_def Let_def split: option.splits if_splits)
    define b where "b = (\<not> sy_details_fetched (hs_objects st1 ! j))"
    define x where "x = migrate_deprecated_fields o64 b data"
    define st2 where "st2 = set_object j (\<lambda>s. s\<lparr>sy_data := x\<rparr>) st1"
    obtain c st3 where c: "create_records env tx_ok x j st2 = (c, st3)" by force
    have "st' = (if c \<and> cd_details x \<noteq> None then set_object j (\<lambda>s. s\<lparr>sy_details_fetched := True\<rparr>) st3 else st3)"
      using assms by (auto simp: finish_update_def Pair Some Let_def b_def [symmetric] x_def [symmetric] st2_def [symmetric] c)
    moreover have "data_kept k st2 st3" using data_kept_create [of k st2 env tx_ok x j] by (simp add: c)
    ultimately have kept: "data_kept k st2 st'"
      using data_kept_trans data_kept_set_object [of "\<lambda>s. s\<lparr>sy_details_fetched := True\<rparr>" k st3 j] by auto
    show ?thesis
    proof (cases "j = k")
      case True
      have "length (hs_objects st) \<le> length (hs_objects st')" using kept by (simp add: data_kept_def st2_def st1 set_object_def)
      moreover have "sy_data (hs_objects st' ! k) = migrate_deprecated_fields o64 b (decode (sy_data (hs_objects st ! k)))"
        if "k < length (hs_objects st)"
        using kept that True by (simp add: data_kept_def st2_def st1 set_object_def x_def data)
      ultimately show ?thesis using that(2) True a by blast
    next
      case False
      have "data_kept k st st2" using False by (simp add: data_kept_def st2_def st1 set_object_def)
      then show ?thesis using that(1) kept data_kept_trans by blast
    qed
  qed
qed


section \<open>Runs\<close>

lemma hub_step_data:
  obtains "data_kept k st (hub_step st e)"
  | env down_env o64 decode tx_ok waits b where "e = FinishUpdate env down_env o64 (Some decode) tx_ok k waits"
      and "length (hs_objects st) \<le> length (hs_objects (hub_step st e))"
      and "k < length (hs_objects st) \<Longrightarrow>
        sy_data (hs_objects (hub_step st e) ! k) = migrate_deprecated_fields o64 b (decode (sy_data (hs_objects st ! k)))"
proof (cases "\<exists>env down_env o64 answer tx_ok j waits. e = FinishUpdate env down_env o64 answer tx_ok j waits")
  case False
  have "data_kept k st (hub_step st e)"
  proof (cases e)
    case (CreateRow env row)
    then show ?thesis using data_kept_from [OF _ data_kept_add_record] by (auto simp: create_row_def Let_def intro: kept_rules)
  next
    case (DeleteRow i)
    then show ?thesis using data_kept_from [OF _ data_kept_remove] by (simp add: delete_row_def)
  next
    case (AgentConnect env i w)
    have "data_kept k st st1" if "add_record row (Some s) st = (r, st1)" for row s r st1
      using data_kept_add_record [of k st row "Some s"] that by simp
    then show ?thesis using AgentConnect by (auto simp: add_websocket_system_def intro: kept_rules split: option.split prod.split)
  next
    case (AlertEvent x)
    then show ?thesis by (cases x) (auto intro: kept_rules)
  next
    case (UpdaterDown env j)
    have "data_kept k st (snd (set_down env j (set_object j (\<lambda>s. s\<lparr>sy_ws := None\<rparr>) st)))"
      by (rule data_kept_trans [OF data_kept_set_object data_kept_down]) simp
    then show ?thesis using UpdaterDown by (auto simp: updater_down_def intro: kept_rules)
  qed (use False in \<open>auto simp: updater_start_def updater_tick_def updater_stop_def intro: kept_rules\<close>)
  then show ?thesis by (rule that(1))
next
  case True
  then obtain env down_env o64 answer tx_ok j waits where e: "e = FinishUpdate env down_env o64 answer tx_ok j waits" by blast
  show ?thesis
  proof (cases "hub_step st e = st")
    case True
    then show ?thesis using that(1) by (simp add: data_kept_refl)
  next
    case False
    define st0 where "st0 = st\<lparr>hs_updating := remove1 (j, waits) (hs_updating st)\<rparr>"
    obtain ok st1 where f: "finish_update env o64 answer tx_ok j st0 = (ok, st1)" by force
    have u: "hub_step st e = updater_finish env down_env o64 answer tx_ok j waits st" using False by (auto simp: e)
    have m: "(j, waits) \<in> set (hs_updating st)" using False unfolding u by (simp add: updater_finish_def split: if_splits)
    have h: "hub_step st e = (if ok \<or> \<not> waits then st1 else snd (set_down down_env j st1))"
      using m unfolding u updater_finish_def st0_def [symmetric] f by simp
    have k1: "data_kept k st1 (hub_step st e)" unfolding h by (auto intro: kept_rules)
    have o0: "hs_objects st0 = hs_objects st" by (simp add: st0_def)
    from f show ?thesis
    proof (rule finish_update_data [where k = k])
      assume "data_kept k st0 st1"
      then show ?thesis using that(1) data_kept_from [OF o0 data_kept_trans [OF _ k1]] by blast
    next
      fix decode b
      assume jk: "j = k" and a: "answer = Some decode" and len: "length (hs_objects st0) \<le> length (hs_objects st1)"
        and d: "k < length (hs_objects st0) \<Longrightarrow>
          sy_data (hs_objects st1 ! k) = migrate_deprecated_fields o64 b (decode (sy_data (hs_objects st0 ! k)))"
      have "length (hs_objects st) \<le> length (hs_objects (hub_step st e))" using len k1 by (simp add: o0 data_kept_def)
      moreover have "sy_data (hs_objects (hub_step st e) ! k) = migrate_deprecated_fields o64 b (decode (sy_data (hs_objects st ! k)))"
        if "k < length (hs_objects st)"
        using d k1 len that by (simp add: o0 data_kept_def)
      ultimately show ?thesis using that(2) e jk a by blast
    qed
  qed
qed

lemma hub_step_grows: "length (hs_objects st) \<le> length (hs_objects (hub_step st e))"
  by (rule hub_step_data [of 0 st e]) (simp_all add: data_kept_def)

text \<open>A property of the data of an object that every one of its answers keeps, holds after every run.\<close>

lemma data_property_kept:
  assumes "k < length (hs_objects st)" and "P (sy_data (hs_objects st ! k))"
    and "\<And>env down_env o64 decode tx_ok waits b old. FinishUpdate env down_env o64 (Some decode) tx_ok k waits \<in> set es \<Longrightarrow>
      P old \<Longrightarrow> P (migrate_deprecated_fields o64 b (decode old))"
  shows "P (sy_data (hs_objects (foldl hub_step st es) ! k))"
  using assms
proof (induction es arbitrary: st)
  case (Cons e es)
  have "P (sy_data (hs_objects (hub_step st e) ! k))"
  proof (rule hub_step_data [of k st e])
    assume "data_kept k st (hub_step st e)"
    then show ?thesis using Cons.prems(1,2) by (simp add: data_kept_def)
  next
    fix env down_env o64 decode tx_ok waits b
    assume e: "e = FinishUpdate env down_env o64 (Some decode) tx_ok k waits"
      and d: "k < length (hs_objects st) \<Longrightarrow>
        sy_data (hs_objects (hub_step st e) ! k) = migrate_deprecated_fields o64 b (decode (sy_data (hs_objects st ! k)))"
    have "FinishUpdate env down_env o64 (Some decode) tx_ok k waits \<in> set (e # es)" unfolding e by simp
    then show ?thesis unfolding d [OF Cons.prems(1)] by (rule Cons.prems(3)) (rule Cons.prems(2))
  qed
  moreover have "k < length (hs_objects (hub_step st e))" using Cons.prems(1) hub_step_grows [of st e] by simp
  moreover have "P (migrate_deprecated_fields o64 b (decode old))"
    if "FinishUpdate env down_env o64 (Some decode) tx_ok k waits \<in> set es" "P old"
    for env down_env o64 decode tx_ok waits b old
    using that by (intro Cons.prems(3) [of env down_env o64 decode tx_ok waits old b]) simp_all
  ultimately have "P (sy_data (hs_objects (foldl hub_step (hub_step st e) es) ! k))" by (intro Cons.IH)
  then show ?case by simp
qed simp

section \<open>What is left out stays\<close>

lemma legacy_answer:
  assumes "is_legacy v" and "decodes_data cbor d"
  shows "hub_answer cbor v (Some (encode_payload cbor (SystemData d))) = Some (cbor_into d)"
  using assms by (simp add: hub_answer_def transport_request_def cbor_unmarshal_def decodes_data_def fun_eq_iff)

text \<open>The generic payload of a newer agent is decoded in the same way.\<close>

lemma generic_answer:
  assumes "\<not> is_legacy v" and "decodes_data cbor d" and "encode_payload cbor (SystemData d) \<noteq> ''''"
    and "decode_response cbor bytes = Some (empty_response\<lparr>ar_id := i, ar_data := encode_payload cbor (SystemData d)\<rparr>)"
  shows "hub_answer cbor v (Some bytes) = Some (cbor_into d)"
  using assms
  by (simp add: hub_answer_def transport_request_def unmarshal_response_def cbor_unmarshal_def decodes_data_def empty_response_def
      fun_eq_iff)

lemma omitted_bandwidth:
  assumes "s_bandwidth (cd_stats d) = (0, 0)" and "s_bandwidth (cd_stats old) \<noteq> (0, 0)"
  shows "s_bandwidth (cd_stats (migrate_deprecated_fields o64 b (cbor_into d old))) = s_bandwidth (cd_stats old)"
  using assms by (auto simp: migrate_deprecated_fields_def migrate_stats_def cbor_into_def cbor_stats_def into_defs Let_def)

lemma omitted_swap:
  assumes "s_swap_used (cd_stats d) = zero_flt"
  shows "s_swap_used (cd_stats (migrate_deprecated_fields o64 b (cbor_into d old))) = s_swap_used (cd_stats old)"
  using assms
  by (auto simp: migrate_deprecated_fields_def migrate_stats_def cbor_into_def cbor_stats_def into_defs is_zero_def Let_def)

text \<open>A sensor that is gone keeps its last temperature.\<close>

lemma omitted_sensor:
  assumes "s_temperatures (cd_stats old) = Some t" and "distinct (map fst new)" and "name \<notin> fst ` set new"
    and "s_temperatures (cd_stats d) = Some new"
  shows "\<exists>t'. s_temperatures (cd_stats (cbor_into d old)) = Some t' \<and> map_of t' name = map_of t name"
proof -
  have "map_of new name = None" using assms(3) by (simp add: map_of_eq_None_iff)
  then show ?thesis
    using assms fold_update_lookup [OF assms(2), of "\<lambda>x. x" t name]
    by (cases "new = []") (simp_all add: cbor_into_def cbor_stats_def into_map_def)
qed


definition old_agent_data :: combined_data where
  "old_agent_data = zero_data\<lparr>cd_stats := zero_stats\<lparr>s_network_sent := Fin 5\<rparr>\<rparr>"

definition old_agent_codec :: codec where
  "old_agent_codec =
     \<lparr>encode_response = (\<lambda>_. ''''), decode_response = (\<lambda>_. None), encode_payload = (\<lambda>_. ''bare''),
      decode_data = (\<lambda>_. \<lambda>old. Some (cbor_into old_agent_data old)), decode_fingerprint = (\<lambda>_. None)\<rparr>"

definition measured_hub :: hub_state where
  "measured_hub = set_object 0 (\<lambda>s. s\<lparr>sy_data := zero_data\<lparr>cd_stats := zero_stats\<lparr>s_bandwidth := (1048576, 0)\<rparr>\<rparr>\<rparr>) busy_hub"


end
