(* ===== verification/Spec2Isabelle.thy ===== *)
theory Spec2Isabelle
  imports DeltaTracker Utils Hub StatusAlerts SystemAlerts RecordsAvg RecordsStore ReqManager Systems Realtime
    Protocol AgentConn Network DiskIo Cpu Docker Sensors SensorsWindows Battery BatteryOther AgentFiles AgentData
    DockerIo Smart SmartJson StatsJson HubRecords HubApi HubSetup DevServer DockerJson Startup Schema Reconnect WsConn Wire StaleData
begin

text \<open>
  HomeMonit is a monitoring program in two parts. An \<^emph>\<open>agent\<close> on each machine measures the machine and its
  containers; the \<^emph>\<open>hub\<close>, built on PocketBase, asks every agent for its data, stores it, sends alerts and serves the
  pages. An agent dials the hub with the token of its system (\<^verbatim>\<open>agent/client.go\<close>); the hub upgrades the
  connection to a WebSocket (\<^verbatim>\<open>internal/hub/agent_connect.go\<close>) and from then on sends requests over it
  (\<^verbatim>\<open>internal/hub/ws\<close>, \<^verbatim>\<open>internal/hub/transport\<close>), once a minute for each system
  (\<^verbatim>\<open>internal/hub/systems\<close>), or once a second while a browser has a realtime subscription. Each answer becomes
  rows in a transaction, and each save of a system's record runs the hooks that start and stop the updaters and hand
  the change to the alert manager (\<^verbatim>\<open>internal/alerts\<close>). Two cron jobs average the stored records into longer ones
  and delete old ones (\<^verbatim>\<open>internal/records\<close>).

  This development models that code as HOL functions over explicit states and proves what makes it correct, and, where
  the code does not do what it means to, the behaviour it has. File names below are relative to \<^verbatim>\<open>src/\<close>.

  \<^bold>\<open>Foundations.\<close>

  \<^item> \<open>Prelude\<close>: Go maps as association lists with their laws (locale \<open>key_store\<close>), word and time types, Go's integer
    division, and the locale \<open>machine\<close> of a start, a step and an invariant: every run keeps the invariant. The
    components that are state machines interpret it.
  \<^item> \<open>GoStr\<close>: the parts of \<^verbatim>\<open>strings\<close>, \<^verbatim>\<open>path\<close> and \<^verbatim>\<open>strconv\<close> the program uses, executable.
  \<^item> \<open>Rounding\<close>, \<open>Float64\<close>: \<open>float64\<close> and \<open>float32\<close> as rationals with infinities, NaN and a negative zero, rounded to the
    nearest, ties to even; monotonicity and exactness lemmas (locale \<open>rounding\<close>). A conversion of a float out of the
    range of an integer type is up to the implementation in Go, and a parameter (\<open>o8\<close>, \<open>conv\<close>) here.
  \<^item> \<open>Entities\<close>, \<open>Systemd\<close>, \<open>Smart\<close>: the records of \<^verbatim>\<open>internal/entities\<close> and the parsers that belong to them.
  \<^item> \<open>Json\<close>: structures written and read by their tags as \<^verbatim>\<open>encoding/json\<close> does it, field by field, with round trips for
    any list of fields (locales \<open>json_codec\<close>, \<open>json_round\<close>, \<open>json_scalar\<close>). \<open>StatsJson\<close>: the tags of the statistics, the
    containers and the information of a system, which are what the tables hold. \<open>SmartJson\<close>: the documents of smartctl.
    \<open>CborTags\<close>: which fields go from the agent to the hub, and what the destination keeps of those that do not.
  \<^item> \<open>Utils\<close>: \<^verbatim>\<open>agent/utils\<close>.

  \<^bold>\<open>The agent.\<close>

  \<^item> \<open>DeltaTracker\<close> (\<^verbatim>\<open>agent/deltatracker\<close>), a refinement of two plain snapshots, and \<open>Network\<close>
    (\<^verbatim>\<open>agent/network.go\<close>), which uses it.
  \<^item> \<open>DiskMatch\<close>, \<open>DiskDiscovery\<close>, \<open>DiskIo\<close>: \<^verbatim>\<open>agent/disk.go\<close>, from the choice of an I/O device over the set of
    file systems found at the start to the periodic measurements with their usage cache.
  \<^item> \<open>Cpu\<close>, \<open>Sensors\<close>, \<open>SensorsWindows\<close>, \<open>Battery\<close>, \<open>BatteryOther\<close>: the other readings.
  \<^item> \<open>DockerParse\<close>, \<open>Docker\<close>: \<^verbatim>\<open>agent/docker.go\<close>, the computations on one answer of the API and the manager's poll.
    The goroutines of a poll meet in one mutex, so a poll is a schedule: the order in which they get it is an argument,
    and the theorems hold for every order. \<open>DockerIo\<close>: the slots that bound how many goroutines ask at once, and the
    decoder that is kept between answers. \<open>DockerJson\<close>: what the decoder makes of an answer and of what it decodes into.
  \<^item> \<open>AgentFiles\<close>: fingerprint, data directory and health file.
  \<^item> \<open>AgentData\<close>: \<^verbatim>\<open>agent/agent.go\<close>, \<^verbatim>\<open>agent_cache.go\<close>, \<^verbatim>\<open>agent/system.go\<close>, one answer put together from all
    the readings, in the order of the code, and cached per interval.
  \<^item> \<open>AgentConn\<close>: \<^verbatim>\<open>agent/client.go\<close>, \<^verbatim>\<open>connection_manager.go\<close> and \<^verbatim>\<open>handlers.go\<close>, a machine whose events are
    dials, losses, messages and ticks.

  \<^bold>\<open>Between them.\<close> \<open>Protocol\<close>: the messages and both their ends (\<^verbatim>\<open>internal/common\<close>, \<^verbatim>\<open>agent/response.go\<close>,
  \<^verbatim>\<open>internal/hub/ws/handlers.go\<close>, \<^verbatim>\<open>internal/hub/transport\<close>). The CBOR library is a record of functions.

  \<^bold>\<open>The hub.\<close>

  \<^item> \<open>ReqManager\<close>: \<^verbatim>\<open>internal/hub/ws/request_manager.go\<close>; channels are lists of bounded length, and a run interleaves
    requests, answers, timeouts and the closing. \<open>WsConn\<close>: \<^verbatim>\<open>internal/hub/ws/ws.go\<close>, one connection from its opening
    to the signal of its loss. A run of the connection is, for the manager inside it, a run of the manager (locale
    \<open>simulation\<close>).
  \<^item> \<open>AlertsCache\<close>, \<open>StatusAlerts\<close>, \<open>SystemAlerts\<close>: \<^verbatim>\<open>internal/alerts\<close>. The alert manager holds the cache, the
    pending map, the timers, the alerts table and the log of messages sent.
  \<^item> \<open>Systems\<close>: \<^verbatim>\<open>internal/hub/systems/system_manager.go\<close> and \<^verbatim>\<open>system.go\<close>. Its state contains the alert manager, so its
    runs are runs of both: an update of a system is split where the code waits for the agent, and other events happen
    in between.
  \<^item> \<open>HubRecords\<close>: the rows of one answer. \<open>Realtime\<close>: \<^verbatim>\<open>system_realtime.go\<close>.
  \<^item> \<open>RecordsAvg\<close>, \<open>RecordsStore\<close>: \<^verbatim>\<open>internal/records\<close>, the averages and the life of the records.
  \<^item> \<open>Hub\<close>, \<open>HubApi\<close>, \<open>HubSetup\<close>: \<^verbatim>\<open>hub.go\<close>, the HTTP interface, the collection rules, the served page, the first
    migration and the two commands. \<open>DevServer\<close>: the pages of a development build. \<open>Startup\<close>: \<^verbatim>\<open>NewHub\<close> and \<^verbatim>\<open>StartHub\<close>, the chain of handlers that brings the
    hub up.
  \<^item> \<open>Schema\<close>: the snapshot of the collections in \<^verbatim>\<open>internal/migrations\<close> as the JSON value it is, the filter that leaves
    collections out of its import, and what the hub stores measured against it.

  \<^bold>\<open>Both together.\<close> \<open>Reconnect\<close> follows an agent that comes back while an update of its old connection waits. \<open>Wire\<close> and
  this theory follow one measurement from the request that asks for it to the rows it becomes. \<open>StaleData\<close> follows the
  answers of an agent over many updates: each is decoded over the one before.

  \<^bold>\<open>What the theorems show.\<close> Invariants of runs: the alerts cache agrees with the table (C3), the peaks of longer records
  (C15), the spacing of longer records (C19), every answer is accounted for (C23), one live object for each system (C24),
  the coherence of the connection state (C33), the one root of the disks (C37). Safety over runs, with faults at any call:
  an ``up'' message answers a ``down'' message (C2, C25), a system alert has crossed its threshold (C9), a connection never
  blocks (C21), an answer reaches only the request with its id (C22), a token decides which system a connection is (C26),
  a hub that serves is set up (C38), a poll reports listed containers (C40). What a verified agent measures is what the hub
  stores, as far as the tags send it (C11), and it fits the collections (C20); what is stored is what the alerts (C10) and
  the averages (C17) read. Bounds of floating-point results (C13, C35, C39). Round trips (C17, C29,
  C30), a refinement (C1), an equivalence with a best element over all candidates (C36), termination of the loop over the
  batteries (C14), and liveness for realtime subscribers (C28). Where the code fails its purpose the theorem is the
  failure: C6, C7, C12, C16, C27, C31, C32 and C34; further failures are lemmas beside the operations they are about.

  \<^bold>\<open>Bounds.\<close> Nothing here runs on fuel. Loops are structural recursion or well-founded recursion with a measure; the one
  loop that may not end, over the batteries of Windows, is a \<open>partial_function\<close>, and C14 says when it ends.
  Counters that wrap in the code are words. Sizes that a proof needs (a sum of percentages that stays in \<open>int64\<close>,
  counters below \<open>2^52\<close>) are hypotheses of the theorem.

  \<^bold>\<open>Not modelled.\<close>

  \<^item> PocketBase, gopsutil, the WebSocket, CBOR, plist, flag and SSH libraries, SQL, the file system, the network and the
    clock are arguments. What is assumed of them stands as a named hypothesis (such as \<open>decodes\<close>, \<open>hub_env_ok\<close>,
    \<open>finds_by_port\<close>). Each SQL statement is the filter or update it states.
  \<^item> The calls of Windows that look a battery up, as far as they are not the error handling around them: their answers
    are arguments. Text that is not UTF-8, which the JSON encoder rewrites, and a nil pointer among the entries of a
    map, which the hub never writes.
  \<^item> Log messages, the deadlines of the agent's connection, the extra gather at debug log level in \<^verbatim>\<open>NewAgent\<close>, and the creation of parent directories.
  \<^item> The two goroutines of a lock that the code takes correctly are one step; where it does not take one, the steps
    between are events of a run.
  \<^item> The reverse proxy itself of a development build, the embedded frontend and the helpers of the tests.
\<close>

section \<open>From the measurement to the table\<close>


definition wire_data :: combined_data where
  "wire_data = zero_data\<lparr>cd_containers := [(named_container ''web'')\<lparr>ct_id := ''0123456789ab''\<rparr>]\<rparr>"

definition wire_codec :: codec where
  "wire_codec =
     \<lparr>encode_response = (\<lambda>_. ''wrapped''),
      decode_response = (\<lambda>_. Some (empty_response\<lparr>ar_id := Some 7, ar_system_data := Some (on_wire wire_data)\<rparr>)),
      encode_payload = (\<lambda>_. ''bare''), decode_data = (\<lambda>_ _. None), decode_fingerprint = (\<lambda>_. None)\<rparr>"


section \<open>The agent and the hub of this repository\<close>

text \<open>The headers of the agent are those the hub asks for, unless the token is empty or longer than 64 bytes.\<close>

lemma agent_headers_accepted:
  assumes "cl_options cl = None"
  shows "validate_agent_headers (\<lambda>k. or_empty (map_of (co_headers (fst (get_options now cl))) k)) =
    (if cl_token cl = '''' \<or> 64 < length (cl_token cl) then None else Some (cl_token cl, agent_version))"
  using assms by (simp add: validate_agent_headers_def get_options_def agent_version_def or_empty_def Let_def)

text \<open>
  C32: this hub reports every agent of this repository down. Of the requests an agent knows the hub sends only those for
  data and for container actions, never the fingerprint check; so, whatever happened before (messages, dials, ticks and
  lost connections in any order), an agent has answered nothing and does not answer the request of an update, and the
  update that waits for it ends with the status ``down'' in the record of the system.
\<close>

theorem own_agent_reported_down:
  assumes fresh: "fresh_manager cm" and requests: "\<And>bytes a d. decode bytes = Some (a, d) \<Longrightarrow> a = get_data \<or> a = container_action_id"
    and "k < length (hs_objects st)" and "(k, True) \<in> set (hs_updating st)"
    and "sy_status (hs_objects st ! k) \<noteq> down" and "sy_status (hs_objects st ! k) \<noteq> paused"
    and "hs_rows st (sy_id (hs_objects st ! k)) = Some row" and "row_id row = sy_id (hs_objects st ! k)"
    and "he_find_ok down_env" and "he_save_ok down_env"
  shows "let cm' = foldl (agent_step env ag decode) cm es; answer = exchange cbor ag decode v rid bytes cm'
         in cm_answers cm' = [] \<and> cm_state cm' = Disconnected \<and>
            map_option row_status (hs_rows (updater_finish henv down_env conv answer tx_ok k True st) (row_id row)) = Some down"
proof -
  have never: "a \<noteq> check_fingerprint" if "decode bytes = Some (a, d)" for bytes a d
    using requests [OF that] by (auto simp: action_defs)
  define cm' where "cm' = foldl (agent_step env ag decode) cm es"
  have silent: "silent cm'" unfolding cm'_def using silent_run [OF fresh_silent [OF fresh]] never by blast
  have "exchange cbor ag decode v rid bytes cm' = None" by (rule silent_exchange [OF silent never])
  then show ?thesis
    using silent failed_update_down [OF assms(3-10)] by (simp add: silent_def cm'_def [symmetric] Let_def)
qed

lemma own_agent_reported_down_witness:
  "let cm' = foldl (agent_step (\<lambda>_. None) demo_agent data_request) demo_manager [Message 0 True '''', LoopEvent];
       answer = exchange wire_codec demo_agent data_request own_version 7 '''' cm'
   in cm_answers cm' = [] \<and> cm_state cm' = Disconnected \<and>
      map_option row_status (hs_rows (updater_finish demo_hub_env demo_hub_env (\<lambda>_. 0) answer True 0 True busy_hub)
        (row_id (demo_system\<lparr>row_status := up\<rparr>))) = Some down"
  by (rule own_agent_reported_down [OF demo_manager_fresh])
     (simp_all add: data_request_def busy_hub_def new_system_def demo_system_def demo_hub_env_def up_def down_def paused_def)

end
